(* ===== verification/Prelude.thy ===== *)
theory Prelude
  imports Main "HOL-Library.Word"
begin

text \<open>
  Shared ground of the development: the machine integer types, the panics of the program
  as values, the sequencing of fallible computations, the two build profiles of Rust
  integer arithmetic, the operations of the Rust standard library on unsigned integers
  that the sources use, and little-endian byte lists.

  A Rust panic ends the thread that raises it, so a computation that may panic returns
  \<open>panic + 'a\<close> and a panic discards the state.
\<close>

unbundle bit_operations_syntax

named_theorems res_simps \<open>evaluation of fallible computations\<close>
named_theorems word_facts \<open>facts on machine words the components share\<close>

type_synonym u8 = "8 word"
type_synonym u16 = "16 word"
type_synonym u32 = "32 word"

section \<open>Panics and results\<close>

datatype panic =
    UnmappedMemory u32
  | SliceAssert
  | AddressOverflow
  | InvalidRegister u8
  | ImmediateDestination
  | MovzDestination
  | BadOpcode u16
  | ArithmeticOverflow
  | ShiftOverflow
  | DivisionByZero
  | IndexOutOfBounds
  | InvalidOverlayPort
  | InvalidMousePort
  | InvalidDiskPort
  | InvalidDiskId
  | UnmountedDisk
  | FileOpenFailed
  | FileWriteFailed
  | NotAnInstruction
  | LabelNotFound string
  | OriginAssert
  | UnwrapNone
  | Unreachable
  | UnsupportedSyntax
  | InvalidNumber
  | RegisterOutOfRange
  | ConstantNotImmediate
  | IncludeFailed
  | SendFailed
  | RomNotFound

type_synonym 'a res = "panic + 'a"

definition rbind :: "'a res \<Rightarrow> ('a \<Rightarrow> 'b res) \<Rightarrow> 'b res" where
  "rbind m f = (case m of Inl p \<Rightarrow> Inl p | Inr x \<Rightarrow> f x)"

lemma rbind_Inl [simp, res_simps]: "rbind (Inl p) f = Inl p"
  by (simp add: rbind_def)

lemma rbind_Inr [simp, res_simps]: "rbind (Inr x) f = f x"
  by (simp add: rbind_def)

lemma rbind_eq_Inr: "rbind m f = Inr y \<longleftrightarrow> (\<exists>x. m = Inr x \<and> f x = Inr y)"
  by (cases m) auto

lemma rbind_eq_Inl: "rbind m f = Inl p \<longleftrightarrow> m = Inl p \<or> (\<exists>x. m = Inr x \<and> f x = Inl p)"
  by (cases m) auto

lemma rbind_right_unit [simp]: "rbind m Inr = m"
  by (cases m) auto

lemma rbind_assoc: "rbind (rbind m f) g = rbind m (\<lambda>x. rbind (f x) g)"
  by (cases m) auto

lemma rbind_InrE [elim]:
  assumes "rbind m f = Inr y"
  obtains x where "m = Inr x" "f x = Inr y"
  using assms by (auto simp: rbind_eq_Inr)

lemma rbind_cong [fundef_cong]:
  "m = m' \<Longrightarrow> (\<And>x. m' = Inr x \<Longrightarrow> f x = g x) \<Longrightarrow> rbind m f = rbind m' g"
  by (cases m') auto

text \<open>
  \<open>res_le r s\<close>: if \<open>r\<close> returns then \<open>s\<close> returns the same. It is the relation between the
  build with overflow checks and the build without them.
\<close>

definition res_le :: "'a res \<Rightarrow> 'a res \<Rightarrow> bool" where
  "res_le r s \<longleftrightarrow> (\<forall>x. r = Inr x \<longrightarrow> s = Inr x)"

lemma res_le_refl [simp, intro]: "res_le r r"
  by (simp add: res_le_def)

lemma res_le_Inl [simp, intro]: "res_le (Inl p) s"
  by (simp add: res_le_def)

lemma res_le_rbind [intro]:
  "res_le m n \<Longrightarrow> (\<And>x. m = Inr x \<Longrightarrow> res_le (f x) (g x)) \<Longrightarrow> res_le (rbind m f) (rbind n g)"
  by (cases m) (auto simp: res_le_def)

lemma res_leD: "res_le r s \<Longrightarrow> r = Inr x \<Longrightarrow> s = Inr x"
  by (simp add: res_le_def)

text \<open>\<open>res_all P m\<close>: if \<open>m\<close> returns, its value satisfies \<open>P\<close>.\<close>

definition res_all :: "('a \<Rightarrow> bool) \<Rightarrow> 'a res \<Rightarrow> bool" where
  "res_all P m \<longleftrightarrow> (\<forall>x. m = Inr x \<longrightarrow> P x)"

lemma res_all_Inl [simp]: "res_all P (Inl p)"
  by (simp add: res_all_def)

lemma res_all_Inr [simp]: "res_all P (Inr x) \<longleftrightarrow> P x"
  by (simp add: res_all_def)

lemma res_all_rbind: "(\<And>x. m = Inr x \<Longrightarrow> res_all P (f x)) \<Longrightarrow> res_all P (rbind m f)"
  by (auto simp: res_all_def rbind_eq_Inr)

lemma res_all_prod: "(\<And>a b. x = (a, b) \<Longrightarrow> res_all P (f a b)) \<Longrightarrow> res_all P (case x of (a, b) \<Rightarrow> f a b)"
  by (cases x) simp

lemma res_all_if: "(b \<Longrightarrow> res_all P m) \<Longrightarrow> (\<not> b \<Longrightarrow> res_all P n) \<Longrightarrow> res_all P (if b then m else n)"
  by simp

lemma res_allI: "(\<And>x. m = Inr x \<Longrightarrow> P x) \<Longrightarrow> res_all P m"
  by (simp add: res_all_def)

lemma res_allD: "res_all P m \<Longrightarrow> m = Inr x \<Longrightarrow> P x"
  by (simp add: res_all_def)

lemmas res_all_rules = res_all_rbind res_all_prod res_all_if

section \<open>Unsigned integers of the Rust standard library\<close>

text \<open>
  \<open>overflowing_add\<close>, \<open>overflowing_sub\<close> and \<open>overflowing_mul\<close>: the wrapped value and
  whether it wrapped. \<open>overflowing_div\<close> and \<open>%\<close> panic on a zero divisor.
\<close>

definition overflowing_add :: "'a::len word \<Rightarrow> 'a word \<Rightarrow> 'a word \<times> bool" where
  "overflowing_add x y = (x + y, 2 ^ LENGTH('a) \<le> unat x + unat y)"

definition overflowing_sub :: "'a::len word \<Rightarrow> 'a word \<Rightarrow> 'a word \<times> bool" where
  "overflowing_sub x y = (x - y, unat x < unat y)"

definition overflowing_mul :: "'a::len word \<Rightarrow> 'a word \<Rightarrow> 'a word \<times> bool" where
  "overflowing_mul x y = (x * y, 2 ^ LENGTH('a) \<le> unat x * unat y)"

definition overflowing_div :: "'a::len word \<Rightarrow> 'a word \<Rightarrow> ('a word \<times> bool) res" where
  "overflowing_div x y = (if y = 0 then Inl DivisionByZero else Inr (x div y, False))"

definition rust_rem :: "'a::len word \<Rightarrow> 'a word \<Rightarrow> 'a word res" where
  "rust_rem x y = (if y = 0 then Inl DivisionByZero else Inr (x mod y))"

text \<open>
  Plain \<open>+\<close>, \<open>*\<close>, \<open><<\<close> and \<open>>>\<close> depend on the build: with overflow checks (\<open>cargo build\<close>)
  they panic, without them (\<open>cargo build --release\<close>) they wrap, and a shift takes its
  amount modulo the width. \<open>chk\<close> is True in the build with checks.
\<close>

definition checked_plus :: "bool \<Rightarrow> 'a::len word \<Rightarrow> 'a word \<Rightarrow> 'a word res" where
  "checked_plus chk x y =
     (if chk \<and> 2 ^ LENGTH('a) \<le> unat x + unat y then Inl ArithmeticOverflow else Inr (x + y))"

definition checked_times :: "bool \<Rightarrow> 'a::len word \<Rightarrow> 'a word \<Rightarrow> 'a word res" where
  "checked_times chk x y =
     (if chk \<and> 2 ^ LENGTH('a) \<le> unat x * unat y then Inl ArithmeticOverflow else Inr (x * y))"

definition rust_shl :: "bool \<Rightarrow> 'a::len word \<Rightarrow> u32 \<Rightarrow> 'a word res" where
  "rust_shl chk x s =
     (if chk \<and> LENGTH('a) \<le> unat s then Inl ShiftOverflow
      else Inr (push_bit (unat s mod LENGTH('a)) x))"

definition rust_shr :: "bool \<Rightarrow> 'a::len word \<Rightarrow> u32 \<Rightarrow> 'a word res" where
  "rust_shr chk x s =
     (if chk \<and> LENGTH('a) \<le> unat s then Inl ShiftOverflow
      else Inr (drop_bit (unat s mod LENGTH('a)) x))"

text \<open>\<open>x >> (s as i32)\<close> on an unsigned \<open>x\<close>: the shift is logical, only its amount is signed.\<close>

definition rust_shr_i32 :: "bool \<Rightarrow> 'a::len word \<Rightarrow> u32 \<Rightarrow> 'a word res" where
  "rust_shr_i32 chk x s =
     (if chk \<and> (sint s < 0 \<or> int LENGTH('a) \<le> sint s) then Inl ShiftOverflow
      else Inr (drop_bit (nat (sint s mod int LENGTH('a))) x))"

definition rotate_left :: "'a::len word \<Rightarrow> u32 \<Rightarrow> 'a word" where
  "rotate_left x s = word_rotl (unat s) x"

definition rotate_right :: "'a::len word \<Rightarrow> u32 \<Rightarrow> 'a word" where
  "rotate_right x s = word_rotr (unat s) x"

lemma res_le_checked_plus [intro]: "res_le (checked_plus chk x y) (checked_plus False x y)"
  by (simp add: checked_plus_def)

lemma res_le_checked_times [intro]: "res_le (checked_times chk x y) (checked_times False x y)"
  by (simp add: checked_times_def)

lemma res_le_rust_shl [intro]: "res_le (rust_shl chk x s) (rust_shl False x s)"
  by (simp add: rust_shl_def)

lemma res_le_rust_shr [intro]: "res_le (rust_shr chk x s) (rust_shr False x s)"
  by (simp add: rust_shr_def)

lemma res_le_rust_shr_i32 [intro]: "res_le (rust_shr_i32 chk x s) (rust_shr_i32 False x s)"
  by (simp add: rust_shr_i32_def)

lemma checked_plus_Inr: "checked_plus chk x y = Inr z \<Longrightarrow> z = x + y"
  by (auto simp: checked_plus_def split: if_splits)

lemma checked_plus_False [simp]: "checked_plus False x y = Inr (x + y)"
  by (simp add: checked_plus_def)

lemma u32_of_small [word_facts]: "n < 2 ^ 32 \<Longrightarrow> unat (word_of_nat n :: u32) = n"
  by (simp add: unsigned_of_nat take_bit_nat_eq_self)

section \<open>Little-endian byte lists\<close>

definition le_bytes_16 :: "u16 \<Rightarrow> u8 list" where
  "le_bytes_16 w = [ucast w, ucast (drop_bit 8 w)]"

definition le_bytes_32 :: "u32 \<Rightarrow> u8 list" where
  "le_bytes_32 w =
     [ucast w, ucast (drop_bit 8 w), ucast (drop_bit 16 w), ucast (drop_bit 24 w)]"

definition le_word_8 :: "u8 list \<Rightarrow> u8" where
  "le_word_8 bs = bs ! 0"

definition le_word_16 :: "u8 list \<Rightarrow> u16" where
  "le_word_16 bs = ucast (bs ! 0) OR push_bit 8 (ucast (bs ! 1))"

definition le_word_32 :: "u8 list \<Rightarrow> u32" where
  "le_word_32 bs =
     ucast (bs ! 0) OR push_bit 8 (ucast (bs ! 1)) OR push_bit 16 (ucast (bs ! 2))
       OR push_bit 24 (ucast (bs ! 3))"

lemma length_le_bytes [simp]:
  "length (le_bytes_16 h) = 2" "length (le_bytes_32 w) = 4"
  by (simp_all add: le_bytes_16_def le_bytes_32_def)

text \<open>Bit \<open>n\<close> of a byte of \<open>w\<close> put back at its place.\<close>

lemma bit_byte_16:
  "bit (push_bit k (ucast (ucast (drop_bit k w) :: u8)) :: u16) n
     \<longleftrightarrow> k \<le> n \<and> n < k + 8 \<and> n < 16 \<and> bit (w :: u16) n"
  by (auto simp add: bit_simps)

lemma bit_byte_32:
  "bit (push_bit k (ucast (ucast (drop_bit k w) :: u8)) :: u32) n
     \<longleftrightarrow> k \<le> n \<and> n < k + 8 \<and> n < 32 \<and> bit (w :: u32) n"
  by (auto simp add: bit_simps)

lemma le_word_bytes_16 [simp]: "le_word_16 (le_bytes_16 w) = w"
proof (rule bit_word_eqI)
  fix n assume "n < LENGTH(16)"
  then have n: "n < 16" by simp
  have low: "bit (ucast (ucast w :: u8) :: u16) n \<longleftrightarrow> n < 8 \<and> bit w n"
    using bit_byte_16 [of 0 w n] n by auto
  have eq: "le_word_16 (le_bytes_16 w) =
      ucast (ucast w :: u8) OR push_bit 8 (ucast (ucast (drop_bit 8 w) :: u8))"
    by (simp add: le_word_16_def le_bytes_16_def)
  show "bit (le_word_16 (le_bytes_16 w)) n = bit w n"
    unfolding eq bit_or_iff bit_byte_16 low using n by arith
qed

lemma le_word_bytes_32 [simp]: "le_word_32 (le_bytes_32 w) = w"
proof (rule bit_word_eqI)
  fix n assume "n < LENGTH(32)"
  then have n: "n < 32" by simp
  have low: "bit (ucast (ucast w :: u8) :: u32) n \<longleftrightarrow> n < 8 \<and> bit w n"
    using bit_byte_32 [of 0 w n] n by auto
  have eq: "le_word_32 (le_bytes_32 w) =
      ucast (ucast w :: u8) OR push_bit 8 (ucast (ucast (drop_bit 8 w) :: u8))
        OR push_bit 16 (ucast (ucast (drop_bit 16 w) :: u8))
        OR push_bit 24 (ucast (ucast (drop_bit 24 w) :: u8))"
    by (simp add: le_word_32_def le_bytes_32_def)
  show "bit (le_word_32 (le_bytes_32 w)) n = bit w n"
    unfolding eq bit_or_iff bit_byte_32 low using n by arith
qed

lemma le_word_8_single [simp]: "le_word_8 [b] = b"
  by (simp add: le_word_8_def)

end
