(* ===== verification/Memory.thy ===== *)
theory Memory
  imports Prelude
begin

text \<open>
  The address space of the machine (\<open>fox32/src/memory.rs\<close>): 64 MiB of RAM at address 0
  and 512 KiB of ROM at \<open>0xF0000000\<close>, both byte arrays, and the little-endian accesses of
  8, 16 and 32 bits that panic outside of them. The two arrays are functions from offsets
  to bytes; no operation reads or writes an offset at or above the size of its array
  (\<open>mem_find_in_bounds\<close>). Buffers are shared by reference count between the CPU, the bus
  and the display in the source; here the memory is a value that each operation returns.
\<close>

section \<open>Layout\<close>

definition MEMORY_RAM_SIZE :: nat where "MEMORY_RAM_SIZE = 0x04000000"
definition MEMORY_ROM_SIZE :: nat where "MEMORY_ROM_SIZE = 0x00080000"
definition MEMORY_RAM_START :: nat where "MEMORY_RAM_START = 0x00000000"
definition MEMORY_ROM_START :: nat where "MEMORY_ROM_START = 0xF0000000"

lemmas layout_defs = MEMORY_RAM_SIZE_def MEMORY_ROM_SIZE_def MEMORY_RAM_START_def
  MEMORY_ROM_START_def

record memory =
  ram :: "nat \<Rightarrow> u8"
  rom :: "nat \<Rightarrow> u8"

definition memory_buffer_new :: memory where
  "memory_buffer_new = \<lparr>ram = (\<lambda>_. 0), rom = (\<lambda>_. 0)\<rparr>"

datatype region = Ram | Rom

section \<open>Address lookup\<close>

definition arrayslice :: "nat \<Rightarrow> nat \<Rightarrow> nat \<Rightarrow> nat res" where
  "arrayslice array_len slice_len offset =
     (if slice_len + offset \<le> array_len then Inr offset else Inl SliceAssert)"

text \<open>
  \<open>Memory::find\<close> for a slice of \<open>s\<close> bytes: the region and the offset in it, None when
  the slice is not inside one region. \<open>usize\<close> has 64 bits.
\<close>

definition mem_find :: "nat \<Rightarrow> u32 \<Rightarrow> (region \<times> nat) option res" where
  "mem_find s address =
     (let head = unat address in
      rbind (if head + s < 2 ^ 64 then Inr (head + s) else Inl AddressOverflow) (\<lambda>tail.
      if MEMORY_RAM_START \<le> head \<and> tail - MEMORY_RAM_START \<le> MEMORY_RAM_SIZE then
        rbind (arrayslice MEMORY_RAM_SIZE s (head - MEMORY_RAM_START)) (\<lambda>off. Inr (Some (Ram, off)))
      else if MEMORY_ROM_START \<le> head \<and> tail - MEMORY_ROM_START \<le> MEMORY_ROM_SIZE then
        rbind (arrayslice MEMORY_ROM_SIZE s (head - MEMORY_ROM_START)) (\<lambda>off. Inr (Some (Rom, off)))
      else Inr None))"

definition find_unwrapped :: "nat \<Rightarrow> u32 \<Rightarrow> (region \<times> nat) res" where
  "find_unwrapped s address =
     rbind (mem_find s address) (\<lambda>found.
       case found of Some slot \<Rightarrow> Inr slot | None \<Rightarrow> Inl (UnmappedMemory address))"

section \<open>Accesses\<close>

definition region_bytes :: "memory \<Rightarrow> region \<Rightarrow> nat \<Rightarrow> u8" where
  "region_bytes m r = (case r of Ram \<Rightarrow> ram m | Rom \<Rightarrow> rom m)"

definition get_slice :: "(nat \<Rightarrow> u8) \<Rightarrow> nat \<Rightarrow> nat \<Rightarrow> u8 list" where
  "get_slice f off n = map (\<lambda>i. f (off + i)) [0..<n]"

definition set_slice :: "nat \<Rightarrow> u8 list \<Rightarrow> (nat \<Rightarrow> u8) \<Rightarrow> nat \<Rightarrow> u8" where
  "set_slice off bs f = (\<lambda>i. if off \<le> i \<and> i < off + length bs then bs ! (i - off) else f i)"

definition store_region :: "memory \<Rightarrow> region \<Rightarrow> nat \<Rightarrow> u8 list \<Rightarrow> memory" where
  "store_region m r off bs =
     (case r of
        Ram \<Rightarrow> m\<lparr>ram := set_slice off bs (ram m)\<rparr>
      | Rom \<Rightarrow> m\<lparr>rom := set_slice off bs (rom m)\<rparr>)"

definition load_bytes :: "nat \<Rightarrow> memory \<Rightarrow> u32 \<Rightarrow> u8 list res" where
  "load_bytes n m address =
     rbind (find_unwrapped n address) (\<lambda>(r, off). Inr (get_slice (region_bytes m r) off n))"

definition store_bytes :: "memory \<Rightarrow> u32 \<Rightarrow> u8 list \<Rightarrow> memory res" where
  "store_bytes m address bs =
     rbind (find_unwrapped (length bs) address) (\<lambda>(r, off). Inr (store_region m r off bs))"

definition read_8 :: "memory \<Rightarrow> u32 \<Rightarrow> u8 res" where
  "read_8 m address = rbind (load_bytes 1 m address) (\<lambda>bs. Inr (le_word_8 bs))"

definition read_16 :: "memory \<Rightarrow> u32 \<Rightarrow> u16 res" where
  "read_16 m address = rbind (load_bytes 2 m address) (\<lambda>bs. Inr (le_word_16 bs))"

definition read_32 :: "memory \<Rightarrow> u32 \<Rightarrow> u32 res" where
  "read_32 m address = rbind (load_bytes 4 m address) (\<lambda>bs. Inr (le_word_32 bs))"

definition write_8 :: "memory \<Rightarrow> u32 \<Rightarrow> u8 \<Rightarrow> memory res" where
  "write_8 m address value = store_bytes m address [value]"

definition write_16 :: "memory \<Rightarrow> u32 \<Rightarrow> u16 \<Rightarrow> memory res" where
  "write_16 m address value = store_bytes m address (le_bytes_16 value)"

definition write_32 :: "memory \<Rightarrow> u32 \<Rightarrow> u32 \<Rightarrow> memory res" where
  "write_32 m address value = store_bytes m address (le_bytes_32 value)"

section \<open>Mapped addresses\<close>

text \<open>The specification of the lookup: which slices are mapped, and where.\<close>

definition in_ram :: "nat \<Rightarrow> u32 \<Rightarrow> bool" where
  "in_ram n a \<longleftrightarrow> unat a + n \<le> 0x04000000"

definition in_rom :: "nat \<Rightarrow> u32 \<Rightarrow> bool" where
  "in_rom n a \<longleftrightarrow> 0xF0000000 \<le> unat a \<and> unat a + n \<le> 0xF0080000"

definition mapped :: "nat \<Rightarrow> u32 \<Rightarrow> bool" where
  "mapped n a \<longleftrightarrow> in_ram n a \<or> in_rom n a"

lemma unat_u32_bound: "unat (a :: u32) < 4294967296"
  using unsigned_less [of a] by simp

lemma mem_find_spec:
  assumes "n \<le> 512"
  shows "mem_find n a =
    Inr (if in_ram n a then Some (Ram, unat a)
         else if in_rom n a then Some (Rom, unat a - 0xF0000000) else None)"
  using assms unat_u32_bound [of a]
  by (auto simp: mem_find_def arrayslice_def layout_defs in_ram_def in_rom_def Let_def)

lemma find_unwrapped_spec:
  assumes "n \<le> 512"
  shows "find_unwrapped n a =
    (if in_ram n a then Inr (Ram, unat a)
     else if in_rom n a then Inr (Rom, unat a - 0xF0000000) else Inl (UnmappedMemory a))"
  using assms by (simp add: find_unwrapped_def mem_find_spec)

lemma mem_find_in_bounds:
  assumes "n \<le> 512" and "mem_find n a = Inr (Some (r, off))"
  shows "off + n \<le> (case r of Ram \<Rightarrow> MEMORY_RAM_SIZE | Rom \<Rightarrow> MEMORY_ROM_SIZE)"
  using assms by (auto simp: mem_find_spec layout_defs in_ram_def in_rom_def split: if_splits)

lemma find_unwrapped_Inr:
  assumes "n \<le> 512"
  shows "(\<exists>slot. find_unwrapped n a = Inr slot) \<longleftrightarrow> mapped n a"
  using assms by (auto simp: find_unwrapped_spec mapped_def)

section \<open>Slices\<close>

lemma length_get_slice [simp]: "length (get_slice f off n) = n"
  by (simp add: get_slice_def)

lemma get_set_slice_same [simp]: "length bs = n \<Longrightarrow> get_slice (set_slice off bs f) off n = bs"
  by (rule nth_equalityI) (auto simp: get_slice_def set_slice_def)

lemma get_set_slice_disjoint:
  "off + length bs \<le> off' \<or> off' + n \<le> off \<Longrightarrow> get_slice (set_slice off bs f) off' n = get_slice f off' n"
  by (rule nth_equalityI) (auto simp: get_slice_def set_slice_def)

lemma get_slice_cong:
  "(\<And>i. off \<le> i \<Longrightarrow> i < off + n \<Longrightarrow> f i = g i) \<Longrightarrow> get_slice f off n = get_slice g off n"
  by (simp add: get_slice_def)

definition apart :: "nat \<Rightarrow> u32 \<Rightarrow> nat \<Rightarrow> u32 \<Rightarrow> bool" where
  "apart n a n' a' \<longleftrightarrow> unat a + n \<le> unat a' \<or> unat a' + n' \<le> unat a"

lemma store_bytes_Inr_iff:
  assumes "length bs \<le> 512"
  shows "(\<exists>m'. store_bytes m a bs = Inr m') \<longleftrightarrow> mapped (length bs) a"
  using assms by (auto simp: store_bytes_def find_unwrapped_spec mapped_def)

lemma load_bytes_Inr_iff:
  assumes "n \<le> 512"
  shows "(\<exists>bs. load_bytes n m a = Inr bs) \<longleftrightarrow> mapped n a"
  using assms by (auto simp: load_bytes_def find_unwrapped_spec mapped_def)

lemma load_store_same:
  assumes "store_bytes m a bs = Inr m'" and "length bs = n" and "n \<le> 512"
  shows "load_bytes n m' a = Inr bs"
  using assms
  by (auto simp: store_bytes_def load_bytes_def find_unwrapped_spec store_region_def
      region_bytes_def split: if_splits)

lemma load_store_apart:
  assumes "store_bytes m a bs = Inr m'" and "length bs \<le> 512" and "n \<le> 512"
    and "apart (length bs) a n a'"
  shows "load_bytes n m' a' = load_bytes n m a'"
  using assms
  by (auto simp: store_bytes_def load_bytes_def find_unwrapped_spec store_region_def apart_def
      region_bytes_def in_ram_def in_rom_def intro!: get_set_slice_disjoint split: if_splits)

lemma load_bytes_unmapped:
  "n \<le> 512 \<Longrightarrow> \<not> mapped n a \<Longrightarrow> load_bytes n m a = Inl (UnmappedMemory a)"
  by (simp add: load_bytes_def find_unwrapped_spec mapped_def)

lemma store_bytes_unmapped:
  "length bs \<le> 512 \<Longrightarrow> \<not> mapped (length bs) a \<Longrightarrow> store_bytes m a bs = Inl (UnmappedMemory a)"
  by (simp add: store_bytes_def find_unwrapped_spec mapped_def)

section \<open>The access interface\<close>

text \<open>
  What a client of the memory relies on, for one access width: an access succeeds exactly
  on mapped addresses, a read returns the last value written there, and a write leaves
  every slice apart from it as it was.
\<close>

locale memory_access =
  fixes get :: "memory \<Rightarrow> u32 \<Rightarrow> 'v res"
    and put :: "memory \<Rightarrow> u32 \<Rightarrow> 'v \<Rightarrow> memory res"
    and width :: nat
  assumes get_mapped: "(\<exists>v. get m a = Inr v) \<longleftrightarrow> mapped width a"
    and put_mapped: "(\<exists>m'. put m a v = Inr m') \<longleftrightarrow> mapped width a"
    and get_unmapped: "\<not> mapped width a \<Longrightarrow> get m a = Inl (UnmappedMemory a)"
    and put_unmapped: "\<not> mapped width a \<Longrightarrow> put m a v = Inl (UnmappedMemory a)"
    and get_put_same: "put m a v = Inr m' \<Longrightarrow> get m' a = Inr v"
    and put_frame: "put m a v = Inr m' \<Longrightarrow> n \<le> 512 \<Longrightarrow> apart width a n a'
      \<Longrightarrow> load_bytes n m' a' = load_bytes n m a'"
begin

lemma put_total: "mapped width a \<Longrightarrow> \<exists>m'. put m a v = Inr m' \<and> get m' a = Inr v"
  using put_mapped get_put_same by metis

lemma put_fails: "put m a v = Inl p \<Longrightarrow> p = UnmappedMemory a \<and> \<not> mapped width a"
  using put_mapped [of m a v] put_unmapped [of a m v] by auto

lemma get_fails: "get m a = Inl p \<Longrightarrow> p = UnmappedMemory a \<and> \<not> mapped width a"
  using get_mapped [of m a] get_unmapped [of a m] by auto

lemma put_put_get:
  assumes "put m a v = Inr m1" and "put m1 a w = Inr m2"
  shows "get m2 a = Inr w"
  using assms(2) by (rule get_put_same)

end

text \<open>Two widths over the same memory: the frame law, read at the other width.\<close>

locale memory_access_pair =
  one: memory_access get1 put1 w1 + two: memory_access get2 put2 w2
  for get1 :: "memory \<Rightarrow> u32 \<Rightarrow> 'v res" and put1 w1
    and get2 :: "memory \<Rightarrow> u32 \<Rightarrow> 'w res" and put2 w2 +
  assumes get2_bytes: "load_bytes w2 m' a = load_bytes w2 m a \<Longrightarrow> get2 m' a = get2 m a"
    and w2_bound: "w2 \<le> 512"
begin

lemma cross_frame: "put1 m a v = Inr m' \<Longrightarrow> apart w1 a w2 a' \<Longrightarrow> get2 m' a' = get2 m a'"
  by (rule get2_bytes, rule one.put_frame [OF _ w2_bound])

lemma put2_then_put1:
  assumes "put2 m b w = Inr m1" and "put1 m1 a v = Inr m2" and "apart w1 a w2 b"
  shows "get1 m2 a = Inr v \<and> get2 m2 b = Inr w"
  using one.get_put_same [OF assms(2)] two.get_put_same [OF assms(1)]
    cross_frame [OF assms(2,3)] by simp

end

lemmas access_defs = read_8_def write_8_def read_16_def write_16_def read_32_def write_32_def

lemma access_laws:
  assumes "g = (\<lambda>m a. rbind (load_bytes n m a) (\<lambda>bs. Inr (dec bs)))"
    and "p = (\<lambda>m a v. store_bytes m a (enc v))"
    and "\<And>v. length (enc v) = n" and "\<And>v. dec (enc v) = v" and "n \<le> 512"
  shows "memory_access g p n"
proof
  fix m a v m' n' a'
  show "(\<exists>v. g m a = Inr v) \<longleftrightarrow> mapped n a"
    using load_bytes_Inr_iff [OF assms(5), of m a] by (auto simp: assms(1) rbind_eq_Inr)
  show "(\<exists>m'. p m a v = Inr m') \<longleftrightarrow> mapped n a"
    using store_bytes_Inr_iff [of "enc v" m a] assms(3,5) by (simp add: assms(2))
  show "\<not> mapped n a \<Longrightarrow> g m a = Inl (UnmappedMemory a)"
    by (simp add: assms(1,5) load_bytes_unmapped)
  show "\<not> mapped n a \<Longrightarrow> p m a v = Inl (UnmappedMemory a)"
    by (simp add: assms(2,3,5) store_bytes_unmapped)
  show "p m a v = Inr m' \<Longrightarrow> g m' a = Inr v"
    using load_store_same [of m a "enc v" m' n] assms(3-5) by (simp add: assms(1,2))
  show "p m a v = Inr m' \<Longrightarrow> n' \<le> 512 \<Longrightarrow> apart n a n' a'
      \<Longrightarrow> load_bytes n' m' a' = load_bytes n' m a'"
    using load_store_apart [of m a "enc v" m' n' a'] assms(3,5) by (simp add: assms(2))
qed

interpretation mem8: memory_access read_8 write_8 1
  by (rule access_laws [where dec = le_word_8 and enc = "\<lambda>v. [v]"]) (auto simp: access_defs fun_eq_iff)

interpretation mem16: memory_access read_16 write_16 2
  by (rule access_laws [where dec = le_word_16 and enc = le_bytes_16]) (auto simp: access_defs fun_eq_iff)

interpretation mem32: memory_access read_32 write_32 4
  by (rule access_laws [where dec = le_word_32 and enc = le_bytes_32]) (auto simp: access_defs fun_eq_iff)

interpretation mem_8_32: memory_access_pair read_8 write_8 1 read_32 write_32 4
  by unfold_locales (auto simp: access_defs)

interpretation mem_32_8: memory_access_pair read_32 write_32 4 read_8 write_8 1
  by unfold_locales (auto simp: access_defs)

interpretation mem_32_32: memory_access_pair read_32 write_32 4 read_32 write_32 4
  by unfold_locales (auto simp: access_defs)

text \<open>No write reaches past the end of an array.\<close>

definition same_outside :: "memory \<Rightarrow> memory \<Rightarrow> bool" where
  "same_outside m m' \<longleftrightarrow>
     (\<forall>i. MEMORY_RAM_SIZE \<le> i \<longrightarrow> ram m' i = ram m i) \<and>
     (\<forall>i. MEMORY_ROM_SIZE \<le> i \<longrightarrow> rom m' i = rom m i)"

lemma store_bytes_in_bounds:
  assumes "store_bytes m a bs = Inr m'" and "length bs \<le> 512"
  shows "same_outside m m'"
  using assms
  by (auto simp: store_bytes_def find_unwrapped_spec store_region_def same_outside_def
      set_slice_def in_ram_def in_rom_def layout_defs split: if_splits)

text \<open>A write to RAM leaves the ROM as it was.\<close>

lemma store_bytes_ram:
  assumes "store_bytes m a bs = Inr m'" and "length bs \<le> 512" and "unat a < MEMORY_ROM_START"
  shows "rom m' = rom m"
  using assms
  by (auto simp: store_bytes_def find_unwrapped_spec store_region_def in_rom_def layout_defs
      split: if_splits)

end
