(* ===== verification/Devices.thy ===== *)
theory Devices
  imports Memory
begin

text \<open>
  The devices behind the bus: the keyboard queue (\<open>fox32/src/keyboard.rs\<close>), the mouse
  (\<open>mouse.rs\<close>), the audio state (\<open>audio.rs\<close>), the overlay registers (\<open>main.rs\<close>) and the
  disk controller (\<open>disk.rs\<close>). Each device is locked by a mutex for the whole of one bus
  access in the source, so an access is one atomic operation here.

  Two things are not under \<open>src/\<close> and are parameters, collected in \<open>env\<close>: the ring buffer of
  the crate \<open>ringbuf\<close> that holds the scancodes (its state has the type \<open>'k\<close>), and the answer
  of the file dialog of the crate \<open>rfd\<close>. \<open>env\<close> also says whether the build has overflow
  checks.
\<close>

section \<open>The environment\<close>

datatype dialog_answer = Cancelled | OpenFailed | Opened "u8 list"

record 'k env =
  overflow_checks :: bool
  rb_new :: "nat \<Rightarrow> 'k"
  rb_push :: "'k \<Rightarrow> u32 \<Rightarrow> 'k option"
  rb_pop :: "'k \<Rightarrow> (u32 \<times> 'k) option"
  dialog :: dialog_answer

text \<open>
  The documented behaviour of the ring buffer: a first-in first-out queue that holds at most
  the capacity it was made with; \<open>push\<close> hands the element back when the queue is full and
  \<open>pop\<close> returns nothing when it is empty.
\<close>

locale ring_buffer =
  fixes e :: "'k env" and contents :: "'k \<Rightarrow> u32 list" and capacity :: nat
  assumes contents_new: "contents (rb_new e capacity) = []"
    and push_full: "capacity \<le> length (contents k) \<Longrightarrow> rb_push e k v = None"
    and push_room: "length (contents k) < capacity
      \<Longrightarrow> \<exists>k'. rb_push e k v = Some k' \<and> contents k' = contents k @ [v]"
    and pop_empty: "contents k = [] \<Longrightarrow> rb_pop e k = None"
    and pop_front: "contents k = v # vs \<Longrightarrow> \<exists>k'. rb_pop e k = Some (v, k') \<and> contents k' = vs"

section \<open>Keyboard\<close>

definition keyboard_new :: "'k env \<Rightarrow> 'k" where
  "keyboard_new e = rb_new e 32"

definition keyboard_push :: "'k env \<Rightarrow> 'k \<Rightarrow> u32 \<Rightarrow> 'k" where
  "keyboard_push e k scancode = (case rb_push e k scancode of Some k' \<Rightarrow> k' | None \<Rightarrow> k)"

definition keyboard_pop :: "'k env \<Rightarrow> 'k \<Rightarrow> u32 \<times> 'k" where
  "keyboard_pop e k = (case rb_pop e k of Some (v, k') \<Rightarrow> (v, k') | None \<Rightarrow> (0, k))"

section \<open>Mouse, audio, overlays\<close>

record mouse =
  mouse_x :: u16
  mouse_y :: u16
  clicked :: bool
  released :: bool
  held :: bool

definition mouse_new :: mouse where
  "mouse_new = \<lparr>mouse_x = 0, mouse_y = 0, clicked = False, released = False, held = False\<rparr>"

record audio =
  current_buffer_is_0 :: bool
  playing :: bool

definition audio_new :: audio where
  "audio_new = \<lparr>current_buffer_is_0 = True, playing = False\<rparr>"

text \<open>The \<open>usize\<close> fields of an overlay are natural numbers.\<close>

record overlay =
  ov_enabled :: bool
  ov_width :: nat
  ov_height :: nat
  ov_x :: nat
  ov_y :: nat
  ov_framebuffer_pointer :: u32

definition overlays_new :: "overlay list" where
  "overlays_new = replicate 32
     \<lparr>ov_enabled = False, ov_width = 16, ov_height = 16, ov_x = 0, ov_y = 0,
      ov_framebuffer_pointer = 0\<rparr>"

section \<open>Files and disks\<close>

text \<open>
  \<open>std::fs::File\<close>: the bytes, the cursor, and whether the handle was opened for writing.
  \<open>File::open\<close> opens read-only; a write through such a handle is an error. A read returns the
  bytes between the cursor and the end of the file, at most as many as asked for. A write past
  the end fills the gap with zeros.
\<close>

record file_handle =
  file_bytes :: "u8 list"
  file_pos :: nat
  file_writable :: bool

definition file_open :: "u8 list \<Rightarrow> file_handle" where
  "file_open bs = \<lparr>file_bytes = bs, file_pos = 0, file_writable = False\<rparr>"

definition file_seek :: "nat \<Rightarrow> file_handle \<Rightarrow> file_handle" where
  "file_seek pos f = f\<lparr>file_pos := pos\<rparr>"

definition file_read :: "nat \<Rightarrow> file_handle \<Rightarrow> u8 list \<times> file_handle" where
  "file_read n f =
     (let bs = take n (drop (file_pos f) (file_bytes f))
      in (bs, f\<lparr>file_pos := file_pos f + length bs\<rparr>))"

definition file_write :: "u8 list \<Rightarrow> file_handle \<Rightarrow> file_handle res" where
  "file_write bs f =
     (if file_writable f then
        (let old = file_bytes f; pos = file_pos f;
             padded = old @ replicate (pos - length old) 0
         in Inr (f\<lparr>file_bytes := take pos padded @ bs @ drop (pos + length bs) padded,
                  file_pos := pos + length bs\<rparr>))
      else Inl FileWriteFailed)"

record disk =
  disk_file :: file_handle
  disk_size :: nat
  current_sector :: u32

definition disk_new :: "file_handle \<Rightarrow> disk" where
  "disk_new f = \<lparr>disk_file = f, disk_size = length (file_bytes f), current_sector = 0\<rparr>"

record disk_controller =
  disks :: "disk option list"
  buffer_pointer :: nat

definition disk_controller_new :: disk_controller where
  "disk_controller_new = \<lparr>disks = [None, None, None, None], buffer_pointer = 0\<rparr>"

definition select_file :: "'k env \<Rightarrow> file_handle option res" where
  "select_file e =
     (case dialog e of
        Cancelled \<Rightarrow> Inr None
      | OpenFailed \<Rightarrow> Inl FileOpenFailed
      | Opened bs \<Rightarrow> Inr (Some (file_open bs)))"

definition disk_insert :: "file_handle \<Rightarrow> u8 \<Rightarrow> disk_controller \<Rightarrow> disk_controller res" where
  "disk_insert f disk_id dc =
     (if unat disk_id < length (disks dc)
      then Inr (dc\<lparr>disks := (disks dc)[unat disk_id := Some (disk_new f)]\<rparr>)
      else Inl IndexOutOfBounds)"

definition disk_remove :: "u8 \<Rightarrow> disk_controller \<Rightarrow> disk_controller res" where
  "disk_remove disk_id dc =
     (if unat disk_id < length (disks dc)
      then Inr (dc\<lparr>disks := (disks dc)[unat disk_id := None]\<rparr>)
      else Inl IndexOutOfBounds)"

definition disk_mut :: "u8 \<Rightarrow> disk_controller \<Rightarrow> disk res" where
  "disk_mut disk_id dc =
     (if unat disk_id < length (disks dc) then
        (case disks dc ! unat disk_id of Some d \<Rightarrow> Inr d | None \<Rightarrow> Inl UnmountedDisk)
      else Inl IndexOutOfBounds)"

definition put_disk :: "u8 \<Rightarrow> disk \<Rightarrow> disk_controller \<Rightarrow> disk_controller" where
  "put_disk disk_id d dc = dc\<lparr>disks := (disks dc)[unat disk_id := Some d]\<rparr>"

definition get_size :: "u8 \<Rightarrow> disk_controller \<Rightarrow> nat res" where
  "get_size disk_id dc = rbind (disk_mut disk_id dc) (\<lambda>d. Inr (disk_size d))"

definition get_current_sector :: "u8 \<Rightarrow> disk_controller \<Rightarrow> u32 res" where
  "get_current_sector disk_id dc = rbind (disk_mut disk_id dc) (\<lambda>d. Inr (current_sector d))"

definition set_current_sector :: "u8 \<Rightarrow> u32 \<Rightarrow> disk_controller \<Rightarrow> disk_controller res" where
  "set_current_sector disk_id sector dc =
     rbind (disk_mut disk_id dc) (\<lambda>d.
     let d = d\<lparr>current_sector := sector\<rparr>;
         d = d\<lparr>disk_file := file_seek (unat sector * 512) (disk_file d)\<rparr>
     in Inr (put_disk disk_id d dc))"

text \<open>
  A sector is read into a zeroed buffer of 512 bytes, all of which is copied into RAM at the
  buffer pointer; the slice of RAM must be in range.
\<close>

definition read_into_memory ::
  "u8 \<Rightarrow> memory \<Rightarrow> disk_controller \<Rightarrow> (nat \<times> memory \<times> disk_controller) res" where
  "read_into_memory disk_id m dc =
     rbind (disk_mut disk_id dc) (\<lambda>d.
     let (bs, f) = file_read 512 (disk_file d);
         temp_buffer = bs @ replicate (512 - length bs) 0;
         dc = put_disk disk_id (d\<lparr>disk_file := f\<rparr>) dc
     in if buffer_pointer dc + 512 \<le> MEMORY_RAM_SIZE
        then Inr (length bs, store_region m Ram (buffer_pointer dc) temp_buffer, dc)
        else Inl IndexOutOfBounds)"

definition write_from_memory ::
  "u8 \<Rightarrow> memory \<Rightarrow> disk_controller \<Rightarrow> (nat \<times> disk_controller) res" where
  "write_from_memory disk_id m dc =
     rbind (disk_mut disk_id dc) (\<lambda>d.
     if buffer_pointer dc + 512 \<le> MEMORY_RAM_SIZE then
       rbind (file_write (get_slice (ram m) (buffer_pointer dc) 512) (disk_file d)) (\<lambda>f.
       Inr (512, put_disk disk_id (d\<lparr>disk_file := f\<rparr>) dc))
     else Inl IndexOutOfBounds)"

end
