(* ===== verification/Keyboard.thy ===== *)
theory Keyboard
  imports Devices
begin

text \<open>
  The keyboard queue (\<open>fox32/src/keyboard.rs\<close>): what the machine reads from the keyboard port
  is what the window thread pushed, in order, as long as at most 32 scancodes wait; later ones
  are dropped, and an empty queue reads as 0.
\<close>

fun push_all :: "'k env \<Rightarrow> 'k \<Rightarrow> u32 list \<Rightarrow> 'k" where
  "push_all e k [] = k"
| "push_all e k (v # vs) = push_all e (keyboard_push e k v) vs"

fun pop_n :: "'k env \<Rightarrow> nat \<Rightarrow> 'k \<Rightarrow> u32 list" where
  "pop_n e 0 k = []"
| "pop_n e (Suc n) k = (let (v, k') = keyboard_pop e k in v # pop_n e n k')"

context ring_buffer
begin

lemma contents_push:
  "contents (keyboard_push e k v) =
    (if length (contents k) < capacity then contents k @ [v] else contents k)"
  using push_full [of k v] push_room [of k v] by (auto simp: keyboard_push_def)

lemma contents_pop:
  "fst (keyboard_pop e k) = (case contents k of [] \<Rightarrow> 0 | v # _ \<Rightarrow> v)"
  "contents (snd (keyboard_pop e k)) = tl (contents k)"
  using pop_empty [of k] pop_front [of k]
  by (cases "contents k"; force simp: keyboard_pop_def)+

lemma contents_push_all:
  "length (contents k) \<le> capacity \<Longrightarrow> contents (push_all e k vs) = take capacity (contents k @ vs)"
proof (induction vs arbitrary: k)
  case Nil
  then show ?case by simp
next
  case (Cons v vs)
  then show ?case
    using Cons.IH [of "keyboard_push e k v"] by (auto simp: contents_push take_Cons')
qed

lemma pop_n_contents:
  "pop_n e n k = take n (contents k) @ replicate (n - length (contents k)) 0"
proof (induction n arbitrary: k)
  case 0
  then show ?case by simp
next
  case (Suc n)
  show ?case
    using Suc [of "snd (keyboard_pop e k)"] contents_pop [of k]
    by (cases "contents k") (auto simp: split_beta Let_def)
qed

lemma fifo:
  "pop_n e n (push_all e (rb_new e capacity) vs) =
    take n (take capacity vs) @ replicate (n - min capacity (length vs)) 0"
  using contents_push_all [of "rb_new e capacity" vs]
  by (simp add: pop_n_contents contents_new min.commute)

end

text \<open>The ring buffer as the list of its elements, with the capacity the keyboard asks for.\<close>

definition list_ring_env :: "bool \<Rightarrow> dialog_answer \<Rightarrow> u32 list env" where
  "list_ring_env chk answer =
     \<lparr>overflow_checks = chk, rb_new = (\<lambda>_. []),
      rb_push = (\<lambda>k v. if length k < 32 then Some (k @ [v]) else None),
      rb_pop = (\<lambda>k. case k of [] \<Rightarrow> None | v # vs \<Rightarrow> Some (v, vs)), dialog = answer\<rparr>"

interpretation list_ring: ring_buffer "list_ring_env chk answer" "\<lambda>k. k" 32
  by unfold_locales (auto simp: list_ring_env_def)

text \<open>
  C38. Keyboard order. With any ring buffer of capacity 32, after the scancodes \<open>vs\<close> are pushed
  into a new keyboard, \<open>n\<close> reads return the first \<open>n\<close> of the first 32 scancodes, in order, and
  0 once the queue is empty.
\<close>

theorem keyboard_fifo:
  assumes "ring_buffer e contents 32"
  shows "pop_n e n (push_all e (keyboard_new e) vs) =
    take n (take 32 vs) @ replicate (n - min 32 (length vs)) 0"
  using ring_buffer.fifo [OF assms] by (simp add: keyboard_new_def)

theorem keyboard_fifo_witness:
  "pop_n (list_ring_env False Cancelled) 3 (push_all (list_ring_env False Cancelled)
     (keyboard_new (list_ring_env False Cancelled)) [0x1E, 0x9E]) = [0x1E, 0x9E, 0]"
  using keyboard_fifo [OF list_ring.ring_buffer_axioms, of False Cancelled 3 "[0x1E, 0x9E]"]
  by (simp add: eval_nat_numeral)

end
