(* ===== verification/Bus.thy ===== *)
theory Bus
  imports Devices
begin

text \<open>
  The bus (\<open>fox32/src/bus.rs\<close>): port reads and writes of the CPU, dispatched to the devices,
  and the characters sent to the terminal. Ports no device answers read as 0 and ignore
  writes; an access a device does not support panics.
\<close>

record 'k bus =
  memory :: memory
  disk_controller :: disk_controller
  audio :: audio
  keyboard :: 'k
  mouse :: mouse
  overlays :: "overlay list"
  terminal :: "u8 list"

text \<open>
  The bus the emulator makes and keeps: 32 overlays whose geometry fits 16 bits, four disk
  slots, a buffer pointer of 32 bits.
\<close>

definition wf_overlay :: "overlay \<Rightarrow> bool" where
  "wf_overlay ov \<longleftrightarrow> ov_x ov < 65536 \<and> ov_y ov < 65536 \<and> ov_width ov < 65536 \<and> ov_height ov < 65536"

definition wf_bus :: "'k bus \<Rightarrow> bool" where
  "wf_bus b \<longleftrightarrow> length (overlays b) = 32 \<and> (\<forall>ov\<in>set (overlays b). wf_overlay ov) \<and>
     length (disks (disk_controller b)) = 4 \<and> buffer_pointer (disk_controller b) < 2 ^ 32"

definition pack_halves :: "u32 \<Rightarrow> u32 \<Rightarrow> u32" where
  "pack_halves hi lo = push_bit 16 hi OR lo"

definition with_overlay :: "nat \<Rightarrow> 'k bus \<Rightarrow> (overlay \<Rightarrow> 'a) \<Rightarrow> 'a res" where
  "with_overlay n b f = (if n < length (overlays b) then Inr (f (overlays b ! n)) else Inl IndexOutOfBounds)"

section \<open>Port reads\<close>

definition read_overlay_port :: "u32 \<Rightarrow> 'k bus \<Rightarrow> (u32 \<times> 'k bus) res" where
  "read_overlay_port port b =
     (let overlay_number = unat (port AND 0x000000FF);
          setting = drop_bit 8 (port AND 0x0000FF00)
      in if setting = 0x00 then
           with_overlay overlay_number b (\<lambda>ov.
             (pack_halves (word_of_nat (ov_y ov)) (word_of_nat (ov_x ov)), b))
         else if setting = 0x01 then
           with_overlay overlay_number b (\<lambda>ov.
             (pack_halves (word_of_nat (ov_height ov)) (word_of_nat (ov_width ov)), b))
         else if setting = 0x02 then
           with_overlay overlay_number b (\<lambda>ov. (ov_framebuffer_pointer ov, b))
         else if setting = 0x03 then
           with_overlay overlay_number b (\<lambda>ov. (if ov_enabled ov then 1 else 0, b))
         else Inl InvalidOverlayPort)"

definition button_byte :: "mouse \<Rightarrow> u8" where
  "button_byte ms =
     (let byte = 0x00;
          byte = (if clicked ms then byte OR 1 else byte);
          byte = (if released ms then byte OR 2 else byte)
      in if held ms then byte OR 4 else byte AND NOT 4)"

definition read_mouse_port :: "u32 \<Rightarrow> 'k bus \<Rightarrow> (u32 \<times> 'k bus) res" where
  "read_mouse_port port b =
     (let setting = (ucast (port AND 0x000000FF) :: u8)
      in if setting = 0x00 then Inr (ucast (button_byte (mouse b)), b)
         else if setting = 0x01 then
           Inr (pack_halves (ucast (mouse_y (mouse b))) (ucast (mouse_x (mouse b))), b)
         else Inl InvalidMousePort)"

definition read_disk_port :: "u32 \<Rightarrow> 'k bus \<Rightarrow> (u32 \<times> 'k bus) res" where
  "read_disk_port port b =
     (let id = (ucast port :: u8);
          operation = drop_bit 8 (port AND 0x0000F000);
          dc = disk_controller b
      in if operation = 0x10 then
           (if id > 3 then Inl InvalidDiskId
            else if unat id < length (disks dc) then
              Inr (case disks dc ! unat id of
                     Some d \<Rightarrow> (word_of_nat (disk_size d), b) | None \<Rightarrow> (0, b))
            else Inl IndexOutOfBounds)
         else if operation = 0x20 then Inr (word_of_nat (buffer_pointer dc), b)
         else Inl InvalidDiskPort)"

definition read_io :: "'k env \<Rightarrow> u32 \<Rightarrow> 'k bus \<Rightarrow> (u32 \<times> 'k bus) res" where
  "read_io e port b =
     (if 0x80000000 \<le> port \<and> port \<le> 0x8000031F then read_overlay_port port b
      else if 0x80000400 \<le> port \<and> port \<le> 0x80000401 then read_mouse_port port b
      else if port = 0x80000500 then
        (let (scancode, k) = keyboard_pop e (keyboard b) in Inr (scancode, b\<lparr>keyboard := k\<rparr>))
      else if port = 0x80000600 then Inr (if playing (audio b) then 1 else 0, b)
      else if 0x80001000 \<le> port \<and> port \<le> 0x80002003 then read_disk_port port b
      else Inr (0, b))"

section \<open>Port writes\<close>

definition set_overlay :: "nat \<Rightarrow> (overlay \<Rightarrow> overlay) \<Rightarrow> 'k bus \<Rightarrow> 'k bus res" where
  "set_overlay n f b =
     (if n < length (overlays b) then Inr (b\<lparr>overlays := (overlays b)[n := f (overlays b ! n)]\<rparr>)
      else Inl IndexOutOfBounds)"

definition low_half :: "u32 \<Rightarrow> u32" where "low_half w = w AND 0x0000FFFF"
definition high_half :: "u32 \<Rightarrow> u32" where "high_half w = drop_bit 16 (w AND 0xFFFF0000)"

definition write_overlay_port :: "u32 \<Rightarrow> u32 \<Rightarrow> 'k bus \<Rightarrow> 'k bus res" where
  "write_overlay_port port w b =
     (let overlay_number = unat (port AND 0x000000FF);
          setting = drop_bit 8 (port AND 0x0000FF00)
      in if setting = 0x00 then
           set_overlay overlay_number
             (\<lambda>ov. ov\<lparr>ov_x := unat (low_half w), ov_y := unat (high_half w)\<rparr>) b
         else if setting = 0x01 then
           set_overlay overlay_number
             (\<lambda>ov. ov\<lparr>ov_width := unat (low_half w), ov_height := unat (high_half w)\<rparr>) b
         else if setting = 0x02 then
           set_overlay overlay_number (\<lambda>ov. ov\<lparr>ov_framebuffer_pointer := w\<rparr>) b
         else if setting = 0x03 then
           set_overlay overlay_number (\<lambda>ov. ov\<lparr>ov_enabled := (w \<noteq> 0)\<rparr>) b
         else Inl InvalidOverlayPort)"

definition write_mouse_port :: "u32 \<Rightarrow> u32 \<Rightarrow> 'k bus \<Rightarrow> 'k bus res" where
  "write_mouse_port port w b =
     (let setting = (ucast (port AND 0x000000FF) :: u8)
      in if setting = 0x00 then
           Inr (b\<lparr>mouse := (mouse b)\<lparr>clicked := w AND 1 \<noteq> 0, released := w AND 2 \<noteq> 0,
                                     held := w AND 4 \<noteq> 0\<rparr>\<rparr>)
         else if setting = 0x01 then
           Inr (b\<lparr>mouse := (mouse b)\<lparr>mouse_x := ucast (low_half w), mouse_y := ucast (high_half w)\<rparr>\<rparr>)
         else Inl InvalidMousePort)"

definition write_disk_port :: "'k env \<Rightarrow> u32 \<Rightarrow> u32 \<Rightarrow> 'k bus \<Rightarrow> 'k bus res" where
  "write_disk_port e port w b =
     (let id = (ucast port :: u8);
          operation = drop_bit 8 (port AND 0x0000F000);
          dc = disk_controller b
      in if operation = 0x10 then
           (if id > 3 then Inl InvalidDiskId
            else rbind (select_file e) (\<lambda>choice. case choice of
                Some f \<Rightarrow> rbind (disk_insert f id dc) (\<lambda>dc. Inr (b\<lparr>disk_controller := dc\<rparr>))
              | None \<Rightarrow> Inr b))
         else if operation = 0x20 then
           Inr (b\<lparr>disk_controller := dc\<lparr>buffer_pointer := unat w\<rparr>\<rparr>)
         else if operation = 0x30 then
           (if id > 3 then Inl InvalidDiskId
            else rbind (set_current_sector id w dc) (\<lambda>dc.
                 rbind (read_into_memory id (memory b) dc) (\<lambda>(_, m, dc).
                 Inr (b\<lparr>memory := m, disk_controller := dc\<rparr>))))
         else if operation = 0x40 then
           (if id > 3 then Inl InvalidDiskId
            else rbind (set_current_sector id w dc) (\<lambda>dc.
                 rbind (write_from_memory id (memory b) dc) (\<lambda>(_, dc).
                 Inr (b\<lparr>disk_controller := dc\<rparr>))))
         else if operation = 0x50 then
           (if id > 3 then Inl InvalidDiskId
            else rbind (disk_remove id dc) (\<lambda>dc. Inr (b\<lparr>disk_controller := dc\<rparr>)))
         else Inl InvalidDiskPort)"

definition write_io :: "'k env \<Rightarrow> u32 \<Rightarrow> u32 \<Rightarrow> 'k bus \<Rightarrow> 'k bus res" where
  "write_io e port w b =
     (if port = 0x00000000 then Inr (b\<lparr>terminal := terminal b @ [ucast w]\<rparr>)
      else if 0x80000000 \<le> port \<and> port \<le> 0x8000031F then write_overlay_port port w b
      else if 0x80000400 \<le> port \<and> port \<le> 0x80000401 then write_mouse_port port w b
      else if port = 0x80000600 then
        Inr (b\<lparr>audio := (audio b)\<lparr>playing := (w \<noteq> 0), current_buffer_is_0 := True\<rparr>\<rparr>)
      else if 0x80001000 \<le> port \<and> port \<le> 0x80005003 then write_disk_port e port w b
      else Inr b)"

end
