(* ===== verification/Isa.thy ===== *)
theory Isa
  imports Prelude
begin

text \<open>
  The instruction set (\<open>fox32/src/cpu.rs\<close>): operands, sizes, conditions, instructions, and
  the decoder \<open>Instruction::from_half\<close> from the 16 bit opcode. The layout of the opcode is
  that of \<open>fox32/encoding.md\<close>: two bits of size, six of instruction, a zero bit, three of
  condition, two of destination and two of source.
\<close>

datatype size = SizeByte | SizeHalf | SizeWord

datatype operand =
    OpRegister
  | OpRegisterPtr
  | OpImmediate8
  | OpImmediate16
  | OpImmediate32
  | OpImmediatePtr size

datatype condition =
    CondAlways
  | CondZero
  | CondNotZero
  | CondCarry
  | CondNotCarry
  | CondGreaterThan
  | CondLessThanEqualTo

datatype (plugins only: code) instruction =
    I_Nop
  | I_Halt condition
  | I_Brk condition
  | I_Add size condition operand operand
  | I_Inc size condition operand
  | I_Sub size condition operand operand
  | I_Dec size condition operand
  | I_Mul size condition operand operand
  | I_Div size condition operand operand
  | I_Rem size condition operand operand
  | I_And size condition operand operand
  | I_Or size condition operand operand
  | I_Xor size condition operand operand
  | I_Not size condition operand
  | I_Sla size condition operand operand
  | I_Rol size condition operand operand
  | I_Sra size condition operand operand
  | I_Srl size condition operand operand
  | I_Ror size condition operand operand
  | I_Bse size condition operand operand
  | I_Bcl size condition operand operand
  | I_Bts size condition operand operand
  | I_Cmp size condition operand operand
  | I_Mov size condition operand operand
  | I_Movz size condition operand operand
  | I_Jmp condition operand
  | I_Call condition operand
  | I_Loop condition operand
  | I_Rjmp condition operand
  | I_Rcall condition operand
  | I_Rloop condition operand
  | I_Rta condition operand operand
  | I_Push size condition operand
  | I_Pop size condition operand
  | I_Ret condition
  | I_Reti condition
  | I_In condition operand operand
  | I_Out condition operand operand
  | I_Ise condition
  | I_Icl condition

section \<open>The fields of an opcode\<close>

definition decode_size :: "u16 \<Rightarrow> size option" where
  "decode_size half =
     (let bits = (ucast (drop_bit 14 half) :: u8) AND 3 in
      if bits = 0 then Some SizeByte
      else if bits = 1 then Some SizeHalf
      else if bits = 2 then Some SizeWord
      else None)"

definition decode_source :: "size \<Rightarrow> u16 \<Rightarrow> operand option" where
  "decode_source sz half =
     (let bits = (ucast (half AND 0x000F) :: u8) AND 3 in
      if bits = 0 then Some OpRegister
      else if bits = 1 then Some OpRegisterPtr
      else if bits = 2 then
        Some (case sz of
          SizeByte \<Rightarrow> OpImmediate8 | SizeHalf \<Rightarrow> OpImmediate16 | SizeWord \<Rightarrow> OpImmediate32)
      else if bits = 3 then Some (OpImmediatePtr sz)
      else None)"

definition decode_destination :: "size \<Rightarrow> u16 \<Rightarrow> operand option" where
  "decode_destination sz half =
     (let bits = (ucast (drop_bit 2 (half AND 0x000F)) :: u8) AND 3 in
      if bits = 0 then Some OpRegister
      else if bits = 1 then Some OpRegisterPtr
      else if bits = 3 then Some (OpImmediatePtr sz)
      else None)"

definition decode_condition :: "u16 \<Rightarrow> condition option" where
  "decode_condition half =
     (let bits = (ucast (half AND 0x00F0) :: u8) in
      if bits = 0x00 then Some CondAlways
      else if bits = 0x10 then Some CondZero
      else if bits = 0x20 then Some CondNotZero
      else if bits = 0x30 then Some CondCarry
      else if bits = 0x40 then Some CondNotCarry
      else if bits = 0x50 then Some CondGreaterThan
      else if bits = 0x60 then Some CondLessThanEqualTo
      else None)"

definition decode_opcode ::
  "u8 \<Rightarrow> size \<Rightarrow> condition \<Rightarrow> operand \<Rightarrow> operand \<Rightarrow> instruction option" where
  "decode_opcode opcode sz condition destination source =
     (if opcode = 0x00 then Some I_Nop
      else if opcode = 0x10 then Some (I_Halt condition)
      else if opcode = 0x20 then Some (I_Brk condition)
      else if opcode = 0x01 then Some (I_Add sz condition destination source)
      else if opcode = 0x11 then Some (I_Inc sz condition source)
      else if opcode = 0x21 then Some (I_Sub sz condition destination source)
      else if opcode = 0x31 then Some (I_Dec sz condition source)
      else if opcode = 0x02 then Some (I_Mul sz condition destination source)
      else if opcode = 0x22 then Some (I_Div sz condition destination source)
      else if opcode = 0x32 then Some (I_Rem sz condition destination source)
      else if opcode = 0x03 then Some (I_And sz condition destination source)
      else if opcode = 0x13 then Some (I_Or sz condition destination source)
      else if opcode = 0x23 then Some (I_Xor sz condition destination source)
      else if opcode = 0x33 then Some (I_Not sz condition source)
      else if opcode = 0x04 then Some (I_Sla sz condition destination source)
      else if opcode = 0x24 then Some (I_Rol sz condition destination source)
      else if opcode = 0x05 then Some (I_Sra sz condition destination source)
      else if opcode = 0x15 then Some (I_Srl sz condition destination source)
      else if opcode = 0x25 then Some (I_Ror sz condition destination source)
      else if opcode = 0x06 then Some (I_Bse sz condition destination source)
      else if opcode = 0x16 then Some (I_Bcl sz condition destination source)
      else if opcode = 0x26 then Some (I_Bts sz condition destination source)
      else if opcode = 0x07 then Some (I_Cmp sz condition destination source)
      else if opcode = 0x17 then Some (I_Mov sz condition destination source)
      else if opcode = 0x27 then Some (I_Movz sz condition destination source)
      else if opcode = 0x08 then Some (I_Jmp condition source)
      else if opcode = 0x18 then Some (I_Call condition source)
      else if opcode = 0x28 then Some (I_Loop condition source)
      else if opcode = 0x09 then Some (I_Rjmp condition source)
      else if opcode = 0x19 then Some (I_Rcall condition source)
      else if opcode = 0x29 then Some (I_Rloop condition source)
      else if opcode = 0x39 then Some (I_Rta condition destination source)
      else if opcode = 0x0A then Some (I_Push sz condition source)
      else if opcode = 0x1A then Some (I_Pop sz condition source)
      else if opcode = 0x2A then Some (I_Ret condition)
      else if opcode = 0x3A then Some (I_Reti condition)
      else if opcode = 0x0B then Some (I_In condition destination source)
      else if opcode = 0x1B then Some (I_Out condition destination source)
      else if opcode = 0x0C then Some (I_Ise condition)
      else if opcode = 0x1C then Some (I_Icl condition)
      else None)"

definition from_half :: "u16 \<Rightarrow> instruction option" where
  "from_half half =
     Option.bind (decode_size half) (\<lambda>sz.
     let opcode = (ucast (drop_bit 8 half) :: u8) AND 0x3F in
     Option.bind (decode_source sz half) (\<lambda>source.
     Option.bind (decode_destination sz half) (\<lambda>destination.
     Option.bind (decode_condition half) (\<lambda>condition.
     decode_opcode opcode sz condition destination source))))"

end
