(* ===== verification/Cpu.thy ===== *)
theory Cpu
  imports Bus Isa
begin

text \<open>
  The state of the processor (\<open>struct Cpu\<close> of \<open>fox32/src/cpu.rs\<close>) and the operations every
  instruction is built from: condition checks, register access, memory access, the stack,
  operand fetching, and the entry into interrupts and exceptions.
\<close>

section \<open>State\<close>

record flag =
  flag_interrupt :: bool
  flag_carry :: bool
  flag_zero :: bool

record 'k cpu =
  instruction_pointer :: u32
  stack_pointer :: u32
  register :: "u32 list"
  flag :: flag
  halted :: bool
  bus :: "'k bus"

definition cpu_new :: "'k bus \<Rightarrow> 'k cpu" where
  "cpu_new b =
     \<lparr>instruction_pointer = 0xF0000000, stack_pointer = 0x00000000, register = replicate 32 0,
      flag = \<lparr>flag_interrupt = False, flag_carry = False, flag_zero = False\<rparr>, halted = False,
      bus = b\<rparr>"

datatype exception = DivideByZero | InvalidOpcode u32

datatype interrupt = InterruptException exception | InterruptRequest u8

section \<open>Flags\<close>

definition u8_of_flag :: "flag \<Rightarrow> u8" where
  "u8_of_flag f =
     push_bit 2 (if flag_interrupt f then 1 else 0) OR
     push_bit 1 (if flag_carry f then 1 else 0) OR
     push_bit 0 (if flag_zero f then 1 else 0)"

definition flag_of_u8 :: "u8 \<Rightarrow> flag" where
  "flag_of_u8 byte =
     \<lparr>flag_interrupt = drop_bit 2 byte AND 1 \<noteq> 0, flag_carry = drop_bit 1 byte AND 1 \<noteq> 0,
      flag_zero = drop_bit 0 byte AND 1 \<noteq> 0\<rparr>"

definition check_condition :: "'k cpu \<Rightarrow> condition \<Rightarrow> bool" where
  "check_condition c condition =
     (case condition of
        CondAlways \<Rightarrow> True
      | CondZero \<Rightarrow> flag_zero (flag c)
      | CondNotZero \<Rightarrow> \<not> flag_zero (flag c)
      | CondCarry \<Rightarrow> flag_carry (flag c)
      | CondNotCarry \<Rightarrow> \<not> flag_carry (flag c)
      | CondGreaterThan \<Rightarrow> \<not> flag_carry (flag c) \<and> \<not> flag_zero (flag c)
      | CondLessThanEqualTo \<Rightarrow> flag_carry (flag c) \<or> flag_zero (flag c))"

definition relative_to_absolute :: "'k cpu \<Rightarrow> u32 \<Rightarrow> u32" where
  "relative_to_absolute c relative_address = instruction_pointer c + relative_address"

section \<open>Registers\<close>

definition read_register :: "'k cpu \<Rightarrow> u8 \<Rightarrow> u32 res" where
  "read_register c r =
     (if r \<le> 31 then Inr (register c ! unat r)
      else if r = 32 then Inr (stack_pointer c)
      else Inl (InvalidRegister r))"

definition write_register :: "'k cpu \<Rightarrow> u8 \<Rightarrow> u32 \<Rightarrow> 'k cpu res" where
  "write_register c r w =
     (if r \<le> 31 then Inr (c\<lparr>register := (register c)[unat r := w]\<rparr>)
      else if r = 32 then Inr (c\<lparr>stack_pointer := w\<rparr>)
      else Inl (InvalidRegister r))"

section \<open>Memory through the bus\<close>

definition mem_read_8 :: "'k cpu \<Rightarrow> u32 \<Rightarrow> u8 res" where
  "mem_read_8 c a = read_8 (memory (bus c)) a"

definition mem_read_16 :: "'k cpu \<Rightarrow> u32 \<Rightarrow> u16 res" where
  "mem_read_16 c a = read_16 (memory (bus c)) a"

definition mem_read_32 :: "'k cpu \<Rightarrow> u32 \<Rightarrow> u32 res" where
  "mem_read_32 c a = read_32 (memory (bus c)) a"

definition set_memory :: "'k cpu \<Rightarrow> memory \<Rightarrow> 'k cpu" where
  "set_memory c m = c\<lparr>bus := (bus c)\<lparr>memory := m\<rparr>\<rparr>"

definition mem_write_8 :: "'k cpu \<Rightarrow> u32 \<Rightarrow> u8 \<Rightarrow> 'k cpu res" where
  "mem_write_8 c a v = rbind (write_8 (memory (bus c)) a v) (\<lambda>m. Inr (set_memory c m))"

definition mem_write_16 :: "'k cpu \<Rightarrow> u32 \<Rightarrow> u16 \<Rightarrow> 'k cpu res" where
  "mem_write_16 c a v = rbind (write_16 (memory (bus c)) a v) (\<lambda>m. Inr (set_memory c m))"

definition mem_write_32 :: "'k cpu \<Rightarrow> u32 \<Rightarrow> u32 \<Rightarrow> 'k cpu res" where
  "mem_write_32 c a v = rbind (write_32 (memory (bus c)) a v) (\<lambda>m. Inr (set_memory c m))"

section \<open>Stack\<close>

definition push_stack_8 :: "'k cpu \<Rightarrow> u8 \<Rightarrow> 'k cpu res" where
  "push_stack_8 c byte =
     (let c = c\<lparr>stack_pointer := fst (overflowing_sub (stack_pointer c) 1)\<rparr>
      in mem_write_8 c (stack_pointer c) byte)"

definition pop_stack_8 :: "'k cpu \<Rightarrow> (u8 \<times> 'k cpu) res" where
  "pop_stack_8 c =
     rbind (mem_read_8 c (stack_pointer c)) (\<lambda>byte.
     Inr (byte, c\<lparr>stack_pointer := fst (overflowing_add (stack_pointer c) 1)\<rparr>))"

definition push_stack_16 :: "'k cpu \<Rightarrow> u16 \<Rightarrow> 'k cpu res" where
  "push_stack_16 c half =
     (let c = c\<lparr>stack_pointer := fst (overflowing_sub (stack_pointer c) 2)\<rparr>
      in mem_write_16 c (stack_pointer c) half)"

definition pop_stack_16 :: "'k cpu \<Rightarrow> (u16 \<times> 'k cpu) res" where
  "pop_stack_16 c =
     rbind (mem_read_16 c (stack_pointer c)) (\<lambda>half.
     Inr (half, c\<lparr>stack_pointer := fst (overflowing_add (stack_pointer c) 2)\<rparr>))"

definition push_stack_32 :: "'k cpu \<Rightarrow> u32 \<Rightarrow> 'k cpu res" where
  "push_stack_32 c word =
     (let c = c\<lparr>stack_pointer := fst (overflowing_sub (stack_pointer c) 4)\<rparr>
      in mem_write_32 c (stack_pointer c) word)"

definition pop_stack_32 :: "'k cpu \<Rightarrow> (u32 \<times> 'k cpu) res" where
  "pop_stack_32 c =
     rbind (mem_read_32 c (stack_pointer c)) (\<lambda>word.
     Inr (word, c\<lparr>stack_pointer := fst (overflowing_add (stack_pointer c) 4)\<rparr>))"

section \<open>Interrupts and exceptions\<close>

definition set_interrupt_flag :: "bool \<Rightarrow> 'k cpu \<Rightarrow> 'k cpu" where
  "set_interrupt_flag v c = c\<lparr>flag := (flag c)\<lparr>flag_interrupt := v\<rparr>\<rparr>"

definition handle_interrupt :: "'k env \<Rightarrow> u16 \<Rightarrow> 'k cpu \<Rightarrow> 'k cpu res" where
  "handle_interrupt e vector c =
     rbind (checked_times (overflow_checks e) (ucast vector) 4) (\<lambda>address_of_pointer.
     rbind (mem_read_32 c address_of_pointer) (\<lambda>address.
     rbind (push_stack_32 c (instruction_pointer c)) (\<lambda>c.
     rbind (push_stack_8 c (u8_of_flag (flag c))) (\<lambda>c.
     let c = set_interrupt_flag False c
     in Inr (c\<lparr>instruction_pointer := address\<rparr>)))))"

definition handle_exception :: "'k env \<Rightarrow> u16 \<Rightarrow> u32 option \<Rightarrow> 'k cpu \<Rightarrow> 'k cpu res" where
  "handle_exception e vector operand c =
     rbind (checked_plus (overflow_checks e) 256 vector) (\<lambda>index.
     rbind (checked_times (overflow_checks e) (ucast index) 4) (\<lambda>address_of_pointer.
     rbind (mem_read_32 c address_of_pointer) (\<lambda>address.
     rbind (push_stack_32 c (instruction_pointer c)) (\<lambda>c.
     rbind (push_stack_8 c (u8_of_flag (flag c))) (\<lambda>c.
     rbind (case operand of Some w \<Rightarrow> push_stack_32 c w | None \<Rightarrow> Inr c) (\<lambda>c.
     let c = set_interrupt_flag False c
     in Inr (c\<lparr>instruction_pointer := address\<rparr>)))))))"

definition cpu_interrupt :: "'k env \<Rightarrow> interrupt \<Rightarrow> 'k cpu \<Rightarrow> 'k cpu res" where
  "cpu_interrupt e i c =
     (if flag_interrupt (flag c) then
        (case i of
           InterruptRequest vector \<Rightarrow> handle_interrupt e (ucast vector) c
         | InterruptException exception \<Rightarrow>
             (case exception of
                DivideByZero \<Rightarrow> handle_exception e 0 None c
              | InvalidOpcode opcode \<Rightarrow> handle_exception e 1 (Some opcode) c))
      else Inr c)"

section \<open>Operands\<close>

text \<open>
  \<open>self.instruction_pointer + offset\<close>, and the reads of the instruction stream at it.
\<close>

definition ip_plus :: "'k env \<Rightarrow> 'k cpu \<Rightarrow> u32 \<Rightarrow> u32 res" where
  "ip_plus e c offset = checked_plus (overflow_checks e) (instruction_pointer c) offset"

definition fetch_8 :: "'k env \<Rightarrow> 'k cpu \<Rightarrow> u32 \<Rightarrow> u8 res" where
  "fetch_8 e c offset = rbind (ip_plus e c offset) (mem_read_8 c)"

definition fetch_16 :: "'k env \<Rightarrow> 'k cpu \<Rightarrow> u32 \<Rightarrow> u16 res" where
  "fetch_16 e c offset = rbind (ip_plus e c offset) (mem_read_16 c)"

definition fetch_32 :: "'k env \<Rightarrow> 'k cpu \<Rightarrow> u32 \<Rightarrow> u32 res" where
  "fetch_32 e c offset = rbind (ip_plus e c offset) (mem_read_32 c)"

definition read_source :: "'k env \<Rightarrow> 'k cpu \<Rightarrow> operand \<Rightarrow> (u32 \<times> u32) res" where
  "read_source e c source =
     (let offset = 2 in
      case source of
        OpRegister \<Rightarrow>
          rbind (fetch_8 e c offset) (\<lambda>reg.
          rbind (read_register c reg) (\<lambda>value. Inr (value, offset + 1)))
      | OpRegisterPtr \<Rightarrow>
          rbind (fetch_8 e c offset) (\<lambda>reg.
          rbind (read_register c reg) (\<lambda>pointer.
          rbind (mem_read_32 c pointer) (\<lambda>value. Inr (value, offset + 1))))
      | OpImmediate8 \<Rightarrow>
          rbind (fetch_8 e c offset) (\<lambda>value. Inr (ucast value, offset + 1))
      | OpImmediate16 \<Rightarrow>
          rbind (fetch_16 e c offset) (\<lambda>value. Inr (ucast value, offset + 2))
      | OpImmediate32 \<Rightarrow>
          rbind (fetch_32 e c offset) (\<lambda>value. Inr (value, offset + 4))
      | OpImmediatePtr sz \<Rightarrow>
          rbind (fetch_32 e c offset) (\<lambda>pointer.
          rbind (case sz of
                   SizeByte \<Rightarrow> rbind (mem_read_8 c pointer) (\<lambda>v. Inr (ucast v))
                 | SizeHalf \<Rightarrow> rbind (mem_read_16 c pointer) (\<lambda>v. Inr (ucast v))
                 | SizeWord \<Rightarrow> mem_read_32 c pointer) (\<lambda>value.
          Inr (value, offset + 4))))"

end
