(* ===== verification/Alu.thy ===== *)
theory Alu
  imports Cpu
begin

text \<open>
  The arithmetic, logic, shift, bit and compare arms of \<open>Cpu::execute_instruction\<close>
  (\<open>fox32/src/cpu.rs\<close>, lines 302 to 2167). Every arm has the same three destinations (a
  register, the memory a register points to, the memory at an immediate address), each at
  three sizes, and returns the next instruction pointer. What differs between the arms is the
  operation, and whether it is computed before the condition is tested: an arm that computes
  first panics on a bad operand even when its condition is false.

  An operation returns its result, and the new zero and carry flags where it sets them.
\<close>

section \<open>Operations\<close>

type_synonym 'a outcome = "'a word \<times> bool option \<times> bool option"

definition alu_add :: "u32 \<Rightarrow> 'a::len word \<Rightarrow> 'a outcome res" where
  "alu_add s x =
     (let r = overflowing_add x (ucast s) in Inr (fst r, Some (fst r = 0), Some (snd r)))"

definition alu_inc :: "'a::len word \<Rightarrow> 'a outcome res" where
  "alu_inc x = (let r = overflowing_add x 1 in Inr (fst r, Some (fst r = 0), Some (snd r)))"

definition alu_sub :: "u32 \<Rightarrow> 'a::len word \<Rightarrow> 'a outcome res" where
  "alu_sub s x =
     (let r = overflowing_sub x (ucast s) in Inr (fst r, Some (fst r = 0), Some (snd r)))"

definition alu_dec :: "'a::len word \<Rightarrow> 'a outcome res" where
  "alu_dec x = (let r = overflowing_sub x 1 in Inr (fst r, Some (fst r = 0), Some (snd r)))"

definition alu_mul :: "u32 \<Rightarrow> 'a::len word \<Rightarrow> 'a outcome res" where
  "alu_mul s x =
     (let r = overflowing_mul x (ucast s) in Inr (fst r, Some (fst r = 0), Some (snd r)))"

definition alu_div :: "u32 \<Rightarrow> 'a::len word \<Rightarrow> 'a outcome res" where
  "alu_div s x = rbind (overflowing_div x (ucast s)) (\<lambda>r. Inr (fst r, Some (fst r = 0), None))"

definition alu_rem :: "u32 \<Rightarrow> 'a::len word \<Rightarrow> 'a outcome res" where
  "alu_rem s x = rbind (rust_rem x (ucast s)) (\<lambda>r. Inr (r, Some (r = 0), None))"

definition alu_and :: "u32 \<Rightarrow> 'a::len word \<Rightarrow> 'a outcome res" where
  "alu_and s x = (let r = x AND ucast s in Inr (r, Some (r = 0), None))"

definition alu_or :: "u32 \<Rightarrow> 'a::len word \<Rightarrow> 'a outcome res" where
  "alu_or s x = (let r = x OR ucast s in Inr (r, Some (r = 0), None))"

definition alu_xor :: "u32 \<Rightarrow> 'a::len word \<Rightarrow> 'a outcome res" where
  "alu_xor s x = (let r = x XOR ucast s in Inr (r, Some (r = 0), None))"

definition alu_not :: "'a::len word \<Rightarrow> 'a outcome res" where
  "alu_not x = (let r = NOT x in Inr (r, Some (r = 0), None))"

text \<open>
  The shifts and rotations take the carry from the amount, not from the value: its bit 7, 15
  or 31 when moving left, its bit 0 when moving right.
\<close>

definition amount_top_bit :: "'a::len itself \<Rightarrow> u32 \<Rightarrow> bool" where
  "amount_top_bit t s = (s AND push_bit (LENGTH('a) - 1) 1 \<noteq> 0)"

definition amount_low_bit :: "u32 \<Rightarrow> bool" where
  "amount_low_bit s = (s AND 1 \<noteq> 0)"

definition alu_sla :: "bool \<Rightarrow> u32 \<Rightarrow> 'a::len word \<Rightarrow> 'a outcome res" where
  "alu_sla chk s x =
     rbind (rust_shl chk x s) (\<lambda>r. Inr (r, Some (r = 0), Some (amount_top_bit TYPE('a) s)))"

definition alu_sra :: "bool \<Rightarrow> u32 \<Rightarrow> 'a::len word \<Rightarrow> 'a outcome res" where
  "alu_sra chk s x =
     rbind (rust_shr_i32 chk x s) (\<lambda>r. Inr (r, Some (r = 0), Some (amount_low_bit s)))"

definition alu_srl :: "bool \<Rightarrow> u32 \<Rightarrow> 'a::len word \<Rightarrow> 'a outcome res" where
  "alu_srl chk s x =
     rbind (rust_shr chk x s) (\<lambda>r. Inr (r, Some (r = 0), Some (amount_low_bit s)))"

definition alu_rol :: "u32 \<Rightarrow> 'a::len word \<Rightarrow> 'a outcome res" where
  "alu_rol s x =
     (let r = rotate_left x s in Inr (r, Some (r = 0), Some (amount_top_bit TYPE('a) s)))"

definition alu_ror :: "u32 \<Rightarrow> 'a::len word \<Rightarrow> 'a outcome res" where
  "alu_ror s x =
     (let r = rotate_right x s in Inr (r, Some (r = 0), Some (amount_low_bit s)))"

definition alu_bse :: "bool \<Rightarrow> u32 \<Rightarrow> 'a::len word \<Rightarrow> 'a outcome res" where
  "alu_bse chk s x = rbind (rust_shl chk 1 s) (\<lambda>mask. Inr (x OR mask, None, None))"

definition alu_bcl :: "bool \<Rightarrow> u32 \<Rightarrow> 'a::len word \<Rightarrow> 'a outcome res" where
  "alu_bcl chk s x = rbind (rust_shl chk 1 s) (\<lambda>mask. Inr (x AND NOT mask, None, None))"

definition alu_bts :: "bool \<Rightarrow> u32 \<Rightarrow> 'a::len word \<Rightarrow> 'a outcome res" where
  "alu_bts chk s x =
     rbind (rust_shl chk 1 s) (\<lambda>mask. let r = x AND mask in Inr (r, Some (r = 0), None))"

definition alu_cmp :: "u32 \<Rightarrow> 'a::len word \<Rightarrow> 'a outcome res" where
  "alu_cmp s x =
     (let r = overflowing_sub x (ucast s) in Inr (fst r, Some (fst r = 0), Some (snd r)))"

section \<open>Destinations\<close>

text \<open>
  \<open>load\<close> computes the operation on the destination's value (\<open>let result = ..\<close>), \<open>store\<close>
  writes the result back and sets the flags. A byte or half written to a register keeps the
  register's high bits.
\<close>

definition set_flags :: "bool option \<Rightarrow> bool option \<Rightarrow> 'k cpu \<Rightarrow> 'k cpu" where
  "set_flags z cy c =
     c\<lparr>flag := (flag c)\<lparr>flag_zero := (case z of Some b \<Rightarrow> b | None \<Rightarrow> flag_zero (flag c)),
                        flag_carry := (case cy of Some b \<Rightarrow> b | None \<Rightarrow> flag_carry (flag c))\<rparr>\<rparr>"

definition set_outcome_flags :: "'k cpu \<Rightarrow> 'a::len outcome \<Rightarrow> 'k cpu res" where
  "set_outcome_flags c outcome = (case outcome of (_, z, cy) \<Rightarrow> Inr (set_flags z cy c))"

definition reg_load_8 :: "'k cpu \<Rightarrow> u8 \<Rightarrow> (u8 \<Rightarrow> 8 outcome res) \<Rightarrow> 8 outcome res" where
  "reg_load_8 c reg f = rbind (read_register c reg) (\<lambda>v. f (ucast v))"

definition reg_load_16 :: "'k cpu \<Rightarrow> u8 \<Rightarrow> (u16 \<Rightarrow> 16 outcome res) \<Rightarrow> 16 outcome res" where
  "reg_load_16 c reg f = rbind (read_register c reg) (\<lambda>v. f (ucast v))"

definition reg_load_32 :: "'k cpu \<Rightarrow> u8 \<Rightarrow> (u32 \<Rightarrow> 32 outcome res) \<Rightarrow> 32 outcome res" where
  "reg_load_32 c reg f = rbind (read_register c reg) f"

definition reg_store_8 :: "'k cpu \<Rightarrow> u8 \<Rightarrow> 8 outcome \<Rightarrow> 'k cpu res" where
  "reg_store_8 c reg outcome = (case outcome of (r, z, cy) \<Rightarrow>
     rbind (read_register c reg) (\<lambda>v.
     rbind (write_register c reg ((v AND 0xFFFFFF00) OR ucast r)) (\<lambda>c. Inr (set_flags z cy c))))"

definition reg_store_16 :: "'k cpu \<Rightarrow> u8 \<Rightarrow> 16 outcome \<Rightarrow> 'k cpu res" where
  "reg_store_16 c reg outcome = (case outcome of (r, z, cy) \<Rightarrow>
     rbind (read_register c reg) (\<lambda>v.
     rbind (write_register c reg ((v AND 0xFFFF0000) OR ucast r)) (\<lambda>c. Inr (set_flags z cy c))))"

definition reg_store_32 :: "'k cpu \<Rightarrow> u8 \<Rightarrow> 32 outcome \<Rightarrow> 'k cpu res" where
  "reg_store_32 c reg outcome = (case outcome of (r, z, cy) \<Rightarrow>
     rbind (write_register c reg r) (\<lambda>c. Inr (set_flags z cy c)))"

definition mem_load_8 :: "'k cpu \<Rightarrow> u32 \<Rightarrow> (u8 \<Rightarrow> 8 outcome res) \<Rightarrow> 8 outcome res" where
  "mem_load_8 c pointer f = rbind (mem_read_8 c pointer) f"

definition mem_load_16 :: "'k cpu \<Rightarrow> u32 \<Rightarrow> (u16 \<Rightarrow> 16 outcome res) \<Rightarrow> 16 outcome res" where
  "mem_load_16 c pointer f = rbind (mem_read_16 c pointer) f"

definition mem_load_32 :: "'k cpu \<Rightarrow> u32 \<Rightarrow> (u32 \<Rightarrow> 32 outcome res) \<Rightarrow> 32 outcome res" where
  "mem_load_32 c pointer f = rbind (mem_read_32 c pointer) f"

definition mem_store_8 :: "'k cpu \<Rightarrow> u32 \<Rightarrow> 8 outcome \<Rightarrow> 'k cpu res" where
  "mem_store_8 c pointer outcome = (case outcome of (r, z, cy) \<Rightarrow>
     rbind (mem_write_8 c pointer r) (\<lambda>c. Inr (set_flags z cy c)))"

definition mem_store_16 :: "'k cpu \<Rightarrow> u32 \<Rightarrow> 16 outcome \<Rightarrow> 'k cpu res" where
  "mem_store_16 c pointer outcome = (case outcome of (r, z, cy) \<Rightarrow>
     rbind (mem_write_16 c pointer r) (\<lambda>c. Inr (set_flags z cy c)))"

definition mem_store_32 :: "'k cpu \<Rightarrow> u32 \<Rightarrow> 32 outcome \<Rightarrow> 'k cpu res" where
  "mem_store_32 c pointer outcome = (case outcome of (r, z, cy) \<Rightarrow>
     rbind (mem_write_32 c pointer r) (\<lambda>c. Inr (set_flags z cy c)))"

text \<open>The value of an arm: \<open>self.instruction_pointer + instruction_pointer_offset\<close>.\<close>

definition advance :: "'k env \<Rightarrow> u32 \<Rightarrow> 'k cpu \<Rightarrow> (u32 \<times> 'k cpu) res" where
  "advance e offset c = rbind (ip_plus e c offset) (\<lambda>next. Inr (next, c))"

section \<open>The arms\<close>

definition exec_add ::
  "'k env \<Rightarrow> size \<Rightarrow> condition \<Rightarrow> operand \<Rightarrow> operand \<Rightarrow> 'k cpu \<Rightarrow> (u32 \<times> 'k cpu) res" where
  "exec_add e sz condition destination source c =
     rbind (read_source e c source) (\<lambda>(source_value, offset).
     let should_run = check_condition c condition in
     case destination of
       OpRegister \<Rightarrow>
         rbind (fetch_8 e c offset) (\<lambda>reg.
         rbind (case sz of
              SizeByte \<Rightarrow> (if should_run then rbind (reg_load_8 c reg (alu_add source_value)) (reg_store_8 c reg) else Inr c)
            | SizeHalf \<Rightarrow> (if should_run then rbind (reg_load_16 c reg (alu_add source_value)) (reg_store_16 c reg) else Inr c)
            | SizeWord \<Rightarrow> (if should_run then rbind (reg_load_32 c reg (alu_add source_value)) (reg_store_32 c reg) else Inr c)) (advance e (offset + 1)))
     | OpRegisterPtr \<Rightarrow>
         rbind (fetch_8 e c offset) (\<lambda>reg.
         rbind (read_register c reg) (\<lambda>pointer.
         rbind (case sz of
              SizeByte \<Rightarrow> rbind (mem_load_8 c pointer (alu_add source_value)) (\<lambda>result. if should_run then mem_store_8 c pointer result else Inr c)
            | SizeHalf \<Rightarrow> rbind (mem_load_16 c pointer (alu_add source_value)) (\<lambda>result. if should_run then mem_store_16 c pointer result else Inr c)
            | SizeWord \<Rightarrow> rbind (mem_load_32 c pointer (alu_add source_value)) (\<lambda>result. if should_run then mem_store_32 c pointer result else Inr c)) (advance e (offset + 1))))
     | OpImmediatePtr _ \<Rightarrow>
         rbind (fetch_32 e c offset) (\<lambda>pointer.
         rbind (case sz of
              SizeByte \<Rightarrow> rbind (mem_load_8 c pointer (alu_add source_value)) (\<lambda>result. if should_run then mem_store_8 c pointer result else Inr c)
            | SizeHalf \<Rightarrow> rbind (mem_load_16 c pointer (alu_add source_value)) (\<lambda>result. if should_run then mem_store_16 c pointer result else Inr c)
            | SizeWord \<Rightarrow> rbind (mem_load_32 c pointer (alu_add source_value)) (\<lambda>result. if should_run then mem_store_32 c pointer result else Inr c)) (advance e (offset + 4)))
     | _ \<Rightarrow> Inl ImmediateDestination)"

definition exec_inc ::
  "'k env \<Rightarrow> size \<Rightarrow> condition \<Rightarrow> operand \<Rightarrow> 'k cpu \<Rightarrow> (u32 \<times> 'k cpu) res" where
  "exec_inc e sz condition source c =
     (let offset = 2; should_run = check_condition c condition in
     case source of
       OpRegister \<Rightarrow>
         rbind (fetch_8 e c offset) (\<lambda>reg.
         rbind (case sz of
              SizeByte \<Rightarrow> (if should_run then rbind (reg_load_8 c reg (alu_inc)) (reg_store_8 c reg) else Inr c)
            | SizeHalf \<Rightarrow> (if should_run then rbind (reg_load_16 c reg (alu_inc)) (reg_store_16 c reg) else Inr c)
            | SizeWord \<Rightarrow> (if should_run then rbind (reg_load_32 c reg (alu_inc)) (reg_store_32 c reg) else Inr c)) (advance e (offset + 1)))
     | OpRegisterPtr \<Rightarrow>
         rbind (fetch_8 e c offset) (\<lambda>reg.
         rbind (read_register c reg) (\<lambda>pointer.
         rbind (case sz of
              SizeByte \<Rightarrow> (if should_run then rbind (mem_load_8 c pointer (alu_inc)) (mem_store_8 c pointer) else Inr c)
            | SizeHalf \<Rightarrow> (if should_run then rbind (mem_load_16 c pointer (alu_inc)) (mem_store_16 c pointer) else Inr c)
            | SizeWord \<Rightarrow> (if should_run then rbind (mem_load_32 c pointer (alu_inc)) (mem_store_32 c pointer) else Inr c)) (advance e (offset + 1))))
     | OpImmediatePtr _ \<Rightarrow>
         rbind (fetch_32 e c offset) (\<lambda>pointer.
         rbind (case sz of
              SizeByte \<Rightarrow> (if should_run then rbind (mem_load_8 c pointer (alu_inc)) (mem_store_8 c pointer) else Inr c)
            | SizeHalf \<Rightarrow> (if should_run then rbind (mem_load_16 c pointer (alu_inc)) (mem_store_16 c pointer) else Inr c)
            | SizeWord \<Rightarrow> (if should_run then rbind (mem_load_32 c pointer (alu_inc)) (mem_store_32 c pointer) else Inr c)) (advance e (offset + 4)))
     | _ \<Rightarrow> Inl ImmediateDestination)"

definition exec_sub ::
  "'k env \<Rightarrow> size \<Rightarrow> condition \<Rightarrow> operand \<Rightarrow> operand \<Rightarrow> 'k cpu \<Rightarrow> (u32 \<times> 'k cpu) res" where
  "exec_sub e sz condition destination source c =
     rbind (read_source e c source) (\<lambda>(source_value, offset).
     let should_run = check_condition c condition in
     case destination of
       OpRegister \<Rightarrow>
         rbind (fetch_8 e c offset) (\<lambda>reg.
         rbind (case sz of
              SizeByte \<Rightarrow> (if should_run then rbind (reg_load_8 c reg (alu_sub source_value)) (reg_store_8 c reg) else Inr c)
            | SizeHalf \<Rightarrow> (if should_run then rbind (reg_load_16 c reg (alu_sub source_value)) (reg_store_16 c reg) else Inr c)
            | SizeWord \<Rightarrow> (if should_run then rbind (reg_load_32 c reg (alu_sub source_value)) (reg_store_32 c reg) else Inr c)) (advance e (offset + 1)))
     | OpRegisterPtr \<Rightarrow>
         rbind (fetch_8 e c offset) (\<lambda>reg.
         rbind (read_register c reg) (\<lambda>pointer.
         rbind (case sz of
              SizeByte \<Rightarrow> rbind (mem_load_8 c pointer (alu_sub source_value)) (\<lambda>result. if should_run then mem_store_8 c pointer result else Inr c)
            | SizeHalf \<Rightarrow> rbind (mem_load_16 c pointer (alu_sub source_value)) (\<lambda>result. if should_run then mem_store_16 c pointer result else Inr c)
            | SizeWord \<Rightarrow> rbind (mem_load_32 c pointer (alu_sub source_value)) (\<lambda>result. if should_run then mem_store_32 c pointer result else Inr c)) (advance e (offset + 1))))
     | OpImmediatePtr _ \<Rightarrow>
         rbind (fetch_32 e c offset) (\<lambda>pointer.
         rbind (case sz of
              SizeByte \<Rightarrow> rbind (mem_load_8 c pointer (alu_sub source_value)) (\<lambda>result. if should_run then mem_store_8 c pointer result else Inr c)
            | SizeHalf \<Rightarrow> rbind (mem_load_16 c pointer (alu_sub source_value)) (\<lambda>result. if should_run then mem_store_16 c pointer result else Inr c)
            | SizeWord \<Rightarrow> rbind (mem_load_32 c pointer (alu_sub source_value)) (\<lambda>result. if should_run then mem_store_32 c pointer result else Inr c)) (advance e (offset + 4)))
     | _ \<Rightarrow> Inl ImmediateDestination)"

definition exec_dec ::
  "'k env \<Rightarrow> size \<Rightarrow> condition \<Rightarrow> operand \<Rightarrow> 'k cpu \<Rightarrow> (u32 \<times> 'k cpu) res" where
  "exec_dec e sz condition source c =
     (let offset = 2; should_run = check_condition c condition in
     case source of
       OpRegister \<Rightarrow>
         rbind (fetch_8 e c offset) (\<lambda>reg.
         rbind (case sz of
              SizeByte \<Rightarrow> (if should_run then rbind (reg_load_8 c reg (alu_dec)) (reg_store_8 c reg) else Inr c)
            | SizeHalf \<Rightarrow> (if should_run then rbind (reg_load_16 c reg (alu_dec)) (reg_store_16 c reg) else Inr c)
            | SizeWord \<Rightarrow> (if should_run then rbind (reg_load_32 c reg (alu_dec)) (reg_store_32 c reg) else Inr c)) (advance e (offset + 1)))
     | OpRegisterPtr \<Rightarrow>
         rbind (fetch_8 e c offset) (\<lambda>reg.
         rbind (read_register c reg) (\<lambda>pointer.
         rbind (case sz of
              SizeByte \<Rightarrow> (if should_run then rbind (mem_load_8 c pointer (alu_dec)) (mem_store_8 c pointer) else Inr c)
            | SizeHalf \<Rightarrow> (if should_run then rbind (mem_load_16 c pointer (alu_dec)) (mem_store_16 c pointer) else Inr c)
            | SizeWord \<Rightarrow> (if should_run then rbind (mem_load_32 c pointer (alu_dec)) (mem_store_32 c pointer) else Inr c)) (advance e (offset + 1))))
     | OpImmediatePtr _ \<Rightarrow>
         rbind (fetch_32 e c offset) (\<lambda>pointer.
         rbind (case sz of
              SizeByte \<Rightarrow> (if should_run then rbind (mem_load_8 c pointer (alu_dec)) (mem_store_8 c pointer) else Inr c)
            | SizeHalf \<Rightarrow> (if should_run then rbind (mem_load_16 c pointer (alu_dec)) (mem_store_16 c pointer) else Inr c)
            | SizeWord \<Rightarrow> (if should_run then rbind (mem_load_32 c pointer (alu_dec)) (mem_store_32 c pointer) else Inr c)) (advance e (offset + 4)))
     | _ \<Rightarrow> Inl ImmediateDestination)"

definition exec_mul ::
  "'k env \<Rightarrow> size \<Rightarrow> condition \<Rightarrow> operand \<Rightarrow> operand \<Rightarrow> 'k cpu \<Rightarrow> (u32 \<times> 'k cpu) res" where
  "exec_mul e sz condition destination source c =
     rbind (read_source e c source) (\<lambda>(source_value, offset).
     let should_run = check_condition c condition in
     case destination of
       OpRegister \<Rightarrow>
         rbind (fetch_8 e c offset) (\<lambda>reg.
         rbind (case sz of
              SizeByte \<Rightarrow> (if should_run then rbind (reg_load_8 c reg (alu_mul source_value)) (reg_store_8 c reg) else Inr c)
            | SizeHalf \<Rightarrow> (if should_run then rbind (reg_load_16 c reg (alu_mul source_value)) (reg_store_16 c reg) else Inr c)
            | SizeWord \<Rightarrow> (if should_run then rbind (reg_load_32 c reg (alu_mul source_value)) (reg_store_32 c reg) else Inr c)) (advance e (offset + 1)))
     | OpRegisterPtr \<Rightarrow>
         rbind (fetch_8 e c offset) (\<lambda>reg.
         rbind (read_register c reg) (\<lambda>pointer.
         rbind (case sz of
              SizeByte \<Rightarrow> rbind (mem_load_8 c pointer (alu_mul source_value)) (\<lambda>result. if should_run then mem_store_8 c pointer result else Inr c)
            | SizeHalf \<Rightarrow> rbind (mem_load_16 c pointer (alu_mul source_value)) (\<lambda>result. if should_run then mem_store_16 c pointer result else Inr c)
            | SizeWord \<Rightarrow> rbind (mem_load_32 c pointer (alu_mul source_value)) (\<lambda>result. if should_run then mem_store_32 c pointer result else Inr c)) (advance e (offset + 1))))
     | OpImmediatePtr _ \<Rightarrow>
         rbind (fetch_32 e c offset) (\<lambda>pointer.
         rbind (case sz of
              SizeByte \<Rightarrow> rbind (mem_load_8 c pointer (alu_mul source_value)) (\<lambda>result. if should_run then mem_store_8 c pointer result else Inr c)
            | SizeHalf \<Rightarrow> rbind (mem_load_16 c pointer (alu_mul source_value)) (\<lambda>result. if should_run then mem_store_16 c pointer result else Inr c)
            | SizeWord \<Rightarrow> rbind (mem_load_32 c pointer (alu_mul source_value)) (\<lambda>result. if should_run then mem_store_32 c pointer result else Inr c)) (advance e (offset + 4)))
     | _ \<Rightarrow> Inl ImmediateDestination)"

definition exec_div ::
  "'k env \<Rightarrow> size \<Rightarrow> condition \<Rightarrow> operand \<Rightarrow> operand \<Rightarrow> 'k cpu \<Rightarrow> (u32 \<times> 'k cpu) res" where
  "exec_div e sz condition destination source c =
     rbind (read_source e c source) (\<lambda>(source_value, offset).
     let should_run = check_condition c condition in
     case destination of
       OpRegister \<Rightarrow>
         rbind (fetch_8 e c offset) (\<lambda>reg.
         rbind (case sz of
              SizeByte \<Rightarrow> (if should_run then rbind (reg_load_8 c reg (alu_div source_value)) (reg_store_8 c reg) else Inr c)
            | SizeHalf \<Rightarrow> (if should_run then rbind (reg_load_16 c reg (alu_div source_value)) (reg_store_16 c reg) else Inr c)
            | SizeWord \<Rightarrow> (if should_run then rbind (reg_load_32 c reg (alu_div source_value)) (reg_store_32 c reg) else Inr c)) (advance e (offset + 1)))
     | OpRegisterPtr \<Rightarrow>
         rbind (fetch_8 e c offset) (\<lambda>reg.
         rbind (read_register c reg) (\<lambda>pointer.
         rbind (case sz of
              SizeByte \<Rightarrow> rbind (mem_load_8 c pointer (alu_div source_value)) (\<lambda>result. if should_run then mem_store_8 c pointer result else Inr c)
            | SizeHalf \<Rightarrow> rbind (mem_load_16 c pointer (alu_div source_value)) (\<lambda>result. if should_run then mem_store_16 c pointer result else Inr c)
            | SizeWord \<Rightarrow> rbind (mem_load_32 c pointer (alu_div source_value)) (\<lambda>result. if should_run then mem_store_32 c pointer result else Inr c)) (advance e (offset + 1))))
     | OpImmediatePtr _ \<Rightarrow>
         rbind (fetch_32 e c offset) (\<lambda>pointer.
         rbind (case sz of
              SizeByte \<Rightarrow> rbind (mem_load_8 c pointer (alu_div source_value)) (\<lambda>result. if should_run then mem_store_8 c pointer result else Inr c)
            | SizeHalf \<Rightarrow> rbind (mem_load_16 c pointer (alu_div source_value)) (\<lambda>result. if should_run then mem_store_16 c pointer result else Inr c)
            | SizeWord \<Rightarrow> rbind (mem_load_32 c pointer (alu_div source_value)) (\<lambda>result. if should_run then mem_store_32 c pointer result else Inr c)) (advance e (offset + 4)))
     | _ \<Rightarrow> Inl ImmediateDestination)"

definition exec_rem ::
  "'k env \<Rightarrow> size \<Rightarrow> condition \<Rightarrow> operand \<Rightarrow> operand \<Rightarrow> 'k cpu \<Rightarrow> (u32 \<times> 'k cpu) res" where
  "exec_rem e sz condition destination source c =
     rbind (read_source e c source) (\<lambda>(source_value, offset).
     let should_run = check_condition c condition in
     case destination of
       OpRegister \<Rightarrow>
         rbind (fetch_8 e c offset) (\<lambda>reg.
         rbind (case sz of
              SizeByte \<Rightarrow> (if should_run then rbind (reg_load_8 c reg (alu_rem source_value)) (reg_store_8 c reg) else Inr c)
            | SizeHalf \<Rightarrow> (if should_run then rbind (reg_load_16 c reg (alu_rem source_value)) (reg_store_16 c reg) else Inr c)
            | SizeWord \<Rightarrow> (if should_run then rbind (reg_load_32 c reg (alu_rem source_value)) (reg_store_32 c reg) else Inr c)) (advance e (offset + 1)))
     | OpRegisterPtr \<Rightarrow>
         rbind (fetch_8 e c offset) (\<lambda>reg.
         rbind (read_register c reg) (\<lambda>pointer.
         rbind (case sz of
              SizeByte \<Rightarrow> rbind (mem_load_8 c pointer (alu_rem source_value)) (\<lambda>result. if should_run then mem_store_8 c pointer result else Inr c)
            | SizeHalf \<Rightarrow> rbind (mem_load_16 c pointer (alu_rem source_value)) (\<lambda>result. if should_run then mem_store_16 c pointer result else Inr c)
            | SizeWord \<Rightarrow> rbind (mem_load_32 c pointer (alu_rem source_value)) (\<lambda>result. if should_run then mem_store_32 c pointer result else Inr c)) (advance e (offset + 1))))
     | OpImmediatePtr _ \<Rightarrow>
         rbind (fetch_32 e c offset) (\<lambda>pointer.
         rbind (case sz of
              SizeByte \<Rightarrow> rbind (mem_load_8 c pointer (alu_rem source_value)) (\<lambda>result. if should_run then mem_store_8 c pointer result else Inr c)
            | SizeHalf \<Rightarrow> rbind (mem_load_16 c pointer (alu_rem source_value)) (\<lambda>result. if should_run then mem_store_16 c pointer result else Inr c)
            | SizeWord \<Rightarrow> rbind (mem_load_32 c pointer (alu_rem source_value)) (\<lambda>result. if should_run then mem_store_32 c pointer result else Inr c)) (advance e (offset + 4)))
     | _ \<Rightarrow> Inl ImmediateDestination)"

definition exec_and ::
  "'k env \<Rightarrow> size \<Rightarrow> condition \<Rightarrow> operand \<Rightarrow> operand \<Rightarrow> 'k cpu \<Rightarrow> (u32 \<times> 'k cpu) res" where
  "exec_and e sz condition destination source c =
     rbind (read_source e c source) (\<lambda>(source_value, offset).
     let should_run = check_condition c condition in
     case destination of
       OpRegister \<Rightarrow>
         rbind (fetch_8 e c offset) (\<lambda>reg.
         rbind (case sz of
              SizeByte \<Rightarrow> (if should_run then rbind (reg_load_8 c reg (alu_and source_value)) (reg_store_8 c reg) else Inr c)
            | SizeHalf \<Rightarrow> (if should_run then rbind (reg_load_16 c reg (alu_and source_value)) (reg_store_16 c reg) else Inr c)
            | SizeWord \<Rightarrow> (if should_run then rbind (reg_load_32 c reg (alu_and source_value)) (reg_store_32 c reg) else Inr c)) (advance e (offset + 1)))
     | OpRegisterPtr \<Rightarrow>
         rbind (fetch_8 e c offset) (\<lambda>reg.
         rbind (read_register c reg) (\<lambda>pointer.
         rbind (case sz of
              SizeByte \<Rightarrow> rbind (mem_load_8 c pointer (alu_and source_value)) (\<lambda>result. if should_run then mem_store_8 c pointer result else Inr c)
            | SizeHalf \<Rightarrow> rbind (mem_load_16 c pointer (alu_and source_value)) (\<lambda>result. if should_run then mem_store_16 c pointer result else Inr c)
            | SizeWord \<Rightarrow> rbind (mem_load_32 c pointer (alu_and source_value)) (\<lambda>result. if should_run then mem_store_32 c pointer result else Inr c)) (advance e (offset + 1))))
     | OpImmediatePtr _ \<Rightarrow>
         rbind (fetch_32 e c offset) (\<lambda>pointer.
         rbind (case sz of
              SizeByte \<Rightarrow> rbind (mem_load_8 c pointer (alu_and source_value)) (\<lambda>result. if should_run then mem_store_8 c pointer result else Inr c)
            | SizeHalf \<Rightarrow> rbind (mem_load_16 c pointer (alu_and source_value)) (\<lambda>result. if should_run then mem_store_16 c pointer result else Inr c)
            | SizeWord \<Rightarrow> rbind (mem_load_32 c pointer (alu_and source_value)) (\<lambda>result. if should_run then mem_store_32 c pointer result else Inr c)) (advance e (offset + 4)))
     | _ \<Rightarrow> Inl ImmediateDestination)"

definition exec_or ::
  "'k env \<Rightarrow> size \<Rightarrow> condition \<Rightarrow> operand \<Rightarrow> operand \<Rightarrow> 'k cpu \<Rightarrow> (u32 \<times> 'k cpu) res" where
  "exec_or e sz condition destination source c =
     rbind (read_source e c source) (\<lambda>(source_value, offset).
     let should_run = check_condition c condition in
     case destination of
       OpRegister \<Rightarrow>
         rbind (fetch_8 e c offset) (\<lambda>reg.
         rbind (case sz of
              SizeByte \<Rightarrow> (if should_run then rbind (reg_load_8 c reg (alu_or source_value)) (reg_store_8 c reg) else Inr c)
            | SizeHalf \<Rightarrow> (if should_run then rbind (reg_load_16 c reg (alu_or source_value)) (reg_store_16 c reg) else Inr c)
            | SizeWord \<Rightarrow> (if should_run then rbind (reg_load_32 c reg (alu_or source_value)) (reg_store_32 c reg) else Inr c)) (advance e (offset + 1)))
     | OpRegisterPtr \<Rightarrow>
         rbind (fetch_8 e c offset) (\<lambda>reg.
         rbind (read_register c reg) (\<lambda>pointer.
         rbind (case sz of
              SizeByte \<Rightarrow> rbind (mem_load_8 c pointer (alu_or source_value)) (\<lambda>result. if should_run then mem_store_8 c pointer result else Inr c)
            | SizeHalf \<Rightarrow> rbind (mem_load_16 c pointer (alu_or source_value)) (\<lambda>result. if should_run then mem_store_16 c pointer result else Inr c)
            | SizeWord \<Rightarrow> rbind (mem_load_32 c pointer (alu_or source_value)) (\<lambda>result. if should_run then mem_store_32 c pointer result else Inr c)) (advance e (offset + 1))))
     | OpImmediatePtr _ \<Rightarrow>
         rbind (fetch_32 e c offset) (\<lambda>pointer.
         rbind (case sz of
              SizeByte \<Rightarrow> rbind (mem_load_8 c pointer (alu_or source_value)) (\<lambda>result. if should_run then mem_store_8 c pointer result else Inr c)
            | SizeHalf \<Rightarrow> rbind (mem_load_16 c pointer (alu_or source_value)) (\<lambda>result. if should_run then mem_store_16 c pointer result else Inr c)
            | SizeWord \<Rightarrow> rbind (mem_load_32 c pointer (alu_or source_value)) (\<lambda>result. if should_run then mem_store_32 c pointer result else Inr c)) (advance e (offset + 4)))
     | _ \<Rightarrow> Inl ImmediateDestination)"

definition exec_xor ::
  "'k env \<Rightarrow> size \<Rightarrow> condition \<Rightarrow> operand \<Rightarrow> operand \<Rightarrow> 'k cpu \<Rightarrow> (u32 \<times> 'k cpu) res" where
  "exec_xor e sz condition destination source c =
     rbind (read_source e c source) (\<lambda>(source_value, offset).
     let should_run = check_condition c condition in
     case destination of
       OpRegister \<Rightarrow>
         rbind (fetch_8 e c offset) (\<lambda>reg.
         rbind (case sz of
              SizeByte \<Rightarrow> (if should_run then rbind (reg_load_8 c reg (alu_xor source_value)) (reg_store_8 c reg) else Inr c)
            | SizeHalf \<Rightarrow> (if should_run then rbind (reg_load_16 c reg (alu_xor source_value)) (reg_store_16 c reg) else Inr c)
            | SizeWord \<Rightarrow> (if should_run then rbind (reg_load_32 c reg (alu_xor source_value)) (reg_store_32 c reg) else Inr c)) (advance e (offset + 1)))
     | OpRegisterPtr \<Rightarrow>
         rbind (fetch_8 e c offset) (\<lambda>reg.
         rbind (read_register c reg) (\<lambda>pointer.
         rbind (case sz of
              SizeByte \<Rightarrow> rbind (mem_load_8 c pointer (alu_xor source_value)) (\<lambda>result. if should_run then mem_store_8 c pointer result else Inr c)
            | SizeHalf \<Rightarrow> rbind (mem_load_16 c pointer (alu_xor source_value)) (\<lambda>result. if should_run then mem_store_16 c pointer result else Inr c)
            | SizeWord \<Rightarrow> rbind (mem_load_32 c pointer (alu_xor source_value)) (\<lambda>result. if should_run then mem_store_32 c pointer result else Inr c)) (advance e (offset + 1))))
     | OpImmediatePtr _ \<Rightarrow>
         rbind (fetch_32 e c offset) (\<lambda>pointer.
         rbind (case sz of
              SizeByte \<Rightarrow> rbind (mem_load_8 c pointer (alu_xor source_value)) (\<lambda>result. if should_run then mem_store_8 c pointer result else Inr c)
            | SizeHalf \<Rightarrow> rbind (mem_load_16 c pointer (alu_xor source_value)) (\<lambda>result. if should_run then mem_store_16 c pointer result else Inr c)
            | SizeWord \<Rightarrow> rbind (mem_load_32 c pointer (alu_xor source_value)) (\<lambda>result. if should_run then mem_store_32 c pointer result else Inr c)) (advance e (offset + 4)))
     | _ \<Rightarrow> Inl ImmediateDestination)"

definition exec_not ::
  "'k env \<Rightarrow> size \<Rightarrow> condition \<Rightarrow> operand \<Rightarrow> 'k cpu \<Rightarrow> (u32 \<times> 'k cpu) res" where
  "exec_not e sz condition source c =
     (let offset = 2; should_run = check_condition c condition in
     case source of
       OpRegister \<Rightarrow>
         rbind (fetch_8 e c offset) (\<lambda>reg.
         rbind (case sz of
              SizeByte \<Rightarrow> (if should_run then rbind (reg_load_8 c reg (alu_not)) (reg_store_8 c reg) else Inr c)
            | SizeHalf \<Rightarrow> (if should_run then rbind (reg_load_16 c reg (alu_not)) (reg_store_16 c reg) else Inr c)
            | SizeWord \<Rightarrow> (if should_run then rbind (reg_load_32 c reg (alu_not)) (reg_store_32 c reg) else Inr c)) (advance e (offset + 1)))
     | OpRegisterPtr \<Rightarrow>
         rbind (fetch_8 e c offset) (\<lambda>reg.
         rbind (read_register c reg) (\<lambda>pointer.
         rbind (case sz of
              SizeByte \<Rightarrow> rbind (mem_load_8 c pointer (alu_not)) (\<lambda>result. if should_run then mem_store_8 c pointer result else Inr c)
            | SizeHalf \<Rightarrow> rbind (mem_load_16 c pointer (alu_not)) (\<lambda>result. if should_run then mem_store_16 c pointer result else Inr c)
            | SizeWord \<Rightarrow> rbind (mem_load_32 c pointer (alu_not)) (\<lambda>result. if should_run then mem_store_32 c pointer result else Inr c)) (advance e (offset + 1))))
     | OpImmediatePtr _ \<Rightarrow>
         rbind (fetch_32 e c offset) (\<lambda>pointer.
         rbind (case sz of
              SizeByte \<Rightarrow> rbind (mem_load_8 c pointer (alu_not)) (\<lambda>result. if should_run then mem_store_8 c pointer result else Inr c)
            | SizeHalf \<Rightarrow> rbind (mem_load_16 c pointer (alu_not)) (\<lambda>result. if should_run then mem_store_16 c pointer result else Inr c)
            | SizeWord \<Rightarrow> rbind (mem_load_32 c pointer (alu_not)) (\<lambda>result. if should_run then mem_store_32 c pointer result else Inr c)) (advance e (offset + 4)))
     | _ \<Rightarrow> Inl ImmediateDestination)"

definition exec_sla ::
  "'k env \<Rightarrow> size \<Rightarrow> condition \<Rightarrow> operand \<Rightarrow> operand \<Rightarrow> 'k cpu \<Rightarrow> (u32 \<times> 'k cpu) res" where
  "exec_sla e sz condition destination source c =
     rbind (read_source e c source) (\<lambda>(source_value, offset).
     let should_run = check_condition c condition in
     case destination of
       OpRegister \<Rightarrow>
         rbind (fetch_8 e c offset) (\<lambda>reg.
         rbind (case sz of
              SizeByte \<Rightarrow> (if should_run then rbind (reg_load_8 c reg (alu_sla (overflow_checks e) source_value)) (reg_store_8 c reg) else Inr c)
            | SizeHalf \<Rightarrow> (if should_run then rbind (reg_load_16 c reg (alu_sla (overflow_checks e) source_value)) (reg_store_16 c reg) else Inr c)
            | SizeWord \<Rightarrow> (if should_run then rbind (reg_load_32 c reg (alu_sla (overflow_checks e) source_value)) (reg_store_32 c reg) else Inr c)) (advance e (offset + 1)))
     | OpRegisterPtr \<Rightarrow>
         rbind (fetch_8 e c offset) (\<lambda>reg.
         rbind (read_register c reg) (\<lambda>pointer.
         rbind (case sz of
              SizeByte \<Rightarrow> rbind (mem_load_8 c pointer (alu_sla (overflow_checks e) source_value)) (\<lambda>result. if should_run then mem_store_8 c pointer result else Inr c)
            | SizeHalf \<Rightarrow> rbind (mem_load_16 c pointer (alu_sla (overflow_checks e) source_value)) (\<lambda>result. if should_run then mem_store_16 c pointer result else Inr c)
            | SizeWord \<Rightarrow> rbind (mem_load_32 c pointer (alu_sla (overflow_checks e) source_value)) (\<lambda>result. if should_run then mem_store_32 c pointer result else Inr c)) (advance e (offset + 1))))
     | OpImmediatePtr _ \<Rightarrow>
         rbind (fetch_32 e c offset) (\<lambda>pointer.
         rbind (case sz of
              SizeByte \<Rightarrow> rbind (mem_load_8 c pointer (alu_sla (overflow_checks e) source_value)) (\<lambda>result. if should_run then mem_store_8 c pointer result else Inr c)
            | SizeHalf \<Rightarrow> rbind (mem_load_16 c pointer (alu_sla (overflow_checks e) source_value)) (\<lambda>result. if should_run then mem_store_16 c pointer result else Inr c)
            | SizeWord \<Rightarrow> rbind (mem_load_32 c pointer (alu_sla (overflow_checks e) source_value)) (\<lambda>result. if should_run then mem_store_32 c pointer result else Inr c)) (advance e (offset + 4)))
     | _ \<Rightarrow> Inl ImmediateDestination)"

definition exec_sra ::
  "'k env \<Rightarrow> size \<Rightarrow> condition \<Rightarrow> operand \<Rightarrow> operand \<Rightarrow> 'k cpu \<Rightarrow> (u32 \<times> 'k cpu) res" where
  "exec_sra e sz condition destination source c =
     rbind (read_source e c source) (\<lambda>(source_value, offset).
     let should_run = check_condition c condition in
     case destination of
       OpRegister \<Rightarrow>
         rbind (fetch_8 e c offset) (\<lambda>reg.
         rbind (case sz of
              SizeByte \<Rightarrow> (if should_run then rbind (reg_load_8 c reg (alu_sra (overflow_checks e) source_value)) (reg_store_8 c reg) else Inr c)
            | SizeHalf \<Rightarrow> (if should_run then rbind (reg_load_16 c reg (alu_sra (overflow_checks e) source_value)) (reg_store_16 c reg) else Inr c)
            | SizeWord \<Rightarrow> (if should_run then rbind (reg_load_32 c reg (alu_sra (overflow_checks e) source_value)) (reg_store_32 c reg) else Inr c)) (advance e (offset + 1)))
     | OpRegisterPtr \<Rightarrow>
         rbind (fetch_8 e c offset) (\<lambda>reg.
         rbind (read_register c reg) (\<lambda>pointer.
         rbind (case sz of
              SizeByte \<Rightarrow> rbind (mem_load_8 c pointer (alu_sra (overflow_checks e) source_value)) (\<lambda>result. if should_run then mem_store_8 c pointer result else Inr c)
            | SizeHalf \<Rightarrow> rbind (mem_load_16 c pointer (alu_sra (overflow_checks e) source_value)) (\<lambda>result. if should_run then mem_store_16 c pointer result else Inr c)
            | SizeWord \<Rightarrow> rbind (mem_load_32 c pointer (alu_sra (overflow_checks e) source_value)) (\<lambda>result. if should_run then mem_store_32 c pointer result else Inr c)) (advance e (offset + 1))))
     | OpImmediatePtr _ \<Rightarrow>
         rbind (fetch_32 e c offset) (\<lambda>pointer.
         rbind (case sz of
              SizeByte \<Rightarrow> rbind (mem_load_8 c pointer (alu_sra (overflow_checks e) source_value)) (\<lambda>result. if should_run then mem_store_8 c pointer result else Inr c)
            | SizeHalf \<Rightarrow> rbind (mem_load_16 c pointer (alu_sra (overflow_checks e) source_value)) (\<lambda>result. if should_run then mem_store_16 c pointer result else Inr c)
            | SizeWord \<Rightarrow> rbind (mem_load_32 c pointer (alu_sra (overflow_checks e) source_value)) (\<lambda>result. if should_run then mem_store_32 c pointer result else Inr c)) (advance e (offset + 4)))
     | _ \<Rightarrow> Inl ImmediateDestination)"

definition exec_srl ::
  "'k env \<Rightarrow> size \<Rightarrow> condition \<Rightarrow> operand \<Rightarrow> operand \<Rightarrow> 'k cpu \<Rightarrow> (u32 \<times> 'k cpu) res" where
  "exec_srl e sz condition destination source c =
     rbind (read_source e c source) (\<lambda>(source_value, offset).
     let should_run = check_condition c condition in
     case destination of
       OpRegister \<Rightarrow>
         rbind (fetch_8 e c offset) (\<lambda>reg.
         rbind (case sz of
              SizeByte \<Rightarrow> (if should_run then rbind (reg_load_8 c reg (alu_srl (overflow_checks e) source_value)) (reg_store_8 c reg) else Inr c)
            | SizeHalf \<Rightarrow> (if should_run then rbind (reg_load_16 c reg (alu_srl (overflow_checks e) source_value)) (reg_store_16 c reg) else Inr c)
            | SizeWord \<Rightarrow> (if should_run then rbind (reg_load_32 c reg (alu_srl (overflow_checks e) source_value)) (reg_store_32 c reg) else Inr c)) (advance e (offset + 1)))
     | OpRegisterPtr \<Rightarrow>
         rbind (fetch_8 e c offset) (\<lambda>reg.
         rbind (read_register c reg) (\<lambda>pointer.
         rbind (case sz of
              SizeByte \<Rightarrow> rbind (mem_load_8 c pointer (alu_srl (overflow_checks e) source_value)) (\<lambda>result. if should_run then mem_store_8 c pointer result else Inr c)
            | SizeHalf \<Rightarrow> rbind (mem_load_16 c pointer (alu_srl (overflow_checks e) source_value)) (\<lambda>result. if should_run then mem_store_16 c pointer result else Inr c)
            | SizeWord \<Rightarrow> rbind (mem_load_32 c pointer (alu_srl (overflow_checks e) source_value)) (\<lambda>result. if should_run then mem_store_32 c pointer result else Inr c)) (advance e (offset + 1))))
     | OpImmediatePtr _ \<Rightarrow>
         rbind (fetch_32 e c offset) (\<lambda>pointer.
         rbind (case sz of
              SizeByte \<Rightarrow> rbind (mem_load_8 c pointer (alu_srl (overflow_checks e) source_value)) (\<lambda>result. if should_run then mem_store_8 c pointer result else Inr c)
            | SizeHalf \<Rightarrow> rbind (mem_load_16 c pointer (alu_srl (overflow_checks e) source_value)) (\<lambda>result. if should_run then mem_store_16 c pointer result else Inr c)
            | SizeWord \<Rightarrow> rbind (mem_load_32 c pointer (alu_srl (overflow_checks e) source_value)) (\<lambda>result. if should_run then mem_store_32 c pointer result else Inr c)) (advance e (offset + 4)))
     | _ \<Rightarrow> Inl ImmediateDestination)"

definition exec_rol ::
  "'k env \<Rightarrow> size \<Rightarrow> condition \<Rightarrow> operand \<Rightarrow> operand \<Rightarrow> 'k cpu \<Rightarrow> (u32 \<times> 'k cpu) res" where
  "exec_rol e sz condition destination source c =
     rbind (read_source e c source) (\<lambda>(source_value, offset).
     let should_run = check_condition c condition in
     case destination of
       OpRegister \<Rightarrow>
         rbind (fetch_8 e c offset) (\<lambda>reg.
         rbind (case sz of
              SizeByte \<Rightarrow> (if should_run then rbind (reg_load_8 c reg (alu_rol source_value)) (reg_store_8 c reg) else Inr c)
            | SizeHalf \<Rightarrow> (if should_run then rbind (reg_load_16 c reg (alu_rol source_value)) (reg_store_16 c reg) else Inr c)
            | SizeWord \<Rightarrow> (if should_run then rbind (reg_load_32 c reg (alu_rol source_value)) (reg_store_32 c reg) else Inr c)) (advance e (offset + 1)))
     | OpRegisterPtr \<Rightarrow>
         rbind (fetch_8 e c offset) (\<lambda>reg.
         rbind (read_register c reg) (\<lambda>pointer.
         rbind (case sz of
              SizeByte \<Rightarrow> rbind (mem_load_8 c pointer (alu_rol source_value)) (\<lambda>result. if should_run then mem_store_8 c pointer result else Inr c)
            | SizeHalf \<Rightarrow> rbind (mem_load_16 c pointer (alu_rol source_value)) (\<lambda>result. if should_run then mem_store_16 c pointer result else Inr c)
            | SizeWord \<Rightarrow> rbind (mem_load_32 c pointer (alu_rol source_value)) (\<lambda>result. if should_run then mem_store_32 c pointer result else Inr c)) (advance e (offset + 1))))
     | OpImmediatePtr _ \<Rightarrow>
         rbind (fetch_32 e c offset) (\<lambda>pointer.
         rbind (case sz of
              SizeByte \<Rightarrow> rbind (mem_load_8 c pointer (alu_rol source_value)) (\<lambda>result. if should_run then mem_store_8 c pointer result else Inr c)
            | SizeHalf \<Rightarrow> rbind (mem_load_16 c pointer (alu_rol source_value)) (\<lambda>result. if should_run then mem_store_16 c pointer result else Inr c)
            | SizeWord \<Rightarrow> rbind (mem_load_32 c pointer (alu_rol source_value)) (\<lambda>result. if should_run then mem_store_32 c pointer result else Inr c)) (advance e (offset + 4)))
     | _ \<Rightarrow> Inl ImmediateDestination)"

definition exec_ror ::
  "'k env \<Rightarrow> size \<Rightarrow> condition \<Rightarrow> operand \<Rightarrow> operand \<Rightarrow> 'k cpu \<Rightarrow> (u32 \<times> 'k cpu) res" where
  "exec_ror e sz condition destination source c =
     rbind (read_source e c source) (\<lambda>(source_value, offset).
     let should_run = check_condition c condition in
     case destination of
       OpRegister \<Rightarrow>
         rbind (fetch_8 e c offset) (\<lambda>reg.
         rbind (case sz of
              SizeByte \<Rightarrow> (if should_run then rbind (reg_load_8 c reg (alu_ror source_value)) (reg_store_8 c reg) else Inr c)
            | SizeHalf \<Rightarrow> (if should_run then rbind (reg_load_16 c reg (alu_ror source_value)) (reg_store_16 c reg) else Inr c)
            | SizeWord \<Rightarrow> (if should_run then rbind (reg_load_32 c reg (alu_ror source_value)) (reg_store_32 c reg) else Inr c)) (advance e (offset + 1)))
     | OpRegisterPtr \<Rightarrow>
         rbind (fetch_8 e c offset) (\<lambda>reg.
         rbind (read_register c reg) (\<lambda>pointer.
         rbind (case sz of
              SizeByte \<Rightarrow> rbind (mem_load_8 c pointer (alu_ror source_value)) (\<lambda>result. if should_run then mem_store_8 c pointer result else Inr c)
            | SizeHalf \<Rightarrow> rbind (mem_load_16 c pointer (alu_ror source_value)) (\<lambda>result. if should_run then mem_store_16 c pointer result else Inr c)
            | SizeWord \<Rightarrow> rbind (mem_load_32 c pointer (alu_ror source_value)) (\<lambda>result. if should_run then mem_store_32 c pointer result else Inr c)) (advance e (offset + 1))))
     | OpImmediatePtr _ \<Rightarrow>
         rbind (fetch_32 e c offset) (\<lambda>pointer.
         rbind (case sz of
              SizeByte \<Rightarrow> rbind (mem_load_8 c pointer (alu_ror source_value)) (\<lambda>result. if should_run then mem_store_8 c pointer result else Inr c)
            | SizeHalf \<Rightarrow> rbind (mem_load_16 c pointer (alu_ror source_value)) (\<lambda>result. if should_run then mem_store_16 c pointer result else Inr c)
            | SizeWord \<Rightarrow> rbind (mem_load_32 c pointer (alu_ror source_value)) (\<lambda>result. if should_run then mem_store_32 c pointer result else Inr c)) (advance e (offset + 4)))
     | _ \<Rightarrow> Inl ImmediateDestination)"

definition exec_bse ::
  "'k env \<Rightarrow> size \<Rightarrow> condition \<Rightarrow> operand \<Rightarrow> operand \<Rightarrow> 'k cpu \<Rightarrow> (u32 \<times> 'k cpu) res" where
  "exec_bse e sz condition destination source c =
     rbind (read_source e c source) (\<lambda>(source_value, offset).
     let should_run = check_condition c condition in
     case destination of
       OpRegister \<Rightarrow>
         rbind (fetch_8 e c offset) (\<lambda>reg.
         rbind (case sz of
              SizeByte \<Rightarrow> rbind (reg_load_8 c reg (alu_bse (overflow_checks e) source_value)) (\<lambda>result. if should_run then reg_store_8 c reg result else Inr c)
            | SizeHalf \<Rightarrow> rbind (reg_load_16 c reg (alu_bse (overflow_checks e) source_value)) (\<lambda>result. if should_run then reg_store_16 c reg result else Inr c)
            | SizeWord \<Rightarrow> rbind (reg_load_32 c reg (alu_bse (overflow_checks e) source_value)) (\<lambda>result. if should_run then reg_store_32 c reg result else Inr c)) (advance e (offset + 1)))
     | OpRegisterPtr \<Rightarrow>
         rbind (fetch_8 e c offset) (\<lambda>reg.
         rbind (read_register c reg) (\<lambda>pointer.
         rbind (case sz of
              SizeByte \<Rightarrow> rbind (mem_load_8 c pointer (alu_bse (overflow_checks e) source_value)) (\<lambda>result. if should_run then mem_store_8 c pointer result else Inr c)
            | SizeHalf \<Rightarrow> rbind (mem_load_16 c pointer (alu_bse (overflow_checks e) source_value)) (\<lambda>result. if should_run then mem_store_16 c pointer result else Inr c)
            | SizeWord \<Rightarrow> rbind (mem_load_32 c pointer (alu_bse (overflow_checks e) source_value)) (\<lambda>result. if should_run then mem_store_32 c pointer result else Inr c)) (advance e (offset + 1))))
     | OpImmediatePtr _ \<Rightarrow>
         rbind (fetch_32 e c offset) (\<lambda>pointer.
         rbind (case sz of
              SizeByte \<Rightarrow> rbind (mem_load_8 c pointer (alu_bse (overflow_checks e) source_value)) (\<lambda>result. if should_run then mem_store_8 c pointer result else Inr c)
            | SizeHalf \<Rightarrow> rbind (mem_load_16 c pointer (alu_bse (overflow_checks e) source_value)) (\<lambda>result. if should_run then mem_store_16 c pointer result else Inr c)
            | SizeWord \<Rightarrow> rbind (mem_load_32 c pointer (alu_bse (overflow_checks e) source_value)) (\<lambda>result. if should_run then mem_store_32 c pointer result else Inr c)) (advance e (offset + 4)))
     | _ \<Rightarrow> Inl ImmediateDestination)"

definition exec_bcl ::
  "'k env \<Rightarrow> size \<Rightarrow> condition \<Rightarrow> operand \<Rightarrow> operand \<Rightarrow> 'k cpu \<Rightarrow> (u32 \<times> 'k cpu) res" where
  "exec_bcl e sz condition destination source c =
     rbind (read_source e c source) (\<lambda>(source_value, offset).
     let should_run = check_condition c condition in
     case destination of
       OpRegister \<Rightarrow>
         rbind (fetch_8 e c offset) (\<lambda>reg.
         rbind (case sz of
              SizeByte \<Rightarrow> rbind (reg_load_8 c reg (alu_bcl (overflow_checks e) source_value)) (\<lambda>result. if should_run then reg_store_8 c reg result else Inr c)
            | SizeHalf \<Rightarrow> rbind (reg_load_16 c reg (alu_bcl (overflow_checks e) source_value)) (\<lambda>result. if should_run then reg_store_16 c reg result else Inr c)
            | SizeWord \<Rightarrow> rbind (reg_load_32 c reg (alu_bcl (overflow_checks e) source_value)) (\<lambda>result. if should_run then reg_store_32 c reg result else Inr c)) (advance e (offset + 1)))
     | OpRegisterPtr \<Rightarrow>
         rbind (fetch_8 e c offset) (\<lambda>reg.
         rbind (read_register c reg) (\<lambda>pointer.
         rbind (case sz of
              SizeByte \<Rightarrow> rbind (mem_load_8 c pointer (alu_bcl (overflow_checks e) source_value)) (\<lambda>result. if should_run then mem_store_8 c pointer result else Inr c)
            | SizeHalf \<Rightarrow> rbind (mem_load_16 c pointer (alu_bcl (overflow_checks e) source_value)) (\<lambda>result. if should_run then mem_store_16 c pointer result else Inr c)
            | SizeWord \<Rightarrow> rbind (mem_load_32 c pointer (alu_bcl (overflow_checks e) source_value)) (\<lambda>result. if should_run then mem_store_32 c pointer result else Inr c)) (advance e (offset + 1))))
     | OpImmediatePtr _ \<Rightarrow>
         rbind (fetch_32 e c offset) (\<lambda>pointer.
         rbind (case sz of
              SizeByte \<Rightarrow> rbind (mem_load_8 c pointer (alu_bcl (overflow_checks e) source_value)) (\<lambda>result. if should_run then mem_store_8 c pointer result else Inr c)
            | SizeHalf \<Rightarrow> rbind (mem_load_16 c pointer (alu_bcl (overflow_checks e) source_value)) (\<lambda>result. if should_run then mem_store_16 c pointer result else Inr c)
            | SizeWord \<Rightarrow> rbind (mem_load_32 c pointer (alu_bcl (overflow_checks e) source_value)) (\<lambda>result. if should_run then mem_store_32 c pointer result else Inr c)) (advance e (offset + 4)))
     | _ \<Rightarrow> Inl ImmediateDestination)"

definition exec_bts ::
  "'k env \<Rightarrow> size \<Rightarrow> condition \<Rightarrow> operand \<Rightarrow> operand \<Rightarrow> 'k cpu \<Rightarrow> (u32 \<times> 'k cpu) res" where
  "exec_bts e sz condition destination source c =
     rbind (read_source e c source) (\<lambda>(source_value, offset).
     let should_run = check_condition c condition in
     case destination of
       OpRegister \<Rightarrow>
         rbind (fetch_8 e c offset) (\<lambda>reg.
         rbind (case sz of
              SizeByte \<Rightarrow> rbind (reg_load_8 c reg (alu_bts (overflow_checks e) source_value)) (\<lambda>result. if should_run then set_outcome_flags c result else Inr c)
            | SizeHalf \<Rightarrow> rbind (reg_load_16 c reg (alu_bts (overflow_checks e) source_value)) (\<lambda>result. if should_run then set_outcome_flags c result else Inr c)
            | SizeWord \<Rightarrow> rbind (reg_load_32 c reg (alu_bts (overflow_checks e) source_value)) (\<lambda>result. if should_run then set_outcome_flags c result else Inr c)) (advance e (offset + 1)))
     | OpRegisterPtr \<Rightarrow>
         rbind (fetch_8 e c offset) (\<lambda>reg.
         rbind (read_register c reg) (\<lambda>pointer.
         rbind (case sz of
              SizeByte \<Rightarrow> rbind (mem_load_8 c pointer (alu_bts (overflow_checks e) source_value)) (\<lambda>result. if should_run then set_outcome_flags c result else Inr c)
            | SizeHalf \<Rightarrow> rbind (mem_load_16 c pointer (alu_bts (overflow_checks e) source_value)) (\<lambda>result. if should_run then set_outcome_flags c result else Inr c)
            | SizeWord \<Rightarrow> rbind (mem_load_32 c pointer (alu_bts (overflow_checks e) source_value)) (\<lambda>result. if should_run then set_outcome_flags c result else Inr c)) (advance e (offset + 1))))
     | OpImmediatePtr _ \<Rightarrow>
         rbind (fetch_32 e c offset) (\<lambda>pointer.
         rbind (case sz of
              SizeByte \<Rightarrow> rbind (mem_load_8 c pointer (alu_bts (overflow_checks e) source_value)) (\<lambda>result. if should_run then set_outcome_flags c result else Inr c)
            | SizeHalf \<Rightarrow> rbind (mem_load_16 c pointer (alu_bts (overflow_checks e) source_value)) (\<lambda>result. if should_run then set_outcome_flags c result else Inr c)
            | SizeWord \<Rightarrow> rbind (mem_load_32 c pointer (alu_bts (overflow_checks e) source_value)) (\<lambda>result. if should_run then set_outcome_flags c result else Inr c)) (advance e (offset + 4)))
     | _ \<Rightarrow> Inl ImmediateDestination)"

definition exec_cmp ::
  "'k env \<Rightarrow> size \<Rightarrow> condition \<Rightarrow> operand \<Rightarrow> operand \<Rightarrow> 'k cpu \<Rightarrow> (u32 \<times> 'k cpu) res" where
  "exec_cmp e sz condition destination source c =
     rbind (read_source e c source) (\<lambda>(source_value, offset).
     let should_run = check_condition c condition in
     case destination of
       OpRegister \<Rightarrow>
         rbind (fetch_8 e c offset) (\<lambda>reg.
         rbind (case sz of
              SizeByte \<Rightarrow> (if should_run then rbind (reg_load_8 c reg (alu_cmp source_value)) (set_outcome_flags c) else Inr c)
            | SizeHalf \<Rightarrow> (if should_run then rbind (reg_load_16 c reg (alu_cmp source_value)) (set_outcome_flags c) else Inr c)
            | SizeWord \<Rightarrow> (if should_run then rbind (reg_load_32 c reg (alu_cmp source_value)) (set_outcome_flags c) else Inr c)) (advance e (offset + 1)))
     | OpRegisterPtr \<Rightarrow>
         rbind (fetch_8 e c offset) (\<lambda>reg.
         rbind (read_register c reg) (\<lambda>pointer.
         rbind (case sz of
              SizeByte \<Rightarrow> rbind (mem_load_8 c pointer (alu_cmp source_value)) (\<lambda>result. if should_run then set_outcome_flags c result else Inr c)
            | SizeHalf \<Rightarrow> rbind (mem_load_16 c pointer (alu_cmp source_value)) (\<lambda>result. if should_run then set_outcome_flags c result else Inr c)
            | SizeWord \<Rightarrow> rbind (mem_load_32 c pointer (alu_cmp source_value)) (\<lambda>result. if should_run then set_outcome_flags c result else Inr c)) (advance e (offset + 1))))
     | OpImmediatePtr _ \<Rightarrow>
         rbind (fetch_32 e c offset) (\<lambda>pointer.
         rbind (case sz of
              SizeByte \<Rightarrow> rbind (mem_load_8 c pointer (alu_cmp source_value)) (\<lambda>result. if should_run then set_outcome_flags c result else Inr c)
            | SizeHalf \<Rightarrow> rbind (mem_load_16 c pointer (alu_cmp source_value)) (\<lambda>result. if should_run then set_outcome_flags c result else Inr c)
            | SizeWord \<Rightarrow> rbind (mem_load_32 c pointer (alu_cmp source_value)) (\<lambda>result. if should_run then set_outcome_flags c result else Inr c)) (advance e (offset + 4)))
     | _ \<Rightarrow> Inl ImmediateDestination)"

end
