(* ===== verification/Control.thy ===== *)
theory Control
  imports Alu
begin

text \<open>
  The remaining arms of \<open>Cpu::execute_instruction\<close> (\<open>fox32/src/cpu.rs\<close>): no-ops, moves, jumps,
  calls and loops, the stack instructions, port input and output, and the interrupt flag; the
  dispatch over all instructions; and \<open>execute_memory_instruction\<close>, one step of the machine.
  Each arm returns the next instruction pointer with the new state.
\<close>

section \<open>No operand\<close>

definition exec_nop :: "'k env \<Rightarrow> 'k cpu \<Rightarrow> (u32 \<times> 'k cpu) res" where
  "exec_nop e c = advance e 2 c"

definition exec_halt :: "'k env \<Rightarrow> condition \<Rightarrow> 'k cpu \<Rightarrow> (u32 \<times> 'k cpu) res" where
  "exec_halt e condition c =
     (let should_run = check_condition c condition;
          c = (if should_run then c\<lparr>halted := True\<rparr> else c)
      in advance e 2 c)"

text \<open>\<open>brk\<close> prints the registers and changes nothing.\<close>

definition exec_brk :: "'k env \<Rightarrow> condition \<Rightarrow> 'k cpu \<Rightarrow> (u32 \<times> 'k cpu) res" where
  "exec_brk e condition c = advance e 2 c"

section \<open>Moves\<close>

definition exec_mov ::
  "'k env \<Rightarrow> size \<Rightarrow> condition \<Rightarrow> operand \<Rightarrow> operand \<Rightarrow> 'k cpu \<Rightarrow> (u32 \<times> 'k cpu) res" where
  "exec_mov e sz condition destination source c =
     rbind (read_source e c source) (\<lambda>(source_value, offset).
     let should_run = check_condition c condition in
     case destination of
       OpRegister \<Rightarrow>
         rbind (fetch_8 e c offset) (\<lambda>reg.
         rbind (if should_run then
             (case sz of
                SizeByte \<Rightarrow> rbind (read_register c reg) (\<lambda>v.
                  write_register c reg ((v AND 0xFFFFFF00) OR (source_value AND 0x000000FF)))
              | SizeHalf \<Rightarrow> rbind (read_register c reg) (\<lambda>v.
                  write_register c reg ((v AND 0xFFFF0000) OR (source_value AND 0x0000FFFF)))
              | SizeWord \<Rightarrow> write_register c reg source_value)
           else Inr c) (advance e (offset + 1)))
     | OpRegisterPtr \<Rightarrow>
         rbind (fetch_8 e c offset) (\<lambda>reg.
         rbind (read_register c reg) (\<lambda>pointer.
         rbind (if should_run then
             (case sz of
                SizeByte \<Rightarrow> mem_write_8 c pointer (ucast source_value)
              | SizeHalf \<Rightarrow> mem_write_16 c pointer (ucast source_value)
              | SizeWord \<Rightarrow> mem_write_32 c pointer source_value)
           else Inr c) (advance e (offset + 1))))
     | OpImmediatePtr _ \<Rightarrow>
         rbind (fetch_32 e c offset) (\<lambda>pointer.
         rbind (if should_run then
             (case sz of
                SizeByte \<Rightarrow> mem_write_8 c pointer (ucast source_value)
              | SizeHalf \<Rightarrow> mem_write_16 c pointer (ucast source_value)
              | SizeWord \<Rightarrow> mem_write_32 c pointer source_value)
           else Inr c) (advance e (offset + 4)))
     | _ \<Rightarrow> Inl ImmediateDestination)"

definition exec_movz ::
  "'k env \<Rightarrow> size \<Rightarrow> condition \<Rightarrow> operand \<Rightarrow> operand \<Rightarrow> 'k cpu \<Rightarrow> (u32 \<times> 'k cpu) res" where
  "exec_movz e sz condition destination source c =
     rbind (read_source e c source) (\<lambda>(source_value, offset).
     let should_run = check_condition c condition in
     case destination of
       OpRegister \<Rightarrow>
         rbind (fetch_8 e c offset) (\<lambda>reg.
         rbind (if should_run then
             (case sz of
                SizeByte \<Rightarrow> write_register c reg (source_value AND 0x000000FF)
              | SizeHalf \<Rightarrow> write_register c reg (source_value AND 0x0000FFFF)
              | SizeWord \<Rightarrow> write_register c reg source_value)
           else Inr c) (advance e (offset + 1)))
     | _ \<Rightarrow> Inl MovzDestination)"

section \<open>Jumps, calls and loops\<close>

definition exec_jmp :: "'k env \<Rightarrow> condition \<Rightarrow> operand \<Rightarrow> 'k cpu \<Rightarrow> (u32 \<times> 'k cpu) res" where
  "exec_jmp e condition source c =
     rbind (read_source e c source) (\<lambda>(source_value, offset).
     if check_condition c condition then Inr (source_value, c) else advance e offset c)"

definition exec_call :: "'k env \<Rightarrow> condition \<Rightarrow> operand \<Rightarrow> 'k cpu \<Rightarrow> (u32 \<times> 'k cpu) res" where
  "exec_call e condition source c =
     rbind (read_source e c source) (\<lambda>(source_value, offset).
     if check_condition c condition then
       rbind (ip_plus e c offset) (\<lambda>return_address.
       rbind (push_stack_32 c return_address) (\<lambda>c. Inr (source_value, c)))
     else advance e offset c)"

text \<open>The loop counter (register 31) is decremented before the condition is looked at.\<close>

definition exec_loop :: "'k env \<Rightarrow> condition \<Rightarrow> operand \<Rightarrow> 'k cpu \<Rightarrow> (u32 \<times> 'k cpu) res" where
  "exec_loop e condition source c =
     rbind (read_source e c source) (\<lambda>(source_value, offset).
     let should_run = check_condition c condition in
     rbind (read_register c 31) (\<lambda>v.
     let result = overflowing_sub v 1 in
     rbind (write_register c 31 (fst result)) (\<lambda>c.
     if should_run then
       (if fst result \<noteq> 0 then Inr (source_value, c) else advance e offset c)
     else advance e offset c)))"

definition exec_rjmp :: "'k env \<Rightarrow> condition \<Rightarrow> operand \<Rightarrow> 'k cpu \<Rightarrow> (u32 \<times> 'k cpu) res" where
  "exec_rjmp e condition source c =
     rbind (read_source e c source) (\<lambda>(source_value, offset).
     if check_condition c condition then Inr (relative_to_absolute c source_value, c)
     else advance e offset c)"

definition exec_rcall :: "'k env \<Rightarrow> condition \<Rightarrow> operand \<Rightarrow> 'k cpu \<Rightarrow> (u32 \<times> 'k cpu) res" where
  "exec_rcall e condition source c =
     rbind (read_source e c source) (\<lambda>(source_value, offset).
     if check_condition c condition then
       rbind (ip_plus e c offset) (\<lambda>return_address.
       rbind (push_stack_32 c return_address) (\<lambda>c.
       Inr (relative_to_absolute c source_value, c)))
     else advance e offset c)"

definition exec_rloop :: "'k env \<Rightarrow> condition \<Rightarrow> operand \<Rightarrow> 'k cpu \<Rightarrow> (u32 \<times> 'k cpu) res" where
  "exec_rloop e condition source c =
     rbind (read_source e c source) (\<lambda>(source_value, offset).
     let should_run = check_condition c condition in
     rbind (read_register c 31) (\<lambda>v.
     let result = overflowing_sub v 1 in
     rbind (write_register c 31 (fst result)) (\<lambda>c.
     if should_run then
       (if fst result \<noteq> 0 then Inr (relative_to_absolute c source_value, c) else advance e offset c)
     else advance e offset c)))"

definition exec_rta ::
  "'k env \<Rightarrow> condition \<Rightarrow> operand \<Rightarrow> operand \<Rightarrow> 'k cpu \<Rightarrow> (u32 \<times> 'k cpu) res" where
  "exec_rta e condition destination source c =
     rbind (read_source e c source) (\<lambda>(source_value, offset).
     let should_run = check_condition c condition in
     case destination of
       OpRegister \<Rightarrow>
         rbind (fetch_8 e c offset) (\<lambda>reg.
         rbind (if should_run then write_register c reg (relative_to_absolute c source_value)
                else Inr c) (advance e (offset + 1)))
     | OpRegisterPtr \<Rightarrow>
         rbind (fetch_8 e c offset) (\<lambda>reg.
         rbind (read_register c reg) (\<lambda>v.
         let pointer = relative_to_absolute c v in
         rbind (if should_run then mem_write_32 c pointer (relative_to_absolute c source_value)
                else Inr c) (advance e (offset + 1))))
     | OpImmediatePtr _ \<Rightarrow>
         rbind (fetch_32 e c offset) (\<lambda>v.
         let pointer = relative_to_absolute c v in
         rbind (if should_run then mem_write_32 c pointer (relative_to_absolute c source_value)
                else Inr c) (advance e (offset + 4)))
     | _ \<Rightarrow> Inl ImmediateDestination)"

section \<open>Stack instructions\<close>

definition exec_push ::
  "'k env \<Rightarrow> size \<Rightarrow> condition \<Rightarrow> operand \<Rightarrow> 'k cpu \<Rightarrow> (u32 \<times> 'k cpu) res" where
  "exec_push e sz condition source c =
     rbind (read_source e c source) (\<lambda>(source_value, offset).
     let should_run = check_condition c condition in
     rbind (case sz of
         SizeByte \<Rightarrow> (if should_run then push_stack_8 c (ucast source_value) else Inr c)
       | SizeHalf \<Rightarrow> (if should_run then push_stack_16 c (ucast source_value) else Inr c)
       | SizeWord \<Rightarrow> (if should_run then push_stack_32 c source_value else Inr c))
       (advance e offset))"

text \<open>A pop to memory takes the address of its destination before the stack pointer moves.\<close>

definition pop_to_register :: "size \<Rightarrow> u8 \<Rightarrow> 'k cpu \<Rightarrow> 'k cpu res" where
  "pop_to_register sz reg c =
     (case sz of
        SizeByte \<Rightarrow> rbind (pop_stack_8 c) (\<lambda>(value, c).
          rbind (read_register c reg) (\<lambda>v.
          write_register c reg ((v AND 0xFFFFFF00) OR ucast value)))
      | SizeHalf \<Rightarrow> rbind (pop_stack_16 c) (\<lambda>(value, c).
          rbind (read_register c reg) (\<lambda>v.
          write_register c reg ((v AND 0xFFFF0000) OR ucast value)))
      | SizeWord \<Rightarrow> rbind (pop_stack_32 c) (\<lambda>(value, c). write_register c reg value))"

definition pop_to_memory :: "size \<Rightarrow> u32 \<Rightarrow> 'k cpu \<Rightarrow> 'k cpu res" where
  "pop_to_memory sz pointer c =
     (case sz of
        SizeByte \<Rightarrow> rbind (pop_stack_8 c) (\<lambda>(value, c). mem_write_8 c pointer value)
      | SizeHalf \<Rightarrow> rbind (pop_stack_16 c) (\<lambda>(value, c). mem_write_16 c pointer value)
      | SizeWord \<Rightarrow> rbind (pop_stack_32 c) (\<lambda>(value, c). mem_write_32 c pointer value))"

definition exec_pop ::
  "'k env \<Rightarrow> size \<Rightarrow> condition \<Rightarrow> operand \<Rightarrow> 'k cpu \<Rightarrow> (u32 \<times> 'k cpu) res" where
  "exec_pop e sz condition source c =
     (let offset = 2; should_run = check_condition c condition in
     case source of
       OpRegister \<Rightarrow>
         rbind (fetch_8 e c offset) (\<lambda>reg.
         rbind (if should_run then pop_to_register sz reg c else Inr c) (advance e (offset + 1)))
     | OpRegisterPtr \<Rightarrow>
         rbind (fetch_8 e c offset) (\<lambda>reg.
         rbind (read_register c reg) (\<lambda>pointer.
         rbind (if should_run then pop_to_memory sz pointer c else Inr c) (advance e (offset + 1))))
     | OpImmediatePtr _ \<Rightarrow>
         rbind (fetch_32 e c offset) (\<lambda>pointer.
         rbind (if should_run then pop_to_memory sz pointer c else Inr c) (advance e (offset + 4)))
     | _ \<Rightarrow> Inl ImmediateDestination)"

definition exec_ret :: "'k env \<Rightarrow> condition \<Rightarrow> 'k cpu \<Rightarrow> (u32 \<times> 'k cpu) res" where
  "exec_ret e condition c =
     (if check_condition c condition then pop_stack_32 c else advance e 2 c)"

definition exec_reti :: "'k env \<Rightarrow> condition \<Rightarrow> 'k cpu \<Rightarrow> (u32 \<times> 'k cpu) res" where
  "exec_reti e condition c =
     (if check_condition c condition then
        rbind (pop_stack_8 c) (\<lambda>(byte, c). pop_stack_32 (c\<lparr>flag := flag_of_u8 byte\<rparr>))
      else advance e 2 c)"

section \<open>Ports\<close>

text \<open>\<open>in\<close> reads the port whether or not its condition holds.\<close>

definition cpu_read_io :: "'k env \<Rightarrow> u32 \<Rightarrow> 'k cpu \<Rightarrow> (u32 \<times> 'k cpu) res" where
  "cpu_read_io e port c = rbind (read_io e port (bus c)) (\<lambda>(value, b). Inr (value, c\<lparr>bus := b\<rparr>))"

definition cpu_write_io :: "'k env \<Rightarrow> u32 \<Rightarrow> u32 \<Rightarrow> 'k cpu \<Rightarrow> 'k cpu res" where
  "cpu_write_io e port w c = rbind (write_io e port w (bus c)) (\<lambda>b. Inr (c\<lparr>bus := b\<rparr>))"

definition exec_in ::
  "'k env \<Rightarrow> condition \<Rightarrow> operand \<Rightarrow> operand \<Rightarrow> 'k cpu \<Rightarrow> (u32 \<times> 'k cpu) res" where
  "exec_in e condition destination source c =
     rbind (read_source e c source) (\<lambda>(source_value, offset).
     let should_run = check_condition c condition in
     case destination of
       OpRegister \<Rightarrow>
         rbind (fetch_8 e c offset) (\<lambda>reg.
         rbind (cpu_read_io e source_value c) (\<lambda>(value, c).
         rbind (if should_run then write_register c reg value else Inr c) (advance e (offset + 1))))
     | OpRegisterPtr \<Rightarrow>
         rbind (fetch_8 e c offset) (\<lambda>reg.
         rbind (read_register c reg) (\<lambda>pointer.
         rbind (cpu_read_io e source_value c) (\<lambda>(value, c).
         rbind (if should_run then mem_write_32 c pointer value else Inr c) (advance e (offset + 1)))))
     | OpImmediatePtr _ \<Rightarrow>
         rbind (fetch_32 e c offset) (\<lambda>pointer.
         rbind (cpu_read_io e source_value c) (\<lambda>(value, c).
         rbind (if should_run then mem_write_32 c pointer value else Inr c) (advance e (offset + 4))))
     | _ \<Rightarrow> Inl ImmediateDestination)"

definition exec_out ::
  "'k env \<Rightarrow> condition \<Rightarrow> operand \<Rightarrow> operand \<Rightarrow> 'k cpu \<Rightarrow> (u32 \<times> 'k cpu) res" where
  "exec_out e condition destination source c =
     rbind (read_source e c source) (\<lambda>(source_value, offset).
     let should_run = check_condition c condition in
     case destination of
       OpRegister \<Rightarrow>
         rbind (fetch_8 e c offset) (\<lambda>reg.
         rbind (if should_run then
             rbind (read_register c reg) (\<lambda>port. cpu_write_io e port source_value c)
           else Inr c) (advance e (offset + 1)))
     | OpRegisterPtr \<Rightarrow>
         rbind (fetch_8 e c offset) (\<lambda>reg.
         rbind (read_register c reg) (\<lambda>pointer.
         rbind (if should_run then
             rbind (mem_read_32 c pointer) (\<lambda>port. cpu_write_io e port source_value c)
           else Inr c) (advance e (offset + 1))))
     | OpImmediatePtr _ \<Rightarrow>
         rbind (fetch_32 e c offset) (\<lambda>pointer.
         rbind (if should_run then
             rbind (mem_read_32 c pointer) (\<lambda>port. cpu_write_io e port source_value c)
           else Inr c) (advance e (offset + 4)))
     | _ \<Rightarrow> Inl ImmediateDestination)"

section \<open>Interrupt flag\<close>

definition exec_ise :: "'k env \<Rightarrow> condition \<Rightarrow> 'k cpu \<Rightarrow> (u32 \<times> 'k cpu) res" where
  "exec_ise e condition c =
     (let c = (if check_condition c condition then set_interrupt_flag True c else c)
      in advance e 2 c)"

definition exec_icl :: "'k env \<Rightarrow> condition \<Rightarrow> 'k cpu \<Rightarrow> (u32 \<times> 'k cpu) res" where
  "exec_icl e condition c =
     (let c = (if check_condition c condition then set_interrupt_flag False c else c)
      in advance e 2 c)"

section \<open>Dispatch and step\<close>

definition execute_instruction ::
  "'k env \<Rightarrow> instruction \<Rightarrow> 'k cpu \<Rightarrow> (u32 \<times> 'k cpu) res" where
  "execute_instruction e i =
     (case i of
        I_Nop \<Rightarrow> exec_nop e
      | I_Halt cond \<Rightarrow> exec_halt e cond
      | I_Brk cond \<Rightarrow> exec_brk e cond
      | I_Add sz cond dst src \<Rightarrow> exec_add e sz cond dst src
      | I_Inc sz cond src \<Rightarrow> exec_inc e sz cond src
      | I_Sub sz cond dst src \<Rightarrow> exec_sub e sz cond dst src
      | I_Dec sz cond src \<Rightarrow> exec_dec e sz cond src
      | I_Mul sz cond dst src \<Rightarrow> exec_mul e sz cond dst src
      | I_Div sz cond dst src \<Rightarrow> exec_div e sz cond dst src
      | I_Rem sz cond dst src \<Rightarrow> exec_rem e sz cond dst src
      | I_And sz cond dst src \<Rightarrow> exec_and e sz cond dst src
      | I_Or sz cond dst src \<Rightarrow> exec_or e sz cond dst src
      | I_Xor sz cond dst src \<Rightarrow> exec_xor e sz cond dst src
      | I_Not sz cond src \<Rightarrow> exec_not e sz cond src
      | I_Sla sz cond dst src \<Rightarrow> exec_sla e sz cond dst src
      | I_Rol sz cond dst src \<Rightarrow> exec_rol e sz cond dst src
      | I_Sra sz cond dst src \<Rightarrow> exec_sra e sz cond dst src
      | I_Srl sz cond dst src \<Rightarrow> exec_srl e sz cond dst src
      | I_Ror sz cond dst src \<Rightarrow> exec_ror e sz cond dst src
      | I_Bse sz cond dst src \<Rightarrow> exec_bse e sz cond dst src
      | I_Bcl sz cond dst src \<Rightarrow> exec_bcl e sz cond dst src
      | I_Bts sz cond dst src \<Rightarrow> exec_bts e sz cond dst src
      | I_Cmp sz cond dst src \<Rightarrow> exec_cmp e sz cond dst src
      | I_Mov sz cond dst src \<Rightarrow> exec_mov e sz cond dst src
      | I_Movz sz cond dst src \<Rightarrow> exec_movz e sz cond dst src
      | I_Jmp cond src \<Rightarrow> exec_jmp e cond src
      | I_Call cond src \<Rightarrow> exec_call e cond src
      | I_Loop cond src \<Rightarrow> exec_loop e cond src
      | I_Rjmp cond src \<Rightarrow> exec_rjmp e cond src
      | I_Rcall cond src \<Rightarrow> exec_rcall e cond src
      | I_Rloop cond src \<Rightarrow> exec_rloop e cond src
      | I_Rta cond dst src \<Rightarrow> exec_rta e cond dst src
      | I_Push sz cond src \<Rightarrow> exec_push e sz cond src
      | I_Pop sz cond src \<Rightarrow> exec_pop e sz cond src
      | I_Ret cond \<Rightarrow> exec_ret e cond
      | I_Reti cond \<Rightarrow> exec_reti e cond
      | I_In cond dst src \<Rightarrow> exec_in e cond dst src
      | I_Out cond dst src \<Rightarrow> exec_out e cond dst src
      | I_Ise cond \<Rightarrow> exec_ise e cond
      | I_Icl cond \<Rightarrow> exec_icl e cond)"

text \<open>
  A bad opcode dumps the RAM to a file and panics; the dump is not modelled.
\<close>

definition execute_memory_instruction :: "'k env \<Rightarrow> 'k cpu \<Rightarrow> 'k cpu res" where
  "execute_memory_instruction e c =
     rbind (mem_read_16 c (instruction_pointer c)) (\<lambda>opcode.
     case from_half opcode of
       Some i \<Rightarrow>
         rbind (execute_instruction e i c) (\<lambda>(next, c). Inr (c\<lparr>instruction_pointer := next\<rparr>))
     | None \<Rightarrow> Inl (BadOpcode opcode))"

end
