(* ===== verification/AluLaws.thy ===== *)
theory AluLaws
  imports Control
begin

text \<open>
  What the arithmetic and logic arms share. Each of the twenty arms is shown to be one scheme
  (\<open>alu_dest\<close>) applied to its operation; the laws of the scheme then give, for every arm: the
  next instruction pointer is past the operands, a false condition changes nothing, only
  registers, flags and memory change, and the build without overflow checks agrees with the
  build with them wherever that does not panic.
\<close>

section \<open>Well-formed machines and frames\<close>

definition wf_cpu :: "'k cpu \<Rightarrow> bool" where
  "wf_cpu c \<longleftrightarrow> length (register c) = 32 \<and> wf_bus (bus c)"

text \<open>
  \<open>data_frame c c'\<close>: from \<open>c\<close> to \<open>c'\<close> at most the registers, the stack pointer, the zero and
  carry flags and the memory inside its arrays changed.
\<close>

definition data_frame :: "'k cpu \<Rightarrow> 'k cpu \<Rightarrow> bool" where
  "data_frame c c' \<longleftrightarrow>
     instruction_pointer c' = instruction_pointer c \<and> halted c' = halted c \<and>
     flag_interrupt (flag c') = flag_interrupt (flag c) \<and>
     length (register c') = length (register c) \<and>
     bus c' = (bus c)\<lparr>memory := memory (bus c')\<rparr> \<and>
     same_outside (memory (bus c)) (memory (bus c'))"

lemma data_frame_refl [simp, intro]: "data_frame c c"
  by (simp add: data_frame_def same_outside_def)

lemma data_frame_trans [trans]: "data_frame a b \<Longrightarrow> data_frame b c \<Longrightarrow> data_frame a c"
  by (auto simp: data_frame_def same_outside_def) (metis bus.surjective bus.update_convs(1))+

lemma data_frame_wf: "data_frame c c' \<Longrightarrow> wf_cpu c \<Longrightarrow> wf_cpu c'"
  by (simp add: data_frame_def wf_cpu_def wf_bus_def) (metis bus.select_convs(2,6) bus.surjective bus.update_convs(1))

lemma data_frame_ip: "data_frame c c' \<Longrightarrow> instruction_pointer c' = instruction_pointer c"
  by (simp add: data_frame_def)

lemma data_frame_set_flags [simp, intro]: "data_frame c (set_flags z cy c)"
  by (simp add: data_frame_def set_flags_def same_outside_def)

lemma data_frame_write_register: "write_register c r w = Inr c' \<Longrightarrow> data_frame c c'"
  by (auto simp: write_register_def data_frame_def same_outside_def split: if_splits)

lemma data_frame_set_memory:
  "store_bytes (memory (bus c)) a bs = Inr m \<Longrightarrow> length bs \<le> 512 \<Longrightarrow> data_frame c (set_memory c m)"
  using store_bytes_in_bounds by (auto simp: data_frame_def set_memory_def)

lemma data_frame_mem_write:
  "mem_write_8 c a b = Inr c' \<Longrightarrow> data_frame c c'"
  "mem_write_16 c a h = Inr c' \<Longrightarrow> data_frame c c'"
  "mem_write_32 c a w = Inr c' \<Longrightarrow> data_frame c c'"
  by (auto simp: mem_write_8_def mem_write_16_def mem_write_32_def write_8_def write_16_def
      write_32_def elim!: data_frame_set_memory)

section \<open>Overflow checks\<close>

text \<open>The same environment in the build without overflow checks.\<close>

definition release :: "'k env \<Rightarrow> 'k env" where
  "release e = e\<lparr>overflow_checks := False\<rparr>"

lemma release_simps [simp]:
  "overflow_checks (release e) = False" "dialog (release e) = dialog e"
  "rb_pop (release e) = rb_pop e" "rb_push (release e) = rb_push e" "rb_new (release e) = rb_new e"
  by (simp_all add: release_def)

lemma res_le_ip_plus [intro]: "res_le (ip_plus e c off) (ip_plus (release e) c off)"
  unfolding ip_plus_def release_simps by (rule res_le_checked_plus)

lemma res_le_fetch [intro]:
  "res_le (fetch_8 e c off) (fetch_8 (release e) c off)"
  "res_le (fetch_16 e c off) (fetch_16 (release e) c off)"
  "res_le (fetch_32 e c off) (fetch_32 (release e) c off)"
  by (auto simp: fetch_8_def fetch_16_def fetch_32_def)

lemma res_le_advance [intro]: "res_le (advance e off c) (advance (release e) off c)"
  by (auto simp: advance_def)

lemma res_le_read_source [intro]: "res_le (read_source e c src) (read_source (release e) c src)"
  by (cases src) (auto simp: read_source_def Let_def)

lemma advance_Inr: "advance e off c = Inr (next, c') \<Longrightarrow> c' = c \<and> next = instruction_pointer c + off"
  by (auto simp: advance_def ip_plus_def dest!: checked_plus_Inr)

section \<open>The scheme of an arm\<close>

definition guarded ::
  "bool \<Rightarrow> bool \<Rightarrow> 'a outcome res \<Rightarrow> ('a outcome \<Rightarrow> 'k cpu res) \<Rightarrow> 'k cpu \<Rightarrow> 'k cpu res" where
  "guarded eager run load commit c =
     (if eager then rbind load (\<lambda>result. if run then commit result else Inr c)
      else if run then rbind load commit else Inr c)"

definition alu_dest ::
  "bool \<Rightarrow> bool \<Rightarrow> bool \<Rightarrow> 'k env \<Rightarrow> size \<Rightarrow> bool \<Rightarrow> operand \<Rightarrow> u32 \<Rightarrow> (u8 \<Rightarrow> 8 outcome res)
    \<Rightarrow> (u16 \<Rightarrow> 16 outcome res) \<Rightarrow> (u32 \<Rightarrow> 32 outcome res) \<Rightarrow> 'k cpu \<Rightarrow> (u32 \<times> 'k cpu) res" where
  "alu_dest reg_eager mem_eager writes e sz run dst offset k8 k16 k32 c =
     (let to_reg = (\<lambda>reg. case sz of
            SizeByte \<Rightarrow> guarded reg_eager run (reg_load_8 c reg k8)
              (if writes then reg_store_8 c reg else set_outcome_flags c) c
          | SizeHalf \<Rightarrow> guarded reg_eager run (reg_load_16 c reg k16)
              (if writes then reg_store_16 c reg else set_outcome_flags c) c
          | SizeWord \<Rightarrow> guarded reg_eager run (reg_load_32 c reg k32)
              (if writes then reg_store_32 c reg else set_outcome_flags c) c);
          to_mem = (\<lambda>pointer. case sz of
            SizeByte \<Rightarrow> guarded mem_eager run (mem_load_8 c pointer k8)
              (if writes then mem_store_8 c pointer else set_outcome_flags c) c
          | SizeHalf \<Rightarrow> guarded mem_eager run (mem_load_16 c pointer k16)
              (if writes then mem_store_16 c pointer else set_outcome_flags c) c
          | SizeWord \<Rightarrow> guarded mem_eager run (mem_load_32 c pointer k32)
              (if writes then mem_store_32 c pointer else set_outcome_flags c) c)
      in case dst of
           OpRegister \<Rightarrow>
             rbind (fetch_8 e c offset) (\<lambda>reg. rbind (to_reg reg) (advance e (offset + 1)))
         | OpRegisterPtr \<Rightarrow>
             rbind (fetch_8 e c offset) (\<lambda>reg. rbind (read_register c reg) (\<lambda>pointer.
             rbind (to_mem pointer) (advance e (offset + 1))))
         | OpImmediatePtr _ \<Rightarrow>
             rbind (fetch_32 e c offset) (\<lambda>pointer. rbind (to_mem pointer) (advance e (offset + 4)))
         | _ \<Rightarrow> Inl ImmediateDestination)"

text \<open>The bytes an operand takes in the instruction stream.\<close>

definition operand_length :: "operand \<Rightarrow> u32" where
  "operand_length opnd =
     (case opnd of
        OpRegister \<Rightarrow> 1 | OpRegisterPtr \<Rightarrow> 1 | OpImmediate8 \<Rightarrow> 1 | OpImmediate16 \<Rightarrow> 2
      | OpImmediate32 \<Rightarrow> 4 | OpImmediatePtr _ \<Rightarrow> 4)"

lemma read_source_offset:
  "read_source e c src = Inr (v, offset) \<Longrightarrow> offset = 2 + operand_length src"
  by (cases src) (auto simp: read_source_def operand_length_def Let_def)

lemma set_outcome_flags_frame: "set_outcome_flags c out = Inr c' \<Longrightarrow> data_frame c c'"
  by (auto simp: set_outcome_flags_def split: prod.splits)

lemma store_frames:
  "reg_store_8 c reg o8 = Inr c' \<Longrightarrow> data_frame c c'"
  "reg_store_16 c reg o16 = Inr c' \<Longrightarrow> data_frame c c'"
  "reg_store_32 c reg o32 = Inr c' \<Longrightarrow> data_frame c c'"
  "mem_store_8 c p o8 = Inr c' \<Longrightarrow> data_frame c c'"
  "mem_store_16 c p o16 = Inr c' \<Longrightarrow> data_frame c c'"
  "mem_store_32 c p o32 = Inr c' \<Longrightarrow> data_frame c c'"
  by (auto simp: reg_store_8_def reg_store_16_def reg_store_32_def mem_store_8_def
      mem_store_16_def mem_store_32_def rbind_eq_Inr
      intro: data_frame_trans [OF data_frame_write_register]
        data_frame_trans [OF data_frame_mem_write(1)] data_frame_trans [OF data_frame_mem_write(2)]
        data_frame_trans [OF data_frame_mem_write(3)] split: prod.splits)

lemma guarded_skip: "guarded eager False load commit c = Inr c' \<Longrightarrow> c' = c"
  by (auto simp: guarded_def rbind_eq_Inr split: if_splits)

lemma guarded_frame:
  assumes "guarded eager run load commit c = Inr c'"
    and "\<And>r c'. commit r = Inr c' \<Longrightarrow> data_frame c c'"
  shows "data_frame c c'"
  using assms by (auto simp: guarded_def rbind_eq_Inr split: if_splits)

lemma res_le_guarded:
  "res_le load load' \<Longrightarrow> res_le (guarded eager run load commit c) (guarded eager run load' commit c)"
  by (auto simp: guarded_def)

section \<open>The laws of the scheme\<close>

lemma alu_dest_advances:
  assumes "alu_dest er em w e sz run dst off k8 k16 k32 c = Inr (next, c')"
  shows "next = instruction_pointer c' + off + operand_length dst"
  using assms
  by (cases dst) (auto simp: alu_dest_def Let_def operand_length_def rbind_eq_Inr dest!: advance_Inr)

lemma alu_dest_skip:
  assumes "alu_dest er em w e sz False dst off k8 k16 k32 c = Inr (next, c')"
  shows "c' = c"
  using assms
  by (cases dst; cases sz)
     (auto simp: alu_dest_def Let_def rbind_eq_Inr dest!: advance_Inr guarded_skip)

lemma alu_dest_frame:
  assumes "alu_dest er em w e sz run dst off k8 k16 k32 c = Inr (next, c')"
  shows "data_frame c c'"
  using assms
  by (cases dst; cases sz; cases w)
     (auto simp: alu_dest_def Let_def rbind_eq_Inr dest!: advance_Inr
       elim!: guarded_frame store_frames set_outcome_flags_frame)

lemma res_le_load:
  assumes "\<And>x. res_le (k8 x) (k8' x)" "\<And>x. res_le (k16 x) (k16' x)" "\<And>x. res_le (k32 x) (k32' x)"
  shows "res_le (reg_load_8 c reg k8) (reg_load_8 c reg k8')"
    "res_le (reg_load_16 c reg k16) (reg_load_16 c reg k16')"
    "res_le (reg_load_32 c reg k32) (reg_load_32 c reg k32')"
    "res_le (mem_load_8 c p k8) (mem_load_8 c p k8')"
    "res_le (mem_load_16 c p k16) (mem_load_16 c p k16')"
    "res_le (mem_load_32 c p k32) (mem_load_32 c p k32')"
  using assms
  by (auto simp: reg_load_8_def reg_load_16_def reg_load_32_def mem_load_8_def mem_load_16_def
      mem_load_32_def)

lemma alu_dest_release:
  assumes "\<And>x. res_le (k8 x) (k8' x)" "\<And>x. res_le (k16 x) (k16' x)" "\<And>x. res_le (k32 x) (k32' x)"
  shows "res_le (alu_dest er em w e sz run dst off k8 k16 k32 c)
    (alu_dest er em w (release e) sz run dst off k8' k16' k32' c)"
proof -
  note loads = res_le_load [OF assms]
  show ?thesis
    by (cases dst; cases sz)
       (auto simp: alu_dest_def Let_def intro!: res_le_rbind res_le_guarded loads)
qed

section \<open>The contract of an arm\<close>

text \<open>
  An arm is given by its operation at the three sizes, taking whether overflow is checked and
  the source value; its laws are those of the scheme.
\<close>

locale alu_operation =
  fixes k8 :: "bool \<Rightarrow> u32 \<Rightarrow> u8 \<Rightarrow> 8 outcome res"
    and k16 :: "bool \<Rightarrow> u32 \<Rightarrow> u16 \<Rightarrow> 16 outcome res"
    and k32 :: "bool \<Rightarrow> u32 \<Rightarrow> u32 \<Rightarrow> 32 outcome res"
  assumes k8_release: "res_le (k8 chk s x8) (k8 False s x8)"
    and k16_release: "res_le (k16 chk s x16) (k16 False s x16)"
    and k32_release: "res_le (k32 chk s x32) (k32 False s x32)"

locale binary_arm = alu_operation k8 k16 k32
  for k8 k16 k32 +
  fixes arm :: "'k env \<Rightarrow> size \<Rightarrow> condition \<Rightarrow> operand \<Rightarrow> operand \<Rightarrow> 'k cpu \<Rightarrow> (u32 \<times> 'k cpu) res"
    and reg_eager mem_eager writes :: bool
  assumes arm_eq: "arm e sz cond dst src c =
    rbind (read_source e c src) (\<lambda>(s, off).
      alu_dest reg_eager mem_eager writes e sz (check_condition c cond) dst off
        (k8 (overflow_checks e) s) (k16 (overflow_checks e) s) (k32 (overflow_checks e) s) c)"
begin

lemma advances:
  assumes "arm e sz cond dst src c = Inr (next, c')"
  shows "next = instruction_pointer c + 2 + operand_length src + operand_length dst"
    and "data_frame c c'"
proof -
  from assms obtain s off where *: "read_source e c src = Inr (s, off)"
    "alu_dest reg_eager mem_eager writes e sz (check_condition c cond) dst off
      (k8 (overflow_checks e) s) (k16 (overflow_checks e) s) (k32 (overflow_checks e) s) c
      = Inr (next, c')"
    by (auto simp: arm_eq rbind_eq_Inr)
  show f: "data_frame c c'" by (rule alu_dest_frame [OF *(2)])
  show "next = instruction_pointer c + 2 + operand_length src + operand_length dst"
    using alu_dest_advances [OF *(2)] read_source_offset [OF *(1)] data_frame_ip [OF f]
    by (simp add: add.assoc)
qed

lemma skips: "arm e sz cond dst src c = Inr (next, c') \<Longrightarrow> \<not> check_condition c cond \<Longrightarrow> c' = c"
  by (auto simp: arm_eq rbind_eq_Inr dest: alu_dest_skip)

lemma releases: "res_le (arm e sz cond dst src c) (arm (release e) sz cond dst src c)"
  unfolding arm_eq release_simps
  by (intro res_le_rbind) (auto intro!: alu_dest_release k8_release k16_release k32_release)

lemma immediate_destination:
  "read_source e c src = Inr v \<Longrightarrow> dst \<in> {OpImmediate8, OpImmediate16, OpImmediate32}
    \<Longrightarrow> arm e sz cond dst src c = Inl ImmediateDestination"
  by (cases v) (auto simp: arm_eq alu_dest_def Let_def)

end

locale unary_arm = alu_operation k8 k16 k32
  for k8 k16 k32 +
  fixes arm :: "'k env \<Rightarrow> size \<Rightarrow> condition \<Rightarrow> operand \<Rightarrow> 'k cpu \<Rightarrow> (u32 \<times> 'k cpu) res"
    and reg_eager mem_eager writes :: bool
  assumes arm_eq: "arm e sz cond dst c =
    alu_dest reg_eager mem_eager writes e sz (check_condition c cond) dst 2
      (k8 (overflow_checks e) 0) (k16 (overflow_checks e) 0) (k32 (overflow_checks e) 0) c"
begin

lemma advances:
  assumes "arm e sz cond dst c = Inr (next, c')"
  shows "next = instruction_pointer c + 2 + operand_length dst" and "data_frame c c'"
proof -
  show f: "data_frame c c'" using assms unfolding arm_eq by (rule alu_dest_frame)
  show "next = instruction_pointer c + 2 + operand_length dst"
    using alu_dest_advances [OF assms [unfolded arm_eq]] data_frame_ip [OF f] by simp
qed

lemma skips: "arm e sz cond dst c = Inr (next, c') \<Longrightarrow> \<not> check_condition c cond \<Longrightarrow> c' = c"
  by (auto simp: arm_eq dest: alu_dest_skip)

lemma releases: "res_le (arm e sz cond dst c) (arm (release e) sz cond dst c)"
  unfolding arm_eq release_simps by (intro alu_dest_release k8_release k16_release k32_release)

end

section \<open>Every arm meets its contract\<close>

lemmas scheme_defs = alu_dest_def guarded_def Let_def

lemma operation_release:
  "res_le (alu_sla chk s x) (alu_sla False s x)" "res_le (alu_sra chk s x) (alu_sra False s x)"
  "res_le (alu_srl chk s x) (alu_srl False s x)" "res_le (alu_bse chk s x) (alu_bse False s x)"
  "res_le (alu_bcl chk s x) (alu_bcl False s x)" "res_le (alu_bts chk s x) (alu_bts False s x)"
  by (auto simp: alu_sla_def alu_sra_def alu_srl_def alu_bse_def alu_bcl_def alu_bts_def)

interpretation arm_add: binary_arm "\<lambda>_. alu_add" "\<lambda>_. alu_add" "\<lambda>_. alu_add" exec_add False True True
  by unfold_locales (auto simp: exec_add_def scheme_defs operation_release cong: operand.case_cong size.case_cong)

interpretation arm_sub: binary_arm "\<lambda>_. alu_sub" "\<lambda>_. alu_sub" "\<lambda>_. alu_sub" exec_sub False True True
  by unfold_locales (auto simp: exec_sub_def scheme_defs operation_release cong: operand.case_cong size.case_cong)

interpretation arm_mul: binary_arm "\<lambda>_. alu_mul" "\<lambda>_. alu_mul" "\<lambda>_. alu_mul" exec_mul False True True
  by unfold_locales (auto simp: exec_mul_def scheme_defs operation_release cong: operand.case_cong size.case_cong)

interpretation arm_div: binary_arm "\<lambda>_. alu_div" "\<lambda>_. alu_div" "\<lambda>_. alu_div" exec_div False True True
  by unfold_locales (auto simp: exec_div_def scheme_defs operation_release cong: operand.case_cong size.case_cong)

interpretation arm_rem: binary_arm "\<lambda>_. alu_rem" "\<lambda>_. alu_rem" "\<lambda>_. alu_rem" exec_rem False True True
  by unfold_locales (auto simp: exec_rem_def scheme_defs operation_release cong: operand.case_cong size.case_cong)

interpretation arm_and: binary_arm "\<lambda>_. alu_and" "\<lambda>_. alu_and" "\<lambda>_. alu_and" exec_and False True True
  by unfold_locales (auto simp: exec_and_def scheme_defs operation_release cong: operand.case_cong size.case_cong)

interpretation arm_or: binary_arm "\<lambda>_. alu_or" "\<lambda>_. alu_or" "\<lambda>_. alu_or" exec_or False True True
  by unfold_locales (auto simp: exec_or_def scheme_defs operation_release cong: operand.case_cong size.case_cong)

interpretation arm_xor: binary_arm "\<lambda>_. alu_xor" "\<lambda>_. alu_xor" "\<lambda>_. alu_xor" exec_xor False True True
  by unfold_locales (auto simp: exec_xor_def scheme_defs operation_release cong: operand.case_cong size.case_cong)

interpretation arm_sla: binary_arm "alu_sla" "alu_sla" "alu_sla" exec_sla False True True
  by unfold_locales (auto simp: exec_sla_def scheme_defs operation_release cong: operand.case_cong size.case_cong)

interpretation arm_sra: binary_arm "alu_sra" "alu_sra" "alu_sra" exec_sra False True True
  by unfold_locales (auto simp: exec_sra_def scheme_defs operation_release cong: operand.case_cong size.case_cong)

interpretation arm_srl: binary_arm "alu_srl" "alu_srl" "alu_srl" exec_srl False True True
  by unfold_locales (auto simp: exec_srl_def scheme_defs operation_release cong: operand.case_cong size.case_cong)

interpretation arm_rol: binary_arm "\<lambda>_. alu_rol" "\<lambda>_. alu_rol" "\<lambda>_. alu_rol" exec_rol False True True
  by unfold_locales (auto simp: exec_rol_def scheme_defs operation_release cong: operand.case_cong size.case_cong)

interpretation arm_ror: binary_arm "\<lambda>_. alu_ror" "\<lambda>_. alu_ror" "\<lambda>_. alu_ror" exec_ror False True True
  by unfold_locales (auto simp: exec_ror_def scheme_defs operation_release cong: operand.case_cong size.case_cong)

interpretation arm_bse: binary_arm "alu_bse" "alu_bse" "alu_bse" exec_bse True True True
  by unfold_locales (auto simp: exec_bse_def scheme_defs operation_release cong: operand.case_cong size.case_cong)

interpretation arm_bcl: binary_arm "alu_bcl" "alu_bcl" "alu_bcl" exec_bcl True True True
  by unfold_locales (auto simp: exec_bcl_def scheme_defs operation_release cong: operand.case_cong size.case_cong)

interpretation arm_bts: binary_arm "alu_bts" "alu_bts" "alu_bts" exec_bts True True False
  by unfold_locales (auto simp: exec_bts_def scheme_defs operation_release cong: operand.case_cong size.case_cong)

interpretation arm_cmp: binary_arm "\<lambda>_. alu_cmp" "\<lambda>_. alu_cmp" "\<lambda>_. alu_cmp" exec_cmp False True False
  by unfold_locales (auto simp: exec_cmp_def scheme_defs operation_release cong: operand.case_cong size.case_cong)

interpretation arm_inc: unary_arm "\<lambda>_ _. alu_inc" "\<lambda>_ _. alu_inc" "\<lambda>_ _. alu_inc" exec_inc False False True
  by unfold_locales (auto simp: exec_inc_def scheme_defs operation_release cong: operand.case_cong size.case_cong)

interpretation arm_dec: unary_arm "\<lambda>_ _. alu_dec" "\<lambda>_ _. alu_dec" "\<lambda>_ _. alu_dec" exec_dec False False True
  by unfold_locales (auto simp: exec_dec_def scheme_defs operation_release cong: operand.case_cong size.case_cong)

interpretation arm_not: unary_arm "\<lambda>_ _. alu_not" "\<lambda>_ _. alu_not" "\<lambda>_ _. alu_not" exec_not False True True
  by unfold_locales (auto simp: exec_not_def scheme_defs operation_release cong: operand.case_cong size.case_cong)

end
