(* ===== verification/StackLaws.thy ===== *)
theory StackLaws
  imports AluLaws
begin

text \<open>
  The stack (\<open>push_stack_*\<close> and \<open>pop_stack_*\<close> of \<open>fox32/src/cpu.rs\<close>) and what rests on it:
  calls and returns, interrupt entry and \<open>reti\<close>. The stack is a client of the memory
  interface; its own laws are proved once for all widths.
\<close>

section \<open>Stack slots\<close>

text \<open>
  A mapped slot just below an address never wraps around the end of the address space, so it
  lies below that address.
\<close>

lemma slot_below:
  assumes "mapped w (p - word_of_nat w)" and "0 < w" and "w \<le> 512"
  shows "unat (p - word_of_nat w) + w = unat p"
proof (cases "w \<le> unat p")
  case True
  have "unat (word_of_nat w :: u32) = w"
    unfolding unsigned_of_nat using assms(3) by (simp add: take_bit_nat_eq_self_iff)
  with True have "word_of_nat w \<le> p" "unat (word_of_nat w :: u32) = w"
    by (simp_all add: word_le_nat_alt)
  then show ?thesis using True by (simp add: unat_sub)
next
  case False
  have w: "unat (word_of_nat w :: u32) = w"
    unfolding unsigned_of_nat using assms(3) by (simp add: take_bit_nat_eq_self_iff)
  have "unat (p - word_of_nat w) = unat p + 4294967296 - w"
    using False w by (simp add: unat_sub_if' split: if_splits)
  then show ?thesis
    using False assms by (auto simp: mapped_def in_ram_def in_rom_def)
qed

section \<open>The stack interface\<close>

locale stack_access = memory_access get put width
  for get :: "memory \<Rightarrow> u32 \<Rightarrow> 'v res" and put width +
  fixes push :: "'k cpu \<Rightarrow> 'v \<Rightarrow> 'k cpu res" and pop :: "'k cpu \<Rightarrow> ('v \<times> 'k cpu) res"
  assumes push_eq: "push c v =
      rbind (put (memory (bus c)) (stack_pointer c - word_of_nat width) v) (\<lambda>m.
      Inr (set_memory (c\<lparr>stack_pointer := stack_pointer c - word_of_nat width\<rparr>) m))"
    and pop_eq: "pop c =
      rbind (get (memory (bus c)) (stack_pointer c)) (\<lambda>v.
      Inr (v, c\<lparr>stack_pointer := stack_pointer c + word_of_nat width\<rparr>))"
    and width_bounds: "0 < width" "width \<le> 512"
begin

lemma push_Inr:
  assumes "push c v = Inr c'"
  shows "c' = c\<lparr>stack_pointer := stack_pointer c - word_of_nat width, bus := bus c'\<rparr>"
    and "bus c' = (bus c)\<lparr>memory := memory (bus c')\<rparr>"
    and "put (memory (bus c)) (stack_pointer c - word_of_nat width) v = Inr (memory (bus c'))"
  using assms by (auto simp: push_eq rbind_eq_Inr set_memory_def)

lemma push_succeeds: "(\<exists>c'. push c v = Inr c') \<longleftrightarrow> mapped width (stack_pointer c - word_of_nat width)"
  using put_mapped by (auto simp: push_eq rbind_eq_Inr)

lemma push_fails:
  "\<not> mapped width (stack_pointer c - word_of_nat width)
    \<Longrightarrow> push c v = Inl (UnmappedMemory (stack_pointer c - word_of_nat width))"
  by (simp add: push_eq put_unmapped)

lemma push_slot:
  assumes "push c v = Inr c'"
  shows "mapped width (stack_pointer c')" and "unat (stack_pointer c') + width = unat (stack_pointer c)"
proof -
  have sp: "stack_pointer c' = stack_pointer c - word_of_nat width"
    using push_Inr(1) [OF assms] by (metis cpu.select_convs(2) cpu.simps(2) cpu.surjective cpu.update_convs(2,6))
  show m: "mapped width (stack_pointer c')"
    using assms push_succeeds sp by metis
  show "unat (stack_pointer c') + width = unat (stack_pointer c)"
    using slot_below [of width "stack_pointer c"] m sp width_bounds by simp
qed

lemma push_pop:
  assumes "push c v = Inr c'"
  shows "pop c' = Inr (v, c\<lparr>bus := bus c'\<rparr>)"
proof -
  from assms obtain m where put: "put (memory (bus c)) (stack_pointer c - word_of_nat width) v = Inr m"
    and c': "c' = set_memory (c\<lparr>stack_pointer := stack_pointer c - word_of_nat width\<rparr>) m"
    by (auto simp: push_eq rbind_eq_Inr)
  show ?thesis
    using get_put_same [OF put] by (simp add: c' pop_eq set_memory_def)
qed

lemma push_keeps_above:
  assumes "push c v = Inr c'" and "n \<le> 512" and "unat (stack_pointer c) \<le> unat a"
  shows "load_bytes n (memory (bus c')) a = load_bytes n (memory (bus c)) a"
proof -
  have "unat (stack_pointer c - word_of_nat width) + width = unat (stack_pointer c)"
    using slot_below push_succeeds width_bounds assms(1) by metis
  then show ?thesis
    using assms(3) by (intro put_frame [OF push_Inr(3) [OF assms(1)] assms(2)]) (simp add: apart_def)
qed

end

locale stack_pair =
  pair: memory_access_pair get1 put1 w1 get2 put2 w2 +
  one: stack_access get1 put1 w1 push1 pop1 + two: stack_access get2 put2 w2 push2 pop2
  for get1 :: "memory \<Rightarrow> u32 \<Rightarrow> 'v res" and put1 w1
    and push1 :: "'k cpu \<Rightarrow> 'v \<Rightarrow> 'k cpu res" and pop1
    and get2 :: "memory \<Rightarrow> u32 \<Rightarrow> 'w res" and put2 w2
    and push2 :: "'k cpu \<Rightarrow> 'w \<Rightarrow> 'k cpu res" and pop2
begin

text \<open>Pops take back pushes of either width in the opposite order.\<close>

lemma lifo:
  assumes "push2 c v = Inr c1" and "push1 c1 w = Inr c2"
  shows "pop1 c2 = Inr (w, c1\<lparr>bus := bus c2\<rparr>)"
    and "pop2 (c1\<lparr>bus := bus c2\<rparr>) = Inr (v, c\<lparr>bus := bus c2\<rparr>)"
proof -
  show "pop1 c2 = Inr (w, c1\<lparr>bus := bus c2\<rparr>)"
    by (rule one.push_pop [OF assms(2)])
  have "load_bytes w2 (memory (bus c2)) (stack_pointer c1) = load_bytes w2 (memory (bus c1)) (stack_pointer c1)"
    by (rule one.push_keeps_above [OF assms(2) pair.w2_bound]) simp
  then have "get2 (memory (bus c2)) (stack_pointer c1) = get2 (memory (bus c1)) (stack_pointer c1)"
    by (rule pair.get2_bytes)
  moreover from assms(1) obtain m
    where put: "put2 (memory (bus c)) (stack_pointer c - word_of_nat w2) v = Inr m"
      and c1: "c1 = set_memory (c\<lparr>stack_pointer := stack_pointer c - word_of_nat w2\<rparr>) m"
    by (auto simp: two.push_eq rbind_eq_Inr)
  ultimately have "get2 (memory (bus c2)) (stack_pointer c1) = Inr v"
    using pair.two.get_put_same [OF put] by (simp add: set_memory_def)
  then show "pop2 (c1\<lparr>bus := bus c2\<rparr>) = Inr (v, c\<lparr>bus := bus c2\<rparr>)"
    by (simp add: two.pop_eq c1 set_memory_def)
qed

end

lemmas stack_defs = push_stack_8_def push_stack_16_def push_stack_32_def pop_stack_8_def
  pop_stack_16_def pop_stack_32_def mem_write_8_def mem_write_16_def mem_write_32_def
  mem_read_8_def mem_read_16_def mem_read_32_def overflowing_add_def overflowing_sub_def

interpretation stack8: stack_access read_8 write_8 1 push_stack_8 pop_stack_8
  by unfold_locales (simp_all add: stack_defs Let_def)

interpretation stack16: stack_access read_16 write_16 2 push_stack_16 pop_stack_16
  by unfold_locales (simp_all add: stack_defs Let_def)

interpretation stack32: stack_access read_32 write_32 4 push_stack_32 pop_stack_32
  by unfold_locales (simp_all add: stack_defs Let_def)

interpretation stack_8_32: stack_pair read_8 write_8 1 push_stack_8 pop_stack_8
    read_32 write_32 4 push_stack_32 pop_stack_32
  by unfold_locales

interpretation stack_32_8: stack_pair read_32 write_32 4 push_stack_32 pop_stack_32
    read_8 write_8 1 push_stack_8 pop_stack_8
  by unfold_locales

section \<open>Flags as a byte\<close>

lemma flag_of_u8_of_flag [simp]: "flag_of_u8 (u8_of_flag f) = f"
  by (cases f) (auto simp: flag_of_u8_def u8_of_flag_def)

section \<open>Interrupt entry and return\<close>

lemma handle_interrupt_Inr:
  assumes "handle_interrupt e v c = Inr c'"
  shows "\<exists>c1 c2. push_stack_32 c (instruction_pointer c) = Inr c1 \<and>
    push_stack_8 c1 (u8_of_flag (flag c)) = Inr c2 \<and>
    mem_read_32 c (ucast v * 4) = Inr (instruction_pointer c') \<and>
    c' = (set_interrupt_flag False c2)\<lparr>instruction_pointer := instruction_pointer c'\<rparr> \<and>
    flag c2 = flag c"
proof -
  from assms obtain a c1 c2 where *: "mem_read_32 c (ucast v * 4) = Inr a"
    "push_stack_32 c (instruction_pointer c) = Inr c1"
    "push_stack_8 c1 (u8_of_flag (flag c1)) = Inr c2"
    "c' = (set_interrupt_flag False c2)\<lparr>instruction_pointer := a\<rparr>"
    by (auto simp: handle_interrupt_def rbind_eq_Inr Let_def checked_times_def split: if_splits)
  have "flag c1 = flag c" "flag c2 = flag c1"
    using stack32.push_Inr(1) [OF *(2)] stack8.push_Inr(1) [OF *(3)]
    by (metis cpu.select_convs(4) cpu.surjective cpu.update_convs(2,6))+
  with * show ?thesis by auto
qed

lemma interrupt_then_reti:
  assumes "handle_interrupt e v c = Inr c'"
  shows "exec_reti e' CondAlways c' =
    Inr (instruction_pointer c, c\<lparr>instruction_pointer := instruction_pointer c', bus := bus c'\<rparr>)"
proof -
  from handle_interrupt_Inr [OF assms] obtain c1 c2
    where 1: "push_stack_32 c (instruction_pointer c) = Inr c1"
      and 2: "push_stack_8 c1 (u8_of_flag (flag c)) = Inr c2"
      and c': "c' = (set_interrupt_flag False c2)\<lparr>instruction_pointer := instruction_pointer c'\<rparr>"
    by blast
  from c' obtain a where a: "c' = (set_interrupt_flag False c2)\<lparr>instruction_pointer := a\<rparr>" by blast
  obtain m1 where c1: "c1 = set_memory (c\<lparr>stack_pointer := stack_pointer c - 4\<rparr>) m1"
    using 1 by (auto simp: stack32.push_eq rbind_eq_Inr)
  obtain m2 where c2: "c2 = set_memory (c1\<lparr>stack_pointer := stack_pointer c1 - 1\<rparr>) m2"
    using 2 by (auto simp: stack8.push_eq rbind_eq_Inr)
  note lifo = stack_8_32.lifo [OF 1 2]
  from lifo(1) have "read_8 m2 (stack_pointer c - 4 - 1) = Inr (u8_of_flag (flag c))"
    by (auto simp: stack8.pop_eq rbind_eq_Inr c1 c2 set_memory_def)
  moreover from lifo(2) have "read_32 m2 (stack_pointer c - 4) = Inr (instruction_pointer c)"
    by (auto simp: stack32.pop_eq rbind_eq_Inr c1 c2 set_memory_def)
  ultimately show ?thesis
    by (simp add: exec_reti_def check_condition_def a c1 c2 stack8.pop_eq stack32.pop_eq
        set_memory_def set_interrupt_flag_def)
qed

end
