(* ===== verification/BusLaws.thy ===== *)
theory BusLaws
  imports Bus
begin

text \<open>
  What the bus guarantees: which accesses panic, that every access keeps the bus well formed,
  that a device register reads back what was written to it, and what a sector transfer does.
\<close>

section \<open>Port fields\<close>

lemma unat_and_mask_u32: "unat ((p :: u32) AND mask n) = unat p mod 2 ^ n"
  unfolding take_bit_eq_mask [symmetric] unsigned_take_bit_eq by (rule take_bit_eq_mod)

lemma unat_drop_u32: "unat (drop_bit n (p :: u32)) = unat p div 2 ^ n"
proof -
  have "take_bit LENGTH(32) (unat p) = unat p"
    using unsigned_less [of p] by (simp add: take_bit_nat_eq_self_iff)
  then show ?thesis
    unfolding unsigned_drop_bit_eq by (simp only: drop_bit_eq_div)
qed

lemma port_number: "unat ((p :: u32) AND 0x000000FF) = unat p mod 256"
  using unat_and_mask_u32 [of p 8] by (simp add: mask_eq_exp_minus_1)

lemma port_id: "unat (ucast (p :: u32) :: u8) = unat p mod 256"
  by (simp add: unsigned_ucast_eq take_bit_eq_mod)

lemma port_setting: "unat (drop_bit 8 ((p :: u32) AND 0x0000FF00)) = unat p div 256 mod 256"
proof -
  have m: "(0x0000FF00 :: u32) = push_bit 8 (mask 8)"
    by (simp add: mask_eq_exp_minus_1)
  have "drop_bit 8 (p AND 0x0000FF00) = drop_bit 8 p AND mask 8"
    unfolding m by (rule bit_word_eqI) (auto simp: bit_simps)
  then have "unat (drop_bit 8 (p AND 0x0000FF00)) = unat (drop_bit 8 p AND mask 8)"
    by (rule arg_cong)
  then show ?thesis
    by (simp only: unat_and_mask_u32 unat_drop_u32) simp
qed

lemma port_operation: "unat (drop_bit 8 ((p :: u32) AND 0x0000F000)) = unat p div 4096 mod 16 * 16"
proof -
  have m: "(0x0000F000 :: u32) = push_bit 12 (mask 4)"
    by (simp add: mask_eq_exp_minus_1)
  have "drop_bit 8 (p AND 0x0000F000) = push_bit 4 (drop_bit 12 p AND mask 4)"
    unfolding m by (rule bit_word_eqI) (auto simp: bit_simps)
  also have "\<dots> = (drop_bit 12 p AND mask 4) * 16"
    by (simp add: push_bit_eq_mult)
  finally have "unat (drop_bit 8 (p AND 0x0000F000)) = unat ((drop_bit 12 p AND mask 4) * 16)"
    by (rule arg_cong)
  also have "\<dots> = unat (drop_bit 12 p AND mask 4) * 16"
    unfolding unat_word_ariths unat_and_mask_u32 by simp
  also have "\<dots> = unat p div 4096 mod 16 * 16"
    by (simp only: unat_and_mask_u32 unat_drop_u32) simp
  finally show ?thesis .
qed

lemma word_u32_eq_iff: "(x :: u32) = y \<longleftrightarrow> unat x = unat y"
  by (rule word_unat_eq_iff)

lemma u32_of_unat: "unat (x :: u32) = n \<Longrightarrow> x = word_of_nat n"
  by auto

lemma word_cases_4:
  assumes "unat (x :: u32) \<le> 3"
  shows "x = 0 \<or> x = 1 \<or> x = 2 \<or> x = 3"
proof -
  from assms have "unat x = 0 \<or> unat x = 1 \<or> unat x = 2 \<or> unat x = 3" by arith
  then show ?thesis
    by (elim disjE) (drule u32_of_unat, simp)+
qed

text \<open>The ports of each device, as ranges of numbers.\<close>

definition overlay_port :: "u32 \<Rightarrow> bool" where
  "overlay_port p \<longleftrightarrow> 0x80000000 \<le> p \<and> p \<le> 0x8000031F"

definition mouse_port :: "u32 \<Rightarrow> bool" where
  "mouse_port p \<longleftrightarrow> 0x80000400 \<le> p \<and> p \<le> 0x80000401"

lemma overlay_port_setting:
  assumes "overlay_port p"
  shows "drop_bit 8 (p AND 0x0000FF00) \<in> {0, 1, 2, 3}"
proof -
  from assms have "0x80000000 \<le> unat p" "unat p \<le> 0x8000031F"
    by (simp_all add: overlay_port_def word_le_nat_alt)
  define k where "k = unat p - 0x80000000"
  have k: "unat p = k + 0x800000 * 256" "k \<le> 0x31F"
    using \<open>0x80000000 \<le> unat p\<close> \<open>unat p \<le> 0x8000031F\<close> by (simp_all add: k_def)
  have "unat p div 256 = 0x800000 + k div 256"
    unfolding k(1) by (rule div_mult_self1) simp
  moreover have "k div 256 \<le> 3" using less_mult_imp_div_less [of k 4 256] k(2) by simp
  moreover have "(0x800000 + x) mod 256 = x mod 256" for x :: nat
    using mod_mult_self1 [of x "0x8000" 256] by (simp add: add.commute)
  ultimately have "unat p div 256 mod 256 \<le> 3"
    using mod_less_eq_dividend [of "k div 256" 256] le_trans by simp
  then have "unat (drop_bit 8 (p AND 0x0000FF00)) \<le> 3" by (simp only: port_setting)
  from word_cases_4 [OF this] show ?thesis by blast
qed

lemma mouse_port_setting:
  assumes "mouse_port p"
  shows "(ucast (p AND 0x000000FF) :: u8) \<in> {0, 1}"
proof -
  from assms have "0x80000400 \<le> unat p" "unat p \<le> 0x80000401"
    by (simp_all add: mouse_port_def word_le_nat_alt)
  then have "unat p = 0x80000400 \<or> unat p = 0x80000401" by arith
  then have "p = 0x80000400 \<or> p = 0x80000401"
    by (elim disjE) (drule u32_of_unat, simp)+
  then show ?thesis by auto
qed

lemma disk_operation_eq:
  "drop_bit 8 ((p :: u32) AND 0x0000F000) = of_nat (unat p div 4096 mod 16 * 16)"
  by (simp only: port_operation [symmetric]) simp

lemma disk_operation_iff:
  assumes "k < 16"
  shows "drop_bit 8 ((p :: u32) AND 0x0000F000) = of_nat (k * 16) \<longleftrightarrow> unat p div 4096 mod 16 = k"
proof -
  have "unat (of_nat (k * 16) :: u32) = k * 16"
    unfolding unsigned_of_nat using assms by (simp add: take_bit_nat_eq_self_iff)
  then show ?thesis
    unfolding word_u32_eq_iff port_operation by simp
qed

lemma id_gt_3: "3 < (ucast (p :: u32) :: u8) \<longleftrightarrow> 3 < unat p mod 256"
  by (simp add: word_less_nat_alt port_id)

section \<open>Which reads panic\<close>

text \<open>
  Of the reads, exactly those of an overlay numbered 32 or more and those of the insert state
  of a disk numbered 4 or more panic; the catch-all panics of the port decoders are never
  reached.
\<close>

definition bad_read_port :: "u32 \<Rightarrow> bool" where
  "bad_read_port p \<longleftrightarrow>
     (0x80000000 \<le> unat p \<and> unat p \<le> 0x8000031F \<and> 32 \<le> unat p mod 256) \<or>
     (0x80001000 \<le> unat p \<and> unat p < 0x80002000 \<and> 3 < unat p mod 256)"

lemma read_overlay_port_Inl:
  assumes "wf_bus b" and "overlay_port p"
  shows "(\<exists>q. read_overlay_port p b = Inl q) \<longleftrightarrow> 32 \<le> unat p mod 256"
    and "read_overlay_port p b \<noteq> Inl InvalidOverlayPort"
  using overlay_port_setting [OF assms(2)] assms(1)
  by (auto simp: read_overlay_port_def with_overlay_def wf_bus_def port_number Let_def)

lemma read_mouse_port_Inr:
  assumes "mouse_port p"
  shows "\<exists>v. read_mouse_port p b = Inr v"
  using mouse_port_setting [OF assms] by (auto simp: read_mouse_port_def Let_def)

lemma read_disk_port_Inl:
  assumes "wf_bus b" and "0x80001000 \<le> unat p" and "unat p \<le> 0x80002003"
  shows "(\<exists>q. read_disk_port p b = Inl q) \<longleftrightarrow> unat p < 0x80002000 \<and> 3 < unat p mod 256"
    and "read_disk_port p b \<noteq> Inl InvalidDiskPort"
proof -
  have op: "unat p div 4096 mod 16 = (if unat p < 0x80002000 then 1 else 2)"
  proof (cases "unat p < 0x80002000")
    case True
    with assms(2) have "unat p div 4096 = 0x80001" by (intro div_nat_eqI) simp_all
    with True show ?thesis by simp
  next
    case False
    with assms(3) have "unat p div 4096 = 0x80002" by (intro div_nat_eqI) simp_all
    with False show ?thesis by simp
  qed
  have ops: "(drop_bit 8 (p AND 0x0000F000) = 16) = (unat p < 0x80002000)"
    "(drop_bit 8 (p AND 0x0000F000) = 32) = (\<not> unat p < 0x80002000)"
    using disk_operation_iff [of 1 p] disk_operation_iff [of 2 p] op by simp_all
  show "(\<exists>q. read_disk_port p b = Inl q) \<longleftrightarrow> unat p < 0x80002000 \<and> 3 < unat p mod 256"
    "read_disk_port p b \<noteq> Inl InvalidDiskPort"
    unfolding read_disk_port_def Let_def ops using assms(1)
    by (auto simp: id_gt_3 port_id wf_bus_def split: option.splits)
qed

lemma read_io_Inl:
  assumes "wf_bus b"
  shows "(\<exists>q. read_io e p b = Inl q) \<longleftrightarrow> bad_read_port p"
proof -
  consider "overlay_port p" | "mouse_port p" | "0x80001000 \<le> unat p" "unat p \<le> 0x80002003"
    | "\<not> overlay_port p" "\<not> mouse_port p" "\<not> (0x80001000 \<le> unat p \<and> unat p \<le> 0x80002003)"
    by blast
  then show ?thesis
  proof cases
    case 1
    then have "read_io e p b = read_overlay_port p b"
      by (simp add: read_io_def overlay_port_def)
    moreover from 1 have "0x80000000 \<le> unat p" "unat p \<le> 0x8000031F"
      by (simp_all add: overlay_port_def word_le_nat_alt)
    ultimately show ?thesis
      using read_overlay_port_Inl(1) [OF assms 1] by (simp add: bad_read_port_def)
  next
    case 2
    then have "0x80000400 \<le> unat p" "unat p \<le> 0x80000401"
      by (simp_all add: mouse_port_def word_le_nat_alt)
    then show ?thesis
      using read_mouse_port_Inr [OF 2, of b]
      by (auto simp: read_io_def bad_read_port_def word_le_nat_alt)
  next
    case 3
    then have "read_io e p b = read_disk_port p b"
      by (auto simp: read_io_def word_le_nat_alt)
    then show ?thesis
      using read_disk_port_Inl(1) [OF assms 3] 3 by (simp add: bad_read_port_def)
  next
    case 4
    then show ?thesis
      by (auto simp: read_io_def bad_read_port_def overlay_port_def mouse_port_def word_le_nat_alt
          split: prod.splits)
  qed
qed

section \<open>Every access keeps the bus well formed\<close>

lemma read_io_wf: "read_io e p b = Inr (v, b') \<Longrightarrow> wf_bus b \<Longrightarrow> wf_bus b'"
  by (auto simp: read_io_def read_overlay_port_def read_mouse_port_def read_disk_port_def
      with_overlay_def wf_bus_def Let_def split: if_splits prod.splits option.splits)

lemma half_bound: "unat (low_half w) < 65536" "unat (high_half w) < 65536"
proof -
  have "low_half w = w AND mask 16"
    by (simp add: low_half_def mask_eq_exp_minus_1)
  then show "unat (low_half w) < 65536"
    by (simp only: unat_and_mask_u32) simp
  have m: "(0xFFFF0000 :: u32) = push_bit 16 (mask 16)"
    by (simp add: mask_eq_exp_minus_1)
  have "high_half w = drop_bit 16 w AND mask 16"
    unfolding high_half_def m by (rule bit_word_eqI) (auto simp: bit_simps)
  then show "unat (high_half w) < 65536"
    by (simp only: unat_and_mask_u32) simp
qed

lemma set_overlay_wf:
  assumes "set_overlay n f b = Inr b'" and "wf_bus b" and "\<And>ov. wf_overlay ov \<Longrightarrow> wf_overlay (f ov)"
  shows "wf_bus b'"
  using assms
  by (auto simp: set_overlay_def wf_bus_def split: if_splits dest!: set_update_subset_insert [THEN subsetD])

lemma write_overlay_port_wf:
  assumes "write_overlay_port p w b = Inr b'" and "wf_bus b"
  shows "wf_bus b'"
  using assms(1)
  by (auto simp: write_overlay_port_def Let_def wf_overlay_def half_bound split: if_splits
      elim!: set_overlay_wf [OF _ assms(2)])

lemma disk_op_frames:
  "disk_insert f i dc = Inr dc' \<Longrightarrow>
    length (disks dc') = length (disks dc) \<and> buffer_pointer dc' = buffer_pointer dc"
  "disk_remove i dc = Inr dc' \<Longrightarrow>
    length (disks dc') = length (disks dc) \<and> buffer_pointer dc' = buffer_pointer dc"
  "set_current_sector i w dc = Inr dc' \<Longrightarrow>
    length (disks dc') = length (disks dc) \<and> buffer_pointer dc' = buffer_pointer dc"
  "read_into_memory i m dc = Inr (n, m', dc') \<Longrightarrow>
    length (disks dc') = length (disks dc) \<and> buffer_pointer dc' = buffer_pointer dc"
  "write_from_memory i m dc = Inr (n, dc') \<Longrightarrow>
    length (disks dc') = length (disks dc) \<and> buffer_pointer dc' = buffer_pointer dc"
  by (auto simp: disk_insert_def disk_remove_def set_current_sector_def read_into_memory_def
      write_from_memory_def put_disk_def file_read_def Let_def rbind_eq_Inr split: if_splits prod.splits)

lemma write_disk_port_wf:
  assumes "write_disk_port e p w b = Inr b'" and "wf_bus b"
  shows "wf_bus b'"
  using assms
  by (auto simp: write_disk_port_def Let_def wf_bus_def rbind_eq_Inr
      split: if_splits option.splits prod.splits dest!: disk_op_frames intro: unat_u32_bound)

lemma write_io_wf: "write_io e p w b = Inr b' \<Longrightarrow> wf_bus b \<Longrightarrow> wf_bus b'"
  by (auto simp: write_io_def write_mouse_port_def Let_def split: if_splits
      intro: write_overlay_port_wf write_disk_port_wf)
     (auto simp: wf_bus_def)

section \<open>Device registers read back what was written\<close>

text \<open>
  The contract of a bank of device registers: the ports \<open>dev\<close> of the bank, what a register
  holds after a write (\<open>norm\<close>), and that a write changes no other register of the bank.
\<close>

locale port_registers =
  fixes dev :: "u32 \<Rightarrow> bool"
    and rd :: "u32 \<Rightarrow> 's \<Rightarrow> (u32 \<times> 's) res"
    and wr :: "u32 \<Rightarrow> u32 \<Rightarrow> 's \<Rightarrow> 's res"
    and norm :: "u32 \<Rightarrow> u32 \<Rightarrow> u32"
  assumes reads_back: "dev p \<Longrightarrow> wr p w b = Inr b' \<Longrightarrow> rd p b' = Inr (norm p w, b')"
    and keeps_others: "dev p \<Longrightarrow> dev p' \<Longrightarrow> p' \<noteq> p \<Longrightarrow> wr p w b = Inr b'
      \<Longrightarrow> map_sum id fst (rd p' b') = map_sum id fst (rd p' b)"
begin

lemma two_writes:
  assumes "dev p" "dev p'" "p' \<noteq> p" "wr p' w' b = Inr b1" "wr p w b1 = Inr b2"
  shows "map_sum id fst (rd p' b2) = Inr (norm p' w')" and "map_sum id fst (rd p b2) = Inr (norm p w)"
proof -
  have "map_sum id fst (rd p' b1) = Inr (norm p' w')"
    using reads_back [OF assms(2,4)] by simp
  then show "map_sum id fst (rd p' b2) = Inr (norm p' w')"
    using keeps_others [OF assms(1,2,3,5)] by simp
  show "map_sum id fst (rd p b2) = Inr (norm p w)"
    using reads_back [OF assms(1,5)] by simp
qed

lemma last_write_wins:
  assumes "dev p" "wr p w b = Inr b1" "wr p w' b1 = Inr b2"
  shows "rd p b2 = Inr (norm p w', b2)"
  using assms(1,3) by (rule reads_back)

end

lemma pack_unpack: "pack_halves (high_half w) (low_half w) = w"
proof -
  have m: "(0xFFFF0000 :: u32) = push_bit 16 (mask 16)" "(0x0000FFFF :: u32) = mask 16"
    by (simp_all add: mask_eq_exp_minus_1)
  show ?thesis
    unfolding pack_halves_def high_half_def low_half_def m
    by (rule bit_word_eqI) (auto simp: bit_simps)
qed

definition overlay_norm :: "u32 \<Rightarrow> u32 \<Rightarrow> u32" where
  "overlay_norm p w = (if unat p div 256 mod 256 = 3 then (if w \<noteq> 0 then 1 else 0) else w)"

lemma setting_is_3: "drop_bit 8 ((p :: u32) AND 0x0000FF00) = 3 \<longleftrightarrow> unat p div 256 mod 256 = 3"
proof -
  have "drop_bit 8 (p AND 0x0000FF00) = 3 \<longleftrightarrow> unat (drop_bit 8 (p AND 0x0000FF00)) = unat (3 :: u32)"
    by (rule word_u32_eq_iff)
  then show ?thesis unfolding port_setting by simp
qed

lemma same_fields:
  fixes a b :: nat
  assumes "a mod 256 = b mod 256" and "a div 256 mod 256 = b div 256 mod 256"
    and "a div 65536 = b div 65536"
  shows "a = b"
proof -
  have "a div 256 div 256 = b div 256 div 256"
    using assms(3) by (simp add: div_mult2_eq [symmetric])
  then have "a div 256 = b div 256"
    using assms(2) by (metis div_mult_mod_eq)
  then show ?thesis
    using assms(1) by (metis div_mult_mod_eq)
qed

lemma overlay_port_inj:
  assumes "overlay_port p" "overlay_port q" "p AND 0x000000FF = q AND 0x000000FF"
    and "drop_bit 8 (p AND 0x0000FF00) = drop_bit 8 (q AND 0x0000FF00)"
  shows "p = q"
proof -
  have 1: "unat p mod 256 = unat q mod 256"
    using assms(3) port_number [of p] port_number [of q] by simp
  have 2: "unat p div 256 mod 256 = unat q div 256 mod 256"
    using assms(4) port_setting [of p] port_setting [of q] by simp
  have hi: "unat x div 65536 = 0x8000" if "overlay_port x" for x
  proof -
    from that have "0x80000000 \<le> unat x" "unat x \<le> 0x8000031F"
      by (simp_all add: overlay_port_def word_le_nat_alt)
    then show ?thesis by (intro div_nat_eqI) simp_all
  qed
  have "unat p = unat q"
    by (rule same_fields [OF 1 2]) (simp only: hi assms(1,2))
  then show ?thesis by (rule iffD2 [OF word_u32_eq_iff])
qed

interpretation overlay_regs: port_registers overlay_port read_overlay_port write_overlay_port overlay_norm
proof
  fix p p' w :: u32 and b b' :: "'k bus"
  assume dev: "overlay_port p" and wr: "write_overlay_port p w b = Inr b'"
  note set = overlay_port_setting [OF dev]
  from wr set show "read_overlay_port p b' = Inr (overlay_norm p w, b')"
    by (elim insertE)
       (auto simp: write_overlay_port_def read_overlay_port_def set_overlay_def with_overlay_def
         Let_def overlay_norm_def setting_is_3 [symmetric] pack_unpack split: if_splits)
next
  fix p p' w :: u32 and b b' :: "'k bus"
  assume dev: "overlay_port p" "overlay_port p'" "p' \<noteq> p" and wr: "write_overlay_port p w b = Inr b'"
  have ne: "unat (p' AND 0x000000FF) \<noteq> unat (p AND 0x000000FF)
      \<or> drop_bit 8 (p' AND 0x0000FF00) \<noteq> drop_bit 8 (p AND 0x0000FF00)"
    using overlay_port_inj [OF dev(2,1)] dev(3) by (metis word_u32_eq_iff)
  from wr overlay_port_setting [OF dev(1)] overlay_port_setting [OF dev(2)] ne
  show "map_sum id fst (read_overlay_port p' b') = map_sum id fst (read_overlay_port p' b)"
    by (elim insertE)
       (auto simp: write_overlay_port_def read_overlay_port_def set_overlay_def with_overlay_def
         Let_def nth_list_update split: if_splits)
qed

definition mouse_norm :: "u32 \<Rightarrow> u32 \<Rightarrow> u32" where
  "mouse_norm p w = (if p = 0x80000400 then w AND 7 else w)"

lemma mouse_port_cases: "mouse_port p \<Longrightarrow> p = 0x80000400 \<or> p = 0x80000401"
proof -
  assume "mouse_port p"
  then have "0x80000400 \<le> unat p" "unat p \<le> 0x80000401"
    by (simp_all add: mouse_port_def word_le_nat_alt)
  then have "unat p = 0x80000400 \<or> unat p = 0x80000401" by arith
  then show ?thesis by (elim disjE) (drule u32_of_unat, simp)+
qed

lemma and_7: "(w :: u32) AND 7 =
  (if w AND 1 \<noteq> 0 then 1 else 0) OR (if w AND 2 \<noteq> 0 then 2 else 0) OR (if w AND 4 \<noteq> 0 then 4 else 0)"
proof -
  have bits: "(w AND 1 \<noteq> 0) = bit w 0" "(w AND 2 \<noteq> 0) = bit w 1" "(w AND 4 \<noteq> 0) = bit w 2"
    using and_exp_eq_0_iff_not_bit [of w 0] and_exp_eq_0_iff_not_bit [of w 1]
      and_exp_eq_0_iff_not_bit [of w 2] by simp_all
  have b7: "bit (7 :: u32) n \<longleftrightarrow> n < 3" if "n < 32" for n
    using bit_mask_iff [of 3 n, where 'a = "32 word"] that by (simp add: mask_eq_exp_minus_1)
  have b4: "bit (4 :: u32) n \<longleftrightarrow> n = 2" if "n < 32" for n
    using bit_exp_iff [of 2 n, where 'a = "32 word"] that by simp
  show ?thesis
    unfolding bits
  proof (rule bit_word_eqI)
    fix n assume "n < LENGTH(32)"
    then have n: "n < 32" by simp
    consider "n = 0" | "n = 1" | "n = 2" | "2 < n" by linarith
    then show "bit (w AND 7) n = bit ((if bit w 0 then 1 else 0) OR (if bit w 1 then 2 else 0)
        OR (if bit w 2 then 4 else 0 :: u32)) n"
      using n b7 [OF n] b4 [OF n] by cases (auto simp: bit_simps)
  qed
qed

lemma button_byte_value:
  "ucast (button_byte m) =
    (if clicked m then 1 else 0) OR (if released m then 2 else 0) OR (if held m then 4 else (0 :: u32))"
  by (simp add: button_byte_def Let_def)

lemma ucast_half:
  "ucast (ucast (low_half w) :: u16) = low_half w" "ucast (ucast (high_half w) :: u16) = high_half w"
proof -
  have m: "(0xFFFF0000 :: u32) = push_bit 16 (mask 16)" "(0x0000FFFF :: u32) = mask 16"
    by (simp_all add: mask_eq_exp_minus_1)
  show "ucast (ucast (low_half w) :: u16) = low_half w"
    unfolding low_half_def m by (rule bit_word_eqI) (auto simp: bit_simps)
  show "ucast (ucast (high_half w) :: u16) = high_half w"
    unfolding high_half_def m by (rule bit_word_eqI) (auto simp: bit_simps)
qed

interpretation mouse_regs: port_registers mouse_port read_mouse_port write_mouse_port mouse_norm
proof
  fix p p' w :: u32 and b b' :: "'k bus"
  assume dev: "mouse_port p" and wr: "write_mouse_port p w b = Inr b'"
  from wr mouse_port_cases [OF dev] show "read_mouse_port p b' = Inr (mouse_norm p w, b')"
    by (auto simp: write_mouse_port_def read_mouse_port_def mouse_norm_def button_byte_value
        and_7 ucast_half pack_unpack)
next
  fix p p' w :: u32 and b b' :: "'k bus"
  assume dev: "mouse_port p" "mouse_port p'" "p' \<noteq> p" and wr: "write_mouse_port p w b = Inr b'"
  from wr dev(3) mouse_port_cases [OF dev(1)] mouse_port_cases [OF dev(2)]
  show "map_sum id fst (read_mouse_port p' b') = map_sum id fst (read_mouse_port p' b)"
    by (auto simp: write_mouse_port_def read_mouse_port_def button_byte_def)
qed

section \<open>Sector transfers\<close>

text \<open>The 512 bytes of sector \<open>w\<close> of a file, zeros past its end.\<close>

definition sector_bytes :: "u8 list \<Rightarrow> u32 \<Rightarrow> u8 list" where
  "sector_bytes bs w =
     (let part = take 512 (drop (unat w * 512) bs) in part @ replicate (512 - length part) 0)"

lemma length_sector_bytes [simp]: "length (sector_bytes bs w) = 512"
  by (simp add: sector_bytes_def Let_def)

lemma read_sector:
  assumes "unat i < length (disks dc)" and "disks dc ! unat i = Some d"
    and "buffer_pointer dc + 512 \<le> MEMORY_RAM_SIZE"
  shows "\<exists>n dc'. rbind (set_current_sector i w dc) (read_into_memory i m) =
    Inr (n, store_region m Ram (buffer_pointer dc) (sector_bytes (file_bytes (disk_file d)) w), dc')"
  using assms
  by (simp add: set_current_sector_def disk_mut_def put_disk_def file_seek_def read_into_memory_def
      file_read_def sector_bytes_def Let_def)

text \<open>Every file the controller holds was opened with \<open>File::open\<close>, for reading only.\<close>

definition read_only_disks :: "disk_controller \<Rightarrow> bool" where
  "read_only_disks dc \<longleftrightarrow> (\<forall>d. Some d \<in> set (disks dc) \<longrightarrow> \<not> file_writable (disk_file d))"

lemma read_only_update:
  "read_only_disks dc \<Longrightarrow> \<not> file_writable (disk_file d)
    \<Longrightarrow> read_only_disks (dc\<lparr>disks := (disks dc)[n := Some d]\<rparr>)"
  "read_only_disks dc \<Longrightarrow> read_only_disks (dc\<lparr>disks := (disks dc)[n := None]\<rparr>)"
  by (auto simp: read_only_disks_def dest!: set_update_subset_insert [THEN subsetD])

lemma read_only_disk_mut:
  "read_only_disks dc \<Longrightarrow> disk_mut i dc = Inr d \<Longrightarrow> \<not> file_writable (disk_file d)"
  by (auto simp: disk_mut_def read_only_disks_def split: if_splits option.splits)
     (metis nth_mem)

lemma read_only_ops:
  "disk_insert (file_open bs) i dc = Inr dc' \<Longrightarrow> read_only_disks dc \<Longrightarrow> read_only_disks dc'"
  "disk_remove i dc = Inr dc' \<Longrightarrow> read_only_disks dc \<Longrightarrow> read_only_disks dc'"
  "set_current_sector i w dc = Inr dc' \<Longrightarrow> read_only_disks dc \<Longrightarrow> read_only_disks dc'"
  "read_into_memory i m dc = Inr (n, m', dc') \<Longrightarrow> read_only_disks dc \<Longrightarrow> read_only_disks dc'"
  using read_only_disk_mut [of dc i]
  by (auto simp: disk_insert_def disk_remove_def set_current_sector_def read_into_memory_def
      put_disk_def file_read_def file_seek_def disk_new_def file_open_def Let_def rbind_eq_Inr
      intro!: read_only_update split: if_splits)

lemma write_from_memory_panics:
  "read_only_disks dc \<Longrightarrow> \<exists>q. write_from_memory i m dc = Inl q"
  using read_only_disk_mut [of dc i]
  by (cases "disk_mut i dc") (auto simp: write_from_memory_def file_write_def)

lemma write_disk_port_read_only:
  assumes "write_disk_port e p w b = Inr b'" and "read_only_disks (disk_controller b)"
  shows "read_only_disks (disk_controller b')"
proof -
  have buffer: "read_only_disks (dc\<lparr>buffer_pointer := n\<rparr>) = read_only_disks dc" for dc n
    by (simp add: read_only_disks_def)
  have no_write: "write_from_memory i m dc \<noteq> Inr r" if "read_only_disks dc" for i m dc r
    using write_from_memory_panics [OF that, of i m] by auto
  show ?thesis
    using assms
    by (auto simp: write_disk_port_def select_file_def Let_def rbind_eq_Inr buffer no_write
        split: if_splits option.splits prod.splits dialog_answer.splits dest!: read_only_ops)
qed

lemma write_io_read_only:
  assumes "write_io e p w b = Inr b'" and "read_only_disks (disk_controller b)"
  shows "read_only_disks (disk_controller b')"
  using assms
  by (auto simp: write_io_def write_overlay_port_def set_overlay_def write_mouse_port_def Let_def
      split: if_splits intro: write_disk_port_read_only)

lemma read_io_disks: "read_io e p b = Inr (v, b') \<Longrightarrow> disk_controller b' = disk_controller b"
  by (auto simp: read_io_def read_overlay_port_def read_mouse_port_def read_disk_port_def
      with_overlay_def Let_def split: if_splits prod.splits option.splits)

end
