(* ===== verification/StepLaws.thy ===== *)
theory StepLaws
  imports StackLaws BusLaws
begin

text \<open>
  The laws of a whole step (\<open>execute_instruction\<close> and \<open>execute_memory_instruction\<close> of
  \<open>fox32/src/cpu.rs\<close>): every instruction keeps the machine well formed and the instruction
  pointer untouched until it returns, falls through to the byte after its operands unless it
  transfers control, and does nothing when its condition is false.
\<close>

section \<open>Shape of an instruction\<close>

definition transfers :: "instruction \<Rightarrow> bool" where
  "transfers i =
     (case i of
        I_Jmp _ _ \<Rightarrow> True | I_Call _ _ \<Rightarrow> True | I_Loop _ _ \<Rightarrow> True
      | I_Rjmp _ _ \<Rightarrow> True | I_Rcall _ _ \<Rightarrow> True | I_Rloop _ _ \<Rightarrow> True
      | I_Ret _ \<Rightarrow> True | I_Reti _ \<Rightarrow> True
      | _ \<Rightarrow> False)"

text \<open>The operands whose bytes follow the opcode, in the order of the instruction stream.\<close>

definition operands :: "instruction \<Rightarrow> operand list" where
  "operands i =
     (case i of
        I_Nop \<Rightarrow> [] | I_Halt _ \<Rightarrow> [] | I_Brk _ \<Rightarrow> [] | I_Ret _ \<Rightarrow> [] | I_Reti _ \<Rightarrow> []
      | I_Ise _ \<Rightarrow> [] | I_Icl _ \<Rightarrow> []
      | I_Inc _ _ src \<Rightarrow> [src] | I_Dec _ _ src \<Rightarrow> [src] | I_Not _ _ src \<Rightarrow> [src]
      | I_Jmp _ src \<Rightarrow> [src] | I_Call _ src \<Rightarrow> [src] | I_Loop _ src \<Rightarrow> [src]
      | I_Rjmp _ src \<Rightarrow> [src] | I_Rcall _ src \<Rightarrow> [src] | I_Rloop _ src \<Rightarrow> [src]
      | I_Push _ _ src \<Rightarrow> [src] | I_Pop _ _ src \<Rightarrow> [src]
      | I_Add _ _ dst src \<Rightarrow> [src, dst] | I_Sub _ _ dst src \<Rightarrow> [src, dst]
      | I_Mul _ _ dst src \<Rightarrow> [src, dst] | I_Div _ _ dst src \<Rightarrow> [src, dst]
      | I_Rem _ _ dst src \<Rightarrow> [src, dst] | I_And _ _ dst src \<Rightarrow> [src, dst]
      | I_Or _ _ dst src \<Rightarrow> [src, dst] | I_Xor _ _ dst src \<Rightarrow> [src, dst]
      | I_Sla _ _ dst src \<Rightarrow> [src, dst] | I_Rol _ _ dst src \<Rightarrow> [src, dst]
      | I_Sra _ _ dst src \<Rightarrow> [src, dst] | I_Srl _ _ dst src \<Rightarrow> [src, dst]
      | I_Ror _ _ dst src \<Rightarrow> [src, dst] | I_Bse _ _ dst src \<Rightarrow> [src, dst]
      | I_Bcl _ _ dst src \<Rightarrow> [src, dst] | I_Bts _ _ dst src \<Rightarrow> [src, dst]
      | I_Cmp _ _ dst src \<Rightarrow> [src, dst] | I_Mov _ _ dst src \<Rightarrow> [src, dst]
      | I_Movz _ _ dst src \<Rightarrow> [src, dst] | I_Rta _ dst src \<Rightarrow> [src, dst]
      | I_In _ dst src \<Rightarrow> [src, dst] | I_Out _ dst src \<Rightarrow> [src, dst])"

definition instruction_length :: "instruction \<Rightarrow> u32" where
  "instruction_length i = 2 + sum_list (map operand_length (operands i))"

definition instruction_condition :: "instruction \<Rightarrow> condition" where
  "instruction_condition i =
     (case i of
        I_Nop \<Rightarrow> CondAlways | I_Halt cond \<Rightarrow> cond | I_Brk cond \<Rightarrow> cond | I_Ret cond \<Rightarrow> cond
      | I_Reti cond \<Rightarrow> cond | I_Ise cond \<Rightarrow> cond | I_Icl cond \<Rightarrow> cond
      | I_Inc _ cond _ \<Rightarrow> cond | I_Dec _ cond _ \<Rightarrow> cond | I_Not _ cond _ \<Rightarrow> cond
      | I_Jmp cond _ \<Rightarrow> cond | I_Call cond _ \<Rightarrow> cond | I_Loop cond _ \<Rightarrow> cond
      | I_Rjmp cond _ \<Rightarrow> cond | I_Rcall cond _ \<Rightarrow> cond | I_Rloop cond _ \<Rightarrow> cond
      | I_Push _ cond _ \<Rightarrow> cond | I_Pop _ cond _ \<Rightarrow> cond
      | I_Add _ cond _ _ \<Rightarrow> cond | I_Sub _ cond _ _ \<Rightarrow> cond | I_Mul _ cond _ _ \<Rightarrow> cond
      | I_Div _ cond _ _ \<Rightarrow> cond | I_Rem _ cond _ _ \<Rightarrow> cond | I_And _ cond _ _ \<Rightarrow> cond
      | I_Or _ cond _ _ \<Rightarrow> cond | I_Xor _ cond _ _ \<Rightarrow> cond | I_Sla _ cond _ _ \<Rightarrow> cond
      | I_Rol _ cond _ _ \<Rightarrow> cond | I_Sra _ cond _ _ \<Rightarrow> cond | I_Srl _ cond _ _ \<Rightarrow> cond
      | I_Ror _ cond _ _ \<Rightarrow> cond | I_Bse _ cond _ _ \<Rightarrow> cond | I_Bcl _ cond _ _ \<Rightarrow> cond
      | I_Bts _ cond _ _ \<Rightarrow> cond | I_Cmp _ cond _ _ \<Rightarrow> cond | I_Mov _ cond _ _ \<Rightarrow> cond
      | I_Movz _ cond _ _ \<Rightarrow> cond | I_Rta cond _ _ \<Rightarrow> cond
      | I_In cond _ _ \<Rightarrow> cond | I_Out cond _ _ \<Rightarrow> cond)"

section \<open>Frames\<close>

definition step_frame :: "'k cpu \<Rightarrow> 'k cpu \<Rightarrow> bool" where
  "step_frame c c' \<longleftrightarrow> instruction_pointer c' = instruction_pointer c \<and> (wf_cpu c \<longrightarrow> wf_cpu c') \<and>
     (read_only_disks (disk_controller (bus c)) \<longrightarrow> read_only_disks (disk_controller (bus c')))"

lemma step_frame_refl [simp, intro]: "step_frame c c"
  by (simp add: step_frame_def)

lemma step_frame_trans [trans]: "step_frame a b \<Longrightarrow> step_frame b c \<Longrightarrow> step_frame a c"
  by (simp add: step_frame_def)

lemma data_frame_disks: "data_frame c c' \<Longrightarrow> disk_controller (bus c') = disk_controller (bus c)"
  by (drule data_frame_def [THEN iffD1], elim conjE, drule arg_cong [of _ _ disk_controller]) simp

lemma step_frame_data: "data_frame c c' \<Longrightarrow> step_frame c c'"
  using data_frame_wf [of c c'] data_frame_disks [of c c'] data_frame_def [THEN iffD1, THEN conjunct1, of c c']
  by (simp add: step_frame_def)

lemma step_frame_sp [simp]: "step_frame c (c\<lparr>stack_pointer := w\<rparr>)"
  by (simp add: step_frame_def wf_cpu_def)

lemma step_frame_flag [simp]: "step_frame c (c\<lparr>flag := f\<rparr>)"
  by (simp add: step_frame_def wf_cpu_def)

lemma step_frame_write_register: "write_register c r w = Inr c' \<Longrightarrow> step_frame c c'"
  by (rule step_frame_data, rule data_frame_write_register)

lemma step_frame_mem_write:
  "mem_write_8 c a b = Inr c' \<Longrightarrow> step_frame c c'"
  "mem_write_16 c a h = Inr c' \<Longrightarrow> step_frame c c'"
  "mem_write_32 c a w = Inr c' \<Longrightarrow> step_frame c c'"
  by (auto intro: step_frame_data data_frame_mem_write)

lemma step_frame_push:
  "push_stack_8 c b = Inr c' \<Longrightarrow> step_frame c c'"
  "push_stack_16 c h = Inr c' \<Longrightarrow> step_frame c c'"
  "push_stack_32 c w = Inr c' \<Longrightarrow> step_frame c c'"
  by (auto simp: push_stack_8_def push_stack_16_def push_stack_32_def Let_def
      dest!: step_frame_mem_write intro: step_frame_trans [OF step_frame_sp])

lemma step_frame_pop:
  "pop_stack_8 c = Inr (b, c') \<Longrightarrow> step_frame c c'"
  "pop_stack_16 c = Inr (h, c') \<Longrightarrow> step_frame c c'"
  "pop_stack_32 c = Inr (w, c') \<Longrightarrow> step_frame c c'"
  by (auto simp: pop_stack_8_def pop_stack_16_def pop_stack_32_def rbind_eq_Inr)

lemma step_frame_io:
  "cpu_read_io e p c = Inr (v, c') \<Longrightarrow> step_frame c c'"
  "cpu_write_io e p w c = Inr c' \<Longrightarrow> step_frame c c'"
  using read_io_wf write_io_wf read_io_disks write_io_read_only
  by (fastforce simp: cpu_read_io_def cpu_write_io_def rbind_eq_Inr step_frame_def wf_cpu_def)+

lemma step_frame_pop_to:
  "pop_to_register sz reg c = Inr c' \<Longrightarrow> step_frame c c'"
  "pop_to_memory sz p c = Inr c' \<Longrightarrow> step_frame c c'"
  by (auto simp: pop_to_register_def pop_to_memory_def rbind_eq_Inr split: size.splits
      dest!: step_frame_pop step_frame_write_register step_frame_mem_write
      intro: step_frame_trans)

lemmas step_frames = step_frame_write_register step_frame_mem_write step_frame_push step_frame_pop
  step_frame_io step_frame_pop_to

section \<open>Instructions that fall through\<close>

text \<open>
  \<open>falls c run n\<close>: the next instruction is \<open>n\<close> bytes after the instruction pointer of \<open>c\<close>, the
  machine stays well formed, and it is unchanged when the condition is false.
\<close>

definition falls :: "'k cpu \<Rightarrow> bool \<Rightarrow> u32 \<Rightarrow> u32 \<times> 'k cpu \<Rightarrow> bool" where
  "falls c run n = (\<lambda>(next, c').
     next = instruction_pointer c + n \<and> step_frame c c' \<and> (\<not> run \<longrightarrow> c' = c))"

lemma falls_advance: "off = n \<Longrightarrow> res_all (falls c run n) (advance e off c)"
  by (auto simp: res_all_def falls_def dest!: advance_Inr)

lemma falls_guarded:
  assumes "\<And>c'. run \<Longrightarrow> m = Inr c' \<Longrightarrow> step_frame c c'" and "off = n"
  shows "res_all (falls c run n) (rbind (if run then m else Inr c) (advance e off))"
proof (rule res_all_rbind)
  fix c1 assume c1: "(if run then m else Inr c) = Inr c1"
  have "step_frame c c1" "\<not> run \<longrightarrow> c1 = c"
    using c1 assms(1) by (auto split: if_splits)
  then show "res_all (falls c run n) (advance e off c1)"
    using assms(2) by (auto simp: res_all_def falls_def step_frame_def dest!: advance_Inr)
qed

lemmas falls_rules = falls_guarded falls_advance res_all_rules

lemma exec_nop_falls: "res_all (falls c True 2) (exec_nop e c)"
  by (simp add: exec_nop_def falls_advance)

lemma exec_brk_falls: "res_all (falls c run 2) (exec_brk e cond c)"
  by (simp add: exec_brk_def falls_advance)

lemma exec_mov_falls:
  "res_all (falls c (check_condition c cond) (2 + operand_length src + operand_length dst))
     (exec_mov e sz cond dst src c)"
  unfolding exec_mov_def Let_def
  by (cases dst; cases sz; simp only: operand.simps size.simps; intro falls_rules)
     (auto simp: operand_length_def rbind_eq_Inr dest!: read_source_offset intro: step_frames)

lemma exec_movz_falls:
  "res_all (falls c (check_condition c cond) (2 + operand_length src + operand_length dst))
     (exec_movz e sz cond dst src c)"
  unfolding exec_movz_def Let_def
  by (cases dst; cases sz; simp only: operand.simps size.simps; intro falls_rules)
     (auto simp: operand_length_def rbind_eq_Inr dest!: read_source_offset intro: step_frames)

lemma exec_rta_falls:
  "res_all (falls c (check_condition c cond) (2 + operand_length src + operand_length dst))
     (exec_rta e cond dst src c)"
  unfolding exec_rta_def Let_def
  by (cases dst; simp only: operand.simps; intro falls_rules)
     (auto simp: operand_length_def dest!: read_source_offset intro: step_frames)

lemma exec_out_falls:
  "res_all (falls c (check_condition c cond) (2 + operand_length src + operand_length dst))
     (exec_out e cond dst src c)"
  unfolding exec_out_def Let_def
  by (cases dst; simp only: operand.simps; intro falls_rules)
     (auto simp: operand_length_def rbind_eq_Inr dest!: read_source_offset intro: step_frames)

lemma exec_pop_falls:
  "res_all (falls c (check_condition c cond) (2 + operand_length dst)) (exec_pop e sz cond dst c)"
  unfolding exec_pop_def Let_def
  by (cases dst; simp only: operand.simps res_all_Inl; intro falls_rules)
     (auto simp: operand_length_def intro: step_frames)

lemma exec_push_falls:
  "res_all (falls c (check_condition c cond) (2 + operand_length src)) (exec_push e sz cond src c)"
  unfolding exec_push_def Let_def
  by (cases sz; simp only: size.simps; intro falls_rules)
     (auto dest!: read_source_offset intro: step_frames)

lemma exec_halt_falls: "res_all (falls c (check_condition c cond) 2) (exec_halt e cond c)"
  by (auto simp: exec_halt_def Let_def res_all_def falls_def step_frame_def wf_cpu_def
      dest!: advance_Inr)

lemma exec_ise_falls: "res_all (falls c (check_condition c cond) 2) (exec_ise e cond c)"
  by (auto simp: exec_ise_def Let_def res_all_def falls_def step_frame_def wf_cpu_def
      set_interrupt_flag_def dest!: advance_Inr)

lemma exec_icl_falls: "res_all (falls c (check_condition c cond) 2) (exec_icl e cond c)"
  by (auto simp: exec_icl_def Let_def res_all_def falls_def step_frame_def wf_cpu_def
      set_interrupt_flag_def dest!: advance_Inr)

text \<open>\<open>in\<close> reads its port in either case, so only the bus may change when it does not run.\<close>

lemma exec_in_falls:
  "res_all (falls c True (2 + operand_length src + operand_length dst)) (exec_in e cond dst src c)"
proof -
  have tail: "res_all (falls c True n)
      (rbind (cpu_read_io e p c) (\<lambda>(v, c1). rbind (if run then m v c1 else Inr c1) (advance e off)))"
    if "\<And>v c1 c2. m v c1 = Inr c2 \<Longrightarrow> step_frame c1 c2" "off = n" for p m run off n
  proof (intro res_all_rules)
    fix x v c1 c2
    assume x: "cpu_read_io e p c = Inr x" "x = (v, c1)" and c2: "(if run then m v c1 else Inr c1) = Inr c2"
    have "step_frame c c1" using x step_frame_io(1) by blast
    moreover have "step_frame c1 c2" using c2 that(1) by (auto split: if_splits)
    ultimately have "step_frame c c2" by (rule step_frame_trans)
    then show "res_all (falls c True n) (advance e off c2)"
      using that(2) by (auto simp: res_all_def falls_def step_frame_def dest!: advance_Inr)
  qed
  show ?thesis
    unfolding exec_in_def Let_def
    by (cases dst; simp only: operand.simps; intro tail res_all_rules)
       (auto simp: operand_length_def dest!: read_source_offset intro: step_frames)
qed

section \<open>Instructions that transfer control\<close>

text \<open>
  \<open>transfer c n target\<close>: the next instruction is the target or \<open>n\<close> bytes further.
\<close>

definition transfer :: "'k cpu \<Rightarrow> bool \<Rightarrow> u32 \<Rightarrow> u32 \<times> 'k cpu \<Rightarrow> bool" where
  "transfer c run n = (\<lambda>(next, c').
     step_frame c c' \<and> (\<not> run \<longrightarrow> next = instruction_pointer c + n))"

lemma transfer_advance: "step_frame c c1 \<Longrightarrow> off = n \<Longrightarrow> res_all (transfer c run n) (advance e off c1)"
  by (auto simp: res_all_def transfer_def step_frame_def dest!: advance_Inr)

lemma transfer_run: "run \<Longrightarrow> step_frame c c1 \<Longrightarrow> res_all (transfer c run n) (Inr (t, c1))"
  by (simp add: transfer_def)

lemmas transfer_rules = transfer_advance transfer_run res_all_rules

lemma exec_jmp_transfer:
  "res_all (transfer c (check_condition c cond) (2 + operand_length src)) (exec_jmp e cond src c)"
  "res_all (transfer c (check_condition c cond) (2 + operand_length src)) (exec_rjmp e cond src c)"
  unfolding exec_jmp_def exec_rjmp_def Let_def
  by (intro transfer_rules; auto dest!: read_source_offset)+

lemma exec_call_transfer:
  "res_all (transfer c (check_condition c cond) (2 + operand_length src)) (exec_call e cond src c)"
  "res_all (transfer c (check_condition c cond) (2 + operand_length src)) (exec_rcall e cond src c)"
  unfolding exec_call_def exec_rcall_def Let_def
  by (intro transfer_rules; auto dest!: read_source_offset intro: step_frames)+

lemma exec_loop_transfer:
  "res_all (transfer c (check_condition c cond) (2 + operand_length src)) (exec_loop e cond src c)"
  "res_all (transfer c (check_condition c cond) (2 + operand_length src)) (exec_rloop e cond src c)"
  unfolding exec_loop_def exec_rloop_def Let_def
  by (intro transfer_rules; auto dest!: read_source_offset intro: step_frames)+

lemma exec_ret_transfer: "res_all (transfer c (check_condition c cond) 2) (exec_ret e cond c)"
  unfolding exec_ret_def
  by (intro transfer_advance res_all_if) (auto simp: res_all_def transfer_def intro: step_frames)

lemma exec_reti_transfer: "res_all (transfer c (check_condition c cond) 2) (exec_reti e cond c)"
proof -
  have "step_frame c c2"
    if "pop_stack_8 c = Inr (b, c1)" "pop_stack_32 (c1\<lparr>flag := f\<rparr>) = Inr (w, c2)" for b c1 f w c2
    using step_frame_pop(1) [OF that(1)] step_frame_flag [of c1 f] step_frame_pop(3) [OF that(2)]
    by (blast intro: step_frame_trans)
  then show ?thesis
    unfolding exec_reti_def
    by (intro transfer_advance res_all_if)
       (auto simp: res_all_def transfer_def rbind_eq_Inr split: prod.splits)
qed

section \<open>Every instruction\<close>

lemma binary_falls:
  assumes "\<And>next c'. m = Inr (next, c') \<Longrightarrow> next = instruction_pointer c + 2 + l1 + l2"
    and "\<And>next c'. m = Inr (next, c') \<Longrightarrow> data_frame c c'"
    and "\<And>next c'. m = Inr (next, c') \<Longrightarrow> \<not> run \<Longrightarrow> c' = c"
  shows "res_all (falls c run (2 + l1 + l2)) m"
  using assms by (auto simp: res_all_def falls_def add.assoc intro: step_frame_data)

lemma unary_falls:
  assumes "\<And>next c'. m = Inr (next, c') \<Longrightarrow> next = instruction_pointer c + 2 + l1"
    and "\<And>next c'. m = Inr (next, c') \<Longrightarrow> data_frame c c'"
    and "\<And>next c'. m = Inr (next, c') \<Longrightarrow> \<not> run \<Longrightarrow> c' = c"
  shows "res_all (falls c run (2 + l1)) m"
  using assms by (auto simp: res_all_def falls_def add.assoc intro: step_frame_data)

lemmas alu_falls =
  binary_falls [OF arm_add.advances arm_add.skips]
  binary_falls [OF arm_sub.advances arm_sub.skips]
  binary_falls [OF arm_mul.advances arm_mul.skips]
  binary_falls [OF arm_div.advances arm_div.skips]
  binary_falls [OF arm_rem.advances arm_rem.skips]
  binary_falls [OF arm_and.advances arm_and.skips]
  binary_falls [OF arm_or.advances arm_or.skips]
  binary_falls [OF arm_xor.advances arm_xor.skips]
  binary_falls [OF arm_sla.advances arm_sla.skips]
  binary_falls [OF arm_sra.advances arm_sra.skips]
  binary_falls [OF arm_srl.advances arm_srl.skips]
  binary_falls [OF arm_rol.advances arm_rol.skips]
  binary_falls [OF arm_ror.advances arm_ror.skips]
  binary_falls [OF arm_bse.advances arm_bse.skips]
  binary_falls [OF arm_bcl.advances arm_bcl.skips]
  binary_falls [OF arm_bts.advances arm_bts.skips]
  binary_falls [OF arm_cmp.advances arm_cmp.skips]
  unary_falls [OF arm_inc.advances arm_inc.skips]
  unary_falls [OF arm_dec.advances arm_dec.skips]
  unary_falls [OF arm_not.advances arm_not.skips]

lemmas other_falls = exec_nop_falls exec_brk_falls exec_mov_falls exec_movz_falls exec_rta_falls
  exec_out_falls exec_pop_falls exec_push_falls exec_halt_falls exec_ise_falls exec_icl_falls

lemmas all_transfers = exec_jmp_transfer exec_call_transfer exec_loop_transfer exec_ret_transfer
  exec_reti_transfer

definition is_in :: "instruction \<Rightarrow> bool" where
  "is_in i = (case i of I_In _ _ _ \<Rightarrow> True | _ \<Rightarrow> False)"

lemma instruction_falls:
  assumes "\<not> transfers i" and "\<not> is_in i"
  shows "res_all (falls c (check_condition c (instruction_condition i)) (instruction_length i))
    (execute_instruction e i c)"
  using assms
  by (cases i)
     (simp_all add: execute_instruction_def transfers_def is_in_def instruction_condition_def
       instruction_length_def operands_def check_condition_def [of c CondAlways]
       alu_falls other_falls exec_nop_falls [unfolded res_all_def] flip: add.assoc)

lemma instruction_transfers:
  assumes "transfers i"
  shows "res_all (transfer c (check_condition c (instruction_condition i)) (instruction_length i))
    (execute_instruction e i c)"
  using assms
  by (cases i)
     (simp_all add: execute_instruction_def transfers_def instruction_condition_def
       instruction_length_def operands_def all_transfers)

section \<open>The build without overflow checks\<close>

lemma res_le_prod: "(\<And>a b. x = (a, b) \<Longrightarrow> res_le (f a b) (g a b)) \<Longrightarrow>
    res_le (case x of (a, b) \<Rightarrow> f a b) (case x of (a, b) \<Rightarrow> g a b)"
  by (cases x) simp

lemma res_le_if: "(b \<Longrightarrow> res_le m m') \<Longrightarrow> (\<not> b \<Longrightarrow> res_le n n') \<Longrightarrow>
    res_le (if b then m else n) (if b then m' else n')"
  by simp

lemma keyboard_pop_release [simp]: "keyboard_pop (release e) = keyboard_pop e"
  by (simp add: fun_eq_iff keyboard_pop_def)

lemma select_file_release [simp]: "select_file (release e) = select_file e"
  by (simp add: select_file_def)

lemma write_disk_port_release [simp]: "write_disk_port (release e) = write_disk_port e"
  unfolding fun_eq_iff write_disk_port_def select_file_release by simp

lemma io_release [simp]:
  "cpu_read_io (release e) = cpu_read_io e" "cpu_write_io (release e) = cpu_write_io e"
  unfolding fun_eq_iff cpu_read_io_def cpu_write_io_def read_io_def write_io_def
    keyboard_pop_release write_disk_port_release
  by simp_all

lemmas release_rules = res_le_advance res_le_read_source res_le_fetch res_le_ip_plus
  res_le_rbind res_le_prod res_le_if res_le_refl

lemma moves_release:
  "res_le (exec_mov e sz cond dst src c) (exec_mov (release e) sz cond dst src c)"
  "res_le (exec_movz e sz cond dst src c) (exec_movz (release e) sz cond dst src c)"
  "res_le (exec_rta e cond dst src c) (exec_rta (release e) cond dst src c)"
  unfolding exec_mov_def exec_movz_def exec_rta_def Let_def
  by (cases dst; simp only: operand.simps; intro release_rules)+

lemma ports_release:
  "res_le (exec_in e cond dst src c) (exec_in (release e) cond dst src c)"
  "res_le (exec_out e cond dst src c) (exec_out (release e) cond dst src c)"
  unfolding exec_in_def exec_out_def Let_def io_release
  by (cases dst; simp only: operand.simps; intro release_rules)+

lemma pops_release: "res_le (exec_pop e sz cond dst c) (exec_pop (release e) sz cond dst c)"
  unfolding exec_pop_def Let_def
  by (cases dst; simp only: operand.simps; intro release_rules)

lemma jumps_release:
  "res_le (exec_jmp e cond src c) (exec_jmp (release e) cond src c)"
  "res_le (exec_rjmp e cond src c) (exec_rjmp (release e) cond src c)"
  "res_le (exec_call e cond src c) (exec_call (release e) cond src c)"
  "res_le (exec_rcall e cond src c) (exec_rcall (release e) cond src c)"
  "res_le (exec_loop e cond src c) (exec_loop (release e) cond src c)"
  "res_le (exec_rloop e cond src c) (exec_rloop (release e) cond src c)"
  "res_le (exec_push e sz cond src c) (exec_push (release e) sz cond src c)"
  unfolding exec_jmp_def exec_rjmp_def exec_call_def exec_rcall_def exec_loop_def exec_rloop_def
    exec_push_def Let_def
  by (intro release_rules)+

lemma plain_release:
  "res_le (exec_nop e c) (exec_nop (release e) c)"
  "res_le (exec_halt e cond c) (exec_halt (release e) cond c)"
  "res_le (exec_brk e cond c) (exec_brk (release e) cond c)"
  "res_le (exec_ret e cond c) (exec_ret (release e) cond c)"
  "res_le (exec_reti e cond c) (exec_reti (release e) cond c)"
  "res_le (exec_ise e cond c) (exec_ise (release e) cond c)"
  "res_le (exec_icl e cond c) (exec_icl (release e) cond c)"
  unfolding exec_nop_def exec_halt_def exec_brk_def exec_ret_def exec_reti_def exec_ise_def
    exec_icl_def Let_def
  by (intro release_rules)+

lemmas alu_release =
  arm_add.releases arm_sub.releases arm_mul.releases arm_div.releases arm_rem.releases
  arm_and.releases arm_or.releases arm_xor.releases arm_sla.releases arm_sra.releases
  arm_srl.releases arm_rol.releases arm_ror.releases arm_bse.releases arm_bcl.releases
  arm_bts.releases arm_cmp.releases arm_inc.releases arm_dec.releases arm_not.releases

lemma execute_instruction_release:
  "res_le (execute_instruction e i c) (execute_instruction (release e) i c)"
  by (cases i) (simp_all only: execute_instruction_def instruction.simps alu_release moves_release
      ports_release pops_release jumps_release plain_release)

lemma step_release:
  "res_le (execute_memory_instruction e c) (execute_memory_instruction (release e) c)"
proof -
  have "res_le (case from_half opcode of
       Some i \<Rightarrow> rbind (execute_instruction e i c) (\<lambda>(next, c). Inr (c\<lparr>instruction_pointer := next\<rparr>))
     | None \<Rightarrow> Inl (BadOpcode opcode)) (case from_half opcode of
       Some i \<Rightarrow> rbind (execute_instruction (release e) i c) (\<lambda>(next, c). Inr (c\<lparr>instruction_pointer := next\<rparr>))
     | None \<Rightarrow> Inl (BadOpcode opcode))" for opcode
    by (cases "from_half opcode") (auto intro: execute_instruction_release)
  then show ?thesis
    unfolding execute_memory_instruction_def by (intro res_le_rbind res_le_refl)
qed

section \<open>A step keeps the machine well formed\<close>

lemma execute_instruction_frame:
  assumes "execute_instruction e i c = Inr (next, c')"
  shows "step_frame c c'"
proof -
  consider "transfers i" | "is_in i" | "\<not> transfers i" "\<not> is_in i" by blast
  then show ?thesis
  proof cases
    case 1
    then show ?thesis
      using res_allD [OF instruction_transfers assms] by (simp add: transfer_def)
  next
    case 2
    then obtain cond dst src where "i = I_In cond dst src"
      by (auto simp: is_in_def split: instruction.splits)
    then show ?thesis
      using assms res_allD [OF exec_in_falls] by (fastforce simp: execute_instruction_def falls_def)
  next
    case 3
    then show ?thesis
      using res_allD [OF instruction_falls assms] by (simp add: falls_def)
  qed
qed

lemma step_frame_step:
  assumes "execute_memory_instruction e c = Inr c'"
  shows "(wf_cpu c \<longrightarrow> wf_cpu c') \<and>
    (read_only_disks (disk_controller (bus c)) \<longrightarrow> read_only_disks (disk_controller (bus c')))"
proof -
  from assms obtain i nx c1 where "execute_instruction e i c = Inr (nx, c1)"
    and c': "c' = c1\<lparr>instruction_pointer := nx\<rparr>"
    by (auto simp: execute_memory_instruction_def rbind_eq_Inr split: option.splits)
  then show ?thesis
    using execute_instruction_frame [of e i c nx c1] by (auto simp: step_frame_def wf_cpu_def)
qed

lemmas step_wf = step_frame_step [THEN conjunct1, THEN mp]
lemmas step_read_only = step_frame_step [THEN conjunct2, THEN mp]

text \<open>An interrupt enters its handler; it changes no device and does not touch \<open>halted\<close>.\<close>

lemma interrupt_frame:
  assumes "cpu_interrupt e (InterruptRequest v) c = Inr c'"
  shows "halted c' = halted c \<and> (wf_cpu c \<longrightarrow> wf_cpu c') \<and>
    disk_controller (bus c') = disk_controller (bus c)"
proof (cases "flag_interrupt (flag c)")
  case True
  then have "handle_interrupt e (ucast v) c = Inr c'" using assms by (simp add: cpu_interrupt_def)
  from handle_interrupt_Inr [OF this] obtain c1 c2
    where 1: "push_stack_32 c (instruction_pointer c) = Inr c1"
      and 2: "push_stack_8 c1 (u8_of_flag (flag c)) = Inr c2"
      and 3: "c' = (set_interrupt_flag False c2)\<lparr>instruction_pointer := instruction_pointer c'\<rparr>"
    by blast
  obtain m1 m2 where "c1 = set_memory (c\<lparr>stack_pointer := stack_pointer c - 4\<rparr>) m1"
    "c2 = set_memory (c1\<lparr>stack_pointer := stack_pointer c1 - 1\<rparr>) m2"
    using 1 2 by (auto simp: stack32.push_eq stack8.push_eq rbind_eq_Inr)
  then show ?thesis
    by (subst 3, subst (2) 3, subst (3) 3) (simp add: set_memory_def set_interrupt_flag_def wf_cpu_def wf_bus_def)
next
  case False
  then show ?thesis using assms by (simp add: cpu_interrupt_def)
qed

end
