(* ===== verification/Samples.thy ===== *)
theory Samples
  imports Keyboard Cpu
begin

text \<open>
  Concrete machines for the witnesses: a processor at address 0 of a RAM that starts with given
  bytes, with given registers and the stack pointer at \<open>0x1000\<close>, on a bus with no disk and the
  devices in their initial state.
\<close>

definition sample_env :: "u32 list env" where
  "sample_env = list_ring_env True Cancelled"

definition sample_bus :: "u8 list \<Rightarrow> u32 list bus" where
  "sample_bus code =
     \<lparr>memory = \<lparr>ram = (\<lambda>i. if i < length code then code ! i else 0), rom = (\<lambda>_. 0)\<rparr>,
      disk_controller = disk_controller_new, audio = audio_new, keyboard = [], mouse = mouse_new,
      overlays = overlays_new, terminal = []\<rparr>"

definition sample_cpu :: "u8 list \<Rightarrow> u32 list \<Rightarrow> u32 list cpu" where
  "sample_cpu code regs =
     (cpu_new (sample_bus code))
       \<lparr>instruction_pointer := 0, stack_pointer := 0x1000,
        register := regs @ replicate (32 - length regs) 0\<rparr>"

text \<open>What the sample machines hold, for the simplifier.\<close>

lemma sample_fields [simp]:
  "instruction_pointer (sample_cpu code regs) = 0" "stack_pointer (sample_cpu code regs) = 0x1000"
  "register (sample_cpu code regs) = regs @ replicate (32 - length regs) 0"
  "halted (sample_cpu code regs) = False" "bus (sample_cpu code regs) = sample_bus code"
  "flag (sample_cpu code regs) =
     \<lparr>flag_interrupt = False, flag_carry = False, flag_zero = False\<rparr>"
  by (simp_all add: sample_cpu_def cpu_new_def)

lemma sample_env_checks [simp]: "overflow_checks sample_env = True"
  by (simp add: sample_env_def list_ring_env_def)

lemma sample_load:
  "unat a + n \<le> length code \<Longrightarrow> length code \<le> 4096 \<Longrightarrow> n \<le> 512 \<Longrightarrow>
    load_bytes n (memory (sample_bus code)) a = Inr (take n (drop (unat a) code))"
  by (auto simp: load_bytes_def find_unwrapped_spec in_ram_def sample_bus_def region_bytes_def
      get_slice_def intro!: nth_equalityI)

lemma sample_read_8 [simp]:
  "unat a < length code \<Longrightarrow> length code \<le> 4096 \<Longrightarrow>
    mem_read_8 (sample_cpu code regs) a = Inr (code ! unat a)"
  by (simp add: mem_read_8_def read_8_def sample_load le_word_8_def)

lemma sample_read_16 [simp]:
  "unat a + 1 < length code \<Longrightarrow> length code \<le> 4096 \<Longrightarrow>
    mem_read_16 (sample_cpu code regs) a = Inr (le_word_16 (take 2 (drop (unat a) code)))"
  by (simp add: mem_read_16_def read_16_def sample_load)

lemma sample_read_32 [simp]:
  "unat a + 3 < length code \<Longrightarrow> length code \<le> 4096 \<Longrightarrow>
    mem_read_32 (sample_cpu code regs) a = Inr (le_word_32 (take 4 (drop (unat a) code)))"
  by (simp add: mem_read_32_def read_32_def sample_load)

lemma sample_ip_plus [simp]: "ip_plus sample_env (sample_cpu code regs) off = Inr off"
  using unat_u32_bound [of off] by (simp add: ip_plus_def checked_plus_def)

lemma sample_register [simp]:
  "unat r < length regs \<Longrightarrow> length regs \<le> 32 \<Longrightarrow>
    read_register (sample_cpu code regs) r = Inr (regs ! unat r)"
  by (simp add: read_register_def nth_append word_le_nat_alt)

end
