(* ===== verification/AluSpec.thy ===== *)
theory AluSpec
  imports StepLaws Samples
begin

text \<open>
  What the arithmetic instructions compute, stated on natural numbers: sums, differences and
  products at each width with the carry as their overflow, divisions and remainders, the
  conditions that hold after a comparison, and the bits of a register a byte or half write
  keeps.
\<close>

section \<open>Carry, borrow and zero\<close>

text \<open>The value a carry stands for.\<close>

definition carry_weight :: "'a::len itself \<Rightarrow> bool \<Rightarrow> nat" where
  "carry_weight t b = (if b then 2 ^ LENGTH('a) else 0)"

lemma unat_bound: "unat x < 2 ^ LENGTH('a)" for x :: "'a::len word"
  by (rule unsigned_less)

lemma unat_plus_cases:
  "unat (x + y) + carry_weight TYPE('a) (2 ^ LENGTH('a) \<le> unat x + unat y) = unat x + unat y"
  for x y :: "'a::len word"
proof (cases "2 ^ LENGTH('a) \<le> unat x + unat y")
  case True
  have "unat x + unat y - 2 ^ LENGTH('a) < 2 ^ LENGTH('a)"
    using unat_bound [of x] unat_bound [of y] by linarith
  then have "unat (x + y) = unat x + unat y - 2 ^ LENGTH('a)"
    using True by (simp add: unat_word_ariths mod_if)
  then show ?thesis using True by (simp add: carry_weight_def)
next
  case False
  then show ?thesis by (simp add: carry_weight_def unat_word_ariths)
qed

lemma alu_add_nat:
  fixes x :: "'a::len word"
  shows "\<exists>r z cy. alu_add s x = Inr (r, Some z, Some cy) \<and> z = (unat r = 0) \<and>
    unat r + carry_weight TYPE('a) cy = unat x + unat (ucast s :: 'a word)"
  using unat_plus_cases [of x "ucast s :: 'a word"]
  by (simp add: alu_add_def overflowing_add_def unat_eq_0)

lemma alu_sub_nat:
  fixes x :: "'a::len word"
  shows "\<exists>r z cy. alu_sub s x = Inr (r, Some z, Some cy) \<and>
    z = (x = ucast s) \<and> cy = (x < ucast s) \<and>
    unat r + unat (ucast s :: 'a word) = unat x + carry_weight TYPE('a) cy"
proof -
  let ?y = "ucast s :: 'a word"
  have "unat (x - ?y) + unat ?y = unat x + carry_weight TYPE('a) (unat x < unat ?y)"
  proof (cases "unat x < unat ?y")
    case True
    then show ?thesis
      using unat_plus_cases [of "x - ?y" ?y] unat_bound [of "x - ?y"] unat_bound [of ?y]
      by (auto simp: carry_weight_def split: if_splits)
  next
    case False
    then show ?thesis by (simp add: carry_weight_def unat_sub word_le_nat_alt)
  qed
  then show ?thesis
    by (auto simp: alu_sub_def overflowing_sub_def word_less_nat_alt)
qed

lemma alu_mul_nat:
  fixes x :: "'a::len word"
  shows "\<exists>r z cy. alu_mul s x = Inr (r, Some z, Some cy) \<and> z = (unat r = 0) \<and>
    unat r = unat x * unat (ucast s :: 'a word) mod 2 ^ LENGTH('a) \<and>
    (cy \<longleftrightarrow> unat r \<noteq> unat x * unat (ucast s :: 'a word))"
proof -
  let ?p = "unat x * unat (ucast s :: 'a word)"
  have "(2 ^ LENGTH('a) \<le> ?p) \<longleftrightarrow> ?p mod 2 ^ LENGTH('a) \<noteq> ?p"
    by (metis leD leI mod_less mod_less_divisor zero_less_numeral zero_less_power)
  then show ?thesis
    by (simp add: alu_mul_def overflowing_mul_def unat_word_ariths unat_eq_0 [symmetric] del: unat_eq_0)
qed

lemma alu_div_nat:
  fixes x :: "'a::len word"
  shows "alu_div s x = (if (ucast s :: 'a word) = 0 then Inl DivisionByZero
    else Inr (of_nat (unat x div unat (ucast s :: 'a word)),
      Some (unat x < unat (ucast s :: 'a word)), None))"
proof (cases "(ucast s :: 'a word) = 0")
  case False
  then have "(x div ucast s = 0) \<longleftrightarrow> unat x < unat (ucast s :: 'a word)"
    by (simp add: unat_eq_0 [symmetric] unat_div div_eq_0_iff del: unat_eq_0)
  then show ?thesis using False
    by (simp add: alu_div_def overflowing_div_def word_arith_nat_div)
qed (simp add: alu_div_def overflowing_div_def)

section \<open>Writing part of a register\<close>

lemma keep_masks: "(0xFFFFFF00 :: u32) = NOT (mask 8)" "(0xFFFF0000 :: u32) = NOT (mask 16)"
  by (simp_all add: mask_eq_exp_minus_1)

lemma drop_merge:
  fixes v :: u32 and r :: "'a::len word"
  shows "n = LENGTH('a) \<Longrightarrow> drop_bit n (v AND NOT (mask n) OR ucast r) = drop_bit n v"
  by (rule bit_word_eqI) (auto simp: bit_simps dest: bit_imp_le_length)

lemma take_merge:
  fixes v :: u32 and r :: "'a::len word"
  shows "n = LENGTH('a) \<Longrightarrow> take_bit n (v AND NOT (mask n) OR ucast r) = ucast r"
  by (rule bit_word_eqI) (auto simp: bit_simps dest: bit_imp_le_length)

lemma unat_merge:
  fixes v :: u32 and r :: "'a::len word"
  assumes "n = LENGTH('a)" and "n \<le> 32"
  shows "unat (v AND NOT (mask n) OR ucast r) div 2 ^ n = unat v div 2 ^ n"
    and "unat (v AND NOT (mask n) OR ucast r) mod 2 ^ n = unat r"
proof -
  let ?w = "v AND NOT (mask n) OR ucast r"
  have "unat (drop_bit n ?w) = unat (drop_bit n v)"
    by (simp only: drop_merge [OF assms(1)])
  then show "unat ?w div 2 ^ n = unat v div 2 ^ n"
    unfolding unat_drop_bit_eq by (simp only: drop_bit_eq_div)
  have "unat (take_bit n ?w) = unat (ucast r :: u32)"
    by (simp only: take_merge [OF assms(1)])
  moreover have "unat (ucast r :: u32) = unat r"
  proof -
    have "(2::nat) ^ LENGTH('a) \<le> 2 ^ 32"
      using assms by (intro power_increasing) auto
    then have "unat r < 2 ^ 32"
      using unat_bound [of r] by linarith
    then show ?thesis by (simp add: unsigned_ucast_eq take_bit_eq_mod)
  qed
  ultimately show "unat ?w mod 2 ^ n = unat r"
    unfolding unsigned_take_bit_eq by (simp only: take_bit_eq_mod)
qed

text \<open>
  \<open>register_result reg w v r z cy c c'\<close>: from \<open>c\<close> to \<open>c'\<close> the low \<open>w\<close> bits of register \<open>reg\<close>,
  which held \<open>v\<close>, became the number \<open>r\<close> and its other bits stayed, the flags were set as by
  \<open>set_flags z cy\<close>, and nothing else changed.
\<close>

definition register_result ::
  "u8 \<Rightarrow> nat \<Rightarrow> u32 \<Rightarrow> nat \<Rightarrow> bool option \<Rightarrow> bool option \<Rightarrow> 'k cpu \<Rightarrow> 'k cpu \<Rightarrow> bool" where
  "register_result reg w v r z cy c c' \<longleftrightarrow>
     (\<exists>v'. read_register c' reg = Inr v' \<and> unat v' mod 2 ^ w = r \<and>
           unat v' div 2 ^ w = unat v div 2 ^ w) \<and>
     (\<forall>other. other \<noteq> reg \<longrightarrow> read_register c' other = read_register c other) \<and>
     flag c' = flag (set_flags z cy c) \<and> bus c' = bus c \<and>
     instruction_pointer c' = instruction_pointer c \<and> halted c' = halted c"

lemma write_register_succeeds:
  assumes "read_register c reg = Inr v" and "length (register c) = 32"
  shows "\<exists>c'. write_register c reg w = Inr c' \<and> read_register c' reg = Inr w \<and>
    (\<forall>other. other \<noteq> reg \<longrightarrow> read_register c' other = read_register c other) \<and>
    flag c' = flag c \<and> bus c' = bus c \<and>
    instruction_pointer c' = instruction_pointer c \<and> halted c' = halted c"
proof (cases "reg \<le> 31")
  case True
  then have "unat reg < 32" by (simp add: word_le_nat_alt)
  moreover have "unat reg \<noteq> unat other" if "other \<noteq> reg" for other
    using that word_unat_eq_iff [of reg other] by (metis (no_types))
  ultimately show ?thesis
    using True assms(2) by (auto simp: write_register_def read_register_def)
next
  case False
  then have "reg = 32" using assms(1) by (simp add: read_register_def split: if_splits)
  then show ?thesis by (auto simp: write_register_def read_register_def)
qed

lemma register_result_write:
  assumes "write_register c reg w = Inr c1" and "read_register c reg = Inr v"
    and "length (register c) = 32" and "unat w mod 2 ^ n = r" and "unat w div 2 ^ n = unat v div 2 ^ n"
  shows "register_result reg n v r z cy c (set_flags z cy c1)"
proof -
  have flags: "read_register (set_flags z cy d) other = read_register d other"
    "bus (set_flags z cy d) = bus d" "halted (set_flags z cy d) = halted d"
    "instruction_pointer (set_flags z cy d) = instruction_pointer d"
    for d :: "'a cpu" and other
    by (simp_all add: set_flags_def read_register_def)
  obtain d where "write_register c reg w = Inr d" "read_register d reg = Inr w"
    "\<forall>other. other \<noteq> reg \<longrightarrow> read_register d other = read_register c other"
    "flag d = flag c" "bus d = bus c" "instruction_pointer d = instruction_pointer c"
    "halted d = halted c"
    by (insert write_register_succeeds [OF assms(2,3), of w], erule exE, (erule conjE)+, erule that)
  moreover from this have "flag (set_flags z cy d) = flag (set_flags z cy c)"
    by (simp add: set_flags_def cong: option.case_cong)
  ultimately show ?thesis
    using assms(1,4,5) by (simp add: register_result_def flags)
qed

lemma reg_store_result:
  assumes "read_register c reg = Inr v" and "length (register c) = 32"
  shows "\<exists>c'. reg_store_8 c reg (r8, z, cy) = Inr c' \<and> register_result reg 8 v (unat r8) z cy c c'"
    and "\<exists>c'. reg_store_16 c reg (r16, z, cy) = Inr c' \<and>
      register_result reg 16 v (unat r16) z cy c c'"
    and "\<exists>c'. reg_store_32 c reg (r32, z, cy) = Inr c' \<and>
      register_result reg 32 v (unat r32) z cy c c'"
proof -
  note result = register_result_write [OF _ assms]
  have writes: "\<exists>c1. write_register c reg w = Inr c1" for w
    by (insert write_register_succeeds [OF assms, of w], erule exE, erule conjE, erule exI)
  obtain c8 where c8: "write_register c reg (v AND NOT (mask 8) OR ucast r8) = Inr c8"
    using writes by blast
  show "\<exists>c'. reg_store_8 c reg (r8, z, cy) = Inr c' \<and> register_result reg 8 v (unat r8) z cy c c'"
    unfolding reg_store_8_def assms(1) prod.case rbind_Inr keep_masks c8
    by (intro exI conjI, rule refl, rule result [OF c8 unat_merge(2) unat_merge(1)]) simp_all
  obtain c16 where c16: "write_register c reg (v AND NOT (mask 16) OR ucast r16) = Inr c16"
    using writes by blast
  show "\<exists>c'. reg_store_16 c reg (r16, z, cy) = Inr c' \<and> register_result reg 16 v (unat r16) z cy c c'"
    unfolding reg_store_16_def assms(1) prod.case rbind_Inr keep_masks c16
    by (intro exI conjI, rule refl, rule result [OF c16 unat_merge(2) unat_merge(1)]) simp_all
  obtain c32 where c32: "write_register c reg r32 = Inr c32"
    using writes by blast
  show "\<exists>c'. reg_store_32 c reg (r32, z, cy) = Inr c' \<and> register_result reg 32 v (unat r32) z cy c c'"
    unfolding reg_store_32_def prod.case c32 rbind_Inr
    using result [OF c32, of 32] unat_bound [of r32] unat_bound [of v] by simp
qed

section \<open>Arithmetic on a register\<close>

definition width :: "size \<Rightarrow> nat" where
  "width sz = (case sz of SizeByte \<Rightarrow> 8 | SizeHalf \<Rightarrow> 16 | SizeWord \<Rightarrow> 32)"

text \<open>
  The operands of an instruction whose destination is a register: the source value \<open>s\<close>, the
  register \<open>reg\<close> and its value \<open>v\<close>, and the address \<open>nx\<close> of the next instruction.
\<close>

definition register_operands ::
  "'k env \<Rightarrow> operand \<Rightarrow> 'k cpu \<Rightarrow> u32 \<Rightarrow> u8 \<Rightarrow> u32 \<Rightarrow> u32 \<Rightarrow> bool" where
  "register_operands e src c s reg v nx \<longleftrightarrow>
     (\<exists>off. read_source e c src = Inr (s, off) \<and> fetch_8 e c off = Inr reg \<and>
            read_register c reg = Inr v \<and> ip_plus e c (off + 1) = Inr nx)"

definition outcome_at ::
  "size \<Rightarrow> (u8 \<Rightarrow> 8 outcome res) \<Rightarrow> (u16 \<Rightarrow> 16 outcome res) \<Rightarrow> (u32 \<Rightarrow> 32 outcome res) \<Rightarrow> u32
    \<Rightarrow> (nat \<times> bool option \<times> bool option) res" where
  "outcome_at sz k8 k16 k32 v =
     (case sz of
        SizeByte \<Rightarrow> rbind (k8 (ucast v)) (\<lambda>(r, z, cy). Inr (unat r, z, cy))
      | SizeHalf \<Rightarrow> rbind (k16 (ucast v)) (\<lambda>(r, z, cy). Inr (unat r, z, cy))
      | SizeWord \<Rightarrow> rbind (k32 v) (\<lambda>(r, z, cy). Inr (unat r, z, cy)))"

lemma advance_same_ip:
  "instruction_pointer c' = instruction_pointer c \<Longrightarrow> ip_plus e c off = Inr nx \<Longrightarrow>
    advance e off c' = Inr (nx, c')"
  by (simp add: advance_def ip_plus_def)

lemma register_result_ip:
  "register_result reg n v r z cy c c' \<Longrightarrow> instruction_pointer c' = instruction_pointer c"
  by (simp add: register_result_def)

context binary_arm begin

lemma register_destination:
  assumes ops: "register_operands e src c s reg v nx" and regs: "length (register c) = 32"
    and run: "check_condition c cond" and writes
    and out: "outcome_at sz (k8 (overflow_checks e) s) (k16 (overflow_checks e) s)
      (k32 (overflow_checks e) s) v = Inr (r, z, cy)"
  shows "\<exists>c'. arm e sz cond OpRegister src c = Inr (nx, c') \<and>
    register_result reg (width sz) v r z cy c c'"
proof -
  from ops obtain off where o: "read_source e c src = Inr (s, off)" "fetch_8 e c off = Inr reg"
    "read_register c reg = Inr v" "ip_plus e c (off + 1) = Inr nx"
    by (auto simp: register_operands_def)
  note stores = reg_store_result [OF o(3) regs, where z = z and cy = cy]
  note unfolded = arm_eq alu_dest_def guarded_def Let_def o run \<open>writes\<close>
  show ?thesis
  proof (cases sz)
    case SizeByte
    with out obtain r8 where k: "k8 (overflow_checks e) s (ucast v) = Inr (r8, z, cy)" "r = unat r8"
      by (auto simp: outcome_at_def rbind_eq_Inr)
    obtain c' where c': "reg_store_8 c reg (r8, z, cy) = Inr c'" "register_result reg 8 v r z cy c c'"
      using stores(1) k(2) by blast
    then have "arm e sz cond OpRegister src c = Inr (nx, c')"
      using advance_same_ip [OF register_result_ip [OF c'(2)] o(4)]
      by (simp add: unfolded SizeByte reg_load_8_def k(1))
    then show ?thesis using c'(2) by (auto simp: SizeByte width_def)
  next
    case SizeHalf
    with out obtain r16 where k: "k16 (overflow_checks e) s (ucast v) = Inr (r16, z, cy)" "r = unat r16"
      by (auto simp: outcome_at_def rbind_eq_Inr)
    obtain c' where c': "reg_store_16 c reg (r16, z, cy) = Inr c'" "register_result reg 16 v r z cy c c'"
      using stores(2) k(2) by blast
    then have "arm e sz cond OpRegister src c = Inr (nx, c')"
      using advance_same_ip [OF register_result_ip [OF c'(2)] o(4)]
      by (simp add: unfolded SizeHalf reg_load_16_def k(1))
    then show ?thesis using c'(2) by (auto simp: SizeHalf width_def)
  next
    case SizeWord
    with out obtain r32 where k: "k32 (overflow_checks e) s v = Inr (r32, z, cy)" "r = unat r32"
      by (auto simp: outcome_at_def rbind_eq_Inr)
    obtain c' where c': "reg_store_32 c reg (r32, z, cy) = Inr c'" "register_result reg 32 v r z cy c c'"
      using stores(3) k(2) by blast
    then have "arm e sz cond OpRegister src c = Inr (nx, c')"
      using advance_same_ip [OF register_result_ip [OF c'(2)] o(4)]
      by (simp add: unfolded SizeWord reg_load_32_def k(1))
    then show ?thesis using c'(2) by (auto simp: SizeWord width_def)
  qed
qed

end

context binary_arm begin

lemma register_flags:
  assumes ops: "register_operands e src c s reg v nx"
    and run: "check_condition c cond" and "\<not> writes"
    and out: "outcome_at sz (k8 (overflow_checks e) s) (k16 (overflow_checks e) s)
      (k32 (overflow_checks e) s) v = Inr (r, z, cy)"
  shows "arm e sz cond OpRegister src c = Inr (nx, set_flags z cy c)"
proof -
  from ops obtain off where o: "read_source e c src = Inr (s, off)" "fetch_8 e c off = Inr reg"
    "read_register c reg = Inr v" "ip_plus e c (off + 1) = Inr nx"
    by (auto simp: register_operands_def)
  have "advance e (off + 1) (set_flags z cy c) = Inr (nx, set_flags z cy c)"
    using o(4) by (intro advance_same_ip) (simp_all add: set_flags_def)
  then show ?thesis
    using out by (cases sz) (auto simp: arm_eq alu_dest_def guarded_def Let_def o run \<open>\<not> writes\<close>
        outcome_at_def rbind_eq_Inr reg_load_8_def reg_load_16_def reg_load_32_def
        set_outcome_flags_def)
qed

end

section \<open>The operations at every width\<close>

lemma unat_low: "unat (ucast v :: 'a::len word) = unat (v :: u32) mod 2 ^ LENGTH('a)"
  by (simp add: unsigned_ucast_eq take_bit_eq_mod)

lemma outcome_at_cases:
  assumes "sz = SizeByte \<Longrightarrow> rbind (k8 (ucast v)) (\<lambda>(r, z, cy). Inr (unat r, z, cy)) = y"
    and "sz = SizeHalf \<Longrightarrow> rbind (k16 (ucast v)) (\<lambda>(r, z, cy). Inr (unat r, z, cy)) = y"
    and "sz = SizeWord \<Longrightarrow> rbind (k32 (ucast v)) (\<lambda>(r, z, cy). Inr (unat r, z, cy)) = y"
  shows "outcome_at sz k8 k16 k32 v = y"
  using assms by (cases sz) (simp_all add: outcome_at_def)

lemma alu_add_width:
  fixes k :: "'a::len itself"
  shows "rbind (alu_add s (ucast v :: 'a word)) (\<lambda>(r, z, cy). Inr (unat r, z, cy)) =
    Inr ((unat v + unat s) mod 2 ^ LENGTH('a), Some ((unat v + unat s) mod 2 ^ LENGTH('a) = 0),
      Some (2 ^ LENGTH('a) \<le> unat (v :: u32) mod 2 ^ LENGTH('a) + unat s mod 2 ^ LENGTH('a)))"
proof -
  have "unat (ucast v + ucast s :: 'a word) = (unat v + unat s) mod 2 ^ LENGTH('a)"
    by (simp add: unat_word_ariths unat_low mod_add_eq)
  then show ?thesis
    by (simp add: alu_add_def overflowing_add_def unat_low flip: unat_eq_0)
qed

lemma alu_sub_width:
  fixes k :: "'a::len itself"
  shows "rbind (alu_sub s (ucast v :: 'a word)) (\<lambda>(r, z, cy). Inr (unat r, z, cy)) =
    Inr (nat ((int (unat v) - int (unat s)) mod 2 ^ LENGTH('a)),
      Some (unat v mod 2 ^ LENGTH('a) = unat s mod 2 ^ LENGTH('a)),
      Some (unat (v :: u32) mod 2 ^ LENGTH('a) < unat s mod 2 ^ LENGTH('a)))"
proof -
  have "int (unat (ucast v - ucast s :: 'a word)) = (int (unat v) - int (unat s)) mod 2 ^ LENGTH('a)"
    by (simp add: uint_word_ariths unsigned_ucast_eq take_bit_eq_mod mod_diff_eq)
  then have "unat (ucast v - ucast s :: 'a word) = nat ((int (unat v) - int (unat s)) mod 2 ^ LENGTH('a))"
    by (metis nat_int)
  moreover have "(ucast v = (ucast s :: 'a word)) \<longleftrightarrow>
      unat v mod 2 ^ LENGTH('a) = unat s mod 2 ^ LENGTH('a)"
    by (metis unat_low word_unat_eq_iff)
  ultimately show ?thesis
    by (simp only: alu_sub_def overflowing_sub_def unat_low Let_def rbind_Inr prod.case fst_conv
        snd_conv right_minus_eq)
qed

lemma alu_mul_width:
  fixes k :: "'a::len itself"
  shows "rbind (alu_mul s (ucast v :: 'a word)) (\<lambda>(r, z, cy). Inr (unat r, z, cy)) =
    Inr (unat v * unat s mod 2 ^ LENGTH('a), Some (unat v * unat s mod 2 ^ LENGTH('a) = 0),
      Some (2 ^ LENGTH('a) \<le> (unat (v :: u32) mod 2 ^ LENGTH('a)) * (unat s mod 2 ^ LENGTH('a))))"
proof -
  have "unat (ucast v * ucast s :: 'a word) = unat v * unat s mod 2 ^ LENGTH('a)"
    by (simp add: unat_word_ariths unat_low mod_mult_eq)
  then show ?thesis
    by (simp add: alu_mul_def overflowing_mul_def unat_low flip: unat_eq_0)
qed

lemma alu_div_width:
  fixes k :: "'a::len itself"
  shows "rbind (alu_div s (ucast v :: 'a word)) (\<lambda>(r, z, cy). Inr (unat r, z, cy)) =
    (if unat s mod 2 ^ LENGTH('a) = 0 then Inl DivisionByZero
     else Inr ((unat (v :: u32) mod 2 ^ LENGTH('a)) div (unat s mod 2 ^ LENGTH('a)),
       Some (unat v mod 2 ^ LENGTH('a) < unat s mod 2 ^ LENGTH('a)), None))"
proof -
  have zero: "(ucast s = (0 :: 'a word)) \<longleftrightarrow> unat s mod 2 ^ LENGTH('a) = 0"
    by (metis unat_low unat_eq_0)
  have "(ucast v div ucast s = (0 :: 'a word)) \<longleftrightarrow> unat (ucast v div ucast s :: 'a word) = 0"
    by (rule unat_eq_0 [symmetric])
  then have quot: "(ucast v div ucast s = (0 :: 'a word)) \<longleftrightarrow>
      unat v mod 2 ^ LENGTH('a) < unat s mod 2 ^ LENGTH('a)" if "unat s mod 2 ^ LENGTH('a) \<noteq> 0"
    using that by (simp only: unat_div unat_low div_eq_0_iff) simp
  show ?thesis
    by (cases "unat s mod 2 ^ LENGTH('a) = 0")
       (simp_all add: alu_div_def overflowing_div_def zero quot unat_div unat_low)
qed

lemma alu_rem_width:
  fixes k :: "'a::len itself"
  shows "rbind (alu_rem s (ucast v :: 'a word)) (\<lambda>(r, z, cy). Inr (unat r, z, cy)) =
    (if unat s mod 2 ^ LENGTH('a) = 0 then Inl DivisionByZero
     else let r = (unat (v :: u32) mod 2 ^ LENGTH('a)) mod (unat s mod 2 ^ LENGTH('a))
          in Inr (r, Some (r = 0), None))"
proof -
  have zero: "(ucast s = (0 :: 'a word)) \<longleftrightarrow> unat s mod 2 ^ LENGTH('a) = 0"
    by (metis unat_low unat_eq_0)
  have rem: "unat (ucast v mod ucast s :: 'a word) =
      (unat v mod 2 ^ LENGTH('a)) mod (unat s mod 2 ^ LENGTH('a))"
    by (simp only: unat_mod unat_low)
  then have "(ucast v mod ucast s = (0 :: 'a word)) \<longleftrightarrow>
      (unat v mod 2 ^ LENGTH('a)) mod (unat s mod 2 ^ LENGTH('a)) = 0"
    by (metis unat_eq_0)
  then show ?thesis
    by (simp add: alu_rem_def rust_rem_def zero rem Let_def)
qed

lemma alu_cmp_sub: "alu_cmp = alu_sub"
  by (simp add: fun_eq_iff alu_cmp_def alu_sub_def)

lemma outcome_at_add: "outcome_at sz (alu_add s) (alu_add s) (alu_add s) v =
    Inr ((unat v + unat s) mod 2 ^ width sz, Some ((unat v + unat s) mod 2 ^ width sz = 0),
      Some (2 ^ width sz \<le> unat v mod 2 ^ width sz + unat s mod 2 ^ width sz))"
  by (rule outcome_at_cases) (simp_all only: alu_add_width, simp_all add: width_def)

lemma outcome_at_sub: "outcome_at sz (alu_sub s) (alu_sub s) (alu_sub s) v =
    Inr (nat ((int (unat v) - int (unat s)) mod 2 ^ width sz),
      Some (unat v mod 2 ^ width sz = unat s mod 2 ^ width sz),
      Some (unat v mod 2 ^ width sz < unat s mod 2 ^ width sz))"
  by (rule outcome_at_cases) (simp_all only: alu_sub_width, simp_all add: width_def)

lemma outcome_at_mul: "outcome_at sz (alu_mul s) (alu_mul s) (alu_mul s) v =
    Inr (unat v * unat s mod 2 ^ width sz, Some (unat v * unat s mod 2 ^ width sz = 0),
      Some (2 ^ width sz \<le> (unat v mod 2 ^ width sz) * (unat s mod 2 ^ width sz)))"
  by (rule outcome_at_cases) (simp_all only: alu_mul_width, simp_all add: width_def)

lemma outcome_at_div: "outcome_at sz (alu_div s) (alu_div s) (alu_div s) v =
    (if unat s mod 2 ^ width sz = 0 then Inl DivisionByZero
     else Inr ((unat v mod 2 ^ width sz) div (unat s mod 2 ^ width sz),
       Some (unat v mod 2 ^ width sz < unat s mod 2 ^ width sz), None))"
  by (rule outcome_at_cases) (simp_all only: alu_div_width, simp_all add: width_def)

lemma outcome_at_rem: "outcome_at sz (alu_rem s) (alu_rem s) (alu_rem s) v =
    (if unat s mod 2 ^ width sz = 0 then Inl DivisionByZero
     else let r = (unat v mod 2 ^ width sz) mod (unat s mod 2 ^ width sz)
          in Inr (r, Some (r = 0), None))"
  by (rule outcome_at_cases) (simp_all only: alu_rem_width, simp_all add: width_def)

section \<open>Properties\<close>

text \<open>
  C19. Addition. \<open>add\<close> of a source \<open>s\<close> to a register leaves in its low 8, 16 or 32 bits their sum
  modulo the width, keeps the bits above, and sets the carry exactly when the sum does not fit
  and the zero flag exactly when the result is zero; nothing else changes.
\<close>

theorem add_register:
  assumes "register_operands e src c s reg v nx" and "length (register c) = 32"
    and "check_condition c cond"
  shows "\<exists>c'. exec_add e sz cond OpRegister src c = Inr (nx, c') \<and>
    register_result reg (width sz) v ((unat v + unat s) mod 2 ^ width sz)
      (Some ((unat v + unat s) mod 2 ^ width sz = 0))
      (Some (2 ^ width sz \<le> unat v mod 2 ^ width sz + unat s mod 2 ^ width sz)) c c'"
  using assms by (rule arm_add.register_destination) (simp_all add: outcome_at_add)

text \<open>The witnesses' instruction: register 1 is the source, register 0 the destination.\<close>

lemma sample_register_operands:
  "register_operands sample_env OpRegister (sample_cpu [lo, hi, 1, 0] [v, s]) s 0 v 4"
  by (auto simp: register_operands_def read_source_def fetch_8_def)

theorem add_register_witness:
  "\<exists>c'. exec_add sample_env SizeByte CondAlways OpRegister OpRegister
      (sample_cpu [0, 1, 1, 0] [0x12345678, 0xA8]) = Inr (4, c') \<and>
    register_result 0 8 0x12345678 0x20 (Some False) (Some True)
      (sample_cpu [0, 1, 1, 0] [0x12345678, 0xA8]) c'"
  using add_register [OF sample_register_operands [of 0 1 "0x12345678" "0xA8"], of CondAlways SizeByte]
  by (simp add: check_condition_def width_def)

text \<open>
  C20. Subtraction. \<open>sub\<close> leaves the difference modulo the width in the low bits of the register,
  sets the carry exactly when the register was below the source and the zero flag exactly when
  they were equal, and keeps the bits above.
\<close>

theorem sub_register:
  assumes "register_operands e src c s reg v nx" and "length (register c) = 32"
    and "check_condition c cond"
  shows "\<exists>c'. exec_sub e sz cond OpRegister src c = Inr (nx, c') \<and>
    register_result reg (width sz) v (nat ((int (unat v) - int (unat s)) mod 2 ^ width sz))
      (Some (unat v mod 2 ^ width sz = unat s mod 2 ^ width sz))
      (Some (unat v mod 2 ^ width sz < unat s mod 2 ^ width sz)) c c'"
  using assms by (rule arm_sub.register_destination) (simp_all add: outcome_at_sub)

theorem sub_register_witness:
  "\<exists>c'. exec_sub sample_env SizeHalf CondAlways OpRegister OpRegister
      (sample_cpu [0, 1, 1, 0] [0x12340001, 3]) = Inr (4, c') \<and>
    register_result 0 16 0x12340001 0xFFFE (Some False) (Some True)
      (sample_cpu [0, 1, 1, 0] [0x12340001, 3]) c'"
  using sub_register [OF sample_register_operands [of 0 1 "0x12340001" 3], of CondAlways SizeHalf]
  by (simp add: check_condition_def width_def)

text \<open>
  Multiplication. \<open>mul\<close> leaves the product modulo the width in the low bits of the register,
  and sets the carry exactly when the product of the two operands, cut to the width, does not
  fit.
\<close>

theorem mul_register:
  assumes "register_operands e src c s reg v nx" and "length (register c) = 32"
    and "check_condition c cond"
  shows "\<exists>c'. exec_mul e sz cond OpRegister src c = Inr (nx, c') \<and>
    register_result reg (width sz) v (unat v * unat s mod 2 ^ width sz)
      (Some (unat v * unat s mod 2 ^ width sz = 0))
      (Some (2 ^ width sz \<le> (unat v mod 2 ^ width sz) * (unat s mod 2 ^ width sz))) c c'"
  using assms by (rule arm_mul.register_destination) (simp_all add: outcome_at_mul)

theorem mul_register_witness:
  "\<exists>c'. exec_mul sample_env SizeByte CondAlways OpRegister OpRegister
      (sample_cpu [0, 2, 1, 0] [0x100, 3]) = Inr (4, c') \<and>
    register_result 0 8 0x100 0 (Some True) (Some False)
      (sample_cpu [0, 2, 1, 0] [0x100, 3]) c'"
  using mul_register [OF sample_register_operands [of 0 2 "0x100" 3], of CondAlways SizeByte]
  by (simp add: check_condition_def width_def)

context binary_arm begin

lemma register_panics:
  assumes ops: "register_operands e src c s reg v nx"
    and run: "check_condition c cond"
    and out: "outcome_at sz (k8 (overflow_checks e) s) (k16 (overflow_checks e) s)
      (k32 (overflow_checks e) s) v = Inl p"
  shows "arm e sz cond OpRegister src c = Inl p"
proof -
  from ops obtain off where o: "read_source e c src = Inr (s, off)" "fetch_8 e c off = Inr reg"
    "read_register c reg = Inr v"
    by (auto simp: register_operands_def)
  then show ?thesis
    using out run by (cases sz) (auto simp: arm_eq alu_dest_def guarded_def Let_def
        outcome_at_def rbind_eq_Inl reg_load_8_def reg_load_16_def reg_load_32_def)
qed

end

text \<open>
  C39. Division. \<open>div\<close> on a register leaves the quotient of the two operands at the instruction's
  width, without touching the carry; when the low bits of the source are zero it panics, also
  where the source register itself is not zero.
\<close>

theorem div_register:
  assumes "register_operands e src c s reg v nx" and "length (register c) = 32"
    and "check_condition c cond"
  shows "if unat s mod 2 ^ width sz = 0
    then exec_div e sz cond OpRegister src c = Inl DivisionByZero
    else \<exists>c'. exec_div e sz cond OpRegister src c = Inr (nx, c') \<and>
      register_result reg (width sz) v ((unat v mod 2 ^ width sz) div (unat s mod 2 ^ width sz))
        (Some (unat v mod 2 ^ width sz < unat s mod 2 ^ width sz)) None c c'"
proof (cases "unat s mod 2 ^ width sz = 0")
  case True
  then show ?thesis
    using arm_div.register_panics [OF assms(1,3), of sz] by (simp add: outcome_at_div)
next
  case False
  then show ?thesis
    using arm_div.register_destination [OF assms, of sz] by (simp add: outcome_at_div)
qed

theorem div_register_witness:
  "exec_div sample_env SizeByte CondAlways OpRegister OpRegister
      (sample_cpu [0, 0x22, 1, 0] [7, 0x100]) = Inl DivisionByZero \<and>
   (\<exists>c'. exec_div sample_env SizeHalf CondAlways OpRegister OpRegister
      (sample_cpu [0, 0x22, 1, 0] [0x703, 0x100]) = Inr (4, c') \<and>
    register_result 0 16 0x703 7 (Some False) None
      (sample_cpu [0, 0x22, 1, 0] [0x703, 0x100]) c')"
  using div_register [OF sample_register_operands [of 0 "0x22" 7 "0x100"], of CondAlways SizeByte]
    div_register [OF sample_register_operands [of 0 "0x22" "0x703" "0x100"], of CondAlways SizeHalf]
  by (simp add: check_condition_def width_def)

text \<open>
  C18. Comparison. After \<open>cmp\<close> of a register with a source, the conditions say how the two
  compared at the instruction's width: \<open>ifz\<close> equal, \<open>ifc\<close> below, \<open>ifgt\<close> above, \<open>iflteq\<close> not
  above, and \<open>ifnz\<close>, \<open>ifnc\<close> their opposites; no register, no memory and no other flag
  changes.
\<close>

theorem cmp_conditions:
  assumes "register_operands e src c s reg v nx" and "check_condition c cond"
  shows "let x = unat v mod 2 ^ width sz; y = unat s mod 2 ^ width sz in
    \<exists>c'. exec_cmp e sz cond OpRegister src c = Inr (nx, c') \<and>
    check_condition c' CondZero = (x = y) \<and> check_condition c' CondNotZero = (x \<noteq> y) \<and>
    check_condition c' CondCarry = (x < y) \<and> check_condition c' CondNotCarry = (y \<le> x) \<and>
    check_condition c' CondGreaterThan = (y < x) \<and>
    check_condition c' CondLessThanEqualTo = (x \<le> y) \<and>
    c' = c\<lparr>flag := (flag c)\<lparr>flag_zero := (x = y), flag_carry := (x < y)\<rparr>\<rparr>"
proof -
  let ?x = "unat v mod 2 ^ width sz" and ?y = "unat s mod 2 ^ width sz"
  have "exec_cmp e sz cond OpRegister src c =
      Inr (nx, set_flags (Some (?x = ?y)) (Some (?x < ?y)) c)"
    using assms by (rule arm_cmp.register_flags) (simp_all add: alu_cmp_sub outcome_at_sub)
  then show ?thesis
    by (auto simp: set_flags_def check_condition_def Let_def)
qed

theorem cmp_conditions_witness:
  "\<exists>c'. exec_cmp sample_env SizeByte CondAlways OpRegister OpRegister
      (sample_cpu [0, 7, 1, 0] [0x1FF, 0x2FE]) = Inr (4, c') \<and>
    check_condition c' CondGreaterThan \<and> \<not> check_condition c' CondZero"
  using cmp_conditions [OF sample_register_operands [of 0 7 "0x1FF" "0x2FE"], of CondAlways SizeByte]
  by (auto simp: check_condition_def width_def Let_def)

section \<open>Shifts\<close>

lemma rust_shr_i32_logical:
  fixes x :: "'a::len word"
  assumes "LENGTH('a) dvd 2 ^ 32" and "LENGTH('a) \<le> 32"
  shows "rust_shr_i32 chk x s = rust_shr chk x s"
proof -
  have dvd: "int LENGTH('a) dvd 2 ^ 32"
    using assms(1) by (metis int_dvd_int_iff of_nat_numeral of_nat_power)
  have u: "uint s = sint s mod 2 ^ 32"
    using uint_sint [of s] by (simp add: take_bit_eq_mod)
  have bounds: "- (2 ^ 31) \<le> sint s" "sint s < 2 ^ 31"
    using sint_ge [of s] sint_lt [of s] by simp_all
  have range: "(sint s < 0 \<or> int LENGTH('a) \<le> sint s) \<longleftrightarrow> LENGTH('a) \<le> unat s"
  proof (cases "sint s < 0")
    case True
    have "uint s = (sint s + 2 ^ 32) mod 2 ^ 32"
      unfolding u by (rule mod_add_self2 [symmetric])
    also have "\<dots> = sint s + 2 ^ 32"
      using True bounds by (intro mod_pos_pos_trivial) simp_all
    finally have "uint s = sint s + 2 ^ 32" .
    then have "32 \<le> int (unat s)"
      using bounds(1) by simp
    then have "LENGTH('a) \<le> unat s"
      using assms(2) by linarith
    then show ?thesis using True by simp
  next
    case False
    then have "int (unat s) = sint s"
      using bounds(2) u by simp
    then show ?thesis using False by linarith
  qed
  have "sint s mod int LENGTH('a) = uint s mod int LENGTH('a)"
    unfolding u by (rule mod_mod_cancel [OF dvd, symmetric])
  also have "\<dots> = int (unat s mod LENGTH('a))"
    by (simp add: zmod_int)
  finally show ?thesis
    by (simp only: rust_shr_i32_def rust_shr_def range nat_int)
qed

lemma alu_sra_srl: "LENGTH('a::len) dvd 2 ^ 32 \<Longrightarrow> LENGTH('a) \<le> 32 \<Longrightarrow>
    alu_sra chk s (x :: 'a word) = alu_srl chk s x"
  by (simp add: alu_sra_def alu_srl_def rust_shr_i32_logical)

text \<open>
  C40. Right shifts. \<open>sra\<close> and \<open>srl\<close> are the same instruction: no shift of this processor extends
  the sign.
\<close>

theorem sra_is_srl: "exec_sra e sz cond dst src c = exec_srl e sz cond dst src c"
proof -
  have "alu_sra chk s = (alu_srl chk s :: u8 \<Rightarrow> 8 outcome res)"
    "alu_sra chk s = (alu_srl chk s :: u16 \<Rightarrow> 16 outcome res)"
    "alu_sra chk s = (alu_srl chk s :: u32 \<Rightarrow> 32 outcome res)" for chk s
    by (rule ext, rule alu_sra_srl; simp)+
  then show ?thesis
    by (simp only: arm_sra.arm_eq arm_srl.arm_eq)
qed

end
