(* ===== verification/CpuSpec.thy ===== *)
theory CpuSpec
  imports AluSpec
begin

text \<open>
  The properties of one instruction and one step of the processor: where control goes next,
  what a false condition means, loops, calls and returns, interrupts and exceptions, and the
  stack pointer at boot.
\<close>

lemmas sample_steps = execute_instruction_def fetch_8_def read_source_def check_condition_def
  advance_def Let_def

lemma sample_advance: "advance sample_env off (sample_cpu code regs) = Inr (off, sample_cpu code regs)"
  by (simp add: advance_def)

lemma sample_mov:
  "\<exists>c'. execute_instruction sample_env (I_Mov SizeWord CondAlways OpRegister OpImmediate8)
     (sample_cpu [2, 0x97, 0x42, 0] []) = Inr (4, c')"
  by (simp add: sample_steps exec_mov_def write_register_def ip_plus_def checked_plus_def)

text \<open>A processor with interrupts enabled and the handler of every vector below 64 at 0.\<close>

definition listening_cpu :: "u32 list cpu" where
  "listening_cpu = set_interrupt_flag True (sample_cpu [] [])"

lemma listening_read [simp]:
  "in_ram 4 a \<Longrightarrow> mem_read_32 listening_cpu a = Inr 0"
  by (simp add: listening_cpu_def set_interrupt_flag_def mem_read_32_def read_32_def load_bytes_def
      find_unwrapped_spec sample_bus_def region_bytes_def get_slice_def le_word_32_def)

lemma listening_fields [simp]: "flag_interrupt (flag listening_cpu)" "stack_pointer listening_cpu = 0x1000"
  "instruction_pointer listening_cpu = 0"
  by (simp_all add: listening_cpu_def set_interrupt_flag_def)

lemma listening_pushes:
  "\<exists>c1 c2. push_stack_32 listening_cpu w = Inr c1 \<and> push_stack_8 c1 b = Inr c2 \<and> stack_pointer c2 = 0xFFB"
proof -
  obtain c1 where c1: "push_stack_32 listening_cpu w = Inr c1"
    using stack32.push_succeeds [of listening_cpu w] by (auto simp: mapped_def in_ram_def)
  then have sp: "stack_pointer c1 = 0xFFC"
    by (auto simp: stack32.push_eq rbind_eq_Inr set_memory_def)
  obtain c2 where c2: "push_stack_8 c1 b = Inr c2"
    using stack8.push_succeeds [of c1 b] sp by (auto simp: mapped_def in_ram_def)
  have "stack_pointer c2 = 0xFFB"
    using c2 sp by (auto simp: stack8.push_eq rbind_eq_Inr set_memory_def)
  with c1 c2 show ?thesis by blast
qed

section \<open>The flow of control\<close>

lemma in_falls:
  assumes "is_in i" and "execute_instruction e i c = Inr (nx, c')"
  shows "nx = instruction_pointer c + instruction_length i"
proof -
  obtain cond dst src where i: "i = I_In cond dst src"
    using assms(1) by (auto simp: is_in_def split: instruction.splits)
  have "falls c True (2 + operand_length src + operand_length dst) (nx, c')"
    using res_allD [OF exec_in_falls] assms(2) by (fastforce simp: i execute_instruction_def)
  then show ?thesis
    by (simp add: falls_def i instruction_length_def operands_def add.assoc)
qed

text \<open>
  C17. Sequential flow. An instruction that is not a jump, call, loop or return hands control to
  the byte after its operands, whatever its condition.
\<close>

theorem sequential_flow:
  assumes "execute_instruction e i c = Inr (nx, c')" and "\<not> transfers i"
  shows "nx = instruction_pointer c + instruction_length i"
proof (cases "is_in i")
  case True
  then show ?thesis using assms(1) by (rule in_falls)
next
  case False
  then show ?thesis
    using res_allD [OF instruction_falls [OF assms(2)] assms(1)] by (simp add: falls_def)
qed

theorem sequential_flow_witness:
  "\<exists>nx c'. execute_instruction sample_env (I_Mov SizeWord CondAlways OpRegister OpImmediate8)
     (sample_cpu [2, 0x97, 0x42, 0] []) = Inr (nx, c') \<and> nx = 4"
proof -
  obtain nx c' where run: "execute_instruction sample_env
      (I_Mov SizeWord CondAlways OpRegister OpImmediate8) (sample_cpu [2, 0x97, 0x42, 0] []) = Inr (nx, c')"
    using sample_mov by blast
  show ?thesis
    using sequential_flow [OF run] run
    by (simp add: transfers_def instruction_length_def operands_def operand_length_def)
qed

definition counts :: "instruction \<Rightarrow> bool" where
  "counts i = (case i of I_Loop _ _ \<Rightarrow> True | I_Rloop _ _ \<Rightarrow> True | _ \<Rightarrow> False)"

lemma transfer_skips:
  assumes "transfers i" and "\<not> counts i" and "\<not> check_condition c (instruction_condition i)"
    and "execute_instruction e i c = Inr (nx, c')"
  shows "c' = c"
  using assms
  by (cases i) (auto simp: transfers_def counts_def instruction_condition_def execute_instruction_def
      exec_jmp_def exec_rjmp_def exec_call_def exec_rcall_def exec_ret_def exec_reti_def
      rbind_eq_Inr dest!: advance_Inr split: prod.splits)

text \<open>
  Division by a memory destination is computed before the condition is looked at
  (\<open>fox32/src/cpu.rs\<close>, the arms of \<open>Div\<close> and \<open>Rem\<close>).
\<close>

definition memory_destination :: "'k env \<Rightarrow> 'k cpu \<Rightarrow> operand \<Rightarrow> u32 \<Rightarrow> u32 res" where
  "memory_destination e c dst off =
     (case dst of
        OpRegisterPtr \<Rightarrow> rbind (fetch_8 e c off) (read_register c)
      | OpImmediatePtr _ \<Rightarrow> fetch_32 e c off
      | _ \<Rightarrow> Inl ImmediateDestination)"

lemma low_zero: "unat (v :: u32) mod 2 ^ LENGTH('a::len) = 0 \<Longrightarrow> (ucast v :: 'a word) = 0"
  by (simp add: unat_eq_0 [symmetric] unat_low)

lemma skipped_division_panics:
  assumes "i = I_Div sz cond dst src \<or> i = I_Rem sz cond dst src"
    and "read_source e c src = Inr (v, off)" and "memory_destination e c dst off = Inr p"
    and "mapped (width sz div 8) p" and "unat v mod 2 ^ width sz = 0"
  shows "execute_instruction e i c = Inl DivisionByZero"
proof -
  have read: "sz = SizeByte \<Longrightarrow> \<exists>b. mem_read_8 c p = Inr b" "sz = SizeHalf \<Longrightarrow> \<exists>h. mem_read_16 c p = Inr h"
    "sz = SizeWord \<Longrightarrow> \<exists>w. mem_read_32 c p = Inr w"
    using assms(4) mem8.get_mapped mem16.get_mapped mem32.get_mapped
    by (simp_all add: width_def mem_read_8_def mem_read_16_def mem_read_32_def)
  have low: "sz = SizeByte \<Longrightarrow> (ucast v :: 8 word) = 0" "sz = SizeHalf \<Longrightarrow> (ucast v :: 16 word) = 0"
    "sz = SizeWord \<Longrightarrow> (ucast v :: 32 word) = 0"
    using assms(5) low_zero [of v, where 'a = 8] low_zero [of v, where 'a = 16] low_zero [of v, where 'a = 32]
    by (simp_all add: width_def)
  show ?thesis
    using assms(1-3) read low
    by (cases sz; cases dst) (auto simp: execute_instruction_def exec_div_def exec_rem_def Let_def
        memory_destination_def rbind_eq_Inr mem_load_8_def mem_load_16_def mem_load_32_def alu_div_def
        alu_rem_def overflowing_div_def rust_rem_def)
qed

lemma skipped_returns:
  assumes "execute_instruction e i c = Inr (nx, c')"
    and "\<not> check_condition c (instruction_condition i)" and "\<not> is_in i" and "\<not> counts i"
  shows "c' = c \<and> nx = instruction_pointer c + instruction_length i"
proof (cases "transfers i")
  case True
  then show ?thesis
    using res_allD [OF instruction_transfers [OF True] assms(1)] transfer_skips [OF True assms(4,2,1)]
      assms(2) by (simp add: transfer_def)
next
  case False
  then show ?thesis
    using res_allD [OF instruction_falls [OF False assms(3)] assms(1)] assms(2)
    by (simp add: falls_def)
qed

text \<open>
  C33. Conditional execution. An instruction whose condition is false, unless it is \<open>in\<close>, which
  reads its port, or \<open>loop\<close> or \<open>rloop\<close>, which count down, changes nothing and moves on to the next
  instruction whenever it returns. It need not return: its operands are still fetched, and a
  skipped \<open>div\<close> or \<open>rem\<close> of a memory operand panics where the divisor is zero at the width of
  the instruction.
\<close>

theorem false_condition_skips:
  assumes "\<not> check_condition c (instruction_condition i)" and "\<not> is_in i" and "\<not> counts i"
  shows "(\<forall>nx c'. execute_instruction e i c = Inr (nx, c') \<longrightarrow>
      c' = c \<and> nx = instruction_pointer c + instruction_length i) \<and>
    (\<forall>sz cond dst src v off p.
      (i = I_Div sz cond dst src \<or> i = I_Rem sz cond dst src) \<and>
      read_source e c src = Inr (v, off) \<and> memory_destination e c dst off = Inr p \<and>
      mapped (width sz div 8) p \<and> unat v mod 2 ^ width sz = 0 \<longrightarrow>
      execute_instruction e i c = Inl DivisionByZero)"
proof (intro conjI allI impI)
  fix nx c' assume "execute_instruction e i c = Inr (nx, c')"
  then show "c' = c" "nx = instruction_pointer c + instruction_length i"
    using skipped_returns [OF _ assms] by simp_all
next
  fix sz cond dst src v off p
  assume "(i = I_Div sz cond dst src \<or> i = I_Rem sz cond dst src) \<and> read_source e c src = Inr (v, off) \<and>
    memory_destination e c dst off = Inr p \<and> mapped (width sz div 8) p \<and> unat v mod 2 ^ width sz = 0"
  then show "execute_instruction e i c = Inl DivisionByZero"
    by (elim conjE) (rule skipped_division_panics)
qed

text \<open>A jump that is not taken, and \<open>ifz div.8 [r0], r1\<close> with the zero flag clear and \<open>r1\<close> zero.\<close>

theorem false_condition_skips_witness:
  "execute_instruction sample_env (I_Jmp CondZero OpImmediate8) (sample_cpu [2, 8, 0x42] []) =
     Inr (3, sample_cpu [2, 8, 0x42] []) \<and>
   execute_instruction sample_env (I_Div SizeByte CondZero OpRegisterPtr OpRegister)
     (sample_cpu [0x14, 0x04, 1, 0] [0x100, 0]) = Inl DivisionByZero"
proof -
  have jmp: "execute_instruction sample_env (I_Jmp CondZero OpImmediate8) (sample_cpu [2, 8, 0x42] []) =
     Inr (3, sample_cpu [2, 8, 0x42] [])"
    by (simp add: sample_steps exec_jmp_def)
  let ?c = "sample_cpu [0x14, 0x04, 1, 0] [0x100, 0]"
  let ?div = "I_Div SizeByte CondZero OpRegisterPtr OpRegister"
  have skip: "\<not> check_condition (sample_cpu code regs) (instruction_condition (I_Jmp CondZero OpImmediate8))"
    "\<not> check_condition (sample_cpu code regs) (instruction_condition ?div)" for code regs
    by (simp_all add: check_condition_def instruction_condition_def)
  have kind: "\<not> is_in (I_Jmp CondZero OpImmediate8)" "\<not> counts (I_Jmp CondZero OpImmediate8)"
    "\<not> is_in ?div" "\<not> counts ?div"
    by (simp_all add: is_in_def counts_def)
  have "read_source sample_env ?c OpRegister = Inr (0, 3)"
    by (simp add: sample_steps)
  moreover have "memory_destination sample_env ?c OpRegisterPtr 3 = Inr 0x100"
    by (simp add: memory_destination_def fetch_8_def)
  moreover have "mapped (width SizeByte div 8) 0x100" by (simp add: width_def mapped_def in_ram_def)
  ultimately have "execute_instruction sample_env ?div ?c = Inl DivisionByZero"
    using conjunct2 [OF false_condition_skips [OF skip(2) kind(3,4), of sample_env], rule_format,
        of SizeByte CondZero OpRegisterPtr OpRegister "[0x14, 0x04, 1, 0]" "[0x100, 0]" 0 3 "0x100"] by simp
  then show ?thesis
    using jmp conjunct1 [OF false_condition_skips [OF skip(1) kind(1,2), of sample_env], rule_format, OF jmp]
    by simp
qed

text \<open>
  C34. Loops. \<open>loop\<close> and \<open>rloop\<close> take one off register 31, also when their condition is false, and
  jump exactly when their condition holds and the register is not zero then.
\<close>

theorem loop_counts_down:
  assumes "read_source e c src = Inr (target, off)" and "read_register c 31 = Inr v"
    and "ip_plus e c off = Inr nx"
  shows "let c' = c\<lparr>register := (register c)[31 := v - 1]\<rparr>;
      jump = check_condition c cond \<and> v \<noteq> 1 in
    exec_loop e cond src c = Inr (if jump then target else nx, c') \<and>
    exec_rloop e cond src c =
      Inr (if jump then instruction_pointer c + target else nx, c')"
proof -
  have "advance e off (c\<lparr>register := r\<rparr>) = Inr (nx, c\<lparr>register := r\<rparr>)" for r
    using assms(3) by (intro advance_same_ip) simp_all
  then show ?thesis
    by (simp add: exec_loop_def exec_rloop_def assms(1,2) Let_def write_register_def
        overflowing_sub_def relative_to_absolute_def)
qed

theorem loop_counts_down_witness:
  "exec_loop sample_env CondZero OpImmediate8 (sample_cpu [2, 0x28, 0x42] (replicate 32 2)) =
     Inr (3, (sample_cpu [2, 0x28, 0x42] (replicate 32 2))\<lparr>register := (replicate 32 2)[31 := 1]\<rparr>)"
  using loop_counts_down [of sample_env "sample_cpu [2, 0x28, 0x42] (replicate 32 2)" OpImmediate8
      "0x42" 3 2 3 CondZero]
  by (simp add: sample_steps read_register_def)

section \<open>Calls, returns and interrupts\<close>

lemma push_stack_32_fields:
  assumes "push_stack_32 c w = Inr c'"
  shows "c' = c\<lparr>stack_pointer := stack_pointer c - 4, bus := bus c'\<rparr>"
  using assms by (auto simp: stack32.push_eq rbind_eq_Inr set_memory_def)

text \<open>
  C3. Calls and returns. A call that is taken goes to its target; a return executed there, with
  the stack pointer and the stack as the call left them, comes back to the instruction after
  the call, with the stack pointer, the registers and the flags of before the call.
\<close>

theorem call_then_return:
  assumes "execute_instruction e i c = Inr (target, c1)" and "check_condition c cond"
    and "i = I_Call cond src \<or> i = I_Rcall cond src"
  shows "exec_ret e' CondAlways (c1\<lparr>instruction_pointer := target\<rparr>) =
    Inr (instruction_pointer c + instruction_length i,
         c\<lparr>instruction_pointer := target, bus := bus c1\<rparr>)"
proof -
  from assms obtain return_address where ra: "return_address = instruction_pointer c + instruction_length i"
    and push: "push_stack_32 c return_address = Inr c1"
    by (auto simp: execute_instruction_def exec_call_def exec_rcall_def rbind_eq_Inr ip_plus_def
        instruction_length_def operands_def dest!: checked_plus_Inr read_source_offset)
  then obtain m where c1: "c1 = set_memory (c\<lparr>stack_pointer := stack_pointer c - 4\<rparr>) m"
    by (auto simp: stack32.push_eq rbind_eq_Inr)
  from stack32.push_pop [OF push] have "read_32 m (stack_pointer c - 4) = Inr return_address"
    by (auto simp: stack32.pop_eq rbind_eq_Inr c1 set_memory_def)
  then show ?thesis
    by (simp add: exec_ret_def check_condition_def stack32.pop_eq c1 set_memory_def ra)
qed

theorem call_then_return_witness:
  "\<exists>c1. execute_instruction sample_env (I_Call CondAlways OpImmediate8) (sample_cpu [2, 0x18, 0x42] []) =
      Inr (0x42, c1) \<and>
    exec_ret sample_env CondAlways (c1\<lparr>instruction_pointer := 0x42\<rparr>) =
      Inr (3, (sample_cpu [2, 0x18, 0x42] [])\<lparr>instruction_pointer := 0x42, bus := bus c1\<rparr>)"
proof -
  obtain c1 where "push_stack_32 (sample_cpu [2, 0x18, 0x42] []) 3 = Inr c1"
    using stack32.push_succeeds [of "sample_cpu [2, 0x18, 0x42] []" 3]
    by (auto simp: mapped_def in_ram_def)
  then have run: "execute_instruction sample_env (I_Call CondAlways OpImmediate8)
      (sample_cpu [2, 0x18, 0x42] []) = Inr (0x42, c1)"
    by (simp add: sample_steps exec_call_def)
  show ?thesis
    using call_then_return [OF run, of CondAlways OpImmediate8 sample_env] run
    by (auto simp: check_condition_def instruction_length_def operands_def operand_length_def)
qed

lemma vector_word: "ucast (ucast v :: u16) = (ucast (v :: u8) :: u32)"
  by (rule bit_word_eqI) (auto simp: bit_simps dest: bit_imp_le_length)

text \<open>
  C4. Interrupts. An interrupt that is taken goes to the address in its vector with interrupts
  disabled, so that a second one changes nothing; \<open>reti\<close> executed there, with the stack as
  the entry left it, comes back to the interrupted instruction with the flags, the registers
  and the stack pointer of before.
\<close>

theorem interrupt_then_return:
  assumes "cpu_interrupt e (InterruptRequest v) c = Inr c1" and "flag_interrupt (flag c)"
  shows "mem_read_32 c (ucast v * 4) = Inr (instruction_pointer c1) \<and>
    (\<forall>second. cpu_interrupt e second c1 = Inr c1) \<and>
    exec_reti e' CondAlways c1 =
      Inr (instruction_pointer c,
           c\<lparr>instruction_pointer := instruction_pointer c1, bus := bus c1\<rparr>)"
proof -
  have h: "handle_interrupt e (ucast v) c = Inr c1"
    using assms by (simp add: cpu_interrupt_def)
  from handle_interrupt_Inr [OF h] obtain c2 where
    "mem_read_32 c (ucast v * 4) = Inr (instruction_pointer c1)"
    "c1 = (set_interrupt_flag False c2)\<lparr>instruction_pointer := instruction_pointer c1\<rparr>"
    by (auto simp: vector_word)
  moreover from this have "\<not> flag_interrupt (flag c1)"
    by (metis cpu.select_convs(4) cpu.surjective cpu.update_convs(1,4) flag.select_convs(1)
        flag.surjective flag.update_convs(1) set_interrupt_flag_def)
  ultimately show ?thesis
    using interrupt_then_reti [OF h, of e'] by (simp add: cpu_interrupt_def)
qed


theorem interrupt_then_return_witness:
  "\<exists>c1. cpu_interrupt sample_env (InterruptRequest 3) listening_cpu = Inr c1 \<and>
    instruction_pointer c1 = 0 \<and> cpu_interrupt sample_env (InterruptRequest 4) c1 = Inr c1"
proof -
  obtain c1 where c1: "push_stack_32 listening_cpu 0 = Inr c1"
    using listening_pushes by blast
  obtain c2 where "push_stack_8 c1 (u8_of_flag (flag c1)) = Inr c2"
    using listening_pushes [of 0 "u8_of_flag (flag c1)"] c1 by auto
  with c1 obtain c' where run: "cpu_interrupt sample_env (InterruptRequest 3) listening_cpu = Inr c'"
    by (auto simp: cpu_interrupt_def handle_interrupt_def checked_times_def Let_def in_ram_def)
  show ?thesis
    using interrupt_then_return [OF run, of sample_env] run by (auto simp: in_ram_def)
qed

text \<open>
  Exceptions. An exception that is taken goes to the address in its vector, 256 above the
  requests; an invalid opcode leaves the opcode word on top of the stack, and once it is popped
  \<open>reti\<close> comes back as for an interrupt.
\<close>

theorem invalid_opcode_exception:
  assumes "cpu_interrupt e (InterruptException (InvalidOpcode opcode)) c = Inr c1"
    and "flag_interrupt (flag c)"
  shows "mem_read_32 c 0x404 = Inr (instruction_pointer c1) \<and>
    (\<exists>c2. pop_stack_32 c1 = Inr (opcode, c2) \<and>
      exec_reti e' CondAlways c2 =
        Inr (instruction_pointer c,
             c\<lparr>instruction_pointer := instruction_pointer c1, bus := bus c1\<rparr>))"
proof -
  from assms obtain d1 d2 d3 a where h: "mem_read_32 c 0x404 = Inr a"
    and 1: "push_stack_32 c (instruction_pointer c) = Inr d1"
    and 2: "push_stack_8 d1 (u8_of_flag (flag d1)) = Inr d2"
    and 3: "push_stack_32 d2 opcode = Inr d3"
    and c1: "c1 = (set_interrupt_flag False d3)\<lparr>instruction_pointer := a\<rparr>"
    by (auto simp: cpu_interrupt_def handle_exception_def rbind_eq_Inr Let_def checked_times_def
        checked_plus_def split: if_splits)
  obtain m1 where d1: "d1 = set_memory (c\<lparr>stack_pointer := stack_pointer c - 4\<rparr>) m1"
    using 1 by (auto simp: stack32.push_eq rbind_eq_Inr)
  obtain m2 where d2: "d2 = set_memory (d1\<lparr>stack_pointer := stack_pointer d1 - 1\<rparr>) m2"
    using 2 by (auto simp: stack8.push_eq rbind_eq_Inr)
  obtain m3 where d3: "d3 = set_memory (d2\<lparr>stack_pointer := stack_pointer d2 - 4\<rparr>) m3"
    using 3 by (auto simp: stack32.push_eq rbind_eq_Inr)
  have top: "read_32 m3 (stack_pointer c - 4 - 1 - 4) = Inr opcode"
    using stack32.push_pop [OF 3]
    by (auto simp: stack32.pop_eq rbind_eq_Inr d1 d2 d3 set_memory_def)
  have flags: "read_8 m3 (stack_pointer c - 4 - 1) = Inr (u8_of_flag (flag c))"
    using stack_32_8.lifo(2) [OF 2 3]
    by (auto simp: stack8.pop_eq rbind_eq_Inr d1 d2 d3 set_memory_def)
  have "load_bytes 4 m3 (stack_pointer c - 4) = load_bytes 4 m2 (stack_pointer c - 4)"
    using stack32.push_keeps_above [OF 3, of 4 "stack_pointer c - 4"] stack8.push_slot(2) [OF 2]
    by (simp add: d1 d2 d3 set_memory_def)
  moreover have "read_32 m2 (stack_pointer c - 4) = Inr (instruction_pointer c)"
    using stack_8_32.lifo(2) [OF 1 2]
    by (auto simp: stack32.pop_eq rbind_eq_Inr d1 d2 set_memory_def)
  ultimately have ret: "read_32 m3 (stack_pointer c - 4) = Inr (instruction_pointer c)"
    by (simp add: read_32_def)
  show ?thesis
    using h top flags ret
    by (simp add: c1 stack32.pop_eq stack8.pop_eq exec_reti_def check_condition_def d1 d2 d3
        set_memory_def set_interrupt_flag_def)
qed

theorem invalid_opcode_exception_witness:
  "\<exists>c1 c2. cpu_interrupt sample_env (InterruptException (InvalidOpcode 0xDEAD)) listening_cpu = Inr c1 \<and>
    pop_stack_32 c1 = Inr (0xDEAD, c2)"
proof -
  obtain c1 where c1: "push_stack_32 listening_cpu 0 = Inr c1"
    using listening_pushes by blast
  obtain c2 where c2: "push_stack_8 c1 (u8_of_flag (flag c1)) = Inr c2" "stack_pointer c2 = 0xFFB"
    using listening_pushes [of 0 "u8_of_flag (flag c1)"] c1 by auto
  obtain c3 where c3: "push_stack_32 c2 0xDEAD = Inr c3"
    using stack32.push_succeeds [of c2 "0xDEAD"] c2(2) by (auto simp: mapped_def in_ram_def)
  obtain c' where run: "cpu_interrupt sample_env (InterruptException (InvalidOpcode 0xDEAD)) listening_cpu = Inr c'"
    using c1 c2(1) c3 by (auto simp: cpu_interrupt_def handle_exception_def checked_times_def
        checked_plus_def Let_def in_ram_def)
  show ?thesis
    using invalid_opcode_exception [OF run, of sample_env] run by auto
qed

text \<open>
  Boot stack. The processor starts with the stack pointer at 0, so that until the program
  sets it every push, call and interrupt panics on the unmapped top of the address space.
\<close>

theorem boot_stack_unmapped:
  assumes "stack_pointer c = 0"
  shows "push_stack_8 c b = Inl (UnmappedMemory 0xFFFFFFFF) \<and>
    push_stack_16 c h = Inl (UnmappedMemory 0xFFFFFFFE) \<and>
    push_stack_32 c w = Inl (UnmappedMemory 0xFFFFFFFC)"
proof -
  have top: "(- 1 :: u32) = 0xFFFFFFFF" "(- 2 :: u32) = 0xFFFFFFFE" "(- 4 :: u32) = 0xFFFFFFFC"
    by simp_all
  show ?thesis
    using stack8.push_fails [of c b] stack16.push_fails [of c h] stack32.push_fails [of c w] assms
    by (simp add: mapped_def in_ram_def in_rom_def top)
qed

theorem boot_stack_unmapped_witness:
  "push_stack_32 (cpu_new (sample_bus [])) 0 = Inl (UnmappedMemory 0xFFFFFFFC)"
  using boot_stack_unmapped [of "cpu_new (sample_bus [])" 0 0 0] by (simp add: cpu_new_def)

section \<open>The step as a whole\<close>

text \<open>
  C11. State invariant. A step keeps the machine well formed: 32 registers, 32 overlays whose
  geometry fits 16 bits, four disk slots and a buffer pointer of 32 bits.
\<close>

theorem step_keeps_wf:
  assumes "execute_memory_instruction e c = Inr c'" and "wf_cpu c"
  shows "wf_cpu c'"
  using assms by (rule step_wf)

lemma sample_cpu_wf: "length regs \<le> 32 \<Longrightarrow> wf_cpu (sample_cpu code regs)"
  by (auto simp: wf_cpu_def wf_bus_def sample_bus_def overlays_new_def disk_controller_new_def
      wf_overlay_def)

lemma sample_nop_step:
  "execute_memory_instruction sample_env (sample_cpu [0, 0x80] []) =
     Inr ((sample_cpu [0, 0x80] [])\<lparr>instruction_pointer := 2\<rparr>)"
  by (simp add: execute_memory_instruction_def le_word_16_def from_half_def decode_size_def
      decode_source_def decode_destination_def decode_condition_def decode_opcode_def Let_def
      execute_instruction_def exec_nop_def advance_def)

theorem step_keeps_wf_witness: "wf_cpu ((sample_cpu [0, 0x80] [])\<lparr>instruction_pointer := 2\<rparr>)"
  using step_keeps_wf [OF sample_nop_step sample_cpu_wf] by simp

end
