(* ===== verification/BusSpec.thy ===== *)
theory BusSpec
  imports BusLaws Samples
begin

text \<open>
  The properties of the memory, the ports and the disks: bounds and round trip of accesses,
  which port reads panic, registers that read back, sector reads, and sector writes, which
  always panic.
\<close>

section \<open>Memory\<close>

text \<open>
  C36. Memory bounds. A lookup that succeeds yields a slice inside its array, at the place of the
  address in it; it finds nothing exactly when the slice is not inside the RAM or the ROM, and
  it never panics.
\<close>

theorem lookup_in_bounds:
  assumes "n \<le> 512"
  shows "\<exists>found. mem_find n a = Inr found \<and>
    (case found of
       Some (Ram, off) \<Rightarrow> off = unat a \<and> off + n \<le> MEMORY_RAM_SIZE
     | Some (Rom, off) \<Rightarrow> off + MEMORY_ROM_START = unat a \<and> off + n \<le> MEMORY_ROM_SIZE
     | None \<Rightarrow> MEMORY_RAM_SIZE < unat a + n \<and>
         (unat a < MEMORY_ROM_START \<or> MEMORY_ROM_START + MEMORY_ROM_SIZE < unat a + n))"
  using assms by (auto simp: mem_find_spec in_ram_def in_rom_def layout_defs)

theorem lookup_in_bounds_witness:
  "\<exists>found. mem_find 4 0xF007FFFD = Inr found \<and> found = None"
proof -
  have "\<exists>found. mem_find 4 0xF007FFFD = Inr found"
    using lookup_in_bounds [of 4 "0xF007FFFD"] by auto
  then obtain found where f: "mem_find 4 0xF007FFFD = Inr found" ..
  with lookup_in_bounds [of 4 "0xF007FFFD"] have "found = None"
    by (auto simp: layout_defs split: option.splits region.splits) (meson region.exhaust)
  with f show ?thesis by blast
qed

text \<open>
  C10. Memory round trip. A word that was written is read back, and the words and bytes apart from
  it read as before.
\<close>

theorem write_then_read:
  assumes "write_32 m a v = Inr m'"
  shows "read_32 m' a = Inr v \<and>
    (\<forall>a'. apart 4 a 4 a' \<longrightarrow> read_32 m' a' = read_32 m a') \<and>
    (\<forall>a'. apart 4 a 1 a' \<longrightarrow> read_8 m' a' = read_8 m a')"
  using mem32.get_put_same [OF assms] mem_32_32.cross_frame [OF assms] mem_32_8.cross_frame [OF assms]
  by blast

theorem write_then_read_witness:
  "\<exists>m'. write_32 memory_buffer_new 0xF0000000 0x12345678 = Inr m' \<and> read_32 m' 0xF0000000 = Inr 0x12345678"
proof -
  obtain m' where run: "write_32 memory_buffer_new 0xF0000000 0x12345678 = Inr m'"
    using mem32.put_mapped [of memory_buffer_new "0xF0000000" "0x12345678"]
    by (auto simp: mapped_def in_rom_def)
  with write_then_read [OF run] show ?thesis by blast
qed

section \<open>Ports\<close>

text \<open>
  Port reads. On a well-formed bus exactly the reads of an overlay numbered 32 or more and of
  the slot of a disk numbered 4 or more panic; every other port answers.
\<close>

theorem port_reads_panic:
  assumes "wf_bus b"
  shows "(\<exists>q. read_io e p b = Inl q) \<longleftrightarrow>
    (0x80000000 \<le> unat p \<and> unat p \<le> 0x8000031F \<and> 32 \<le> unat p mod 256) \<or>
    (0x80001000 \<le> unat p \<and> unat p < 0x80002000 \<and> 3 < unat p mod 256)"
  using read_io_Inl [OF assms] by (simp add: bad_read_port_def)

lemma sample_bus_wf: "wf_bus (sample_bus code)"
  by (auto simp: wf_bus_def sample_bus_def overlays_new_def disk_controller_new_def wf_overlay_def)

theorem port_reads_panic_witness:
  "\<exists>q. read_io sample_env 0x80000020 (sample_bus []) = Inl q"
  using port_reads_panic [OF sample_bus_wf, of sample_env "0x80000020"] by simp

text \<open>
  C15. Overlay registers. A write to a port of an overlay is read back there, as 0 or 1 for the
  enable port, and every other overlay port reads as before.
\<close>

theorem overlay_registers:
  assumes "write_io e p w b = Inr b'" and "overlay_port p"
  shows "read_io e p b' = Inr (overlay_norm p w, b') \<and>
    (\<forall>p'. overlay_port p' \<longrightarrow> p' \<noteq> p \<longrightarrow>
       map_sum id fst (read_io e p' b') = map_sum id fst (read_io e p' b))"
proof -
  have wr: "write_overlay_port p w b = Inr b'"
    using assms by (auto simp: write_io_def overlay_port_def split: if_splits)
  have rd: "read_io e q d = read_overlay_port q d" if "overlay_port q" for q d
    using that by (simp add: read_io_def overlay_port_def)
  show ?thesis
    using overlay_regs.reads_back [OF assms(2) wr] overlay_regs.keeps_others [OF assms(2) _ _ wr] assms(2)
    by (simp add: rd)
qed

theorem overlay_registers_witness:
  "\<exists>b'. write_io sample_env 0x80000005 0x00120034 (sample_bus []) = Inr b' \<and>
     read_io sample_env 0x80000005 b' = Inr (0x00120034, b')"
proof -
  obtain b' where run: "write_io sample_env 0x80000005 0x00120034 (sample_bus []) = Inr b'"
    by (simp add: write_io_def write_overlay_port_def set_overlay_def sample_bus_def overlays_new_def Let_def)
  have "overlay_port 0x80000005" by (simp add: overlay_port_def)
  from overlay_registers [OF run this] run show ?thesis
    by (simp add: overlay_norm_def)
qed

section \<open>Disks\<close>

lemma disk_write_port:
  assumes "0x80001000 \<le> unat p" and "unat p \<le> 0x80005003"
  shows "write_io e p w b = write_disk_port e p w b"
  using assms by (auto simp: write_io_def word_le_nat_alt)

lemma disk_operation:
  assumes "k < 16" and "unat p div 4096 = 0x80000 + k"
  shows "drop_bit 8 (p AND 0x0000F000) = (of_nat (k * 16) :: u32)"
proof -
  have "(0x80000 + k) mod 16 = k" using assms(1) by presburger
  then show ?thesis
    unfolding disk_operation_iff [OF assms(1), of p] assms(2) .
qed

lemma disk_port_number:
  assumes "j < 0x6000"
  shows "unat (0x80000000 + word_of_nat j :: u32) = 0x80000000 + j"
  using assms by (simp add: unat_word_ariths u32_of_small)

text \<open>Port \<open>n\<close> of the disk operation \<open>k\<close>.\<close>

lemma disk_port_facts:
  assumes "n < 4" and "p = 0x80000000 + word_of_nat (k * 4096 + n)" and "1 \<le> k" and "k \<le> 5"
  shows "unat (ucast p :: u8) = n" and "drop_bit 8 (p AND 0x0000F000) = (of_nat (k * 16) :: u32)"
    and "write_io e p w b = write_disk_port e p w b" and "\<not> 3 < (ucast p :: u8)"
proof -
  have "k * 4096 + n < 0x6000" using assms by simp
  then have p: "unat p = 0x80000000 + (k * 4096 + n)"
    unfolding assms(2) by (rule disk_port_number)
  show id: "unat (ucast p :: u8) = n"
  proof -
    have "unat p = n + 256 * (0x800000 + k * 16)" unfolding p by simp
    then show ?thesis unfolding port_id using assms(1) by (simp only: mod_mult_self2) simp
  qed
  show "drop_bit 8 (p AND 0x0000F000) = (of_nat (k * 16) :: u32)"
  proof (rule disk_operation)
    have "unat p = n + 4096 * (0x80000 + k)" unfolding p by simp
    then show "unat p div 4096 = 0x80000 + k" using assms(1) by (simp add: div_mult_self2 del: div_mult_self1)
  qed (use assms(4) in simp)
  show "write_io e p w b = write_disk_port e p w b"
    by (rule disk_write_port) (use assms(1,3,4) p in simp_all)
  show "\<not> 3 < (ucast p :: u8)"
    using id assms(1) by (simp add: word_less_nat_alt)
qed

text \<open>
  C24. Sector reads. A write of a sector number to port \<open>0x80003000 + id\<close> copies that sector of
  the inserted disk, padded with zeros past the end of the file, into the 512 bytes of RAM at the
  buffer pointer. Of the disk only the current sector and the position in its file change: the
  position is behind the bytes that were read. Nothing else changes, on no device.
\<close>

theorem sector_read:
  assumes "n < 4" and "length (disks (disk_controller b)) = 4"
    and "disks (disk_controller b) ! n = Some d"
    and "buffer_pointer (disk_controller b) + 512 \<le> MEMORY_RAM_SIZE"
  shows "write_io e (0x80003000 + word_of_nat n) w b =
    Inr (b\<lparr>memory := store_region (memory b) Ram (buffer_pointer (disk_controller b))
              (sector_bytes (file_bytes (disk_file d)) w),
           disk_controller := (disk_controller b)\<lparr>disks := (disks (disk_controller b))[n :=
             Some (d\<lparr>current_sector := w, disk_file := (disk_file d)\<lparr>file_pos :=
               unat w * 512 + min 512 (length (file_bytes (disk_file d)) - unat w * 512)\<rparr>\<rparr>)]\<rparr>\<rparr>)"
proof -
  let ?p = "0x80003000 + word_of_nat n :: u32"
  have "?p = 0x80000000 + word_of_nat (3 * 4096 + n)" by simp
  note p = disk_port_facts [OF assms(1) this]
  have op: "drop_bit 8 (?p AND 0x0000F000) = 0x30" using p(2) by simp
  show ?thesis
    unfolding p(3) [simplified] write_disk_port_def Let_def op using assms p(1,4)
    by (simp add: set_current_sector_def disk_mut_def put_disk_def file_seek_def read_into_memory_def
        file_read_def sector_bytes_def min.commute)
qed

text \<open>A bus with a disk of three bytes in slot 1 and the buffer at \<open>0x100\<close>.\<close>

definition disk_bus :: "u32 list bus" where
  "disk_bus = (sample_bus [])\<lparr>disk_controller :=
     \<lparr>disks = [None, Some (disk_new (file_open [1, 2, 3])), None, None], buffer_pointer = 0x100\<rparr>\<rparr>"

theorem sector_read_witness:
  "write_io sample_env 0x80003001 0 disk_bus =
    Inr (disk_bus\<lparr>memory := store_region (memory disk_bus) Ram 0x100 (sector_bytes [1, 2, 3] 0),
      disk_controller := \<lparr>disks = [None, Some \<lparr>disk_file = (file_open [1, 2, 3])\<lparr>file_pos := 3\<rparr>,
        disk_size = 3, current_sector = 0\<rparr>, None, None], buffer_pointer = 0x100\<rparr>\<rparr>)"
  using sector_read [of 1 disk_bus "disk_new (file_open [1, 2, 3])" sample_env 0]
  by (simp add: disk_bus_def disk_new_def file_open_def layout_defs)

text \<open>Writes of sectors on a bus whose disks were opened for reading.\<close>

lemma sector_port_panics:
  assumes "read_only_disks (disk_controller b)" and "unat p div 4096 = 0x80004"
  shows "\<exists>q. write_io e p w b = Inl q"
proof -
  have "0x80004 * 4096 \<le> unat p" "unat p < 0x80005 * 4096"
    using assms(2) div_times_less_eq_dividend [of "unat p" 4096] dividend_less_div_times [of 4096 "unat p"]
    by simp_all
  then have io: "write_io e p w b = write_disk_port e p w b"
    by (intro disk_write_port) simp_all
  have op: "drop_bit 8 (p AND 0x0000F000) = 0x40"
    using disk_operation [of 4 p] assms(2) by simp
  have no: "write_from_memory i m dc \<noteq> Inr r" if "read_only_disks dc" for i m dc r
    using write_from_memory_panics [OF that, of i m] by auto
  have "write_disk_port e p w b \<noteq> Inr r" for r
    unfolding write_disk_port_def Let_def op using assms(1) no
    by (auto simp: rbind_eq_Inr dest!: read_only_ops(3))
  then show ?thesis
    unfolding io by (cases "write_disk_port e p w b") auto
qed

lemma sector_write_fails:
  assumes "n < 4" and "length (disks (disk_controller b)) = 4"
    and "disks (disk_controller b) ! n = Some d"
    and "buffer_pointer (disk_controller b) + 512 \<le> MEMORY_RAM_SIZE"
    and "read_only_disks (disk_controller b)"
  shows "write_io e (0x80004000 + word_of_nat n) w b = Inl FileWriteFailed"
proof -
  let ?p = "0x80004000 + word_of_nat n :: u32"
  have "?p = 0x80000000 + word_of_nat (4 * 4096 + n)" by simp
  note p = disk_port_facts [OF assms(1) this]
  have op: "drop_bit 8 (?p AND 0x0000F000) = 0x40" using p(2) by simp
  have "\<not> file_writable (disk_file d)"
    using assms(1-3,5) by (metis nth_mem read_only_disks_def)
  then show ?thesis
    unfolding p(3) [simplified] write_disk_port_def Let_def op using assms p(1,4)
    by (simp add: set_current_sector_def disk_mut_def put_disk_def file_seek_def write_from_memory_def
        file_write_def)
qed

end
