(* ===== verification/Display.thy ===== *)
theory Display
  imports Bus
begin

text \<open>
  The display of the emulator (\<open>fox32/src/main.rs\<close>): the framebuffer in RAM with the enabled
  overlays blitted over it, at 640 by 480 pixels of four bytes. Indices and sizes are \<open>usize\<close>,
  64 bits wide: natural numbers whose arithmetic is checked or wraps according to the build.
\<close>

section \<open>Arithmetic on \<open>usize\<close>\<close>

definition usize_plus :: "bool \<Rightarrow> nat \<Rightarrow> nat \<Rightarrow> nat res" where
  "usize_plus chk a b =
     (if chk \<and> 2 ^ 64 \<le> a + b then Inl ArithmeticOverflow else Inr ((a + b) mod 2 ^ 64))"

definition usize_times :: "bool \<Rightarrow> nat \<Rightarrow> nat \<Rightarrow> nat res" where
  "usize_times chk a b =
     (if chk \<and> 2 ^ 64 \<le> a * b then Inl ArithmeticOverflow else Inr (a * b mod 2 ^ 64))"

definition usize_minus :: "bool \<Rightarrow> nat \<Rightarrow> nat \<Rightarrow> nat res" where
  "usize_minus chk a b =
     (if b \<le> a then Inr (a - b) else if chk then Inl ArithmeticOverflow else Inr (2 ^ 64 + a - b))"

lemma usize_plus_small [simp]: "a + b < 2 ^ 64 \<Longrightarrow> usize_plus chk a b = Inr (a + b)"
  by (simp add: usize_plus_def)

lemma usize_times_small [simp]: "a * b < 2 ^ 64 \<Longrightarrow> usize_times chk a b = Inr (a * b)"
  by (simp add: usize_times_def)

lemma usize_minus_le [simp]: "b \<le> a \<Longrightarrow> usize_minus chk a b = Inr (a - b)"
  by (simp add: usize_minus_def)

text \<open>\<open>v[a..b]\<close> of a slice.\<close>

definition slice_range :: "'a list \<Rightarrow> nat \<Rightarrow> nat \<Rightarrow> 'a list res" where
  "slice_range v a b =
     (if a \<le> b \<and> b \<le> length v then Inr (take (b - a) (drop a v)) else Inl IndexOutOfBounds)"

section \<open>Blitting an overlay\<close>

definition WIDTH :: nat where "WIDTH = 640"
definition HEIGHT :: nat where "HEIGHT = 480"

definition blit_width :: "bool \<Rightarrow> overlay \<Rightarrow> nat res" where
  "blit_width chk ov =
     rbind (usize_times chk (ov_width ov) 4) (\<lambda>width.
     rbind (usize_plus chk (ov_x ov) (ov_width ov)) (\<lambda>right.
     if WIDTH < right then
       rbind (usize_minus chk right WIDTH) (\<lambda>difference.
       rbind (usize_times chk difference 4) (usize_minus chk width))
     else Inr width))"

definition blit_height :: "bool \<Rightarrow> overlay \<Rightarrow> nat res" where
  "blit_height chk ov =
     rbind (usize_plus chk (ov_y ov) (ov_height ov)) (\<lambda>bottom.
     if HEIGHT < bottom then
       rbind (usize_minus chk bottom HEIGHT) (usize_minus chk (ov_height ov))
     else Inr (ov_height ov))"

text \<open>
  \<open>&ram[pointer..pointer + width * height]\<close>: the end is computed on 32 bits.
\<close>

definition overlay_framebuffer :: "bool \<Rightarrow> overlay \<Rightarrow> nat \<Rightarrow> nat \<Rightarrow> (nat \<Rightarrow> u8) \<Rightarrow> u8 list res" where
  "overlay_framebuffer chk ov width height bytes =
     rbind (checked_times chk (word_of_nat width) (word_of_nat height :: u32)) (\<lambda>area.
     rbind (checked_plus chk (ov_framebuffer_pointer ov) area) (\<lambda>end_pointer.
     let a = unat (ov_framebuffer_pointer ov); b = unat end_pointer
     in if a \<le> b \<and> b \<le> MEMORY_RAM_SIZE then Inr (get_slice bytes a (b - a))
        else Inl IndexOutOfBounds))"

text \<open>
  One row: four bytes at a time, a pixel is copied when its alpha byte is not zero. The row of
  the framebuffer and the row of the overlay are zipped.
\<close>

fun merge_pixels :: "u8 list \<Rightarrow> u8 list \<Rightarrow> u8 list res" where
  "merge_pixels (left_0 # left_1 # left_2 # left_3 # left) (right_0 # right_1 # right_2 # right_3 # right) =
     rbind (merge_pixels left right) (\<lambda>merged.
     Inr ((if 0 < right_3 then [right_0, right_1, right_2, right_3]
           else [left_0, left_1, left_2, left_3]) @ merged))"
| "merge_pixels [] right = Inr []"
| "merge_pixels left [] = Inr left"
| "merge_pixels left right = Inl UnwrapNone"

definition row_index :: "bool \<Rightarrow> overlay \<Rightarrow> nat \<Rightarrow> nat res" where
  "row_index chk ov y =
     rbind (usize_times chk (ov_x ov) 4) (\<lambda>a.
     rbind (rbind (usize_times chk (ov_y ov) WIDTH) (\<lambda>n. usize_times chk n 4)) (\<lambda>b.
     rbind (usize_plus chk a b) (\<lambda>ab.
     rbind (rbind (usize_times chk y WIDTH) (\<lambda>n. usize_times chk n 4)) (usize_plus chk ab))))"

definition blit_row ::
  "bool \<Rightarrow> overlay \<Rightarrow> nat \<Rightarrow> u8 list \<Rightarrow> nat \<Rightarrow> nat \<Rightarrow> u8 list \<Rightarrow> u8 list res" where
  "blit_row chk ov width source y source_index framebuffer =
     rbind (row_index chk ov y) (\<lambda>index.
     rbind (usize_plus chk index width) (\<lambda>index_end.
     rbind (slice_range framebuffer index index_end) (\<lambda>left.
     rbind (usize_plus chk source_index width) (\<lambda>source_end.
     rbind (slice_range source source_index source_end) (\<lambda>right.
     rbind (merge_pixels left right) (\<lambda>merged.
     Inr (take index framebuffer @ merged @ drop index_end framebuffer)))))))"

fun blit_rows ::
  "bool \<Rightarrow> overlay \<Rightarrow> nat \<Rightarrow> u8 list \<Rightarrow> nat list \<Rightarrow> nat \<Rightarrow> u8 list \<Rightarrow> u8 list res" where
  "blit_rows chk ov width source [] source_index framebuffer = Inr framebuffer"
| "blit_rows chk ov width source (y # ys) source_index framebuffer =
     rbind (blit_row chk ov width source y source_index framebuffer) (\<lambda>framebuffer.
     rbind (usize_plus chk source_index width) (\<lambda>source_index.
     blit_rows chk ov width source ys source_index framebuffer))"

definition blit_overlay :: "bool \<Rightarrow> u8 list \<Rightarrow> overlay \<Rightarrow> (nat \<Rightarrow> u8) \<Rightarrow> u8 list res" where
  "blit_overlay chk framebuffer ov bytes =
     rbind (blit_width chk ov) (\<lambda>width.
     rbind (blit_height chk ov) (\<lambda>height.
     rbind (overlay_framebuffer chk ov width height bytes) (\<lambda>source.
     blit_rows chk ov width source [0..<height] 0 framebuffer)))"

section \<open>The display\<close>

record display = background :: "u8 list"

definition display_new :: display where
  "display_new = \<lparr>background = replicate (HEIGHT * WIDTH * 4) 0\<rparr>"

fun blit_overlays :: "bool \<Rightarrow> nat list \<Rightarrow> overlay list \<Rightarrow> (nat \<Rightarrow> u8) \<Rightarrow> u8 list \<Rightarrow> u8 list res" where
  "blit_overlays chk [] ovs bytes framebuffer = Inr framebuffer"
| "blit_overlays chk (index # indices) ovs bytes framebuffer =
     (if index < length ovs then
        rbind (if ov_enabled (ovs ! index) then blit_overlay chk framebuffer (ovs ! index) bytes
               else Inr framebuffer) (blit_overlays chk indices ovs bytes)
      else Inl IndexOutOfBounds)"

definition display_update :: "bool \<Rightarrow> overlay list \<Rightarrow> memory \<Rightarrow> display \<Rightarrow> display res" where
  "display_update chk ovs m d =
     (let n = HEIGHT * WIDTH * 4 in
      if n \<le> length (background d) then
        rbind (blit_overlays chk [0..<32] ovs (ram m)
                (get_slice (ram m) 0x02000000 n @ drop n (background d))) (\<lambda>bg.
        Inr (d\<lparr>background := bg\<rparr>))
      else Inl IndexOutOfBounds)"

text \<open>\<open>frame.chunks_exact_mut(4).enumerate()\<close>: what does not fill a chunk is left alone.\<close>

fun draw_chunks :: "u8 list \<Rightarrow> nat \<Rightarrow> u8 list \<Rightarrow> u8 list res" where
  "draw_chunks bg i (p0 # p1 # p2 # p3 # rest) =
     rbind (slice_range bg (i * 4) (i * 4 + 4)) (\<lambda>pixel.
     rbind (draw_chunks bg (i + 1) rest) (\<lambda>rest. Inr (pixel @ rest)))"
| "draw_chunks bg i rest = Inr rest"

definition display_draw :: "display \<Rightarrow> u8 list \<Rightarrow> u8 list res" where
  "display_draw d frame = draw_chunks (background d) 0 frame"

end
