(* ===== verification/DisplayLaws.thy ===== *)
theory DisplayLaws
  imports Display
begin

text \<open>
  Lemmas on blitting: what a row, an overlay and all overlays do to each byte of the framebuffer,
  and which overlays make the blit panic.
\<close>

section \<open>One row\<close>

lemma slice_range_Inr [simp]:
  "a \<le> b \<Longrightarrow> b \<le> length v \<Longrightarrow> slice_range v a b = Inr (take (b - a) (drop a v))"
  by (simp add: slice_range_def)

text \<open>What a pixel of the framebuffer becomes under a pixel of an overlay.\<close>

definition merged_byte :: "(nat \<Rightarrow> u8) \<Rightarrow> nat \<Rightarrow> u8 \<Rightarrow> u8" where
  "merged_byte source i old = (if source (i div 4 * 4 + 3) = 0 then old else source i)"

lemma four_cases: "i < 4 \<Longrightarrow> i = 0 \<or> i = 1 \<or> i = 2 \<or> i = (3 :: nat)"
  by linarith

lemma merge_pixels_rows:
  assumes "length left = 4 * n" and "length right = 4 * n"
  shows "\<exists>merged. merge_pixels left right = Inr merged \<and> length merged = 4 * n \<and>
    (\<forall>i<4 * n. merged ! i = merged_byte ((!) right) i (left ! i))"
  using assms
proof (induction n arbitrary: left right)
  case 0
  then show ?case by simp
next
  case (Suc n)
  obtain l0 l1 l2 l3 ls where l: "left = l0 # l1 # l2 # l3 # ls" "length ls = 4 * n"
    using Suc.prems(1) by (auto simp: length_Suc_conv numeral_eq_Suc)
  obtain r0 r1 r2 r3 rs where r: "right = r0 # r1 # r2 # r3 # rs" "length rs = 4 * n"
    using Suc.prems(2) by (auto simp: length_Suc_conv numeral_eq_Suc)
  obtain ms where ms: "merge_pixels ls rs = Inr ms" "length ms = 4 * n"
    "\<And>i. i < 4 * n \<Longrightarrow> ms ! i = merged_byte ((!) rs) i (ls ! i)"
    using Suc.IH [OF l(2) r(2)] by blast
  let ?m = "(if 0 < r3 then [r0, r1, r2, r3] else [l0, l1, l2, l3]) @ ms"
  have shift: "(a # b # c # d # xs) ! j = (if 4 \<le> j then xs ! (j - 4) else [a, b, c, d] ! j)"
    for a b c d :: u8 and xs j
    by (auto simp: nth_append nth_Cons split: nat.splits)
  have "?m ! i = merged_byte ((!) right) i (left ! i)" if "i < 4 * Suc n" for i
  proof (cases "i < 4")
    case True
    then show ?thesis
      using four_cases [OF True]
      by (elim disjE) (simp_all add: l r merged_byte_def word_gt_0)
  next
    case False
    then obtain j where j: "i = j + 4" by (metis le_Suc_ex linorder_not_less add.commute)
    have "(j + 4) div 4 * 4 + 3 = j div 4 * 4 + 3 + 4" by presburger
    then show ?thesis
      using ms(3) [of j] that by (simp add: l r j nth_append merged_byte_def shift add.commute)
  qed
  then show ?case by (intro exI [of _ ?m]) (simp add: l r ms)
qed

lemma row_index_value:
  assumes "wf_overlay ov" and "ov_x ov \<le> 640" and "y < 480"
  shows "row_index chk ov y = Inr (ov_x ov * 4 + ov_y ov * 2560 + y * 2560)"
  using assms by (simp add: row_index_def WIDTH_def wf_overlay_def)

definition row_covers :: "nat \<Rightarrow> nat \<Rightarrow> nat \<Rightarrow> nat \<Rightarrow> bool" where
  "row_covers base width y j \<longleftrightarrow> base \<le> j \<and> (j - base) div 2560 = y \<and> (j - base) mod 2560 < width"

lemma row_covers_range:
  assumes "width \<le> 2560"
  shows "row_covers base width y j \<longleftrightarrow> base + y * 2560 \<le> j \<and> j < base + y * 2560 + width"
proof
  assume r: "row_covers base width y j"
  then have "j - base = y * 2560 + (j - base) mod 2560"
    by (auto simp: row_covers_def)
  then show "base + y * 2560 \<le> j \<and> j < base + y * 2560 + width"
    using r unfolding row_covers_def by linarith
next
  assume r: "base + y * 2560 \<le> j \<and> j < base + y * 2560 + width"
  then obtain c where c: "j = base + y * 2560 + c" "c < width"
    by (metis nat_le_iff_add add_less_cancel_left)
  then have "(j - base) div 2560 = y" "(j - base) mod 2560 = c"
    using assms by (simp_all add: div_add1_eq)
  then show "row_covers base width y j" using c by (simp add: row_covers_def)
qed

section \<open>All rows\<close>

text \<open>The byte \<open>j\<close> of the framebuffer under row \<open>y\<close> of an overlay whose source is \<open>source\<close>.\<close>

definition row_byte :: "nat \<Rightarrow> nat \<Rightarrow> u8 list \<Rightarrow> nat \<Rightarrow> nat \<Rightarrow> u8 \<Rightarrow> u8" where
  "row_byte base width source y j old =
     (if row_covers base width y j
      then merged_byte (\<lambda>i. source ! (y * width + i)) ((j - base) mod 2560) old else old)"

definition overlay_base :: "overlay \<Rightarrow> nat" where
  "overlay_base ov = ov_x ov * 4 + ov_y ov * 2560"

definition placed :: "overlay \<Rightarrow> nat \<Rightarrow> nat \<Rightarrow> bool" where
  "placed ov width height \<longleftrightarrow> wf_overlay ov \<and> ov_x ov \<le> 640 \<and> width mod 4 = 0 \<and>
     ov_x ov * 4 + width \<le> 2560 \<and> ov_y ov + height \<le> 480"

lemma blit_row_bytes:
  assumes "placed ov width height" and "y < height" and "length fb = 1228800"
    and "height * width \<le> length source"
  shows "\<exists>fb'. blit_row chk ov width source y (y * width) fb = Inr fb' \<and> length fb' = 1228800 \<and>
    (\<forall>j<1228800. fb' ! j = row_byte (overlay_base ov) width source y j (fb ! j))"
proof -
  let ?i = "overlay_base ov + y * 2560"
  have w: "width = 4 * (width div 4)" "width \<le> 2560"
    using assms(1) by (auto simp: placed_def)
  have index: "row_index chk ov y = Inr ?i"
    using row_index_value [of ov y chk] assms(1,2) by (simp add: placed_def overlay_base_def)
  have fit: "?i + width \<le> 1228800"
    using assms(1,2) unfolding placed_def overlay_base_def by linarith
  have "y * width + width \<le> height * width"
    using mult_le_mono1 [of "Suc y" height width] assms(2) by simp
  then have src: "y * width + width \<le> length source" using assms(4) by linarith
  have small: "y * width + width < 2 ^ 64"
  proof -
    have "y * width \<le> 480 * 2560"
      using mult_le_mono [of y 480 width 2560] assms(1,2) w(2) by (simp add: placed_def)
    then show ?thesis using w(2) by simp
  qed
  let ?left = "take width (drop ?i fb)" and ?right = "take width (drop (y * width) source)"
  have len: "length ?left = 4 * (width div 4)" "length ?right = 4 * (width div 4)"
    using fit src assms(3) w(1) by simp_all
  obtain ms where ms: "merge_pixels ?left ?right = Inr ms" "length ms = width"
    "\<And>i. i < width \<Longrightarrow> ms ! i = merged_byte ((!) ?right) i (?left ! i)"
    using merge_pixels_rows [OF len] w(1) by metis
  let ?fb' = "take ?i fb @ ms @ drop (?i + width) fb"
  have "blit_row chk ov width source y (y * width) fb = Inr ?fb'"
    using fit src small assms(3) ms(1) by (simp add: blit_row_def index)
  moreover have "length ?fb' = 1228800" using fit assms(3) ms(2) by simp
  moreover have "?fb' ! j = row_byte (overlay_base ov) width source y j (fb ! j)" if "j < 1228800" for j
  proof (cases "?i \<le> j \<and> j < ?i + width")
    case True
    then obtain c where c: "j = ?i + c" "c < width" by (metis nat_le_iff_add add_less_cancel_left)
    have cov: "row_covers (overlay_base ov) width y j" using True row_covers_range [OF w(2)] by blast
    have m: "(j - overlay_base ov) mod 2560 = c" using c w(2) by simp
    have "c div 4 * 4 + 3 < width" using c(2) w(1) by presburger
    then have "merged_byte ((!) ?right) c old = merged_byte (\<lambda>i. source ! (y * width + i)) c old" for old
      using c(2) src by (simp add: merged_byte_def)
    moreover have "?fb' ! j = ms ! c" using c fit assms(3) ms(2) by (simp add: nth_append)
    moreover have "?left ! c = fb ! j" using c fit assms(3) by simp
    ultimately show ?thesis using ms(3) [OF c(2)] by (simp add: row_byte_def cov m)
  next
    case False
    then have "\<not> row_covers (overlay_base ov) width y j" using row_covers_range [OF w(2)] by blast
    moreover have "?fb' ! j = fb ! j"
      using False fit assms(3) ms(2) that by (auto simp: nth_append min_def not_less)
    ultimately show ?thesis by (simp add: row_byte_def)
  qed
  ultimately show ?thesis by blast
qed

lemma row_byte_other: "(j - base) div 2560 \<noteq> y \<Longrightarrow> row_byte base width source y j old = old"
  by (simp add: row_byte_def row_covers_def)

lemma blit_rows_bytes:
  assumes "placed ov width height" and "length fb = 1228800" and "height * width \<le> length source"
    and "r + n = height"
  shows "\<exists>fb'. blit_rows chk ov width source [r..<height] (r * width) fb = Inr fb' \<and>
    length fb' = 1228800 \<and> (\<forall>j<1228800. fb' ! j =
      (let y = (j - overlay_base ov) div 2560 in
       if r \<le> y \<and> y < height then row_byte (overlay_base ov) width source y j (fb ! j) else fb ! j))"
  using assms(2,4)
proof (induction n arbitrary: r fb)
  case 0
  then show ?case by (auto simp: Let_def)
next
  case (Suc n)
  then have r: "r < height" by simp
  obtain fb1 where fb1: "blit_row chk ov width source r (r * width) fb = Inr fb1"
    "length fb1 = 1228800"
    "\<And>j. j < 1228800 \<Longrightarrow> fb1 ! j = row_byte (overlay_base ov) width source r j (fb ! j)"
    using blit_row_bytes [OF assms(1) r Suc.prems(1) assms(3)] by blast
  have "Suc r + n = height" using Suc.prems(2) by simp
  from Suc.IH [OF fb1(2) this]
  obtain fb2 where fb2: "blit_rows chk ov width source [Suc r..<height] (Suc r * width) fb1 = Inr fb2"
    "length fb2 = 1228800"
    "\<And>j. j < 1228800 \<Longrightarrow> fb2 ! j = (let y = (j - overlay_base ov) div 2560 in
       if Suc r \<le> y \<and> y < height then row_byte (overlay_base ov) width source y j (fb1 ! j)
       else fb1 ! j)"
    by blast
  have "r * width + width < 2 ^ 64"
  proof -
    have "r * width \<le> 480 * 2560"
      using mult_le_mono [of r 480 width 2560] assms(1) r by (simp add: placed_def)
    then show ?thesis using assms(1) by (simp add: placed_def)
  qed
  then have "blit_rows chk ov width source [r..<height] (r * width) fb = Inr fb2"
    using fb1(1) fb2(1) r by (simp add: upt_conv_Cons add.commute)
  moreover have "fb2 ! j = (let y = (j - overlay_base ov) div 2560 in
       if r \<le> y \<and> y < height then row_byte (overlay_base ov) width source y j (fb ! j) else fb ! j)"
    if j: "j < 1228800" for j
  proof (cases "(j - overlay_base ov) div 2560 = r")
    case True
    then show ?thesis using fb1(3) [OF j] fb2(3) [OF j] r by (simp add: Let_def)
  next
    case False
    then have "Suc r \<le> (j - overlay_base ov) div 2560 \<longleftrightarrow> r \<le> (j - overlay_base ov) div 2560"
      by linarith
    then show ?thesis
      using fb1(3) [OF j] fb2(3) [OF j] row_byte_other [OF False] by (simp add: Let_def)
  qed
  ultimately show ?case using fb2(2) by blast
qed

section \<open>Pixels\<close>

definition clipped_width :: "overlay \<Rightarrow> nat" where
  "clipped_width ov = min (ov_width ov) (640 - ov_x ov)"

definition clipped_height :: "overlay \<Rightarrow> nat" where
  "clipped_height ov = min (ov_height ov) (480 - ov_y ov)"

text \<open>
  An overlay can be drawn when its corner is on the screen and the part of it that is visible
  is backed by RAM.
\<close>

definition drawable :: "overlay \<Rightarrow> bool" where
  "drawable ov \<longleftrightarrow> ov_x ov \<le> 640 \<and> ov_y ov \<le> 480 \<and>
     unat (ov_framebuffer_pointer ov) + 4 * clipped_width ov * clipped_height ov \<le> MEMORY_RAM_SIZE"

definition pixel_index :: "nat \<Rightarrow> nat \<Rightarrow> nat \<Rightarrow> nat" where
  "pixel_index px py k = (py * 640 + px) * 4 + k"

definition covers_pixel :: "overlay \<Rightarrow> nat \<Rightarrow> nat \<Rightarrow> bool" where
  "covers_pixel ov px py \<longleftrightarrow> ov_x ov \<le> px \<and> px < ov_x ov + ov_width ov \<and>
     ov_y ov \<le> py \<and> py < ov_y ov + ov_height ov"

text \<open>Byte \<open>k\<close> of the pixel an overlay has for the screen position; rows are as wide as the visible part.\<close>

definition overlay_pixel :: "(nat \<Rightarrow> u8) \<Rightarrow> overlay \<Rightarrow> nat \<Rightarrow> nat \<Rightarrow> nat \<Rightarrow> u8" where
  "overlay_pixel bytes ov px py k =
     bytes (unat (ov_framebuffer_pointer ov)
       + ((py - ov_y ov) * clipped_width ov + (px - ov_x ov)) * 4 + k)"

definition opaque :: "(nat \<Rightarrow> u8) \<Rightarrow> overlay \<Rightarrow> nat \<Rightarrow> nat \<Rightarrow> bool" where
  "opaque bytes ov px py \<longleftrightarrow> covers_pixel ov px py \<and> overlay_pixel bytes ov px py 3 \<noteq> 0"

lemma blit_size:
  assumes "wf_overlay ov" and "ov_x ov \<le> 640" and "ov_y ov \<le> 480"
  shows "blit_width chk ov = Inr (4 * clipped_width ov)" and "blit_height chk ov = Inr (clipped_height ov)"
proof -
  show "blit_width chk ov = Inr (4 * clipped_width ov)"
  proof (cases "640 < ov_x ov + ov_width ov")
    case True
    then have "(ov_x ov + ov_width ov - 640) * 4 \<le> ov_width ov * 4"
      "ov_width ov * 4 - (ov_x ov + ov_width ov - 640) * 4 = 4 * clipped_width ov"
      using assms by (auto simp: clipped_width_def)
    then show ?thesis using assms True by (simp add: blit_width_def wf_overlay_def WIDTH_def)
  next
    case False
    then show ?thesis using assms by (simp add: blit_width_def wf_overlay_def WIDTH_def clipped_width_def)
  qed
  show "blit_height chk ov = Inr (clipped_height ov)"
    using assms by (auto simp: blit_height_def wf_overlay_def HEIGHT_def clipped_height_def)
qed

lemma clipped_area: "clipped_width ov * clipped_height ov \<le> 640 * 480"
  unfolding clipped_width_def clipped_height_def by (rule mult_le_mono) auto

lemma overlay_framebuffer_value:
  assumes "drawable ov"
  shows "overlay_framebuffer chk ov (4 * clipped_width ov) (clipped_height ov) bytes =
    Inr (get_slice bytes (unat (ov_framebuffer_pointer ov)) (4 * clipped_width ov * clipped_height ov))"
proof -
  let ?w = "4 * clipped_width ov" and ?h = "clipped_height ov" and ?p = "ov_framebuffer_pointer ov"
  have bounds: "?w < 2 ^ 32" "?h < 2 ^ 32"
    by (auto simp: clipped_width_def clipped_height_def)
  have small: "?w * ?h < 2 ^ 32" using clipped_area [of ov] by (simp add: mult.commute)
  have u: "unat (word_of_nat ?w :: u32) = ?w" "unat (word_of_nat ?h :: u32) = ?h"
    using bounds by (simp_all only: u32_of_small)
  have area: "unat (word_of_nat ?w * word_of_nat ?h :: u32) = ?w * ?h"
    unfolding unat_word_ariths u using small by simp
  have fit: "unat ?p + ?w * ?h < 2 ^ 32"
    using assms by (simp add: drawable_def layout_defs)
  have sum: "unat (?p + word_of_nat ?w * word_of_nat ?h) = unat ?p + ?w * ?h"
    unfolding unat_word_ariths(1) area using fit by simp
  have "checked_times chk (word_of_nat ?w) (word_of_nat ?h :: u32) = Inr (word_of_nat ?w * word_of_nat ?h)"
    unfolding checked_times_def u using small by simp
  moreover have "checked_plus chk ?p (word_of_nat ?w * word_of_nat ?h) = Inr (?p + word_of_nat ?w * word_of_nat ?h)"
    unfolding checked_plus_def area using fit by simp
  ultimately show ?thesis
    unfolding overlay_framebuffer_def using assms
    by (simp only: rbind_Inr Let_def sum) (simp add: drawable_def)
qed

lemma row_covers_pixel:
  assumes "px < 640" and "k < 4" and "ov_x ov + cw \<le> 640"
  shows "row_covers (overlay_base ov) (4 * cw) y (pixel_index px py k) \<longleftrightarrow>
    py = ov_y ov + y \<and> ov_x ov \<le> px \<and> px < ov_x ov + cw"
proof -
  have w: "4 * cw \<le> 2560" using assms(3) by simp
  have "py = ov_y ov + y"
    if "ov_x ov * 4 + ov_y ov * 2560 + y * 2560 \<le> (py * 640 + px) * 4 + k"
      "(py * 640 + px) * 4 + k < ov_x ov * 4 + ov_y ov * 2560 + y * 2560 + 4 * cw"
  proof (rule antisym)
    show "py \<le> ov_y ov + y"
    proof (rule ccontr)
      assume "\<not> py \<le> ov_y ov + y"
      then have "(ov_y ov + y + 1) * 2560 \<le> py * 2560" by simp
      then show False using that(2) assms(3) by simp
    qed
    show "ov_y ov + y \<le> py"
    proof (rule ccontr)
      assume "\<not> ov_y ov + y \<le> py"
      then have "(py + 1) * 2560 \<le> (ov_y ov + y) * 2560" by simp
      then show False using that(1) assms(1,2) by simp
    qed
  qed
  then show ?thesis
    unfolding row_covers_range [OF w] overlay_base_def pixel_index_def
    using assms by (cases "py = ov_y ov + y") (auto simp: algebra_simps)
qed

section \<open>Blitting\<close>

lemma blit_overlay_pixels:
  assumes "wf_overlay ov" and "drawable ov" and "length fb = 1228800"
  shows "\<exists>fb'. blit_overlay chk fb ov bytes = Inr fb' \<and> length fb' = 1228800 \<and>
    (\<forall>px py k. px < 640 \<longrightarrow> py < 480 \<longrightarrow> k < 4 \<longrightarrow> fb' ! pixel_index px py k =
      (if opaque bytes ov px py then overlay_pixel bytes ov px py k else fb ! pixel_index px py k))"
proof -
  let ?w = "4 * clipped_width ov" and ?h = "clipped_height ov"
  let ?src = "get_slice bytes (unat (ov_framebuffer_pointer ov)) (?w * ?h)"
  have xy: "ov_x ov \<le> 640" "ov_y ov \<le> 480" using assms(2) by (simp_all add: drawable_def)
  have clip: "ov_x ov + clipped_width ov \<le> 640" "ov_y ov + ?h \<le> 480"
    using xy by (simp_all add: clipped_width_def clipped_height_def)
  have placed: "placed ov ?w ?h" using assms(1) xy clip by (simp add: placed_def)
  obtain fb' where fb': "blit_rows chk ov ?w ?src [0..<?h] 0 fb = Inr fb'" "length fb' = 1228800"
    "\<And>j. j < 1228800 \<Longrightarrow> fb' ! j = (let y = (j - overlay_base ov) div 2560 in
       if y < ?h then row_byte (overlay_base ov) ?w ?src y j (fb ! j) else fb ! j)"
    using blit_rows_bytes [OF placed assms(3), of ?src 0 ?h chk] by (auto simp: mult.commute)
  have "blit_overlay chk fb ov bytes = Inr fb'"
    using fb'(1) overlay_framebuffer_value [OF assms(2)]
    by (simp add: blit_overlay_def blit_size [OF assms(1) xy])
  moreover have "fb' ! pixel_index px py k =
      (if opaque bytes ov px py then overlay_pixel bytes ov px py k else fb ! pixel_index px py k)"
    if px: "px < 640" and py: "py < 480" and k: "k < 4" for px py k
  proof -
    let ?j = "pixel_index px py k"
    have j: "?j < 1228800" using px py k by (simp add: pixel_index_def)
    define y where "y = (?j - overlay_base ov) div 2560"
    have cov: "row_covers (overlay_base ov) ?w y ?j \<longleftrightarrow>
        py = ov_y ov + y \<and> ov_x ov \<le> px \<and> px < ov_x ov + clipped_width ov"
      using row_covers_pixel [OF px k clip(1)] .
    show ?thesis
    proof (cases "y < ?h \<and> row_covers (overlay_base ov) ?w y ?j")
      case True
      define q where "q = px - ov_x ov"
      have eq: "py = ov_y ov + y" "px = ov_x ov + q" "q < clipped_width ov"
        using True cov by (auto simp: q_def)
      have covers: "covers_pixel ov px py"
        using True eq by (auto simp: covers_pixel_def clipped_width_def clipped_height_def)
      have "?j - overlay_base ov = y * 2560 + (4 * q + k)"
        by (simp add: pixel_index_def overlay_base_def eq algebra_simps)
      moreover have "4 * q + k < 2560" using eq(2) px k by simp
      ultimately have m: "(?j - overlay_base ov) mod 2560 = 4 * q + k" by simp
      have k0: "k div 4 = 0" using k by simp
      have src: "?src ! (y * ?w + (4 * q + c)) = overlay_pixel bytes ov px py c" if "c < 4" for c
      proof -
        have "(y + 1) * ?w \<le> ?h * ?w" using True by (intro mult_le_mono1) simp
        moreover have "4 * q + c < ?w" using eq(3) that by simp
        ultimately have "y * ?w + (4 * q + c) < ?w * ?h" by (simp add: algebra_simps)
        then show ?thesis by (simp add: get_slice_def overlay_pixel_def eq algebra_simps)
      qed
      show ?thesis
        using fb'(3) [OF j] True covers src [OF k] src [of 3]
        by (simp add: Let_def y_def [symmetric] row_byte_def merged_byte_def m k0
              mult.commute [of q 4] opaque_def)
    next
      case False
      have "\<not> covers_pixel ov px py"
      proof
        assume "covers_pixel ov px py"
        then have c: "py = ov_y ov + (py - ov_y ov)" "ov_x ov \<le> px" "px < ov_x ov + clipped_width ov"
          "py - ov_y ov < ?h"
          using px py by (auto simp: covers_pixel_def clipped_width_def clipped_height_def)
        then have "row_covers (overlay_base ov) ?w (py - ov_y ov) ?j"
          using row_covers_pixel [OF px k clip(1)] by blast
        moreover from this have "y = py - ov_y ov" by (simp add: row_covers_def y_def)
        ultimately show False using False c(4) by simp
      qed
      then show ?thesis
        using fb'(3) [OF j] False
        by (auto simp: Let_def y_def [symmetric] row_byte_def opaque_def)
    qed
  qed
  ultimately show ?thesis using fb'(2) by blast
qed

lemma find_snoc: "find P (xs @ [x]) = (case find P xs of Some y \<Rightarrow> Some y | None \<Rightarrow> if P x then Some x else None)"
  by (induction xs) auto

lemma find_map_nth: "find P (map f xs) = map_option f (find (\<lambda>x. P (f x)) xs)"
  by (induction xs) auto

definition visible :: "(nat \<Rightarrow> u8) \<Rightarrow> nat \<Rightarrow> nat \<Rightarrow> overlay \<Rightarrow> bool" where
  "visible bytes px py ov \<longleftrightarrow> ov_enabled ov \<and> opaque bytes ov px py"

lemma blit_overlays_pixels:
  assumes "\<forall>i\<in>set is. i < length ovs" and "\<forall>ov\<in>set ovs. wf_overlay ov"
    and "\<forall>ov\<in>set ovs. ov_enabled ov \<longrightarrow> drawable ov" and "length fb = 1228800"
  shows "\<exists>fb'. blit_overlays chk is ovs bytes fb = Inr fb' \<and> length fb' = 1228800 \<and>
    (\<forall>px py k. px < 640 \<longrightarrow> py < 480 \<longrightarrow> k < 4 \<longrightarrow> fb' ! pixel_index px py k =
      (case find (visible bytes px py) (rev (map ((!) ovs) is)) of
         Some ov \<Rightarrow> overlay_pixel bytes ov px py k | None \<Rightarrow> fb ! pixel_index px py k))"
  using assms(1,4)
proof (induction "is" arbitrary: fb)
  case Nil
  then show ?case by simp
next
  case (Cons i "is")
  let ?ov = "ovs ! i"
  have i: "i < length ovs" "?ov \<in> set ovs" using Cons.prems(1) by auto
  obtain fb1 where fb1: "(if ov_enabled ?ov then blit_overlay chk fb ?ov bytes else Inr fb) = Inr fb1"
    "length fb1 = 1228800"
    "\<And>px py k. px < 640 \<Longrightarrow> py < 480 \<Longrightarrow> k < 4 \<Longrightarrow> fb1 ! pixel_index px py k =
      (if visible bytes px py ?ov then overlay_pixel bytes ?ov px py k else fb ! pixel_index px py k)"
  proof (cases "ov_enabled ?ov")
    case True
    then show ?thesis
      using blit_overlay_pixels [of ?ov fb chk bytes] assms(2,3) i(2) Cons.prems(2) that
      by (fastforce simp: visible_def)
  next
    case False
    then show ?thesis using that [of fb] Cons.prems(2) by (simp add: visible_def)
  qed
  obtain fb2 where fb2: "blit_overlays chk is ovs bytes fb1 = Inr fb2" "length fb2 = 1228800"
    "\<And>px py k. px < 640 \<Longrightarrow> py < 480 \<Longrightarrow> k < 4 \<Longrightarrow> fb2 ! pixel_index px py k =
      (case find (visible bytes px py) (rev (map ((!) ovs) is)) of
         Some ov \<Rightarrow> overlay_pixel bytes ov px py k | None \<Rightarrow> fb1 ! pixel_index px py k)"
    using Cons.IH [of fb1] Cons.prems(1) fb1(2) by auto
  then show ?case
    using fb1 i(1) by (auto simp: find_snoc split: option.splits)
qed

section \<open>Which overlays panic\<close>

lemma blit_overlay_undrawable:
  assumes "wf_overlay ov" and "\<not> drawable ov"
  shows "\<exists>p. blit_overlay True fb ov bytes = Inl p"
proof -
  let ?w = "4 * clipped_width ov" and ?h = "clipped_height ov" and ?p = "ov_framebuffer_pointer ov"
  consider "640 < ov_x ov" | "480 < ov_y ov"
    | "ov_x ov \<le> 640" "ov_y ov \<le> 480" "MEMORY_RAM_SIZE < unat ?p + ?w * ?h"
    using assms(2) by (fastforce simp: drawable_def not_le)
  then show ?thesis
  proof cases
    case 1
    then have "(ov_x ov + ov_width ov - 640) * 4 < 2 ^ 64"
      "\<not> (ov_x ov + ov_width ov - 640) * 4 \<le> ov_width ov * 4"
      using assms(1) by (auto simp: wf_overlay_def)
    then have "\<exists>q. blit_width True ov = Inl q"
      using 1 assms(1) by (simp add: blit_width_def wf_overlay_def WIDTH_def usize_minus_def)
    then show ?thesis by (auto simp: blit_overlay_def)
  next
    case 2
    then have "\<exists>q. blit_height True ov = Inl q"
      using assms(1) by (simp add: blit_height_def wf_overlay_def HEIGHT_def usize_minus_def)
    then show ?thesis by (cases "blit_width True ov") (auto simp: blit_overlay_def)
  next
    case 3
    have u: "unat (word_of_nat ?w :: u32) = ?w" "unat (word_of_nat ?h :: u32) = ?h"
      by (rule u32_of_small, simp add: clipped_width_def clipped_height_def)+
    have small: "?w * ?h < 2 ^ 32" using clipped_area [of ov] by (simp add: mult.commute)
    have area: "unat (word_of_nat ?w * word_of_nat ?h :: u32) = ?w * ?h"
      unfolding unat_word_ariths u using small by simp
    have times: "checked_times True (word_of_nat ?w) (word_of_nat ?h :: u32) =
        Inr (word_of_nat ?w * word_of_nat ?h)"
      unfolding checked_times_def u using small by simp
    have "\<exists>q. overlay_framebuffer True ov ?w ?h bytes = Inl q"
    proof (cases "unat ?p + ?w * ?h < 2 ^ 32")
      case True
      have "unat (?p + word_of_nat ?w * word_of_nat ?h) = unat ?p + ?w * ?h"
        unfolding unat_word_ariths(1) area using True by simp
      then show ?thesis
        unfolding overlay_framebuffer_def times rbind_Inr checked_plus_def area using True 3(3) by (simp add: Let_def)
    next
      case False
      then show ?thesis
        unfolding overlay_framebuffer_def times rbind_Inr checked_plus_def area by simp
    qed
    then show ?thesis by (auto simp: blit_overlay_def blit_size [OF assms(1) 3(1,2)])
  qed
qed

lemma blit_overlays_panics:
  assumes "\<forall>i\<in>set is. i < length ovs" and "\<forall>ov\<in>set ovs. wf_overlay ov" and "length fb = 1228800"
  shows "(\<exists>p. blit_overlays True is ovs bytes fb = Inl p) \<longleftrightarrow>
    (\<exists>i\<in>set is. ov_enabled (ovs ! i) \<and> \<not> drawable (ovs ! i))"
  using assms(1,3)
proof (induction "is" arbitrary: fb)
  case Nil
  then show ?case by simp
next
  case (Cons i "is")
  have i: "i < length ovs" "wf_overlay (ovs ! i)" using Cons.prems(1) assms(2) by auto
  show ?case
  proof (cases "ov_enabled (ovs ! i) \<and> \<not> drawable (ovs ! i)")
    case True
    then show ?thesis using blit_overlay_undrawable [OF i(2), of fb bytes] i(1) by auto
  next
    case False
    have "\<exists>fb'. (if ov_enabled (ovs ! i) then blit_overlay True fb (ovs ! i) bytes else Inr fb) = Inr fb' \<and>
        length fb' = 1228800"
      using blit_overlay_pixels [OF i(2) _ Cons.prems(2), of True bytes] Cons.prems(2) False by auto
    then obtain fb' where "(if ov_enabled (ovs ! i) then blit_overlay True fb (ovs ! i) bytes else Inr fb) = Inr fb'"
      "length fb' = 1228800" by blast
    then show ?thesis using Cons.IH [of fb'] Cons.prems(1) False i(1) by auto
  qed
qed

section \<open>Drawing\<close>

lemma draw_chunks_value:
  assumes "length frame = 4 * n" and "i * 4 + 4 * n \<le> length bg"
  shows "draw_chunks bg i frame = Inr (take (4 * n) (drop (i * 4) bg))"
  using assms
proof (induction n arbitrary: i frame)
  case 0
  then show ?case by simp
next
  case (Suc n)
  obtain p0 p1 p2 p3 rest where f: "frame = p0 # p1 # p2 # p3 # rest" "length rest = 4 * n"
    using Suc.prems(1) by (auto simp: length_Suc_conv numeral_eq_Suc)
  have "draw_chunks bg (i + 1) rest = Inr (take (4 * n) (drop ((i + 1) * 4) bg))"
    using Suc.IH [of rest "i + 1"] f(2) Suc.prems(2) by simp
  moreover have "take (4 * Suc n) (drop (i * 4) bg) =
      take 4 (drop (i * 4) bg) @ take (4 * n) (drop ((i + 1) * 4) bg)"
    using take_add [of 4 "4 * n" "drop (i * 4) bg"] by (simp add: algebra_simps)
  ultimately show ?case using Suc.prems(2) f(1) by simp
qed

end
