(* ===== verification/DisplaySpec.thy ===== *)
theory DisplaySpec
  imports DisplayLaws Samples BusSpec
begin

text \<open>
  Properties of the display: what a refresh shows, and which overlays make it panic.
\<close>



text \<open>
  The picture of an overlay: \<open>width\<close> times \<open>height\<close> pixels of four bytes, row after row, at its
  framebuffer pointer.
\<close>

definition picture_byte :: "(nat \<Rightarrow> u8) \<Rightarrow> overlay \<Rightarrow> nat \<Rightarrow> nat \<Rightarrow> u8" where
  "picture_byte bytes ov n k = bytes (unat (ov_framebuffer_pointer ov) + 4 * n + k)"

definition picture_pixel :: "overlay \<Rightarrow> nat \<Rightarrow> nat \<Rightarrow> nat" where
  "picture_pixel ov px py = (py - ov_y ov) * ov_width ov + (px - ov_x ov)"

definition shown :: "(nat \<Rightarrow> u8) \<Rightarrow> nat \<Rightarrow> nat \<Rightarrow> overlay \<Rightarrow> bool" where
  "shown bytes px py ov \<longleftrightarrow>
     ov_enabled ov \<and> covers_pixel ov px py \<and> picture_byte bytes ov (picture_pixel ov px py) 3 \<noteq> 0"

definition screen_byte :: "overlay list \<Rightarrow> memory \<Rightarrow> nat \<Rightarrow> nat \<Rightarrow> nat \<Rightarrow> u8" where
  "screen_byte ovs m px py k =
     (case find (shown (ram m) px py) (rev ovs) of
        Some ov \<Rightarrow> picture_byte (ram m) ov (picture_pixel ov px py) k
      | None \<Rightarrow> ram m (0x02000000 + pixel_index px py k))"

lemma map_nth_32: "length ovs = 32 \<Longrightarrow> map ((!) ovs) [0..<32] = ovs"
  by (metis map_nth)

text \<open>What a refresh shows, with the rows of an overlay as wide as its visible part.\<close>

lemma frame_pixels:
  assumes "length ovs = 32" and "\<forall>ov\<in>set ovs. wf_overlay ov"
    and "\<forall>ov\<in>set ovs. ov_enabled ov \<longrightarrow> drawable ov"
    and "length (background d) = 1228800" and "length frame = 1228800"
  shows "\<exists>d' frame'. display_update chk ovs m d = Inr d' \<and> display_draw d' frame = Inr frame' \<and>
    length frame' = 1228800 \<and>
    (\<forall>px py k. px < 640 \<longrightarrow> py < 480 \<longrightarrow> k < 4 \<longrightarrow>
       frame' ! pixel_index px py k =
         (case find (visible (ram m) px py) (rev ovs) of
            Some ov \<Rightarrow> overlay_pixel (ram m) ov px py k
          | None \<Rightarrow> ram m (0x02000000 + pixel_index px py k)))"
proof -
  let ?fb = "get_slice (ram m) 0x02000000 1228800"
  have "\<forall>i\<in>set [0..<32]. i < length ovs" using assms(1) by simp
  from blit_overlays_pixels [OF this assms(2,3), of ?fb chk "ram m"]
  obtain bg where bg: "blit_overlays chk [0..<32] ovs (ram m) ?fb = Inr bg" "length bg = 1228800"
    "\<And>px py k. px < 640 \<Longrightarrow> py < 480 \<Longrightarrow> k < 4 \<Longrightarrow> bg ! pixel_index px py k =
      (case find (visible (ram m) px py) (rev ovs) of
         Some ov \<Rightarrow> overlay_pixel (ram m) ov px py k | None \<Rightarrow> ?fb ! pixel_index px py k)"
    unfolding map_nth_32 [OF assms(1)] by auto
  have "display_update chk ovs m d = Inr (d\<lparr>background := bg\<rparr>)"
    using assms(4) bg(1) by (simp add: display_update_def HEIGHT_def WIDTH_def)
  moreover have "display_draw (d\<lparr>background := bg\<rparr>) frame = Inr bg"
    using draw_chunks_value [of frame 307200 0 bg] assms(5) bg(2) by (simp add: display_draw_def)
  moreover have "bg ! pixel_index px py k =
      (case find (visible (ram m) px py) (rev ovs) of
         Some ov \<Rightarrow> overlay_pixel (ram m) ov px py k
       | None \<Rightarrow> ram m (0x02000000 + pixel_index px py k))"
    if "px < 640" "py < 480" "k < 4" for px py k
  proof -
    have "pixel_index px py k < 1228800" using that by (simp add: pixel_index_def)
    then show ?thesis using bg(3) [OF that] by (simp add: get_slice_def cong: option.case_cong)
  qed
  ultimately show ?thesis using bg(2) by blast
qed

text \<open>An overlay that ends before the right edge keeps the rows of its picture.\<close>

lemma inside_pixel:
  assumes "ov_x ov + ov_width ov \<le> 640"
  shows "overlay_pixel bytes ov px py k = picture_byte bytes ov (picture_pixel ov px py) k"
    and "visible bytes px py ov = shown bytes px py ov"
proof -
  have "clipped_width ov = ov_width ov" using assms by (simp add: clipped_width_def)
  then show pixel: "overlay_pixel bytes ov px py k = picture_byte bytes ov (picture_pixel ov px py) k" for k
    by (simp add: overlay_pixel_def picture_byte_def picture_pixel_def mult.commute)
  show "visible bytes px py ov = shown bytes px py ov"
    by (simp add: visible_def opaque_def shown_def pixel)
qed

lemma find_SomeD: "find P xs = Some x \<Longrightarrow> x \<in> set xs \<and> P x"
  by (induction xs) (auto split: if_splits)

lemma inside_screen:
  assumes "\<forall>ov\<in>set ovs. ov_enabled ov \<longrightarrow> ov_x ov + ov_width ov \<le> 640"
  shows "(case find (visible (ram m) px py) (rev ovs) of
      Some ov \<Rightarrow> overlay_pixel (ram m) ov px py k
    | None \<Rightarrow> ram m (0x02000000 + pixel_index px py k)) = screen_byte ovs m px py k"
proof -
  have same: "visible (ram m) px py ov = shown (ram m) px py ov" if "ov \<in> set (rev ovs)" for ov
  proof (cases "ov_enabled ov")
    case True
    then show ?thesis using assms that by (intro inside_pixel(2)) simp
  qed (simp add: visible_def shown_def)
  then have "find (visible (ram m) px py) (rev ovs) = find (shown (ram m) px py) (rev ovs)"
    by (rule find_cong [OF refl])
  moreover have "overlay_pixel (ram m) ov px py k = picture_byte (ram m) ov (picture_pixel ov px py) k"
    if "find (shown (ram m) px py) (rev ovs) = Some ov" for ov
  proof -
    have "ov \<in> set ovs" "ov_enabled ov" using find_SomeD [OF that] by (simp_all add: shown_def)
    then show ?thesis using assms by (intro inside_pixel(1)) simp
  qed
  ultimately show ?thesis by (simp add: screen_byte_def split: option.split)
qed

text \<open>
  C6. Refresh. When every enabled overlay has its corner on the screen, does not reach past the
  right edge, and has its visible rows in RAM, then after an update and a draw each pixel of the
  frame is the pixel of the picture of the last enabled overlay that covers it with a non-zero
  alpha byte, and otherwise the pixel of the framebuffer at \<open>0x02000000\<close>.
\<close>

theorem refresh_frame:
  assumes "length ovs = 32" and "\<forall>ov\<in>set ovs. wf_overlay ov"
    and "\<forall>ov\<in>set ovs. ov_enabled ov \<longrightarrow> drawable ov \<and> ov_x ov + ov_width ov \<le> 640"
    and "length (background d) = 1228800" and "length frame = 1228800"
  shows "\<exists>d' frame'. display_update chk ovs m d = Inr d' \<and> display_draw d' frame = Inr frame' \<and>
    length frame' = 1228800 \<and>
    (\<forall>px py k. px < 640 \<longrightarrow> py < 480 \<longrightarrow> k < 4 \<longrightarrow>
       frame' ! pixel_index px py k = screen_byte ovs m px py k)"
proof -
  have inside: "\<forall>ov\<in>set ovs. ov_enabled ov \<longrightarrow> ov_x ov + ov_width ov \<le> 640" using assms(3) by blast
  show ?thesis
    using frame_pixels [OF assms(1,2) _ assms(4,5)] assms(3) unfolding inside_screen [OF inside] by blast
qed

text \<open>Two overlays of two by two pixels; the second hides part of the first, and is transparent elsewhere.\<close>

definition small_overlay :: "nat \<Rightarrow> nat \<Rightarrow> u32 \<Rightarrow> overlay" where
  "small_overlay x y p =
     \<lparr>ov_enabled = True, ov_width = 2, ov_height = 2, ov_x = x, ov_y = y, ov_framebuffer_pointer = p\<rparr>"

definition two_overlays :: "overlay list" where
  "two_overlays = small_overlay 100 100 0x1000 # small_overlay 101 101 0x2000 # drop 2 overlays_new"

definition overlay_memory :: memory where
  "overlay_memory =
     \<lparr>ram = (\<lambda>i. if 0x1000 \<le> i \<and> i < 0x1010 then 0x11 else if 0x2004 \<le> i \<and> i < 0x2010 then 0x22
        else if 0x02000000 \<le> i then 0x33 else 0), rom = (\<lambda>_. 0)\<rparr>"

lemma two_overlays_eq: "two_overlays = small_overlay 100 100 0x1000 # small_overlay 101 101 0x2000 #
   replicate 30 \<lparr>ov_enabled = False, ov_width = 16, ov_height = 16, ov_x = 0, ov_y = 0,
     ov_framebuffer_pointer = 0\<rparr>"
  by (simp add: two_overlays_def overlays_new_def)

lemma find_replicate: "\<not> P x \<Longrightarrow> find P (replicate n x @ ys) = find P ys"
  by (induction n) auto

lemma two_overlays_byte:
  "screen_byte two_overlays overlay_memory px py k =
     (if shown (ram overlay_memory) px py (small_overlay 101 101 0x2000)
      then picture_byte (ram overlay_memory) (small_overlay 101 101 0x2000)
        (picture_pixel (small_overlay 101 101 0x2000) px py) k
      else if shown (ram overlay_memory) px py (small_overlay 100 100 0x1000)
      then picture_byte (ram overlay_memory) (small_overlay 100 100 0x1000)
        (picture_pixel (small_overlay 100 100 0x1000) px py) k
      else ram overlay_memory (0x02000000 + pixel_index px py k))"
  unfolding screen_byte_def two_overlays_eq
  by (simp add: find_replicate shown_def)

lemma two_overlays_set:
  "ov \<in> set two_overlays \<Longrightarrow> ov = small_overlay 100 100 0x1000 \<or> ov = small_overlay 101 101 0x2000 \<or>
     ov = \<lparr>ov_enabled = False, ov_width = 16, ov_height = 16, ov_x = 0, ov_y = 0, ov_framebuffer_pointer = 0\<rparr>"
  unfolding two_overlays_eq by auto

lemma two_overlays_wf: "\<forall>ov\<in>set two_overlays. wf_overlay ov"
  by (auto dest!: two_overlays_set simp: wf_overlay_def small_overlay_def)

lemma two_overlays_drawable:
  "\<forall>ov\<in>set two_overlays. ov_enabled ov \<longrightarrow> drawable ov \<and> ov_x ov + ov_width ov \<le> 640"
  by (auto dest!: two_overlays_set simp: drawable_def small_overlay_def clipped_width_def
      clipped_height_def layout_defs)

lemmas pixel_simps = shown_def covers_pixel_def picture_byte_def picture_pixel_def small_overlay_def overlay_memory_def pixel_index_def

theorem refresh_frame_witness:
  "\<exists>d' frame'. display_update True two_overlays overlay_memory display_new = Inr d' \<and>
    display_draw d' (replicate 1228800 0) = Inr frame' \<and>
    frame' ! pixel_index 100 101 0 = 0x11 \<and> frame' ! pixel_index 101 101 0 = 0x11 \<and>
    frame' ! pixel_index 102 101 1 = 0x22 \<and> frame' ! pixel_index 103 101 2 = 0x33"
proof -
  have len: "length two_overlays = 32" by (simp add: two_overlays_eq)
  have bg: "length (background display_new) = 1228800" "length (replicate 1228800 (0 :: u8)) = 1228800"
    by (simp_all only: display_new_def display.simps length_replicate) (simp add: HEIGHT_def WIDTH_def)
  obtain d' frame' where f: "display_update True two_overlays overlay_memory display_new = Inr d'"
    "display_draw d' (replicate 1228800 0) = Inr frame'"
    "\<forall>px py k. px < 640 \<longrightarrow> py < 480 \<longrightarrow> k < 4 \<longrightarrow>
       frame' ! pixel_index px py k = screen_byte two_overlays overlay_memory px py k"
    using refresh_frame [OF len two_overlays_wf two_overlays_drawable bg] by blast
  have "screen_byte two_overlays overlay_memory 100 101 0 = 0x11"
    "screen_byte two_overlays overlay_memory 101 101 0 = 0x11"
    "screen_byte two_overlays overlay_memory 102 101 1 = 0x22"
    "screen_byte two_overlays overlay_memory 103 101 2 = 0x33"
    unfolding two_overlays_byte by (simp_all add: pixel_simps)
  then show ?thesis using f by auto
qed

lemma update_undrawable:
  assumes "length ovs = 32" and "\<forall>ov\<in>set ovs. wf_overlay ov" and "length (background d) = 1228800"
  shows "(\<exists>p. display_update True ovs m d = Inl p) \<longleftrightarrow> (\<exists>ov\<in>set ovs. ov_enabled ov \<and> \<not> drawable ov)"
proof -
  have "\<forall>i\<in>set [0..<32]. i < length ovs" using assms(1) by simp
  from blit_overlays_panics [OF this assms(2), of "get_slice (ram m) 0x02000000 1228800" "ram m"]
  have "(\<exists>p. display_update True ovs m d = Inl p) \<longleftrightarrow>
      (\<exists>i<32. ov_enabled (ovs ! i) \<and> \<not> drawable (ovs ! i))"
    using assms(3) by (auto simp: display_update_def HEIGHT_def WIDTH_def rbind_eq_Inl)
  also have "\<dots> \<longleftrightarrow> (\<exists>ov\<in>set ovs. ov_enabled ov \<and> \<not> drawable ov)"
    using assms(1) by (metis in_set_conv_nth)
  finally show ?thesis .
qed

text \<open>
  C27. Overlays that panic. In the build with overflow checks an update panics exactly when some
  enabled overlay has its corner off the screen to the right or below, or when its visible part
  is not all in RAM.
\<close>

theorem update_panics:
  assumes "length ovs = 32" and "\<forall>ov\<in>set ovs. wf_overlay ov" and "length (background d) = 1228800"
  shows "(\<exists>p. display_update True ovs m d = Inl p) \<longleftrightarrow>
    (\<exists>ov\<in>set ovs. ov_enabled ov \<and>
      (640 < ov_x ov \<or> 480 < ov_y ov \<or> MEMORY_RAM_SIZE < unat (ov_framebuffer_pointer ov)
         + 4 * min (ov_width ov) (640 - ov_x ov) * min (ov_height ov) (480 - ov_y ov)))"
  unfolding update_undrawable [OF assms] drawable_def clipped_width_def clipped_height_def
  by (auto simp: not_le)

lemma display_new_size: "length (background display_new) = 1228800"
  by (simp only: display_new_def display.simps length_replicate) (simp add: HEIGHT_def WIDTH_def)

theorem update_panics_witness:
  "\<exists>p. display_update True (two_overlays[7 := small_overlay 641 0 0]) memory_buffer_new display_new = Inl p"
proof -
  have "length (two_overlays[7 := small_overlay 641 0 0]) = 32"
    by (simp add: two_overlays_eq)
  moreover have "\<forall>ov\<in>set (two_overlays[7 := small_overlay 641 0 0]). wf_overlay ov"
    using two_overlays_wf by (auto dest!: set_update_subset_insert [THEN subsetD]
        simp: wf_overlay_def small_overlay_def)
  moreover have "small_overlay 641 0 0 \<in> set (two_overlays[7 := small_overlay 641 0 0])"
    by (rule set_update_memI) (simp add: two_overlays_eq)
  moreover have "ov_enabled (small_overlay 641 0 0)" "640 < ov_x (small_overlay 641 0 0)"
    by (simp_all add: small_overlay_def)
  ultimately show ?thesis
    using update_panics [OF _ _ display_new_size] by blast
qed

section \<open>The right edge\<close>

text \<open>
  C28. An overlay that reaches past the right edge is drawn with rows as wide as its visible part
  instead of its own: where row \<open>r\<close> of the overlay meets column \<open>c\<close>, the screen shows the pixel of
  its picture numbered \<open>r * visible width + c\<close>, which from the second row on is another one than
  the pixel \<open>r * width + c\<close> that belongs there. The image is sheared.
\<close>

theorem right_edge_shear:
  assumes "wf_overlay ov" and "drawable ov" and "640 < ov_x ov + ov_width ov" and "length fb = 1228800"
  shows "\<exists>fb'. blit_overlay chk fb ov bytes = Inr fb' \<and>
    (\<forall>r c k. r < ov_height ov \<and> ov_y ov + r < 480 \<and> ov_x ov + c < 640 \<and> k < 4 \<longrightarrow>
      (let n = r * (640 - ov_x ov) + c; i = pixel_index (ov_x ov + c) (ov_y ov + r) k in
       fb' ! i = (if picture_byte bytes ov n 3 \<noteq> 0 then picture_byte bytes ov n k else fb ! i) \<and>
       (0 < r \<longrightarrow> n < picture_pixel ov (ov_x ov + c) (ov_y ov + r))))"
proof -
  obtain fb' where run: "blit_overlay chk fb ov bytes = Inr fb'" and
    pixels: "\<And>px py k. px < 640 \<Longrightarrow> py < 480 \<Longrightarrow> k < 4 \<Longrightarrow> fb' ! pixel_index px py k =
      (if opaque bytes ov px py then overlay_pixel bytes ov px py k else fb ! pixel_index px py k)"
    using blit_overlay_pixels [OF assms(1,2,4)] by blast
  have width: "clipped_width ov = 640 - ov_x ov" "640 - ov_x ov < ov_width ov"
    using assms(2,3) by (auto simp: clipped_width_def drawable_def)
  have "let n = r * (640 - ov_x ov) + c; i = pixel_index (ov_x ov + c) (ov_y ov + r) k in
       fb' ! i = (if picture_byte bytes ov n 3 \<noteq> 0 then picture_byte bytes ov n k else fb ! i) \<and>
       (0 < r \<longrightarrow> n < picture_pixel ov (ov_x ov + c) (ov_y ov + r))"
    if "r < ov_height ov" "ov_y ov + r < 480" "ov_x ov + c < 640" "k < 4" for r c k
  proof -
    have covers: "covers_pixel ov (ov_x ov + c) (ov_y ov + r)"
      using that width(2) by (simp add: covers_pixel_def)
    have pixel: "overlay_pixel bytes ov (ov_x ov + c) (ov_y ov + r) k =
        picture_byte bytes ov (r * (640 - ov_x ov) + c) k" for k
      by (simp add: overlay_pixel_def picture_byte_def width(1) mult.commute)
    have "r * (640 - ov_x ov) + c < r * ov_width ov + c" if "0 < r"
      using width(2) that by simp
    then show ?thesis
      using pixels [OF that(3,2,4)] by (simp add: opaque_def covers pixel picture_pixel_def)
  qed
  with run show ?thesis by blast
qed

text \<open>Two columns at the last column of the screen: its second row shows the hidden end of the first.\<close>

theorem right_edge_shear_witness:
  "\<exists>fb'. blit_overlay False (replicate 1228800 0) (small_overlay 639 10 0)
      (\<lambda>i. if i < 4 then 0x11 else if i < 8 then 0x22 else 0x33) = Inr fb' \<and>
    fb' ! pixel_index 639 10 0 = 0x11 \<and> fb' ! pixel_index 639 11 0 = 0x22"
proof -
  have ov: "wf_overlay (small_overlay 639 10 0)" "drawable (small_overlay 639 10 0)"
    "640 < ov_x (small_overlay 639 10 0) + ov_width (small_overlay 639 10 0)"
    by (simp_all add: wf_overlay_def drawable_def small_overlay_def clipped_width_def clipped_height_def
        layout_defs)
  have fb: "length (replicate 1228800 (0 :: u8)) = 1228800" by (simp only: length_replicate)
  let ?bytes = "\<lambda>i :: nat. if i < 4 then 0x11 else if i < 8 then 0x22 else 0x33 :: u8"
  obtain fb' where run: "blit_overlay False (replicate 1228800 0) (small_overlay 639 10 0) ?bytes = Inr fb'" and
    pixels: "\<And>r c k. r < ov_height (small_overlay 639 10 0) \<and> ov_y (small_overlay 639 10 0) + r < 480 \<and>
        ov_x (small_overlay 639 10 0) + c < 640 \<and> k < 4 \<longrightarrow>
      (let n = r * (640 - ov_x (small_overlay 639 10 0)) + c;
           i = pixel_index (ov_x (small_overlay 639 10 0) + c) (ov_y (small_overlay 639 10 0) + r) k in
       fb' ! i = (if picture_byte ?bytes (small_overlay 639 10 0) n 3 \<noteq> 0
         then picture_byte ?bytes (small_overlay 639 10 0) n k else replicate 1228800 0 ! i) \<and>
       (0 < r \<longrightarrow> n < picture_pixel (small_overlay 639 10 0) (ov_x (small_overlay 639 10 0) + c)
          (ov_y (small_overlay 639 10 0) + r)))"
    using right_edge_shear [OF ov fb, of False ?bytes] by blast
  show ?thesis
    using run pixels [of 0 0 0] pixels [of 1 0 0]
    by (auto simp: small_overlay_def picture_byte_def Let_def)
qed

end
