(* ===== verification/Machine.thy ===== *)
theory Machine
  imports Control Display
begin

text \<open>
  The emulator as a whole (\<open>fox32/src/main.rs\<close> and \<open>fox32/src/runtime.rs\<close>): booting, the CPU
  thread with its interrupt channel, the audio thread, and the event loop with its frames, keys
  and mouse. The threads share the bus; their steps interleave.

  What the libraries of the window deliver (whether rendering succeeded, scancodes, the mouse
  pixel) are arguments of the steps. Mutex poisoning is not
  modelled: a thread panics with a lock held only in the CPU thread (a bad overlay port) and in
  the event loop (a blit), and the process ends then, at the next frame or at once.
\<close>

section \<open>Boot\<close>

text \<open>
  The bus of \<open>main\<close>, with the disk image given on the command line in slot 0. Its memory is the
  zeroed buffer of \<open>MemoryBuffer::new\<close>.
\<close>

definition bus_new :: "'k env \<Rightarrow> 'k bus" where
  "bus_new e =
     \<lparr>memory = memory_buffer_new, disk_controller = disk_controller_new, audio = audio_new,
      keyboard = keyboard_new e, mouse = mouse_new, overlays = overlays_new, terminal = []\<rparr>"

definition insert_argument :: "dialog_answer \<Rightarrow> 'k bus \<Rightarrow> 'k bus res" where
  "insert_argument answer b =
     (case answer of
        Cancelled \<Rightarrow> Inr b
      | OpenFailed \<Rightarrow> Inl FileOpenFailed
      | Opened bs \<Rightarrow>
          rbind (disk_insert (file_open bs) 0 (disk_controller b)) (\<lambda>dc.
          Inr (b\<lparr>disk_controller := dc\<rparr>)))"

text \<open>The ROM is looked for in two places; \<open>None\<close> is a file that cannot be read.\<close>

definition read_rom :: "u8 list option \<Rightarrow> u8 list option \<Rightarrow> u8 list res" where
  "read_rom first second =
     (case first of Some bs \<Rightarrow> Inr bs
      | None \<Rightarrow> (case second of Some bs \<Rightarrow> Inr bs | None \<Rightarrow> Inl RomNotFound))"

text \<open>\<open>write\<close> on a slice copies what fits.\<close>

definition write_rom :: "u8 list \<Rightarrow> memory \<Rightarrow> memory" where
  "write_rom bs m = store_region m Rom 0 (take MEMORY_ROM_SIZE bs)"

section \<open>The runtime\<close>

definition halted_get :: "'k cpu \<Rightarrow> bool" where "halted_get c = halted c"
definition halted_set :: "bool \<Rightarrow> 'k cpu \<Rightarrow> 'k cpu" where "halted_set h c = c\<lparr>halted := h\<rparr>"
definition flag_interrupt_get :: "'k cpu \<Rightarrow> bool" where
  "flag_interrupt_get c = flag_interrupt (flag c)"

definition runtime_raise :: "'k env \<Rightarrow> u16 \<Rightarrow> 'k cpu \<Rightarrow> 'k cpu res" where
  "runtime_raise e vector c = cpu_interrupt e (InterruptRequest (ucast vector)) c"

definition runtime_step :: "'k env \<Rightarrow> 'k cpu \<Rightarrow> 'k cpu res" where
  "runtime_step e c = execute_memory_instruction e c"

section \<open>The machine\<close>

text \<open>
  The threads of the emulator. \<open>LoopTop\<close> is the test of the inner loop of the CPU thread,
  \<open>BeforeStep\<close> the call of \<open>step\<close> after the channel was polled, \<open>Waiting\<close> the blocking receive.
  \<open>Finished\<close> is a thread that left its loop and \<open>Crashed\<close> one that panicked; the receiving end
  of the channel is gone in both.
\<close>

datatype cpu_thread_state = LoopTop | BeforeStep | Waiting | Finished | Crashed panic

datatype audio_thread_state = AudioLoop | AudioPanicked

datatype exit_status = Closed | MainPanicked panic

record 'k machine =
  cpu :: "'k cpu"
  thread :: cpu_thread_state
  channel :: "u16 list"
  senders :: nat
  audio_thread :: audio_thread_state
  sink :: "u16 list list"
  screen :: display
  frame :: "u8 list"
  exit_status :: "exit_status option"

definition machine_boot ::
  "'k env \<Rightarrow> u8 list option \<Rightarrow> u8 list option \<Rightarrow> dialog_answer \<Rightarrow> 'k machine res" where
  "machine_boot e first second answer =
     rbind (insert_argument answer (bus_new e)) (\<lambda>b.
     rbind (read_rom first second) (\<lambda>bs.
     let c = cpu_new b;
         c = c\<lparr>bus := (bus c)\<lparr>memory := write_rom bs (memory (bus c))\<rparr>\<rparr>;
         c = halted_set False c
     in Inr \<lparr>cpu = c, thread = LoopTop, channel = [], senders = 2, audio_thread = AudioLoop,
             sink = [], screen = display_new, frame = replicate (WIDTH * HEIGHT * 4) 0,
             exit_status = None\<rparr>))"

section \<open>The CPU thread\<close>

datatype event = Quiet | Sent u16 | Taken u16

definition cpu_thread :: "'k env \<Rightarrow> 'k machine \<Rightarrow> (event \<times> 'k machine) option" where
  "cpu_thread e m =
     (case thread m of
        LoopTop \<Rightarrow>
          if \<not> halted_get (cpu m) then
            (case channel m of
               [] \<Rightarrow> Some (Quiet, m\<lparr>thread := BeforeStep\<rparr>)
             | v # rest \<Rightarrow> Some (Taken v,
                 case runtime_raise e v (cpu m) of
                   Inr c \<Rightarrow> m\<lparr>channel := rest, cpu := c, thread := BeforeStep\<rparr>
                 | Inl p \<Rightarrow> m\<lparr>channel := rest, thread := Crashed p\<rparr>))
          else if \<not> flag_interrupt_get (cpu m) then Some (Quiet, m\<lparr>thread := Finished\<rparr>)
          else Some (Quiet, m\<lparr>thread := Waiting\<rparr>)
      | BeforeStep \<Rightarrow> Some (Quiet,
          case runtime_step e (cpu m) of
            Inr c \<Rightarrow> m\<lparr>cpu := c, thread := LoopTop\<rparr>
          | Inl p \<Rightarrow> m\<lparr>thread := Crashed p\<rparr>)
      | Waiting \<Rightarrow>
          (case channel m of
             [] \<Rightarrow> if senders m = 0 then Some (Quiet, m\<lparr>thread := Finished\<rparr>) else None
           | v # rest \<Rightarrow> Some (Taken v,
               case runtime_raise e v (halted_set False (cpu m)) of
                 Inr c \<Rightarrow> m\<lparr>channel := rest, cpu := c, thread := LoopTop\<rparr>
               | Inl p \<Rightarrow> m\<lparr>channel := rest, thread := Crashed p\<rparr>))
      | Finished \<Rightarrow> None
      | Crashed _ \<Rightarrow> None)"

section \<open>The audio thread and the event loop\<close>

definition receiver_alive :: "'k machine \<Rightarrow> bool" where
  "receiver_alive m = (case thread m of Finished \<Rightarrow> False | Crashed _ \<Rightarrow> False | _ \<Rightarrow> True)"

definition send :: "u16 \<Rightarrow> 'k machine \<Rightarrow> 'k machine res" where
  "send v m = (if receiver_alive m then Inr (m\<lparr>channel := channel m @ [v]\<rparr>) else Inl SendFailed)"

text \<open>\<open>chunks_exact(2)\<close> of a buffer, each pair of bytes a sample.\<close>

fun audio_samples :: "u8 list \<Rightarrow> u16 list" where
  "audio_samples (x0 # x1 # bytes) = (push_bit 8 (ucast x1) OR ucast x0) # audio_samples bytes"
| "audio_samples bytes = []"

definition set_audio :: "audio \<Rightarrow> 'k machine \<Rightarrow> 'k machine" where
  "set_audio a m = m\<lparr>cpu := (cpu m)\<lparr>bus := (bus (cpu m))\<lparr>audio := a\<rparr>\<rparr>\<rparr>"

text \<open>One iteration of the audio loop; \<open>unwrap\<close> on a failed send panics the audio thread alone.\<close>

definition audio_iteration :: "'k machine \<Rightarrow> 'k machine" where
  "audio_iteration m =
     (let a = audio (bus (cpu m)); bytes = ram (memory (bus (cpu m))) in
      if playing a then
        (let (buffer, a') =
           (if current_buffer_is_0 a
            then (audio_samples (get_slice bytes 0x0212C000 32768), a\<lparr>current_buffer_is_0 := False\<rparr>)
            else (audio_samples (get_slice bytes (0x0212C000 + 32768) 32768),
                  a\<lparr>current_buffer_is_0 := True\<rparr>));
           m = (set_audio a' m)\<lparr>sink := sink m @ [buffer]\<rparr>
         in case send 0xFE m of
              Inr m \<Rightarrow> m
            | Inl _ \<Rightarrow> m\<lparr>audio_thread := AudioPanicked, senders := senders m - 1\<rparr>)
      else m)"

text \<open>
  The handler of \<open>MainEventsCleared\<close>: the vsync interrupt, and a new frame. \<open>rendered\<close> says
  whether \<open>Pixels::render\<close> succeeded.
\<close>

definition frame_event :: "'k env \<Rightarrow> bool \<Rightarrow> 'k machine \<Rightarrow> 'k machine" where
  "frame_event e rendered m =
     (case send 0xFF m of
        Inl _ \<Rightarrow> m\<lparr>exit_status := Some Closed\<rparr>
      | Inr m \<Rightarrow>
          (case rbind (display_update (overflow_checks e) (overlays (bus (cpu m)))
                  (memory (bus (cpu m))) (screen m)) (\<lambda>d.
                rbind (display_draw d (frame m)) (\<lambda>f. Inr (d, f))) of
             Inl p \<Rightarrow> m\<lparr>exit_status := Some (MainPanicked p)\<rparr>
           | Inr (d, f) \<Rightarrow>
               (let m = m\<lparr>screen := d, frame := f\<rparr>
                in if rendered then m else m\<lparr>exit_status := Some Closed\<rparr>)))"

definition key_event :: "'k env \<Rightarrow> u32 \<Rightarrow> bool \<Rightarrow> 'k machine \<Rightarrow> 'k machine" where
  "key_event e scancode key_released m =
     (let scancode = (if key_released then scancode OR 0x80 else scancode); b = bus (cpu m)
      in m\<lparr>cpu := (cpu m)\<lparr>bus := b\<lparr>keyboard := keyboard_push e (keyboard b) scancode\<rparr>\<rparr>\<rparr>)"

text \<open>
  The mouse after an input event: the pixel it is at, and whether its button is down and went
  down in this frame.
\<close>

definition mouse_moved :: "u16 \<Rightarrow> u16 \<Rightarrow> bool \<Rightarrow> bool \<Rightarrow> mouse \<Rightarrow> mouse" where
  "mouse_moved x y down pressed ms =
     (let ms = ms\<lparr>mouse_x := x, mouse_y := y\<rparr>;
          ms = (if held ms \<and> \<not> down then ms\<lparr>released := True\<rparr> else ms);
          ms = ms\<lparr>held := down\<rparr>
      in if pressed then ms\<lparr>clicked := True\<rparr> else ms)"

definition mouse_event :: "u16 \<Rightarrow> u16 \<Rightarrow> bool \<Rightarrow> bool \<Rightarrow> 'k machine \<Rightarrow> 'k machine" where
  "mouse_event x y down pressed m =
     (let b = bus (cpu m)
      in m\<lparr>cpu := (cpu m)\<lparr>bus := b\<lparr>mouse := mouse_moved x y down pressed (mouse b)\<rparr>\<rparr>\<rparr>)"

definition quit_event :: "'k machine \<Rightarrow> 'k machine" where
  "quit_event m = m\<lparr>exit_status := Some Closed\<rparr>"

section \<open>Interleaving\<close>

text \<open>
  Any thread may take the next step as long as the process runs. A CPU step is one instruction
  or one interrupt: it makes at most one locked device access, and only the CPU writes RAM.
\<close>

inductive machine_step :: "'k env \<Rightarrow> 'k machine \<Rightarrow> event \<Rightarrow> 'k machine \<Rightarrow> bool" for e where
  cpu_step: "exit_status m = None \<Longrightarrow> cpu_thread e m = Some (ev, m') \<Longrightarrow> machine_step e m ev m'"
| frame_step: "exit_status m = None
    \<Longrightarrow> machine_step e m (if receiver_alive m then Sent 0xFF else Quiet) (frame_event e rendered m)"
| audio_step: "exit_status m = None \<Longrightarrow> audio_thread m = AudioLoop
    \<Longrightarrow> machine_step e m (if playing (audio (bus (cpu m))) \<and> receiver_alive m then Sent 0xFE else Quiet)
         (audio_iteration m)"
| key_step: "exit_status m = None \<Longrightarrow> machine_step e m Quiet (key_event e scancode key_released m)"
| mouse_step: "exit_status m = None \<Longrightarrow> machine_step e m Quiet (mouse_event x y down pressed m)"
| quit_step: "exit_status m = None \<Longrightarrow> machine_step e m Quiet (quit_event m)"

inductive machine_run :: "'k env \<Rightarrow> 'k machine \<Rightarrow> event list \<Rightarrow> 'k machine \<Rightarrow> bool" for e where
  run_nil: "machine_run e m [] m"
| run_step: "machine_run e m evs m' \<Longrightarrow> machine_step e m' ev m'' \<Longrightarrow> machine_run e m (evs @ [ev]) m''"

inductive_cases machine_stepE: "machine_step e m ev m'"
inductive_simps machine_run_Nil: "machine_run e m [] m'"

end
