(* ===== verification/MachineLaws.thy ===== *)
theory MachineLaws
  imports Machine StepLaws DisplayLaws DisplaySpec
begin

text \<open>
  Lemmas on the emulator: the invariant of its states and that every step of every thread keeps
  it.
\<close>

section \<open>Sizes the display keeps\<close>

lemma merge_pixels_length: "merge_pixels left right = Inr merged \<Longrightarrow> length merged = length left"
  by (induction left right arbitrary: merged rule: merge_pixels.induct)
     (auto simp: rbind_eq_Inr split: if_splits)

lemma slice_range_length: "slice_range v a b = Inr s \<Longrightarrow> a \<le> b \<and> b \<le> length v \<and> length s = b - a"
  by (auto simp: slice_range_def split: if_splits)

lemma blit_row_length: "blit_row chk ov width source y i fb = Inr fb' \<Longrightarrow> length fb' = length fb"
  by (auto simp: blit_row_def rbind_eq_Inr dest!: slice_range_length merge_pixels_length)

lemma blit_rows_length: "blit_rows chk ov width source ys i fb = Inr fb' \<Longrightarrow> length fb' = length fb"
  by (induction ys arbitrary: i fb) (auto simp: rbind_eq_Inr dest!: blit_row_length)

lemma blit_overlays_length: "blit_overlays chk is ovs bytes fb = Inr fb' \<Longrightarrow> length fb' = length fb"
  by (induction "is" arbitrary: fb)
     (auto simp: blit_overlay_def rbind_eq_Inr dest!: blit_rows_length split: if_splits)

lemma display_update_length:
  assumes "display_update chk ovs m d = Inr d'"
  shows "length (background d') = length (background d)"
proof -
  let ?n = "HEIGHT * WIDTH * 4"
  let ?fb = "get_slice (ram m) 0x02000000 ?n @ drop ?n (background d)"
  from assms have fit: "?n \<le> length (background d)"
    by (rule contrapos_pp) (simp only: display_update_def Let_def if_False sum.distinct not_False_eq_True)
  from assms obtain bg where bg: "blit_overlays chk [0..<32] ovs (ram m) ?fb = Inr bg"
    and d': "d' = d\<lparr>background := bg\<rparr>"
    by (simp only: display_update_def Let_def fit if_True rbind_eq_Inr sum.inject) blast
  have "length ?fb = length (background d)" using fit by simp
  then show ?thesis unfolding d' using blit_overlays_length [OF bg] by simp
qed

lemma draw_chunks_length: "draw_chunks bg i fr = Inr fr' \<Longrightarrow> length fr' = length fr"
proof (induction bg i fr arbitrary: fr' rule: draw_chunks.induct)
  case (1 bg i p0 p1 p2 p3 rest)
  from "1.prems" obtain px rest' where px: "slice_range bg (i * 4) (i * 4 + 4) = Inr px"
    and r: "draw_chunks bg (i + 1) rest = Inr rest'" and fr: "fr' = px @ rest'"
    unfolding draw_chunks.simps by (elim rbind_InrE) simp
  have "length px = 4" using px unfolding slice_range_def by (auto split: if_splits)
  then show ?case using "1.IH" [OF px r] fr by simp
qed simp_all

section \<open>The invariant\<close>

definition alive_senders :: "'k machine \<Rightarrow> nat" where
  "alive_senders m = (if audio_thread m = AudioLoop then 2 else 1)"

definition machine_ok :: "'k machine \<Rightarrow> bool" where
  "machine_ok m \<longleftrightarrow>
     wf_cpu (cpu m) \<and> read_only_disks (disk_controller (bus (cpu m))) \<and>
     set (channel m) \<subseteq> {0xFE, 0xFF} \<and>
     (thread m = Waiting \<longrightarrow> halted (cpu m) \<and> flag_interrupt (flag (cpu m))) \<and>
     senders m = alive_senders m \<and>
     length (background (screen m)) = 1228800 \<and> length (frame m) = 1228800"

lemma machine_okI_thread:
  assumes "machine_ok m" and "th = Waiting \<longrightarrow> halted (cpu m) \<and> flag_interrupt (flag (cpu m))"
  shows "machine_ok (m\<lparr>thread := th\<rparr>)"
  using assms by (simp add: machine_ok_def alive_senders_def)

lemma machine_ok_taken:
  assumes "machine_ok m" and "channel m = v # rest" and "th \<noteq> Waiting" and "wf_cpu c"
    and "read_only_disks (disk_controller (bus c))"
  shows "machine_ok (m\<lparr>channel := rest, cpu := c, thread := th\<rparr>)"
  using assms by (simp add: machine_ok_def alive_senders_def)

lemma raise_frame:
  assumes "runtime_raise e v c = Inr c'"
  shows "halted c' = halted c" and "wf_cpu c \<Longrightarrow> wf_cpu c'"
    and "disk_controller (bus c') = disk_controller (bus c)"
  using interrupt_frame [of e "ucast v" c c'] assms by (simp_all add: runtime_raise_def)

lemma wf_cpu_halted [simp]: "wf_cpu (halted_set h c) = wf_cpu c"
  by (simp add: wf_cpu_def halted_set_def)

lemma halted_set_bus [simp]: "bus (halted_set h c) = bus c"
  by (simp add: halted_set_def)

lemma cpu_thread_ok:
  assumes "cpu_thread e m = Some (ev, m')" and "machine_ok m"
  shows "machine_ok m'"
proof (cases "thread m")
  case LoopTop
  show ?thesis
  proof (cases "halted (cpu m)")
    case True
    then show ?thesis
      using assms LoopTop
      by (auto simp: cpu_thread_def halted_get_def flag_interrupt_get_def intro!: machine_okI_thread
          split: if_splits)
  next
    case False
    show ?thesis
    proof (cases "channel m")
      case Nil
      then show ?thesis
        using assms LoopTop False by (auto simp: cpu_thread_def halted_get_def intro!: machine_okI_thread)
    next
      case (Cons v rest)
      then show ?thesis
        using assms LoopTop False raise_frame [of e v "cpu m"]
          machine_ok_taken [OF assms(2) Cons]
        by (auto simp: cpu_thread_def halted_get_def machine_ok_def alive_senders_def
            split: sum.splits)
    qed
  qed
next
  case BeforeStep
  then show ?thesis
    using assms step_wf [of e "cpu m"] step_read_only [of e "cpu m"]
    by (auto simp: cpu_thread_def runtime_step_def machine_ok_def alive_senders_def split: sum.splits)
next
  case Waiting
  then show ?thesis
    using assms raise_frame [of e _ "halted_set False (cpu m)"]
    by (auto simp: cpu_thread_def machine_ok_def alive_senders_def split: list.splits sum.splits if_splits)
qed (use assms in \<open>simp_all add: cpu_thread_def\<close>)

section \<open>The other threads\<close>

lemma send_Inr: "send v m = Inr m' \<longleftrightarrow> receiver_alive m \<and> m' = m\<lparr>channel := channel m @ [v]\<rparr>"
  by (auto simp: send_def)

lemma send_Inl: "send v m = Inl p \<longleftrightarrow> \<not> receiver_alive m \<and> p = SendFailed"
  by (auto simp: send_def)

lemma wf_cpu_bus: "wf_bus b \<longleftrightarrow> wf_bus (bus c) \<Longrightarrow> wf_cpu (c\<lparr>bus := b\<rparr>) = wf_cpu c"
  by (simp add: wf_cpu_def)

lemma wf_bus_devices [simp]:
  "wf_bus (b\<lparr>audio := a\<rparr>) = wf_bus b" "wf_bus (b\<lparr>keyboard := k\<rparr>) = wf_bus b"
  "wf_bus (b\<lparr>mouse := ms\<rparr>) = wf_bus b"
  by (simp_all add: wf_bus_def)

lemma receiver_alive_frames [simp]:
  "receiver_alive (set_audio a m) = receiver_alive m"
  "receiver_alive (m\<lparr>sink := bs\<rparr>) = receiver_alive m"
  by (simp_all add: receiver_alive_def set_audio_def)

lemma set_audio_fields [simp]:
  "channel (set_audio a m) = channel m" "senders (set_audio a m) = senders m"
  "sink (set_audio a m) = sink m" "thread (set_audio a m) = thread m"
  "audio_thread (set_audio a m) = audio_thread m"
  by (simp_all add: set_audio_def)

lemma audio_iteration_eq:
  assumes "playing (audio (bus (cpu m)))"
  shows "audio_iteration m =
    (let a = audio (bus (cpu m));
         start = (if current_buffer_is_0 a then 0x0212C000 else 0x0212C000 + 32768);
         m' = (set_audio (a\<lparr>current_buffer_is_0 := \<not> current_buffer_is_0 a\<rparr>) m)\<lparr>sink :=
           sink m @ [audio_samples (get_slice (ram (memory (bus (cpu m)))) start 32768)]\<rparr>
     in if receiver_alive m then m'\<lparr>channel := channel m @ [0xFE]\<rparr>
        else m'\<lparr>audio_thread := AudioPanicked, senders := senders m - 1\<rparr>)"
  using assms by (simp add: audio_iteration_def Let_def send_def)

lemma audio_iteration_cases:
  assumes "playing (audio (bus (cpu m)))"
  obtains a buffer where "audio_iteration m =
    (if receiver_alive m
     then (set_audio a m)\<lparr>sink := sink m @ [buffer], channel := channel m @ [0xFE]\<rparr>
     else (set_audio a m)\<lparr>sink := sink m @ [buffer], audio_thread := AudioPanicked,
            senders := senders m - 1\<rparr>)"
  unfolding audio_iteration_eq [OF assms] Let_def using that by fastforce

lemma audio_iteration_ok: "machine_ok m \<Longrightarrow> audio_thread m = AudioLoop \<Longrightarrow> machine_ok (audio_iteration m)"
proof (cases "playing (audio (bus (cpu m)))")
  case True
  assume ok: "machine_ok m" "audio_thread m = AudioLoop"
  obtain a buffer where "audio_iteration m =
    (if receiver_alive m
     then (set_audio a m)\<lparr>sink := sink m @ [buffer], channel := channel m @ [0xFE]\<rparr>
     else (set_audio a m)\<lparr>sink := sink m @ [buffer], audio_thread := AudioPanicked,
            senders := senders m - 1\<rparr>)"
    using audio_iteration_cases [OF True] .
  then show ?thesis
    using ok by (auto simp: machine_ok_def alive_senders_def set_audio_def wf_cpu_bus)
qed (simp add: audio_iteration_def Let_def)

lemma frame_event_ok:
  assumes "machine_ok m"
  shows "machine_ok (frame_event e rendered m)"
proof (cases "send 0xFF m")
  case (Inl p)
  then show ?thesis using assms by (simp add: frame_event_def machine_ok_def alive_senders_def)
next
  case (Inr m1)
  then have m1: "m1 = m\<lparr>channel := channel m @ [0xFF]\<rparr>" by (simp add: send_Inr)
  then have ok: "machine_ok m1" using assms by (simp add: machine_ok_def alive_senders_def)
  let ?r = "rbind (display_update (overflow_checks e) (overlays (bus (cpu m1)))
      (memory (bus (cpu m1))) (screen m1)) (\<lambda>d. rbind (display_draw d (frame m1)) (\<lambda>f. Inr (d, f)))"
  have run: "frame_event e rendered m = (case ?r of
      Inl p \<Rightarrow> m1\<lparr>exit_status := Some (MainPanicked p)\<rparr>
    | Inr (d, f) \<Rightarrow> (let m = m1\<lparr>screen := d, frame := f\<rparr>
        in if rendered then m else m\<lparr>exit_status := Some Closed\<rparr>))"
    by (simp add: frame_event_def Inr)
  show ?thesis
  proof (cases ?r)
    case (Inl p)
    then show ?thesis using ok unfolding run by (simp add: machine_ok_def alive_senders_def)
  next
    case (Inr df)
    then have "length (background (fst df)) = 1228800" "length (snd df) = 1228800"
      using ok by (auto simp: rbind_eq_Inr display_draw_def machine_ok_def
          dest!: display_update_length draw_chunks_length)
    then show ?thesis
      using ok unfolding run Inr by (cases df) (simp add: machine_ok_def alive_senders_def Let_def)
  qed
qed

lemma input_events_ok:
  "machine_ok m \<Longrightarrow> machine_ok (key_event e scancode key_released m)"
  "machine_ok m \<Longrightarrow> machine_ok (mouse_event x y down pressed m)"
  "machine_ok m \<Longrightarrow> machine_ok (quit_event m)"
  by (simp_all add: machine_ok_def alive_senders_def key_event_def mouse_event_def quit_event_def
      Let_def wf_cpu_bus)

lemma machine_step_ok: "machine_step e m ev m' \<Longrightarrow> machine_ok m \<Longrightarrow> machine_ok m'"
  by (erule machine_step.cases)
     (auto intro: cpu_thread_ok frame_event_ok audio_iteration_ok input_events_ok)

lemma machine_run_ok: "machine_run e m evs m' \<Longrightarrow> machine_ok m \<Longrightarrow> machine_ok m'"
  by (induction rule: machine_run.induct) (auto intro: machine_step_ok)

lemma machine_boot_Inr:
  assumes "machine_boot e first second answer = Inr m"
  obtains b bs where "insert_argument answer (bus_new e) = Inr b" "read_rom first second = Inr bs"
    "cpu m = halted_set False (cpu_new (b\<lparr>memory := write_rom bs (memory b)\<rparr>))"
    "thread m = LoopTop" "channel m = []" "senders m = 2" "audio_thread m = AudioLoop" "sink m = []"
    "screen m = display_new" "frame m = replicate (WIDTH * HEIGHT * 4) 0" "exit_status m = None"
  using assms by (auto simp: machine_boot_def rbind_eq_Inr Let_def cpu_new_def)

lemma insert_argument_bus:
  assumes "insert_argument answer (bus_new e) = Inr b"
  shows "wf_bus b" and "read_only_disks (disk_controller b)" and "memory b = memory_buffer_new"
    and "overlays b = overlays_new"
proof -
  have new: "wf_bus (bus_new e)" "read_only_disks (disk_controller (bus_new e))"
    by (auto simp: bus_new_def wf_bus_def disk_controller_new_def overlays_new_def wf_overlay_def
        read_only_disks_def)
  show "wf_bus b" "read_only_disks (disk_controller b)" "memory b = memory_buffer_new"
    "overlays b = overlays_new"
    using assms new
    by (auto simp: insert_argument_def rbind_eq_Inr wf_bus_def bus_new_def disk_insert_def
        split: dialog_answer.splits if_splits intro: read_only_ops(1) [of _ 0 "disk_controller_new"])
qed

lemma machine_boot_ok:
  assumes "machine_boot e first second answer = Inr m"
  shows "machine_ok m"
proof -
  obtain b bs where b: "insert_argument answer (bus_new e) = Inr b"
    and m: "cpu m = halted_set False (cpu_new (b\<lparr>memory := write_rom bs (memory b)\<rparr>))"
    "thread m = LoopTop" "channel m = []" "senders m = 2" "audio_thread m = AudioLoop"
    "screen m = display_new" "frame m = replicate (WIDTH * HEIGHT * 4) 0"
    using machine_boot_Inr [OF assms] by metis
  have "length (frame m) = 1228800"
    by (simp only: m(7) length_replicate) (simp add: WIDTH_def HEIGHT_def)
  moreover have "wf_cpu (cpu m)" using insert_argument_bus(1) [OF b]
    by (simp add: m(1) cpu_new_def wf_cpu_def wf_bus_def halted_set_def)
  moreover have "read_only_disks (disk_controller (bus (cpu m)))"
    using insert_argument_bus(2) [OF b] by (simp add: m(1) cpu_new_def)
  ultimately show ?thesis
    using m(2-6) display_new_size by (simp add: machine_ok_def alive_senders_def)
qed

end
