(* ===== verification/Delivery.thy ===== *)
theory Delivery
  imports MachineLaws CpuSpec
begin

text \<open>
  Delivery of interrupts: when the processor can enter a handler, the state the handler starts in,
  and that the CPU thread delivers every interrupt it takes from the channel.
\<close>

section \<open>Entering a handler\<close>

text \<open>
  What delivering an interrupt needs and does, stated on the processor alone: room for the return
  address and the flags below the stack pointer, and the state in which the handler starts.
\<close>

definition stack_room :: "u32 \<Rightarrow> bool" where
  "stack_room sp \<longleftrightarrow> mapped 4 (sp - 4) \<and> mapped 1 (sp - 5)"

definition stack_fault :: "u32 \<Rightarrow> panic" where
  "stack_fault sp = UnmappedMemory (if mapped 4 (sp - 4) then sp - 5 else sp - 4)"

definition handler_entered :: "u8 \<Rightarrow> 'k cpu \<Rightarrow> 'k cpu \<Rightarrow> bool" where
  "handler_entered v c c' \<longleftrightarrow>
     mem_read_32 c (ucast v * 4) = Inr (instruction_pointer c') \<and>
     stack_pointer c' = stack_pointer c - 5 \<and>
     mem_read_32 c' (stack_pointer c - 4) = Inr (instruction_pointer c) \<and>
     mem_read_8 c' (stack_pointer c - 5) = Inr (u8_of_flag (flag c)) \<and>
     (\<forall>a. unat a < unat (stack_pointer c - 5) \<or> unat (stack_pointer c) \<le> unat a \<longrightarrow>
        mem_read_8 c' a = mem_read_8 c a) \<and>
     register c' = register c \<and> flag c' = (flag c)\<lparr>flag_interrupt := False\<rparr> \<and> \<not> halted c' \<and>
     bus c' = (bus c)\<lparr>memory := memory (bus c')\<rparr>"

lemma u8_bound: "unat (v :: u8) < 256"
  using unsigned_less [of v, where 'a = nat] by simp

lemma u8_in_u32: "unat (ucast (v :: u8) :: u32) = unat v"
  using u8_bound [of v] by (simp add: unsigned_ucast_eq take_bit_nat_eq_self_iff)

lemma vector_mapped: "\<exists>a. mem_read_32 c (ucast (v :: u8) * 4) = Inr a"
proof -
  have "unat (ucast v * 4 :: u32) + 4 \<le> 0x4000000"
    using u8_bound [of v] by (simp add: unat_word_ariths u8_in_u32)
  then have "mapped 4 (ucast v * 4)" by (simp add: mapped_def in_ram_def)
  then show ?thesis
    unfolding mem_read_32_def by (rule iffD2 [OF mem32.get_mapped])
qed

lemma flag_after_push:
  "rbind (push_stack_32 c w) (\<lambda>c'. f c' (flag c')) = rbind (push_stack_32 c w) (\<lambda>c'. f c' (flag c))"
  by (cases "push_stack_32 c w") (auto simp: stack32.push_eq rbind_eq_Inr set_memory_def)

lemma raise_enabled:
  assumes "flag_interrupt (flag c)"
  shows "runtime_raise e v c = rbind (mem_read_32 c (ucast (ucast v :: u8) * 4)) (\<lambda>address.
     rbind (push_stack_32 c (instruction_pointer c)) (\<lambda>c'.
     rbind (push_stack_8 c' (u8_of_flag (flag c))) (\<lambda>c.
     Inr ((set_interrupt_flag False c)\<lparr>instruction_pointer := address\<rparr>))))"
proof -
  have "\<not> 4294967296 \<le> 4 * unat (ucast (ucast v :: u8) :: u32)"
    using u8_bound [of "ucast v"] by (simp add: u8_in_u32)
  then show ?thesis
    using assms by (simp add: runtime_raise_def cpu_interrupt_def handle_interrupt_def vector_word
        checked_times_def Let_def flag_after_push
          [of _ _ "\<lambda>c' f. rbind (push_stack_8 c' (u8_of_flag f)) _"])
qed

lemma enter_pushes:
  assumes "stack_room (stack_pointer c)"
  shows "\<exists>c1 c2. push_stack_32 c (instruction_pointer c) = Inr c1 \<and>
    push_stack_8 c1 (u8_of_flag (flag c)) = Inr c2"
proof -
  obtain c1 where c1: "push_stack_32 c (instruction_pointer c) = Inr c1"
    using stack32.push_succeeds [of c] assms by (auto simp: stack_room_def)
  then have "stack_pointer c1 = stack_pointer c - 4"
    by (auto simp: stack32.push_eq rbind_eq_Inr set_memory_def)
  then have "\<exists>c2. push_stack_8 c1 (u8_of_flag (flag c)) = Inr c2"
    using stack8.push_succeeds [of c1] assms by (simp add: stack_room_def)
  with c1 show ?thesis by blast
qed

lemma entered:
  assumes 1: "push_stack_32 c (instruction_pointer c) = Inr c1"
    and 2: "push_stack_8 c1 (u8_of_flag (flag c)) = Inr c2"
    and a: "mem_read_32 c (ucast v * 4) = Inr a" and run: "\<not> halted c"
  shows "handler_entered v c ((set_interrupt_flag False c2)\<lparr>instruction_pointer := a\<rparr>)"
proof -
  obtain m1 where m1: "write_32 (memory (bus c)) (stack_pointer c - 4) (instruction_pointer c) = Inr m1"
    and c1: "c1 = set_memory (c\<lparr>stack_pointer := stack_pointer c - 4\<rparr>) m1"
    using 1 by (auto simp: stack32.push_eq rbind_eq_Inr)
  obtain m2 where m2: "write_8 m1 (stack_pointer c - 5) (u8_of_flag (flag c)) = Inr m2"
    and c2: "c2 = set_memory (c1\<lparr>stack_pointer := stack_pointer c - 5\<rparr>) m2"
    using 2 by (auto simp: stack8.push_eq rbind_eq_Inr c1 set_memory_def)
  have slots: "unat (stack_pointer c - 4) + 4 = unat (stack_pointer c)"
    "unat (stack_pointer c - 5) + 1 = unat (stack_pointer c - 4)"
    using stack32.push_slot(2) [OF 1] stack8.push_slot(2) [OF 2] by (simp_all add: c1 c2 set_memory_def)
  have "read_32 m2 (stack_pointer c - 4) = Inr (instruction_pointer c)"
    using mem32.get_put_same [OF m1] mem_8_32.cross_frame [OF m2, of "stack_pointer c - 4"] slots
    by (simp add: apart_def)
  moreover have "read_8 m2 a = read_8 (memory (bus c)) a"
    if "unat a < unat (stack_pointer c - 5) \<or> unat (stack_pointer c) \<le> unat a" for a
    using mem32.put_frame [OF m1, of 1 a] mem8.put_frame [OF m2, of 1 a] that slots
    by (auto simp: apart_def read_8_def)
  ultimately show ?thesis
    using a run mem8.get_put_same [OF m2]
    by (simp add: handler_entered_def c1 c2 set_memory_def set_interrupt_flag_def mem_read_32_def
        mem_read_8_def)
qed

text \<open>An interrupt is entered exactly when there is room; what is missing otherwise is named.\<close>

lemma raise_room:
  assumes "flag_interrupt (flag c)" and "stack_room (stack_pointer c)" and "\<not> halted c"
  shows "\<exists>c'. runtime_raise e v c = Inr c' \<and> handler_entered (ucast v) c c'"
proof -
  obtain a where a: "mem_read_32 c (ucast (ucast v :: u8) * 4) = Inr a" using vector_mapped by blast
  obtain c1 c2 where p: "push_stack_32 c (instruction_pointer c) = Inr c1"
    "push_stack_8 c1 (u8_of_flag (flag c)) = Inr c2"
    using enter_pushes [OF assms(2)] by blast
  show ?thesis using entered [OF p a assms(3)] by (simp add: raise_enabled [OF assms(1)] a p)
qed

lemma raise_no_room:
  assumes "flag_interrupt (flag c)" and "\<not> stack_room (stack_pointer c)"
  shows "runtime_raise e v c = Inl (stack_fault (stack_pointer c))"
proof -
  obtain a where a: "mem_read_32 c (ucast (ucast v :: u8) * 4) = Inr a" using vector_mapped by blast
  show ?thesis
  proof (cases "mapped 4 (stack_pointer c - 4)")
    case False
    then show ?thesis
      using stack32.push_fails [of c "instruction_pointer c"]
      by (simp add: raise_enabled [OF assms(1)] a stack_fault_def)
  next
    case True
    then obtain c1 where c1: "push_stack_32 c (instruction_pointer c) = Inr c1"
      using stack32.push_succeeds [of c] by auto
    then have "stack_pointer c1 = stack_pointer c - 4"
      by (auto simp: stack32.push_eq rbind_eq_Inr set_memory_def)
    moreover have "flag c1 = flag c" using stack32.push_Inr(1) [OF c1] by (metis cpu.select_convs(4)
        cpu.surjective cpu.update_convs(2,6))
    ultimately show ?thesis
      using True assms(2) stack8.push_fails [of c1]
      by (simp add: raise_enabled [OF assms(1)] a c1 stack_fault_def stack_room_def)
  qed
qed

section \<open>Delivery\<close>

text \<open>
  A queued interrupt that the CPU thread takes is delivered: the processor enters the handler, or
  the thread panics for want of stack, or interrupts are disabled and it is lost.
\<close>

definition delivered :: "u16 \<Rightarrow> 'k machine \<Rightarrow> 'k machine \<Rightarrow> bool" where
  "delivered v m m' \<longleftrightarrow>
     channel m = v # channel m' \<and>
     (let c = cpu m; goes_on = (if thread m = Waiting then LoopTop else BeforeStep) in
      if \<not> flag_interrupt (flag c) then thread m' = goes_on \<and> cpu m' = c\<lparr>halted := False\<rparr>
      else if stack_room (stack_pointer c) then thread m' = goes_on \<and> handler_entered (ucast v) c (cpu m')
      else thread m' = Crashed (stack_fault (stack_pointer c)))"

lemma handler_entered_halted: "handler_entered v (halted_set h c) c' = handler_entered v c c'"
  by (simp add: handler_entered_def halted_set_def mem_read_32_def mem_read_8_def)

text \<open>The CPU thread takes interrupts only when it polls, always the oldest, and delivers them.\<close>

lemma delivers:
  assumes "channel m = v # rest" and "thread m = Waiting \<or> thread m = LoopTop \<and> \<not> halted (cpu m)"
  shows "\<exists>m'. cpu_thread e m = Some (Taken v, m') \<and> delivered v m m'"
proof -
  let ?c = "halted_set False (cpu m)"
  have c: "thread m = LoopTop \<longrightarrow> cpu m = ?c" using assms(2) by (auto simp: halted_set_def)
  have th: "thread m = LoopTop \<and> \<not> halted_get (cpu m) \<or> thread m = Waiting"
    using assms(2) by (auto simp: halted_get_def)
  have taken: "cpu_thread e m = Some (Taken v,
      case runtime_raise e v ?c of
        Inr c \<Rightarrow> m\<lparr>channel := rest, cpu := c,
          thread := if thread m = Waiting then LoopTop else BeforeStep\<rparr>
      | Inl p \<Rightarrow> m\<lparr>channel := rest, thread := Crashed p\<rparr>)"
    using th c by (auto simp: cpu_thread_def assms(1) split: sum.splits)
  have h: "\<not> halted ?c" "flag ?c = flag (cpu m)" "stack_pointer ?c = stack_pointer (cpu m)"
    by (simp_all add: halted_set_def)
  consider (disabled) "\<not> flag_interrupt (flag (cpu m))"
    | (room) "flag_interrupt (flag (cpu m))" "stack_room (stack_pointer (cpu m))"
    | (full) "flag_interrupt (flag (cpu m))" "\<not> stack_room (stack_pointer (cpu m))" by blast
  then show ?thesis
  proof cases
    case disabled
    then show ?thesis
      using h unfolding taken
      by (simp add: delivered_def Let_def runtime_raise_def cpu_interrupt_def assms(1)) (simp add: halted_set_def)
  next
    case room
    then obtain c' where "runtime_raise e v ?c = Inr c'" "handler_entered (ucast v) (cpu m) c'"
      using raise_room [of ?c e v] h by (auto simp: handler_entered_halted)
    then show ?thesis unfolding taken using room by (simp add: delivered_def Let_def assms(1))
  next
    case full
    then show ?thesis
      using raise_no_room [of ?c e v] h unfolding taken by (simp add: delivered_def Let_def assms(1))
  qed
qed

end
