(* ===== verification/MachineSpec.thy ===== *)
theory MachineSpec
  imports Delivery BusSpec Samples
begin

text \<open>
  Properties of the emulator: boot, the reachable states, the delivery of interrupts, halting and
  waking, and the audio buffers.
\<close>

text \<open>A small emulator: it boots from a ROM whose first instruction is \<open>nop\<close>.\<close>

definition nop_rom :: "u8 list" where "nop_rom = [0x00, 0x80, 0x00, 0x80]"

lemma sample_boot: "\<exists>m. machine_boot sample_env (Some nop_rom) None (Opened [1, 2, 3]) = Inr m"
  by (simp add: machine_boot_def insert_argument_def disk_insert_def bus_new_def disk_controller_new_def
      read_rom_def Let_def)

text \<open>
  C1. Every reachable state of the emulator is sound: the processor is well formed, no disk can
  be written, only the vsync and the audio interrupt are queued, the CPU thread blocks only with
  the processor halted and interrupts enabled, a sender is left, so that the blocking receive
  never finds the channel closed, and the display and the frame keep their size.
\<close>

theorem reachable_states:
  assumes "machine_boot e first second answer = Inr m0" and "machine_run e m0 evs m"
  shows "wf_cpu (cpu m) \<and> read_only_disks (disk_controller (bus (cpu m))) \<and>
    set (channel m) \<subseteq> {0xFE, 0xFF} \<and>
    (thread m = Waiting \<longrightarrow> halted (cpu m) \<and> flag_interrupt (flag (cpu m))) \<and>
    0 < senders m \<and>
    length (background (screen m)) = 1228800 \<and> length (frame m) = 1228800"
  using machine_run_ok [OF assms(2) machine_boot_ok [OF assms(1)]]
  by (simp add: machine_ok_def alive_senders_def)

theorem reachable_states_witness:
  "\<exists>m0 m. machine_boot sample_env (Some nop_rom) None (Opened [1, 2, 3]) = Inr m0 \<and>
    machine_run sample_env m0 [Quiet] m \<and> set (channel m) \<subseteq> {0xFE, 0xFF} \<and> 0 < senders m"
proof -
  obtain m0 where boot: "machine_boot sample_env (Some nop_rom) None (Opened [1, 2, 3]) = Inr m0"
    using sample_boot by blast
  have "exit_status m0 = None" using machine_boot_Inr [OF boot] by metis
  then have "machine_run sample_env m0 ([] @ [Quiet]) (key_event sample_env 30 True m0)"
    by (intro run_step [OF run_nil] key_step)
  then have run: "machine_run sample_env m0 [Quiet] (key_event sample_env 30 True m0)" by simp
  from reachable_states [OF boot run] boot run show ?thesis by blast
qed

section \<open>What the other threads may change\<close>

text \<open>At most the keyboard, the mouse and the audio state differ.\<close>

definition same_core :: "'k cpu \<Rightarrow> 'k cpu \<Rightarrow> bool" where
  "same_core c c' \<longleftrightarrow> (\<exists>a k ms. c' = c\<lparr>bus := (bus c)\<lparr>audio := a, keyboard := k, mouse := ms\<rparr>\<rparr>)"

lemma same_coreI [intro]:
  "same_core c (c\<lparr>bus := (bus c)\<lparr>audio := a\<rparr>\<rparr>)" "same_core c (c\<lparr>bus := (bus c)\<lparr>keyboard := k\<rparr>\<rparr>)"
  "same_core c (c\<lparr>bus := (bus c)\<lparr>mouse := ms\<rparr>\<rparr>)" "same_core c c"
proof -
  have b: "(bus c)\<lparr>audio := a\<rparr> = (bus c)\<lparr>audio := a, keyboard := keyboard (bus c), mouse := mouse (bus c)\<rparr>"
    "(bus c)\<lparr>keyboard := k\<rparr> = (bus c)\<lparr>audio := audio (bus c), keyboard := k, mouse := mouse (bus c)\<rparr>"
    "(bus c)\<lparr>mouse := ms\<rparr> = (bus c)\<lparr>audio := audio (bus c), keyboard := keyboard (bus c), mouse := ms\<rparr>"
    "c = c\<lparr>bus := (bus c)\<lparr>audio := audio (bus c), keyboard := keyboard (bus c), mouse := mouse (bus c)\<rparr>\<rparr>"
    by simp_all
  show "same_core c (c\<lparr>bus := (bus c)\<lparr>audio := a\<rparr>\<rparr>)" "same_core c (c\<lparr>bus := (bus c)\<lparr>keyboard := k\<rparr>\<rparr>)"
    "same_core c (c\<lparr>bus := (bus c)\<lparr>mouse := ms\<rparr>\<rparr>)" "same_core c c"
    unfolding same_core_def using b by metis+
qed

lemma same_core_trans: "same_core a b \<Longrightarrow> same_core b c \<Longrightarrow> same_core a c"
  by (force simp: same_core_def)


lemma audio_core: "same_core (cpu m) (cpu (audio_iteration m))"
proof (cases "playing (audio (bus (cpu m)))")
  case True
  then show ?thesis unfolding audio_iteration_eq [OF True] by (auto simp: Let_def set_audio_def)
qed (auto simp: audio_iteration_def Let_def)

lemma frame_event_cpu [simp]: "cpu (frame_event e rendered m) = cpu m" "thread (frame_event e rendered m) = thread m"
  by (auto simp: frame_event_def send_def Let_def split: sum.splits)

section \<open>Interrupts\<close>

primrec sent_by :: "event \<Rightarrow> u16 list" where
  "sent_by Quiet = []"
| "sent_by (Sent v) = [v]"
| "sent_by (Taken v) = []"

primrec taken_by :: "event \<Rightarrow> u16 list" where
  "taken_by Quiet = []"
| "taken_by (Sent v) = []"
| "taken_by (Taken v) = [v]"

lemma frame_event_channel:
  "channel (frame_event e rendered m) = (if receiver_alive m then channel m @ [0xFF] else channel m)"
  by (auto simp: frame_event_def send_def Let_def split: sum.splits)

lemma audio_iteration_channel:
  "channel (audio_iteration m) =
     (if playing (audio (bus (cpu m))) \<and> receiver_alive m then channel m @ [0xFE] else channel m)"
proof (cases "playing (audio (bus (cpu m)))")
  case True
  then show ?thesis unfolding audio_iteration_eq [OF True] by (simp add: Let_def)
qed (simp add: audio_iteration_def Let_def)

lemma cpu_thread_channel:
  "cpu_thread e m = Some (ev, m') \<Longrightarrow> sent_by ev = [] \<and> channel m = taken_by ev @ channel m'"
  by (auto simp: cpu_thread_def split: cpu_thread_state.splits list.splits sum.splits if_splits)

lemma machine_step_channel:
  "machine_step e m ev m' \<Longrightarrow> channel m @ sent_by ev = taken_by ev @ channel m'"
  by (erule machine_step.cases)
     (auto simp: frame_event_channel audio_iteration_channel key_event_def mouse_event_def
        quit_event_def Let_def dest!: cpu_thread_channel)

text \<open>
  What a step that takes no interrupt does to the processor: it executes one instruction, or the
  processor keeps its registers, flags and memory. No handler is entered in another way.
\<close>

definition explained :: "'k env \<Rightarrow> 'k machine \<Rightarrow> event \<Rightarrow> 'k machine \<Rightarrow> bool" where
  "explained e m ev m' \<longleftrightarrow>
     (case ev of Taken v \<Rightarrow> delivered v m m'
      | _ \<Rightarrow> same_core (cpu m) (cpu m') \<or>
         thread m = BeforeStep \<and> runtime_step e (cpu m) = Inr (cpu m'))"

lemma cpu_thread_polls:
  assumes "cpu_thread e m = Some (Taken v, m')"
  shows "\<exists>rest. channel m = v # rest \<and> (thread m = Waiting \<or> thread m = LoopTop \<and> \<not> halted (cpu m))"
  using assms by (auto simp: cpu_thread_def halted_get_def split: cpu_thread_state.splits list.splits if_splits)

lemma cpu_thread_explained:
  assumes "cpu_thread e m = Some (ev, m')"
  shows "explained e m ev m'"
proof (cases ev)
  case (Taken v)
  then obtain rest where "channel m = v # rest" "thread m = Waiting \<or> thread m = LoopTop \<and> \<not> halted (cpu m)"
    using cpu_thread_polls assms by metis
  from delivers [OF this, of e] show ?thesis using assms Taken by (simp add: explained_def)
next
  case Quiet
  then show ?thesis
    using assms by (auto simp: explained_def cpu_thread_def
        split: cpu_thread_state.splits list.splits if_splits sum.splits)
next
  case (Sent v)
  then show ?thesis using cpu_thread_channel [OF assms] by simp
qed

lemma machine_step_explained: "machine_step e m ev m' \<Longrightarrow> explained e m ev m'"
  using audio_core [of m]
  by (auto elim!: machine_stepE dest: cpu_thread_explained [unfolded explained_def]
      simp: explained_def key_event_def mouse_event_def quit_event_def Let_def)

text \<open>Every event of a run is a step between two states the run passes through.\<close>

lemma run_split:
  assumes "machine_run e m0 evs m" and "evs = evs1 @ ev # evs2"
  shows "\<exists>m1 m2. machine_run e m0 evs1 m1 \<and> machine_step e m1 ev m2 \<and> machine_run e m2 evs2 m"
  using assms
proof (induction arbitrary: evs2 rule: machine_run.induct)
  case (run_step m evs m' ev' m'')
  show ?case
  proof (cases evs2 rule: rev_cases)
    case Nil
    then show ?thesis using run_step run_nil by fastforce
  next
    case (snoc ys y)
    then have "evs = evs1 @ ev # ys" "y = ev'" using run_step(4) by simp_all
    then show ?thesis using run_step(2,3) snoc machine_run.run_step by metis
  qed
qed simp

text \<open>
  C2. Interrupts are delivered in order. In every run the interrupts the processor took, followed
  by those still queued, are the ones that the event loop and the audio thread sent, in the
  order they were sent. Each one taken is delivered by the step that takes it: the processor
  enters its handler (or the thread panics where the stack has no room, or interrupts are
  disabled and nothing but \<open>halted\<close> changes); every other step executes one instruction or leaves
  the registers, the flags and the memory alone. A CPU thread that polls takes the oldest one.
\<close>

theorem interrupts_in_order:
  assumes "machine_run e m0 evs m" and "channel m0 = []"
  shows "concat (map sent_by evs) = concat (map taken_by evs) @ channel m \<and>
    (\<forall>evs1 ev evs2. evs = evs1 @ ev # evs2 \<longrightarrow>
      (\<exists>m1 m2. machine_run e m0 evs1 m1 \<and> machine_step e m1 ev m2 \<and> explained e m1 ev m2 \<and>
        machine_run e m2 evs2 m)) \<and>
    (\<forall>v rest. channel m = v # rest \<and> (thread m = Waiting \<or> thread m = LoopTop \<and> \<not> halted (cpu m)) \<longrightarrow>
      (\<exists>m'. cpu_thread e m = Some (Taken v, m') \<and> delivered v m m'))"
proof -
  have "concat (map sent_by evs) = concat (map taken_by evs) @ channel m"
    using assms
  proof (induction rule: machine_run.induct)
    case (run_step m evs m' ev m'')
    then show ?case using machine_step_channel [OF run_step(2)] by simp
  qed simp
  then show ?thesis
    using run_split [OF assms(1)] machine_step_explained delivers by metis
qed

section \<open>A booted machine\<close>

lemma rom_load:
  assumes "i + n \<le> 0x80000" and "n \<le> 512" and "0 < n"
  shows "load_bytes n (write_rom bs memory_buffer_new) (0xF0000000 + word_of_nat i) =
    Inr (map (\<lambda>j. if i + j < length bs then bs ! (i + j) else 0) [0..<n])"
proof -
  have u: "unat (0xF0000000 + word_of_nat i :: u32) = 0xF0000000 + i"
    using assms(1,3) by (simp add: unat_word_ariths u32_of_small)
  have "in_rom n (0xF0000000 + word_of_nat i)" "\<not> in_ram n (0xF0000000 + word_of_nat i)"
    unfolding in_rom_def in_ram_def u using assms(1) by simp_all
  then have "find_unwrapped n (0xF0000000 + word_of_nat i) = Inr (Rom, i)"
    by (simp add: find_unwrapped_spec assms(2) u)
  then show ?thesis
    using assms
    by (auto simp: load_bytes_def write_rom_def store_region_def region_bytes_def set_slice_def
        get_slice_def memory_buffer_new_def layout_defs)
qed

text \<open>The bus the emulator starts with: the ROM, and the disk of the command line in slot 0.\<close>

definition boot_disks :: "dialog_answer \<Rightarrow> disk option list" where
  "boot_disks answer =
     [case answer of Opened bs \<Rightarrow> Some (disk_new (file_open bs)) | _ \<Rightarrow> None, None, None, None]"

lemma machine_boot_bus:
  assumes "machine_boot e first second answer = Inr m"
  shows "answer \<noteq> OpenFailed \<and> (\<exists>rom. read_rom first second = Inr rom \<and>
    cpu m = cpu_new \<lparr>memory = write_rom rom memory_buffer_new,
      disk_controller = \<lparr>disks = boot_disks answer, buffer_pointer = 0\<rparr>, audio = audio_new,
      keyboard = keyboard_new e, mouse = mouse_new, overlays = overlays_new, terminal = []\<rparr>)"
proof -
  obtain b bs where b: "insert_argument answer (bus_new e) = Inr b" and rom: "read_rom first second = Inr bs"
    "cpu m = halted_set False (cpu_new (b\<lparr>memory := write_rom bs (memory b)\<rparr>))"
    using machine_boot_Inr [OF assms] by metis
  have "answer \<noteq> OpenFailed \<and>
    b = (bus_new e)\<lparr>disk_controller := \<lparr>disks = boot_disks answer, buffer_pointer = 0\<rparr>\<rparr>"
    using b by (auto simp: insert_argument_def disk_insert_def bus_new_def disk_controller_new_def
        boot_disks_def rbind_eq_Inr split: dialog_answer.splits)
  with rom show ?thesis by (simp add: bus_new_def cpu_new_def halted_set_def)
qed

lemma machine_boot_cpu:
  assumes "machine_boot e first second answer = Inr m"
  shows "\<exists>rom. read_rom first second = Inr rom \<and> memory (bus (cpu m)) = write_rom rom memory_buffer_new \<and>
    instruction_pointer (cpu m) = 0xF0000000 \<and> stack_pointer (cpu m) = 0 \<and>
    register (cpu m) = replicate 32 0 \<and> \<not> halted (cpu m) \<and> \<not> flag_interrupt (flag (cpu m)) \<and>
    overlays (bus (cpu m)) = overlays_new"
  using machine_boot_bus [OF assms] by (auto simp: cpu_new_def)

text \<open>
  C31. Boot. The emulator starts at \<open>0xF0000000\<close> with the bytes of the ROM file there (as many as
  fit), the rest of the ROM and all RAM zero, all flags clear, not halted, and every register zero,
  the stack pointer included. No overlay is enabled, the disk image of the command line is in
  slot 0 at its first sector and the other slots are empty, the buffer pointer is 0, nothing plays
  and the first audio buffer is next, and the keyboard queue, the mouse and the terminal are in
  their initial state; no interrupt is queued.
\<close>

theorem boot_state:
  assumes "machine_boot e first second answer = Inr m"
  shows "(\<exists>rom. read_rom first second = Inr rom \<and>
      (\<forall>i<0x80000. read_8 (memory (bus (cpu m))) (0xF0000000 + word_of_nat i) =
         Inr (if i < length rom then rom ! i else 0))) \<and>
    (\<forall>a. unat a < 0x4000000 \<longrightarrow> read_8 (memory (bus (cpu m))) a = Inr 0) \<and>
    instruction_pointer (cpu m) = 0xF0000000 \<and> stack_pointer (cpu m) = 0 \<and>
    register (cpu m) = replicate 32 0 \<and> \<not> halted (cpu m) \<and>
    flag (cpu m) = \<lparr>flag_interrupt = False, flag_carry = False, flag_zero = False\<rparr> \<and>
    length (overlays (bus (cpu m))) = 32 \<and> (\<forall>ov\<in>set (overlays (bus (cpu m))). \<not> ov_enabled ov) \<and>
    disks (disk_controller (bus (cpu m))) =
      [case answer of
         Opened bs \<Rightarrow> Some \<lparr>disk_file = \<lparr>file_bytes = bs, file_pos = 0, file_writable = False\<rparr>,
           disk_size = length bs, current_sector = 0\<rparr>
       | _ \<Rightarrow> None, None, None, None] \<and>
    buffer_pointer (disk_controller (bus (cpu m))) = 0 \<and>
    audio (bus (cpu m)) = \<lparr>current_buffer_is_0 = True, playing = False\<rparr> \<and>
    keyboard (bus (cpu m)) = keyboard_new e \<and>
    mouse (bus (cpu m)) = \<lparr>mouse_x = 0, mouse_y = 0, clicked = False, released = False, held = False\<rparr> \<and>
    terminal (bus (cpu m)) = [] \<and> channel m = [] \<and> thread m = LoopTop"
proof -
  obtain rom where rom: "read_rom first second = Inr rom"
    and c: "cpu m = cpu_new \<lparr>memory = write_rom rom memory_buffer_new,
      disk_controller = \<lparr>disks = boot_disks answer, buffer_pointer = 0\<rparr>, audio = audio_new,
      keyboard = keyboard_new e, mouse = mouse_new, overlays = overlays_new, terminal = []\<rparr>"
    using machine_boot_bus [OF assms] by blast
  have mem: "memory (bus (cpu m)) = write_rom rom memory_buffer_new" by (simp add: c cpu_new_def)
  have rom_bytes: "read_8 (memory (bus (cpu m))) (0xF0000000 + word_of_nat i) =
      Inr (if i < length rom then rom ! i else 0)" if "i < 0x80000" for i
    using rom_load [of i 1 rom] that by (simp add: mem read_8_def le_word_8_def)
  have ram_bytes: "read_8 (memory (bus (cpu m))) a = Inr 0" if "unat a < 0x4000000" for a
  proof -
    have "find_unwrapped 1 a = Inr (Ram, unat a)" using that by (simp add: find_unwrapped_spec in_ram_def)
    then show ?thesis
      by (simp add: mem read_8_def load_bytes_def write_rom_def store_region_def region_bytes_def
          memory_buffer_new_def get_slice_def le_word_8_def)
  qed
  have "channel m = []" "thread m = LoopTop" using machine_boot_Inr [OF assms] by metis+
  moreover have "disks (disk_controller (bus (cpu m))) =
      [case answer of
         Opened bs \<Rightarrow> Some \<lparr>disk_file = \<lparr>file_bytes = bs, file_pos = 0, file_writable = False\<rparr>,
           disk_size = length bs, current_sector = 0\<rparr>
       | _ \<Rightarrow> None, None, None, None]"
    by (simp add: c cpu_new_def boot_disks_def disk_new_def file_open_def split: dialog_answer.split)
  ultimately show ?thesis
    using rom rom_bytes ram_bytes
    by (auto simp: c cpu_new_def overlays_new_def audio_new_def mouse_new_def)
qed

theorem boot_state_witness:
  "\<exists>m. machine_boot sample_env None (Some nop_rom) (Opened [1, 2, 3]) = Inr m \<and>
     read_8 (memory (bus (cpu m))) (0xF0000000 + word_of_nat 1) = Inr 0x80 \<and>
     disks (disk_controller (bus (cpu m))) =
       [Some \<lparr>disk_file = \<lparr>file_bytes = [1, 2, 3], file_pos = 0, file_writable = False\<rparr>, disk_size = 3,
          current_sector = 0\<rparr>, None, None, None]"
proof -
  obtain m where boot: "machine_boot sample_env None (Some nop_rom) (Opened [1, 2, 3]) = Inr m"
    by (simp add: machine_boot_def insert_argument_def disk_insert_def bus_new_def disk_controller_new_def
        read_rom_def Let_def)
  note state = boot_state [OF boot]
  obtain rom where rom: "read_rom None (Some nop_rom) = Inr rom" and
    bytes: "\<forall>i<0x80000. read_8 (memory (bus (cpu m))) (0xF0000000 + word_of_nat i) =
       Inr (if i < length rom then rom ! i else 0)"
    using state by blast
  have "rom = nop_rom" using rom by (simp add: read_rom_def)
  then have "read_8 (memory (bus (cpu m))) (0xF0000000 + word_of_nat 1) = Inr 0x80"
    using bytes [rule_format, of 1] by (simp add: nop_rom_def)
  then show ?thesis using boot state by auto
qed

text \<open>
  C37. No sector is ever written. In every state the emulator reaches, every write to the sector
  write ports panics: disk images are only ever opened for reading, so that with a disk in the
  slot and a buffer inside RAM it is the write to the file that fails.
\<close>

theorem sectors_never_written:
  assumes "machine_boot e first second answer = Inr m0" and "machine_run e m0 evs m"
  shows "(\<forall>p w. unat p div 4096 = 0x80004 \<longrightarrow> (\<exists>q. write_io e p w (bus (cpu m)) = Inl q)) \<and>
    (\<forall>n d w. n < 4 \<and> disks (disk_controller (bus (cpu m))) ! n = Some d \<and>
        buffer_pointer (disk_controller (bus (cpu m))) + 512 \<le> MEMORY_RAM_SIZE \<longrightarrow>
      write_io e (0x80004000 + word_of_nat n) w (bus (cpu m)) = Inl FileWriteFailed)"
proof -
  have ok: "read_only_disks (disk_controller (bus (cpu m)))"
    "length (disks (disk_controller (bus (cpu m)))) = 4"
    using machine_run_ok [OF assms(2) machine_boot_ok [OF assms(1)]]
    by (simp_all add: machine_ok_def wf_cpu_def wf_bus_def)
  show ?thesis
    using sector_port_panics [OF ok(1)] sector_write_fails [OF _ ok(2) _ _ ok(1)] by blast
qed

theorem sectors_never_written_witness:
  "\<exists>m. machine_boot sample_env None (Some nop_rom) (Opened [1, 2, 3]) = Inr m \<and>
    write_io sample_env 0x80004000 7 (bus (cpu m)) = Inl FileWriteFailed"
proof -
  obtain m where boot: "machine_boot sample_env None (Some nop_rom) (Opened [1, 2, 3]) = Inr m"
    by (simp add: machine_boot_def insert_argument_def disk_insert_def bus_new_def disk_controller_new_def
        read_rom_def Let_def)
  have "disk_controller (bus (cpu m)) = \<lparr>disks = boot_disks (Opened [1, 2, 3]), buffer_pointer = 0\<rparr>"
    using machine_boot_bus [OF boot] by (auto simp: cpu_new_def)
  then have "disks (disk_controller (bus (cpu m))) ! 0 = Some (disk_new (file_open [1, 2, 3]))"
    "buffer_pointer (disk_controller (bus (cpu m))) + 512 \<le> MEMORY_RAM_SIZE"
    by (simp_all add: boot_disks_def layout_defs)
  moreover have "(0 :: nat) < 4" by simp
  ultimately have "write_io sample_env (0x80004000 + word_of_nat 0) 7 (bus (cpu m)) = Inl FileWriteFailed"
    using conjunct2 [OF sectors_never_written [OF boot run_nil]] by metis
  then show ?thesis using boot by auto
qed

text \<open>A ROM that sets the stack pointer to \<open>0x1000\<close>, enables interrupts and halts.\<close>

definition halt_rom :: "u8 list" where
  "halt_rom = [0x02, 0x97, 0x00, 0x10, 0x00, 0x00, 0x20, 0x00, 0x8C, 0x00, 0x90]"

lemma half_code [simp]:
  "from_half (le_word_16 [0x02, 0x97]) = Some (I_Mov SizeWord CondAlways OpRegister OpImmediate32)"
  "from_half (le_word_16 [0x00, 0x8C]) = Some (I_Ise CondAlways)"
  "from_half (le_word_16 [0x00, 0x90]) = Some (I_Halt CondAlways)"
  by (simp_all add: le_word_16_def from_half_def decode_size_def decode_source_def
      decode_destination_def decode_condition_def decode_opcode_def Let_def)

lemma rom_step:
  assumes "memory (bus c) = write_rom bs memory_buffer_new" and "i + 1 < length bs" and "i + 2 \<le> 0x80000"
    and "instruction_pointer c = 0xF0000000 + word_of_nat i"
    and "from_half (le_word_16 [bs ! i, bs ! (i + 1)]) = Some instr"
  shows "runtime_step e c = rbind (execute_instruction e instr c)
    (\<lambda>(nx, c). Inr (c\<lparr>instruction_pointer := nx\<rparr>))"
  using rom_load [of i 2 bs] assms
  by (simp add: runtime_step_def execute_memory_instruction_def mem_read_16_def read_16_def
      upt_rec numeral_2_eq_2)

section \<open>Runs of the sample machine\<close>

lemma frame_event_runs:
  assumes "overflow_checks e" and "machine_ok m" and "overlays (bus (cpu m)) = overlays_new"
    and "exit_status m = None" and "receiver_alive m"
  shows "exit_status (frame_event e True m) = None"
proof -
  have ovs: "\<forall>ov\<in>set overlays_new. wf_overlay ov" "length overlays_new = 32"
    "\<not> (\<exists>ov\<in>set overlays_new. ov_enabled ov \<and> \<not> drawable ov)"
    by (auto simp: overlays_new_def wf_overlay_def)
  have size: "length (background (screen m)) = 1228800" "length (frame m) = 1228800"
    using assms(2) by (simp_all add: machine_ok_def)
  obtain d where d: "display_update True overlays_new (memory (bus (cpu m))) (screen m) = Inr d"
    using update_undrawable [OF ovs(2,1) size(1), of "memory (bus (cpu m))"] ovs(3)
    by (cases "display_update True overlays_new (memory (bus (cpu m))) (screen m)") auto
  have "length (background d) = 1228800" using display_update_length [OF d] size(1) by simp
  then have "\<exists>f. display_draw d (frame m) = Inr f"
    using draw_chunks_value [of "frame m" 307200 0 "background d"] size(2) by (simp add: display_draw_def)
  then show ?thesis
    using assms d by (auto simp: frame_event_def send_def Let_def)
qed

lemma cpu_run:
  "machine_run e m0 evs m \<Longrightarrow> exit_status m = None \<Longrightarrow> cpu_thread e m = Some (ev, m')
    \<Longrightarrow> machine_run e m0 (evs @ [ev]) m'"
  by (rule run_step) (auto intro: cpu_step)

text \<open>The three instructions of that ROM, after which the processor is halted.\<close>

lemma rom_fetch_8:
  assumes "memory (bus c) = write_rom bs memory_buffer_new" and "i < length bs" and "i < 0x80000"
  shows "mem_read_8 c (0xF0000000 + word_of_nat i) = Inr (bs ! i)"
  using rom_load [of i 1 bs] assms by (simp add: mem_read_8_def read_8_def le_word_8_def)

lemma rom_fetch_32:
  assumes "memory (bus c) = write_rom bs memory_buffer_new" and "i + 3 < length bs" and "i + 4 \<le> 0x80000"
  shows "mem_read_32 c (0xF0000000 + word_of_nat i) =
    Inr (le_word_32 [bs ! i, bs ! (i + 1), bs ! (i + 2), bs ! (i + 3)])"
  using rom_load [of i 4 bs] assms by (simp add: mem_read_32_def read_32_def upt_rec numeral_3_eq_3)

lemma step_run:
  assumes "machine_run e m0 evs m" and "exit_status m = None" and "thread m = LoopTop" and "channel m = []"
    and "\<not> halted (cpu m)" and "runtime_step e (cpu m) = Inr c"
  shows "machine_run e m0 (evs @ [Quiet, Quiet]) (m\<lparr>cpu := c, thread := LoopTop\<rparr>)"
proof -
  let ?m1 = "m\<lparr>thread := BeforeStep\<rparr>"
  have "cpu_thread e m = Some (Quiet, ?m1)" using assms by (simp add: cpu_thread_def halted_get_def)
  moreover have "cpu_thread e ?m1 = Some (Quiet, m\<lparr>cpu := c, thread := LoopTop\<rparr>)"
    using assms by (simp add: cpu_thread_def)
  ultimately show ?thesis
    using assms(1,2) run_step [OF run_step [OF assms(1) cpu_step] cpu_step] by fastforce
qed

lemma halting_run:
  assumes "machine_boot sample_env (Some halt_rom) None Cancelled = Inr m0"
  shows "\<exists>m. machine_run sample_env m0 [Quiet, Quiet, Quiet, Quiet, Quiet, Quiet] m \<and> thread m = LoopTop \<and>
    exit_status m = None \<and> channel m = [] \<and> overlays (bus (cpu m)) = overlays_new \<and> halted (cpu m) \<and>
    flag_interrupt (flag (cpu m)) \<and> stack_pointer (cpu m) = 0x1000"
proof -
  have exit0: "exit_status m0 = None" "thread m0 = LoopTop" "channel m0 = []"
    using machine_boot_Inr [OF assms] by metis+
  obtain rom where rom: "read_rom (Some halt_rom) None = Inr rom"
    "memory (bus (cpu m0)) = write_rom rom memory_buffer_new"
    and c0: "instruction_pointer (cpu m0) = 0xF0000000" "\<not> halted (cpu m0)"
    "overlays (bus (cpu m0)) = overlays_new"
    using machine_boot_cpu [OF assms] by blast
  have mem: "memory (bus (cpu m0)) = write_rom halt_rom memory_buffer_new"
    using rom by (simp add: read_rom_def)
  let ?c1 = "(cpu m0)\<lparr>stack_pointer := 0x1000, instruction_pointer := 0xF0000007\<rparr>"
  let ?c2 = "(set_interrupt_flag True ?c1)\<lparr>instruction_pointer := 0xF0000009\<rparr>"
  let ?c3 = "?c2\<lparr>halted := True, instruction_pointer := 0xF000000B\<rparr>"
  have mem1: "memory (bus ?c1) = write_rom halt_rom memory_buffer_new"
    "memory (bus ?c2) = write_rom halt_rom memory_buffer_new"
    using mem by (simp_all add: set_interrupt_flag_def)
  have "mem_read_32 (cpu m0) 0xF0000002 = Inr 0x1000" "mem_read_8 (cpu m0) 0xF0000006 = Inr 32"
    using rom_fetch_32 [OF mem, of 2] rom_fetch_8 [OF mem, of 6] by (simp_all add: halt_rom_def le_word_32_def)
  then have mov: "runtime_step sample_env (cpu m0) = Inr ?c1"
    using rom_step [OF mem, of 0 "I_Mov SizeWord CondAlways OpRegister OpImmediate32" sample_env] c0
    by (simp add: halt_rom_def execute_instruction_def exec_mov_def check_condition_def advance_def
        ip_plus_def checked_plus_def fetch_32_def fetch_8_def read_source_def write_register_def Let_def)
  have ise: "runtime_step sample_env ?c1 = Inr ?c2"
    using rom_step [OF mem1(1), of 7 "I_Ise CondAlways" sample_env]
    by (simp add: halt_rom_def execute_instruction_def exec_ise_def check_condition_def advance_def
        ip_plus_def checked_plus_def set_interrupt_flag_def)
  have halt: "runtime_step sample_env ?c2 = Inr ?c3"
    using rom_step [OF mem1(2), of 9 "I_Halt CondAlways" sample_env]
    by (simp add: halt_rom_def execute_instruction_def exec_halt_def check_condition_def advance_def
        ip_plus_def checked_plus_def)
  let ?m3 = "m0\<lparr>cpu := ?c3, thread := LoopTop\<rparr>"
  have "machine_run sample_env m0 ([] @ [Quiet, Quiet]) (m0\<lparr>cpu := ?c1, thread := LoopTop\<rparr>)"
    using step_run [OF run_nil exit0 c0(2) mov] .
  from step_run [OF this, of ?c2]
  have "machine_run sample_env m0 (([] @ [Quiet, Quiet]) @ [Quiet, Quiet]) (m0\<lparr>cpu := ?c2, thread := LoopTop\<rparr>)"
    using exit0 c0 ise by simp
  from step_run [OF this, of ?c3]
  have "machine_run sample_env m0 [Quiet, Quiet, Quiet, Quiet, Quiet, Quiet] ?m3"
    using exit0 c0 halt by (simp add: set_interrupt_flag_def)
  then show ?thesis using exit0 c0 by (intro exI [of _ ?m3]) (simp add: set_interrupt_flag_def)
qed

lemma halt_boot: "\<exists>m. machine_boot sample_env (Some halt_rom) None Cancelled = Inr m"
  by (simp add: machine_boot_def insert_argument_def read_rom_def Let_def)

section \<open>Waking\<close>

text \<open>
  C16. A halted processor wakes up. When the processor is halted with interrupts enabled, the CPU
  thread blocks, and stays blocked while the queue is empty; the next frame sends it the vsync
  interrupt, and, unless drawing that frame ends the process, the thread then takes the oldest
  queued interrupt and continues, no longer halted, in the handler of that interrupt. Only where the stack has no room for the return address and
  the flags does it panic instead, on the address named.
\<close>

theorem halted_wakes:
  assumes "machine_boot e first second answer = Inr m0" and "machine_run e m0 evs m"
    and "thread m = LoopTop \<or> thread m = Waiting" and "halted (cpu m)" and "flag_interrupt (flag (cpu m))"
    and "exit_status m = None" and "exit_status (frame_event e rendered m) = None"
  shows "let w = m\<lparr>thread := Waiting\<rparr>; blocks = (if thread m = LoopTop then [Quiet] else []);
      v = hd (channel m @ [0xFF]); c = cpu m in
    (thread m = LoopTop \<longrightarrow> cpu_thread e m = Some (Quiet, w)) \<and>
    (channel m = [] \<longrightarrow> cpu_thread e w = None) \<and>
    (\<exists>m'. machine_run e m0 (evs @ blocks @ [Sent 0xFF, Taken v]) m' \<and>
      (if stack_room (stack_pointer c)
       then thread m' = LoopTop \<and> \<not> halted (cpu m') \<and> handler_entered (ucast v) c (cpu m')
       else thread m' = Crashed (stack_fault (stack_pointer c))))"
proof -
  let ?w = "m\<lparr>thread := Waiting\<rparr>" and ?v = "hd (channel m @ [0xFF])"
  let ?blocks = "if thread m = LoopTop then [Quiet] else []"
  have blocks: "thread m = LoopTop \<longrightarrow> cpu_thread e m = Some (Quiet, ?w)"
    using assms(4,5) by (simp add: cpu_thread_def halted_get_def flag_interrupt_get_def)
  have "0 < senders m"
    using machine_run_ok [OF assms(2) machine_boot_ok [OF assms(1)]]
    by (simp add: machine_ok_def alive_senders_def)
  then have waits: "channel m = [] \<longrightarrow> cpu_thread e ?w = None" by (simp add: cpu_thread_def)
  have alive: "receiver_alive m" using assms(3) by (auto simp: receiver_alive_def)
  have run: "machine_run e m0 (evs @ ?blocks) ?w"
  proof (cases "thread m = LoopTop")
    case True
    then show ?thesis using cpu_run [OF assms(2,6)] blocks by simp
  next
    case False
    then have "?w = m" using assms(3) by simp
    then show ?thesis using assms(2) False by simp
  qed
  let ?f = "frame_event e rendered ?w"
  have f: "thread ?f = Waiting" "cpu ?f = cpu m" "channel ?f = channel m @ [0xFF]"
    by (simp_all add: frame_event_channel) (simp add: receiver_alive_def)
  have fexit: "exit_status ?f = None"
    using assms(6,7) alive by (auto simp: frame_event_def send_def receiver_alive_def Let_def
        split: sum.splits if_splits)
  have "machine_step e ?w (Sent 0xFF) ?f"
    using frame_step [of ?w e rendered] assms(6) by (simp add: receiver_alive_def)
  from run_step [OF run this] have run_f: "machine_run e m0 ((evs @ ?blocks) @ [Sent 0xFF]) ?f" .
  obtain rest where "channel ?f = ?v # rest" unfolding f by (cases "channel m") auto
  from delivers [OF this disjI1, OF f(1), of e]
  obtain m' where m': "cpu_thread e ?f = Some (Taken ?v, m')" "delivered ?v ?f m'" by blast
  have "machine_run e m0 (evs @ ?blocks @ [Sent 0xFF, Taken ?v]) m'"
    using cpu_run [OF run_f fexit m'(1)] by simp
  moreover have "if stack_room (stack_pointer (cpu m))
      then thread m' = LoopTop \<and> \<not> halted (cpu m') \<and> handler_entered (ucast ?v) (cpu m) (cpu m')
      else thread m' = Crashed (stack_fault (stack_pointer (cpu m)))"
    using m'(2) assms(5) by (simp add: delivered_def f Let_def handler_entered_def split: if_splits)
  ultimately show ?thesis using blocks waits unfolding Let_def by blast
qed

lemma halted_machine:
  "\<exists>m0 m. machine_boot sample_env (Some halt_rom) None Cancelled = Inr m0 \<and>
    machine_run sample_env m0 [Quiet, Quiet, Quiet, Quiet, Quiet, Quiet] m \<and> thread m = LoopTop \<and>
    exit_status m = None \<and> channel m = [] \<and> halted (cpu m) \<and> flag_interrupt (flag (cpu m)) \<and>
    stack_pointer (cpu m) = 0x1000 \<and> exit_status (frame_event sample_env True m) = None"
proof -
  obtain m0 where boot: "machine_boot sample_env (Some halt_rom) None Cancelled = Inr m0"
    using halt_boot by blast
  obtain m where m: "machine_run sample_env m0 [Quiet, Quiet, Quiet, Quiet, Quiet, Quiet] m"
    "thread m = LoopTop" "exit_status m = None" "channel m = []" "overlays (bus (cpu m)) = overlays_new"
    "halted (cpu m)" "flag_interrupt (flag (cpu m))" "stack_pointer (cpu m) = 0x1000"
    using halting_run [OF boot] by blast
  have "exit_status (frame_event sample_env True m) = None"
    using frame_event_runs [OF _ machine_run_ok [OF m(1) machine_boot_ok [OF boot]] m(5,3)] m(2)
    by (simp add: receiver_alive_def)
  with boot m show ?thesis by blast
qed

lemma room_0x1000: "stack_room 0x1000"
  by (simp add: stack_room_def mapped_def in_ram_def)

text \<open>The machine of the witness wakes up in the handler.\<close>

theorem halted_wakes_witness:
  "\<exists>m0 m m'. machine_run sample_env m0 [Quiet, Quiet, Quiet, Quiet, Quiet, Quiet] m \<and> halted (cpu m) \<and>
    machine_run sample_env m0 [Quiet, Quiet, Quiet, Quiet, Quiet, Quiet, Quiet, Sent 0xFF, Taken 0xFF] m' \<and>
    thread m' = LoopTop \<and> \<not> halted (cpu m') \<and> stack_pointer (cpu m') = 0xFFB \<and>
    \<not> flag_interrupt (flag (cpu m'))"
proof -
  obtain m0 m where boot: "machine_boot sample_env (Some halt_rom) None Cancelled = Inr m0"
    and m: "machine_run sample_env m0 [Quiet, Quiet, Quiet, Quiet, Quiet, Quiet] m" "thread m = LoopTop"
    "exit_status m = None" "channel m = []" "halted (cpu m)" "flag_interrupt (flag (cpu m))"
    "stack_pointer (cpu m) = 0x1000" "exit_status (frame_event sample_env True m) = None"
    using halted_machine by blast
  from halted_wakes [OF boot m(1) disjI1 [OF m(2)] m(5,6,3,8)] obtain m' where
    "machine_run sample_env m0 [Quiet, Quiet, Quiet, Quiet, Quiet, Quiet, Quiet, Sent 0xFF, Taken 0xFF] m'"
    "thread m' = LoopTop" "\<not> halted (cpu m')" "handler_entered 0xFF (cpu m) (cpu m')"
    by (auto simp: Let_def room_0x1000 m(2,4,7))
  with m(1,5,7) show ?thesis by (intro exI [of _ m0] exI [of _ m] exI [of _ m']) (simp add: handler_entered_def)
qed

text \<open>In the run of the witness the vsync interrupt is sent, taken and delivered.\<close>

theorem interrupts_in_order_witness:
  "\<exists>m0 m1 m2. machine_boot sample_env (Some halt_rom) None Cancelled = Inr m0 \<and> channel m0 = [] \<and>
    machine_run sample_env m0 [Quiet, Quiet, Quiet, Quiet, Quiet, Quiet, Quiet, Sent 0xFF] m1 \<and>
    machine_step sample_env m1 (Taken 0xFF) m2 \<and> channel m2 = [] \<and>
    handler_entered 0xFF (cpu m1) (cpu m2)"
proof -
  let ?qs = "[Quiet, Quiet, Quiet, Quiet, Quiet, Quiet]"
  obtain m0 m where boot: "machine_boot sample_env (Some halt_rom) None Cancelled = Inr m0"
    and m: "machine_run sample_env m0 ?qs m" "thread m = LoopTop"
    "exit_status m = None" "channel m = []" "halted (cpu m)" "flag_interrupt (flag (cpu m))"
    "stack_pointer (cpu m) = 0x1000" "exit_status (frame_event sample_env True m) = None"
    using halted_machine by blast
  let ?w = "m\<lparr>thread := Waiting\<rparr>" let ?f = "frame_event sample_env True ?w"
  have "cpu_thread sample_env m = Some (Quiet, ?w)"
    using m(2,5,6) by (simp add: cpu_thread_def halted_get_def flag_interrupt_get_def)
  from cpu_run [OF m(1,3) this] have "machine_run sample_env m0 (?qs @ [Quiet]) ?w" .
  moreover have "machine_step sample_env ?w (Sent 0xFF) ?f"
    using frame_step [of ?w sample_env True] m(3) by (simp add: receiver_alive_def)
  ultimately have run: "machine_run sample_env m0 ((?qs @ [Quiet]) @ [Sent 0xFF]) ?f" by (rule run_step)
  have ch0: "channel m0 = []" using machine_boot_Inr [OF boot] by metis
  note order = interrupts_in_order [OF run ch0]
  have f: "thread ?f = Waiting" "cpu ?f = cpu m" "channel ?f = [0xFF]"
    using order by simp_all
  have fexit: "exit_status ?f = None"
    using m(2,3,8) by (auto simp: frame_event_def send_def receiver_alive_def Let_def
        split: sum.splits if_splits)
  obtain m' where m': "cpu_thread sample_env ?f = Some (Taken 0xFF, m')" "delivered 0xFF ?f m'"
    using order f by blast
  then have "channel m' = []" "handler_entered 0xFF (cpu ?f) (cpu m')"
    using m(6,7) by (auto simp: delivered_def f Let_def room_0x1000)
  moreover have "machine_step sample_env ?f (Taken 0xFF) m'" using fexit m'(1) by (rule cpu_step)
  ultimately show ?thesis using boot ch0 run by (intro exI [of _ m0] exI [of _ ?f] exI [of _ m']) simp
qed

section \<open>A processor that stopped\<close>

definition stopped :: "'k machine \<Rightarrow> bool" where
  "stopped m \<longleftrightarrow> thread m = Finished \<or> (\<exists>p. thread m = Crashed p)"

lemma stopped_step:
  assumes "machine_step e m ev m'" and "stopped m"
  shows "thread m' = thread m \<and> same_core (cpu m) (cpu m')"
proof -
  have dead: "\<not> receiver_alive m" "\<And>e. cpu_thread e m = None"
    using assms(2) by (auto simp: stopped_def receiver_alive_def cpu_thread_def)
  have "thread (audio_iteration m) = thread m \<and> same_core (cpu m) (cpu (audio_iteration m))"
  proof (cases "playing (audio (bus (cpu m)))")
    case True
    then show ?thesis unfolding audio_iteration_eq [OF True] using dead by (auto simp: Let_def set_audio_def)
  qed (auto simp: audio_iteration_def Let_def)
  then show ?thesis
    using assms(1) dead
    by (auto elim!: machine_stepE simp: frame_event_def send_def key_event_def mouse_event_def
        quit_event_def Let_def)
qed

text \<open>
  C30. A stopped processor stays stopped. Once the CPU thread has left its loop (halted with
  interrupts disabled) or panicked, nothing the other threads do changes a register, a flag or
  the memory; the thread takes no further step, and the next frame ends the process.
\<close>

theorem stopped_processor:
  assumes "machine_run e m evs m'" and "stopped m"
  shows "thread m' = thread m \<and> same_core (cpu m) (cpu m') \<and> cpu_thread e m' = None \<and>
    exit_status (frame_event e rendered m') = Some Closed"
proof -
  have "thread m' = thread m \<and> same_core (cpu m) (cpu m')"
    using assms
  proof (induction rule: machine_run.induct)
    case (run_step m evs m' ev m'')
    then have "stopped m'" by (simp add: stopped_def)
    from stopped_step [OF run_step(2) this] run_step show ?case by (auto intro: same_core_trans)
  qed auto
  moreover from this have "stopped m'" using assms(2) by (simp add: stopped_def)
  then have "cpu_thread e m' = None" "\<not> receiver_alive m'"
    by (auto simp: stopped_def receiver_alive_def cpu_thread_def)
  ultimately show ?thesis by (simp add: frame_event_def send_def)
qed

text \<open>The machine of the witness halts before it enables interrupts.\<close>

lemma nop_boot: "\<exists>m. machine_boot sample_env (Some nop_rom) None Cancelled = Inr m"
  by (simp add: machine_boot_def insert_argument_def read_rom_def Let_def)

theorem stopped_processor_witness:
  "\<exists>m m'. cpu_thread sample_env m = Some (Quiet, m') \<and> halted (cpu m) \<and> stopped m' \<and>
     exit_status (frame_event sample_env True m') = Some Closed"
proof -
  obtain m where boot: "machine_boot sample_env (Some nop_rom) None Cancelled = Inr m"
    using nop_boot by blast
  let ?h = "m\<lparr>cpu := (cpu m)\<lparr>halted := True\<rparr>\<rparr>"
  let ?f = "?h\<lparr>thread := Finished\<rparr>"
  have "\<not> flag_interrupt (flag (cpu m))" using machine_boot_cpu [OF boot] by blast
  moreover have "thread m = LoopTop" using machine_boot_Inr [OF boot] by metis
  ultimately have "cpu_thread sample_env ?h = Some (Quiet, ?f)"
    by (simp add: cpu_thread_def halted_get_def flag_interrupt_get_def)
  moreover have "stopped ?f" by (simp add: stopped_def)
  moreover note stopped_processor [OF run_nil [of sample_env ?f] this, of True]
  ultimately show ?thesis by (intro exI [of _ ?h] exI [of _ ?f]) simp
qed

section \<open>Audio\<close>

lemma audio_samples_nth:
  assumes "length bytes = 2 * n"
  shows "length (audio_samples bytes) = n \<and>
    (\<forall>i<n. audio_samples bytes ! i = le_word_16 [bytes ! (2 * i), bytes ! (2 * i + 1)])"
  using assms
proof (induction n arbitrary: bytes)
  case 0
  then show ?case by simp
next
  case (Suc n)
  then obtain x0 x1 rest where b: "bytes = x0 # x1 # rest" "length rest = 2 * n"
    by (auto simp: length_Suc_conv)
  have s: "audio_samples bytes = le_word_16 [x0, x1] # audio_samples rest"
    by (simp add: b(1) le_word_16_def or.commute)
  show ?case unfolding s using Suc.IH [OF b(2)] by (auto simp: b(1) nth_Cons split: nat.splits)
qed

definition audio_chunk :: "(nat \<Rightarrow> u8) \<Rightarrow> bool \<Rightarrow> u16 list" where
  "audio_chunk bytes first =
     map (\<lambda>i. le_word_16 [bytes ((if first then 0x0212C000 else 0x02134000) + 2 * i),
                          bytes ((if first then 0x0212C000 else 0x02134000) + 2 * i + 1)]) [0..<16384]"

lemma audio_chunk_samples:
  "audio_samples (get_slice bytes (if first then 0x0212C000 else 0x0212C000 + 32768) 32768) =
     audio_chunk bytes first"
proof (rule nth_equalityI)
  let ?b = "get_slice bytes (if first then 0x0212C000 else 0x0212C000 + 32768) 32768"
  have *: "length (audio_samples ?b) = 16384"
    "\<And>i. i < 16384 \<Longrightarrow> audio_samples ?b ! i = le_word_16 [?b ! (2 * i), ?b ! (2 * i + 1)]"
    using audio_samples_nth [of ?b 16384] by auto
  show "length (audio_samples ?b) = length (audio_chunk bytes first)"
    by (simp add: * audio_chunk_def)
  fix i assume "i < length (audio_samples ?b)"
  then have i: "i < 16384" by (simp only: *(1))
  have "?b ! j = bytes ((if first then 0x0212C000 else 0x0212C000 + 32768) + j)" if "j < 32768" for j
    using that by (simp add: get_slice_def)
  then show "audio_samples ?b ! i = audio_chunk bytes first ! i"
    unfolding *(2) [OF i] using i by (simp add: audio_chunk_def)
qed

text \<open>
  C32. Double buffering. While a program plays and the CPU thread runs, two iterations of the
  audio loop play the current buffer and the other one, each as 16384 little-endian samples of
  the RAM at \<open>0x0212C000\<close> and \<open>0x02134000\<close>, and send one interrupt each; the third would play
  the first buffer again.
\<close>

theorem audio_buffers_alternate:
  assumes "playing (audio (bus (cpu m)))" and "receiver_alive m"
  shows "let bytes = ram (memory (bus (cpu m))); first = current_buffer_is_0 (audio (bus (cpu m)));
      m' = audio_iteration (audio_iteration m) in
    sink m' = sink m @ [audio_chunk bytes first, audio_chunk bytes (\<not> first)] \<and>
    channel m' = channel m @ [0xFE, 0xFE] \<and> audio (bus (cpu m')) = audio (bus (cpu m)) \<and>
    same_core (cpu m) (cpu m')"
proof -
  let ?a = "audio (bus (cpu m))" and ?bytes = "ram (memory (bus (cpu m)))"
  have once: "audio_iteration k = (set_audio (a\<lparr>current_buffer_is_0 := \<not> current_buffer_is_0 a\<rparr>) k)
      \<lparr>sink := sink k @ [audio_chunk (ram (memory (bus (cpu k)))) (current_buffer_is_0 a)],
       channel := channel k @ [0xFE]\<rparr>"
    if "audio (bus (cpu k)) = a" "playing a" "receiver_alive k" for k a
    using audio_iteration_eq [of k] that by (simp add: Let_def audio_chunk_samples)
  let ?m1 = "audio_iteration m"
  have m1: "audio (bus (cpu ?m1)) = ?a\<lparr>current_buffer_is_0 := \<not> current_buffer_is_0 ?a\<rparr>"
    "receiver_alive ?m1" "ram (memory (bus (cpu ?m1))) = ?bytes"
    using assms by (simp_all add: once set_audio_def receiver_alive_def)
  have "audio_iteration ?m1 = (set_audio (?a\<lparr>current_buffer_is_0 := current_buffer_is_0 ?a\<rparr>) ?m1)
      \<lparr>sink := sink ?m1 @ [audio_chunk ?bytes (\<not> current_buffer_is_0 ?a)],
       channel := channel ?m1 @ [0xFE]\<rparr>"
    using once [OF m1(1) _ m1(2)] assms(1) m1(3) by simp
  then show ?thesis
    using assms by (auto simp: Let_def once set_audio_def)
qed

theorem audio_buffers_alternate_witness:
  "\<exists>m. machine_boot sample_env (Some nop_rom) None Cancelled = Inr m \<and>
    (let k = set_audio \<lparr>current_buffer_is_0 = True, playing = True\<rparr> m;
         k' = audio_iteration (audio_iteration k) in
     channel k' = [0xFE, 0xFE] \<and> length (sink k') = 2)"
proof -
  obtain m where boot: "machine_boot sample_env (Some nop_rom) None Cancelled = Inr m"
    using nop_boot by blast
  have m: "thread m = LoopTop" "channel m = []" "sink m = []"
    using machine_boot_Inr [OF boot] by metis+
  let ?k = "set_audio \<lparr>current_buffer_is_0 = True, playing = True\<rparr> m"
  have "playing (audio (bus (cpu ?k)))" by (simp add: set_audio_def)
  moreover have "receiver_alive ?k" using m(1) by (simp add: receiver_alive_def)
  ultimately show ?thesis
    using audio_buffers_alternate [of ?k] boot m by (auto simp: Let_def)
qed

end
