(* ===== verification/Ast.thy ===== *)
theory Ast
  imports Isa
begin

text \<open>
  The syntax tree of the assembler (\<open>fox32asm/src/main.rs\<close>) and the encoding of one instruction:
  the two opcode bytes. The assembler and the processor each declare an enumeration of sizes and
  one of conditions, with the same variants; both are the types of \<open>Isa\<close> here. A string is the
  list of its UTF-8 bytes.
\<close>

section \<open>Syntax tree\<close>

datatype instruction_zero = Z_Nop | Z_Halt | Z_Brk | Z_Ret | Z_Reti | Z_Ise | Z_Icl

datatype instruction_one =
    O_Inc | O_Dec | O_Not | O_Jmp | O_Call | O_Loop | O_Rjmp | O_Rcall | O_Rloop | O_Push | O_Pop

datatype (plugins only: code size) instruction_two =
    T_Add | T_Sub | T_Mul | T_Div | T_Rem | T_And | T_Or | T_Xor | T_Sla | T_Sra | T_Srl
  | T_Rol | T_Ror | T_Bse | T_Bcl | T_Bts | T_Cmp | T_Mov | T_Movz | T_Rta | T_In | T_Out

datatype label_kind = LabelInternal | LabelExternal | LabelGlobal

datatype ast_node =
    OperationZero condition instruction_zero
  | OperationOne size condition instruction_one ast_node
  | OperationTwo size condition instruction_two ast_node ast_node
  | Immediate8 u8
  | Immediate16 u16
  | Immediate32 u32
  | Register u8
  | ImmediatePointer u32
  | RegisterPointer u8
  | Constant string u32
  | LabelDefine string label_kind
  | LabelOperand string size bool
  | LabelOperandPointer string bool
  | DataByte u8
  | DataHalf u16
  | DataWord u32
  | DataStr string
  | DataFill u8 u32
  | IncludedBinary "u8 list"
  | Origin u32
  | OriginPadded u32

section \<open>The opcode byte\<close>

definition size_to_byte :: "size \<Rightarrow> u8" where
  "size_to_byte sz = (case sz of SizeByte \<Rightarrow> 0x00 | SizeHalf \<Rightarrow> 0x40 | SizeWord \<Rightarrow> 0x80)"

definition instruction_to_byte :: "ast_node \<Rightarrow> u8 res" where
  "instruction_to_byte node =
     (case node of
        OperationZero _ instr \<Rightarrow> Inr (case instr of
            Z_Nop \<Rightarrow> 0x00 OR size_to_byte SizeWord
          | Z_Halt \<Rightarrow> 0x10 OR size_to_byte SizeWord
          | Z_Brk \<Rightarrow> 0x20 OR size_to_byte SizeWord
          | Z_Ret \<Rightarrow> 0x2A OR size_to_byte SizeWord
          | Z_Reti \<Rightarrow> 0x3A OR size_to_byte SizeWord
          | Z_Ise \<Rightarrow> 0x0C OR size_to_byte SizeWord
          | Z_Icl \<Rightarrow> 0x1C OR size_to_byte SizeWord)
      | OperationOne sz _ instr _ \<Rightarrow> Inr (case instr of
            O_Inc \<Rightarrow> 0x11 OR size_to_byte sz
          | O_Dec \<Rightarrow> 0x31 OR size_to_byte sz
          | O_Not \<Rightarrow> 0x33 OR size_to_byte sz
          | O_Jmp \<Rightarrow> 0x08 OR size_to_byte sz
          | O_Call \<Rightarrow> 0x18 OR size_to_byte sz
          | O_Loop \<Rightarrow> 0x28 OR size_to_byte sz
          | O_Rjmp \<Rightarrow> 0x09 OR size_to_byte sz
          | O_Rcall \<Rightarrow> 0x19 OR size_to_byte sz
          | O_Rloop \<Rightarrow> 0x29 OR size_to_byte sz
          | O_Push \<Rightarrow> 0x0A OR size_to_byte sz
          | O_Pop \<Rightarrow> 0x1A OR size_to_byte sz)
      | OperationTwo sz _ instr _ _ \<Rightarrow> Inr (case instr of
            T_Add \<Rightarrow> 0x01 OR size_to_byte sz
          | T_Sub \<Rightarrow> 0x21 OR size_to_byte sz
          | T_Mul \<Rightarrow> 0x02 OR size_to_byte sz
          | T_Div \<Rightarrow> 0x22 OR size_to_byte sz
          | T_Rem \<Rightarrow> 0x32 OR size_to_byte sz
          | T_And \<Rightarrow> 0x03 OR size_to_byte sz
          | T_Or \<Rightarrow> 0x13 OR size_to_byte sz
          | T_Xor \<Rightarrow> 0x23 OR size_to_byte sz
          | T_Sla \<Rightarrow> 0x04 OR size_to_byte sz
          | T_Sra \<Rightarrow> 0x05 OR size_to_byte sz
          | T_Srl \<Rightarrow> 0x15 OR size_to_byte sz
          | T_Rol \<Rightarrow> 0x24 OR size_to_byte sz
          | T_Ror \<Rightarrow> 0x25 OR size_to_byte sz
          | T_Bse \<Rightarrow> 0x06 OR size_to_byte sz
          | T_Bcl \<Rightarrow> 0x16 OR size_to_byte sz
          | T_Bts \<Rightarrow> 0x26 OR size_to_byte sz
          | T_Cmp \<Rightarrow> 0x07 OR size_to_byte sz
          | T_Mov \<Rightarrow> 0x17 OR size_to_byte sz
          | T_Movz \<Rightarrow> 0x27 OR size_to_byte sz
          | T_Rta \<Rightarrow> 0x39 OR size_to_byte sz
          | T_In \<Rightarrow> 0x0B OR size_to_byte sz
          | T_Out \<Rightarrow> 0x1B OR size_to_byte sz)
      | _ \<Rightarrow> Inl NotAnInstruction)"

section \<open>The operand byte\<close>

definition source_bits :: "ast_node \<Rightarrow> u8 res" where
  "source_bits opnd =
     (case opnd of
        Register _ \<Rightarrow> Inr 0x00
      | RegisterPointer _ \<Rightarrow> Inr 0x01
      | Immediate8 _ \<Rightarrow> Inr 0x02
      | Immediate16 _ \<Rightarrow> Inr 0x02
      | Immediate32 _ \<Rightarrow> Inr 0x02
      | LabelOperand _ _ _ \<Rightarrow> Inr 0x02
      | ImmediatePointer _ \<Rightarrow> Inr 0x03
      | LabelOperandPointer _ _ \<Rightarrow> Inr 0x03
      | _ \<Rightarrow> Inl NotAnInstruction)"

definition destination_bits :: "ast_node \<Rightarrow> u8 res" where
  "destination_bits opnd =
     (case opnd of
        Register _ \<Rightarrow> Inr 0x00
      | RegisterPointer _ \<Rightarrow> Inr 0x04
      | ImmediatePointer _ \<Rightarrow> Inr 0x0C
      | LabelOperandPointer _ _ \<Rightarrow> Inr 0x0C
      | _ \<Rightarrow> Inl NotAnInstruction)"

definition condition_bits :: "condition \<Rightarrow> u8" where
  "condition_bits condition =
     (case condition of
        CondAlways \<Rightarrow> 0x00
      | CondZero \<Rightarrow> 0x10
      | CondNotZero \<Rightarrow> 0x20
      | CondCarry \<Rightarrow> 0x30
      | CondNotCarry \<Rightarrow> 0x40
      | CondGreaterThan \<Rightarrow> 0x50
      | CondLessThanEqualTo \<Rightarrow> 0x60)"

definition condition_source_destination_to_byte :: "ast_node \<Rightarrow> u8 res" where
  "condition_source_destination_to_byte node =
     rbind (case node of
         OperationZero _ _ \<Rightarrow> Inr 0x00
       | OperationOne _ _ _ opnd \<Rightarrow> source_bits opnd
       | OperationTwo _ _ _ _ rhs \<Rightarrow> source_bits rhs
       | _ \<Rightarrow> Inl NotAnInstruction) (\<lambda>source.
     rbind (case node of
         OperationZero _ _ \<Rightarrow> Inr 0x00
       | OperationOne _ _ _ _ \<Rightarrow> Inr 0x00
       | OperationTwo _ _ _ lhs _ \<Rightarrow> destination_bits lhs
       | _ \<Rightarrow> Inl NotAnInstruction) (\<lambda>destination.
     rbind (case node of
         OperationZero condition _ \<Rightarrow> Inr (condition_bits condition)
       | OperationOne _ condition _ _ \<Rightarrow> Inr (condition_bits condition)
       | OperationTwo _ condition _ _ _ \<Rightarrow> Inr (condition_bits condition)
       | _ \<Rightarrow> Inl NotAnInstruction) (\<lambda>condition.
     Inr (condition OR source OR destination))))"

end
