(* ===== verification/Encoding.thy ===== *)
theory Encoding
  imports Ast
begin

text \<open>
  The encoder of \<open>fox32asm/src/main.rs\<close> against the decoder of \<open>fox32/src/cpu.rs\<close>: what the two
  opcode bytes of a syntax tree decode to.
\<close>

section \<open>The fields of an assembled opcode\<close>

lemma word_16_fields:
  fixes lo hi :: u8
  defines "half \<equiv> le_word_16 [lo, hi]"
  shows "ucast (drop_bit 14 half) = drop_bit 6 hi" and "ucast (drop_bit 8 half) = hi"
    and "ucast (half AND 0x000F) = lo AND 0x0F" and "ucast (half AND 0x00F0) = lo AND 0xF0"
    and "ucast (drop_bit 2 (half AND 0x000F)) = drop_bit 2 (lo AND 0x0F)"
proof -
  have bits: "bit half n \<longleftrightarrow> (if n < 8 then bit lo n else n < 16 \<and> bit hi (n - 8))" for n
    using bit_imp_le_length [of lo n] bit_imp_le_length [of hi "n - 8"]
    by (auto simp: half_def le_word_16_def bit_simps)
  have m: "(0x000F :: u16) = mask 4" "(0x0F :: u8) = mask 4" 
    "(0x00F0 :: u16) = push_bit 4 (mask 4)" "(0xF0 :: u8) = push_bit 4 (mask 4)"
    by (simp_all add: mask_eq_exp_minus_1)
  show "ucast (drop_bit 14 half) = drop_bit 6 hi" "ucast (drop_bit 8 half) = hi"
    by (rule bit_word_eqI; use bit_imp_le_length [of hi] in \<open>force simp: bit_simps bits\<close>)+
  show "ucast (half AND 0x000F) = lo AND 0x0F" "ucast (half AND 0x00F0) = lo AND 0xF0"
    "ucast (drop_bit 2 (half AND 0x000F)) = drop_bit 2 (lo AND 0x0F)"
    unfolding m by (rule bit_word_eqI; auto simp: bit_simps bits)+
qed

section \<open>What an assembled opcode means\<close>

definition immediate_operand :: "size \<Rightarrow> operand" where
  "immediate_operand sz =
     (case sz of SizeByte \<Rightarrow> OpImmediate8 | SizeHalf \<Rightarrow> OpImmediate16 | SizeWord \<Rightarrow> OpImmediate32)"

text \<open>The operand a node stands for in an instruction of size \<open>sz\<close>.\<close>

definition operand_of :: "size \<Rightarrow> ast_node \<Rightarrow> operand" where
  "operand_of sz opnd =
     (case opnd of
        Register _ \<Rightarrow> OpRegister
      | RegisterPointer _ \<Rightarrow> OpRegisterPtr
      | ImmediatePointer _ \<Rightarrow> OpImmediatePtr sz
      | LabelOperandPointer _ _ \<Rightarrow> OpImmediatePtr sz
      | _ \<Rightarrow> immediate_operand sz)"

definition instruction_of :: "ast_node \<Rightarrow> instruction" where
  "instruction_of node =
     (case node of
        OperationZero cond instr \<Rightarrow>
          (case instr of
             Z_Nop \<Rightarrow> I_Nop | Z_Halt \<Rightarrow> I_Halt cond | Z_Brk \<Rightarrow> I_Brk cond | Z_Ret \<Rightarrow> I_Ret cond
           | Z_Reti \<Rightarrow> I_Reti cond | Z_Ise \<Rightarrow> I_Ise cond | Z_Icl \<Rightarrow> I_Icl cond)
      | OperationOne sz cond instr opnd \<Rightarrow>
          (let src = operand_of sz opnd in case instr of
             O_Inc \<Rightarrow> I_Inc sz cond src | O_Dec \<Rightarrow> I_Dec sz cond src | O_Not \<Rightarrow> I_Not sz cond src
           | O_Jmp \<Rightarrow> I_Jmp cond src | O_Call \<Rightarrow> I_Call cond src | O_Loop \<Rightarrow> I_Loop cond src
           | O_Rjmp \<Rightarrow> I_Rjmp cond src | O_Rcall \<Rightarrow> I_Rcall cond src | O_Rloop \<Rightarrow> I_Rloop cond src
           | O_Push \<Rightarrow> I_Push sz cond src | O_Pop \<Rightarrow> I_Pop sz cond src)
      | OperationTwo sz cond instr lhs rhs \<Rightarrow>
          (let src = operand_of sz rhs; dst = operand_of sz lhs in case instr of
             T_Add \<Rightarrow> I_Add sz cond dst src | T_Sub \<Rightarrow> I_Sub sz cond dst src
           | T_Mul \<Rightarrow> I_Mul sz cond dst src | T_Div \<Rightarrow> I_Div sz cond dst src
           | T_Rem \<Rightarrow> I_Rem sz cond dst src | T_And \<Rightarrow> I_And sz cond dst src
           | T_Or \<Rightarrow> I_Or sz cond dst src | T_Xor \<Rightarrow> I_Xor sz cond dst src
           | T_Sla \<Rightarrow> I_Sla sz cond dst src | T_Sra \<Rightarrow> I_Sra sz cond dst src
           | T_Srl \<Rightarrow> I_Srl sz cond dst src | T_Rol \<Rightarrow> I_Rol sz cond dst src
           | T_Ror \<Rightarrow> I_Ror sz cond dst src | T_Bse \<Rightarrow> I_Bse sz cond dst src
           | T_Bcl \<Rightarrow> I_Bcl sz cond dst src | T_Bts \<Rightarrow> I_Bts sz cond dst src
           | T_Cmp \<Rightarrow> I_Cmp sz cond dst src | T_Mov \<Rightarrow> I_Mov sz cond dst src
           | T_Movz \<Rightarrow> I_Movz sz cond dst src | T_Rta \<Rightarrow> I_Rta cond dst src
           | T_In \<Rightarrow> I_In cond dst src | T_Out \<Rightarrow> I_Out cond dst src)
      | _ \<Rightarrow> I_Nop)"

lemma low_byte_fields:
  assumes "sb \<in> {0, 1, 2, 3}" and "db \<in> {0, 4, 12}"
  shows "(condition_bits cond OR sb OR db) AND 0xF0 = condition_bits cond"
    and "((condition_bits cond OR sb OR db) AND 0x0F) AND 3 = sb"
    and "drop_bit 2 ((condition_bits cond OR sb OR db) AND 0x0F) AND 3 = drop_bit 2 db"
  using assms by (cases cond; auto simp: condition_bits_def)+

lemma source_bits_range: "source_bits opnd = Inr sb \<Longrightarrow> sb \<in> {0, 1, 2, 3}"
  by (auto simp: source_bits_def split: ast_node.splits)

lemma destination_bits_range: "destination_bits opnd = Inr db \<Longrightarrow> db \<in> {0, 4, 12}"
  by (auto simp: destination_bits_def split: ast_node.splits)

lemma decode_source_bits:
  assumes "source_bits opnd = Inr sb" and "(ucast (half AND 0x000F) :: u8) AND 3 = sb"
  shows "decode_source sz half = Some (operand_of sz opnd)"
  using assms by (auto simp: source_bits_def decode_source_def operand_of_def immediate_operand_def Let_def
      split: ast_node.splits)

lemma decode_destination_bits:
  assumes "destination_bits opnd = Inr db"
    and "(ucast (drop_bit 2 (half AND 0x000F)) :: u8) AND 3 = drop_bit 2 db"
  shows "decode_destination sz half = Some (operand_of sz opnd)"
  using assms by (auto simp: destination_bits_def decode_destination_def operand_of_def Let_def
      split: ast_node.splits)

lemma decode_condition_bits:
  assumes "(ucast (half AND 0x00F0) :: u8) = condition_bits cond"
  shows "decode_condition half = Some cond"
  using assms by (cases cond) (simp_all add: decode_condition_def condition_bits_def)

lemma high_byte_fields:
  assumes "op AND 0x3F = op"
  shows "drop_bit 6 (op OR size_to_byte sz) AND 3 = drop_bit 6 (size_to_byte sz)"
    and "(op OR size_to_byte sz) AND 0x3F = op"
proof -
  have m: "(0x3F :: u8) = mask 6" "(3 :: u8) = mask 2" by (simp_all add: mask_eq_exp_minus_1)
  have s: "size_to_byte sz = push_bit 6 (drop_bit 6 (size_to_byte sz))"
    by (cases sz) (simp_all add: size_to_byte_def)
  have op: "bit op n \<Longrightarrow> n < 6" for n
    using assms unfolding m by (metis bit_and_iff bit_mask_iff)
  show "drop_bit 6 (op OR size_to_byte sz) AND 3 = drop_bit 6 (size_to_byte sz)"
    unfolding m by (rule bit_word_eqI; use op in \<open>auto simp: bit_simps dest: bit_imp_le_length\<close>)
  show "(op OR size_to_byte sz) AND 0x3F = op"
    unfolding m by (subst s, rule bit_word_eqI; use op in \<open>auto simp: bit_simps\<close>)
qed

lemma from_half_fields:
  assumes "op AND 0x3F = op" and "source_bits s = Inr sb" and "destination_bits d = Inr db"
  shows "from_half (le_word_16 [condition_bits cond OR sb OR db, op OR size_to_byte sz]) =
    decode_opcode op sz cond (operand_of sz d) (operand_of sz s)"
proof -
  let ?lo = "condition_bits cond OR sb OR db" and ?hi = "op OR size_to_byte sz"
  note low = low_byte_fields [OF source_bits_range [OF assms(2)] destination_bits_range [OF assms(3)]]
  note high = high_byte_fields [OF assms(1)]
  have "decode_size (le_word_16 [?lo, ?hi]) = Some sz"
    unfolding decode_size_def word_16_fields(1) high(1)
    by (cases sz) (simp_all add: size_to_byte_def)
  moreover have "decode_source sz (le_word_16 [?lo, ?hi]) = Some (operand_of sz s)"
    by (rule decode_source_bits [OF assms(2)]) (simp only: word_16_fields low(2))
  moreover have "decode_destination sz (le_word_16 [?lo, ?hi]) = Some (operand_of sz d)"
    by (rule decode_destination_bits [OF assms(3)]) (simp only: word_16_fields low(3))
  moreover have "decode_condition (le_word_16 [?lo, ?hi]) = Some cond"
    by (rule decode_condition_bits) (simp only: word_16_fields low(1))
  ultimately show ?thesis
    by (simp only: from_half_def Option.bind.bind_lunit Let_def word_16_fields(2) high(2))
qed

lemma opcode_decodes:
  assumes "instruction_to_byte node = Inr hi" and "condition_source_destination_to_byte node = Inr lo"
  shows "from_half (le_word_16 [lo, hi]) = Some (instruction_of node)"
proof (cases node)
  case (OperationZero cond instr)
  with assms have lo: "lo = condition_bits cond OR 0 OR 0"
    by (simp add: condition_source_destination_to_byte_def)
  have regs: "source_bits (Register 0) = Inr 0" "destination_bits (Register 0) = Inr 0"
    by (simp_all add: source_bits_def destination_bits_def)
  note zero = from_half_fields [of 0, OF _ regs, simplified]
    and word = from_half_fields [OF _ regs, simplified]
  show ?thesis
    using assms(1) unfolding lo OperationZero
    by (cases instr)
       (auto simp: instruction_to_byte_def zero word decode_opcode_def instruction_of_def)
next
  case (OperationOne sz cond instr opnd)
  with assms obtain sb where sb: "source_bits opnd = Inr sb" and lo: "lo = condition_bits cond OR sb OR 0"
    by (auto simp: condition_source_destination_to_byte_def rbind_eq_Inr)
  have reg: "destination_bits (Register 0) = Inr 0"
    by (simp add: destination_bits_def)
  show ?thesis
    using assms(1) unfolding lo OperationOne
    by (cases instr)
       (auto simp: instruction_to_byte_def from_half_fields [OF _ sb reg, simplified] decode_opcode_def instruction_of_def)
next
  case (OperationTwo sz cond instr lhs rhs)
  with assms obtain sb db where sb: "source_bits rhs = Inr sb" and db: "destination_bits lhs = Inr db"
    and lo: "lo = condition_bits cond OR sb OR db"
    by (auto simp: condition_source_destination_to_byte_def rbind_eq_Inr)
  show ?thesis
    using assms(1) unfolding lo OperationTwo
    by (cases instr)
       (auto simp: instruction_to_byte_def from_half_fields [OF _ sb db] decode_opcode_def instruction_of_def)
qed (use assms in \<open>simp_all add: instruction_to_byte_def\<close>)

text \<open>
  C9. Encoding and decoding. The two opcode bytes the assembler emits for an instruction, read
  back as a little-endian half, decode to that instruction: same operation, size, condition and
  operand kinds.
\<close>

theorem encode_decode:
  assumes "instruction_to_byte node = Inr hi" and "condition_source_destination_to_byte node = Inr lo"
  shows "from_half (le_word_16 [lo, hi]) = Some (instruction_of node)"
  using assms by (rule opcode_decodes)

theorem encode_decode_witness:
  "from_half (le_word_16 [0x52, 0x57]) = Some (I_Mov SizeHalf CondGreaterThan OpRegister OpImmediate16)"
  using encode_decode [of "OperationTwo SizeHalf CondGreaterThan T_Mov (Register 1) (Immediate16 2)" "0x57" "0x52"]
  by (simp add: instruction_to_byte_def size_to_byte_def condition_source_destination_to_byte_def
      source_bits_def destination_bits_def condition_bits_def instruction_of_def operand_of_def
      immediate_operand_def)

section \<open>Which opcodes decode\<close>

lemma u8_of_unat: "unat (x :: u8) = n \<Longrightarrow> x = word_of_nat n"
  by auto

lemma two_bits: "(x :: u8) AND 3 = 0 \<or> x AND 3 = 1 \<or> x AND 3 = 2 \<or> x AND 3 = 3"
proof -
  have m: "(3 :: u8) = mask 2" by (simp add: mask_eq_exp_minus_1)
  have "unat (x AND 3) < 4"
    unfolding m take_bit_eq_mask [symmetric] unsigned_take_bit_eq by (simp add: take_bit_nat_less_exp [of 2, simplified])
  then have "unat (x AND 3) = 0 \<or> unat (x AND 3) = 1 \<or> unat (x AND 3) = 2 \<or> unat (x AND 3) = 3"
    by linarith
  then show ?thesis
    by (elim disjE) (drule u8_of_unat, simp)+
qed

lemma decode_size_None: "decode_size (le_word_16 [lo, hi]) = None \<longleftrightarrow> drop_bit 6 hi AND 3 = 3"
  using two_bits [of "drop_bit 6 hi"] unfolding decode_size_def word_16_fields Let_def by auto

lemma decode_source_Some: "\<exists>s. decode_source sz (le_word_16 [lo, hi]) = Some s"
  using two_bits [of "lo AND 0x0F"] unfolding decode_source_def word_16_fields Let_def by auto

lemma decode_destination_None:
  "decode_destination sz (le_word_16 [lo, hi]) = None \<longleftrightarrow> drop_bit 2 (lo AND 0x0F) AND 3 = 2"
  using two_bits [of "drop_bit 2 (lo AND 0x0F)"]
  unfolding decode_destination_def word_16_fields Let_def by auto

lemma decode_condition_None:
  "decode_condition (le_word_16 [lo, hi]) = None \<longleftrightarrow>
     lo AND 0xF0 \<notin> {0x00, 0x10, 0x20, 0x30, 0x40, 0x50, 0x60}"
  unfolding decode_condition_def word_16_fields Let_def by auto

definition opcodes :: "u8 list" where
  "opcodes =
     [0x00, 0x10, 0x20, 0x01, 0x11, 0x21, 0x31, 0x02, 0x22, 0x32, 0x03, 0x13, 0x23, 0x33, 0x04, 0x24,
      0x05, 0x15, 0x25, 0x06, 0x16, 0x26, 0x07, 0x17, 0x27, 0x08, 0x18, 0x28, 0x09, 0x19, 0x29, 0x39,
      0x0A, 0x1A, 0x2A, 0x3A, 0x0B, 0x1B, 0x0C, 0x1C]"

lemma decode_opcode_None: "decode_opcode op sz cond dst src = None \<longleftrightarrow> op \<notin> set opcodes"
  unfolding decode_opcode_def opcodes_def by simp

text \<open>
  Which opcodes decode. A pair of opcode bytes decodes unless its size field is 3, its
  condition is not one of the seven, its destination field is 2 (an immediate), or its instruction
  field is none of the forty.
\<close>

theorem decode_domain:
  "from_half (le_word_16 [lo, hi]) = None \<longleftrightarrow>
     drop_bit 6 hi AND 3 = 3 \<or> lo AND 0xF0 \<notin> {0x00, 0x10, 0x20, 0x30, 0x40, 0x50, 0x60} \<or>
     drop_bit 2 (lo AND 0x0F) AND 3 = 2 \<or> hi AND 0x3F \<notin> set opcodes"
proof -
  have "from_half (le_word_16 [lo, hi]) = None \<longleftrightarrow>
      decode_size (le_word_16 [lo, hi]) = None \<or> decode_condition (le_word_16 [lo, hi]) = None \<or>
      drop_bit 2 (lo AND 0x0F) AND 3 = 2 \<or> hi AND 0x3F \<notin> set opcodes"
  proof (cases "decode_size (le_word_16 [lo, hi])")
    case sz: (Some sz)
    obtain s where s: "decode_source sz (le_word_16 [lo, hi]) = Some s"
      using decode_source_Some by blast
    show ?thesis
    proof (cases "decode_destination sz (le_word_16 [lo, hi])")
      case None
      then show ?thesis
        using decode_destination_None [of sz lo hi] by (simp add: from_half_def Let_def sz s)
    next
      case d: (Some d)
      then have "drop_bit 2 (lo AND 0x0F) AND 3 \<noteq> 2"
        using decode_destination_None [of sz lo hi] by auto
      then show ?thesis
        by (cases "decode_condition (le_word_16 [lo, hi])")
           (simp_all add: from_half_def Let_def sz s d decode_opcode_None word_16_fields(2) del: bit_simps)
    qed
  qed (simp add: from_half_def)
  then show ?thesis by (simp only: decode_size_None decode_condition_None)
qed

theorem decode_domain_witness:
  "from_half (le_word_16 [0x08, 0x17]) = None \<and> from_half (le_word_16 [0x04, 0xD7]) = None \<and>
   from_half (le_word_16 [0x04, 0x97]) \<noteq> None"
  using decode_domain [of "0x08" "0x17"] decode_domain [of "0x04" "0xD7"] decode_domain [of "0x04" "0x97"]
  by (simp add: opcodes_def)

end
