(* ===== verification/Assembler.thy ===== *)
theory Assembler
  imports Ast
begin

text \<open>
  The back end of the assembler (\<open>fox32asm/src/main.rs\<close>): from the syntax tree to the bytes of
  the program, with labels filled in at the end, and the FXF container with its relocation
  table.

  An \<open>AssembledInstruction\<close> of the source is a pair of shared cells, held by the list of
  instructions and by the backpatch targets that point into it. It is an index of \<open>store\<close> here:
  the main loop makes each one and appends it to its list at once, so the list of instructions
  is the store, in order. The global tables (\<open>LABEL_TARGETS\<close>, \<open>LABEL_ADDRESSES\<close>,
  \<open>RELOC_ADDRESSES\<close>) are fields of the state. \<open>chk\<close> says whether the build has overflow checks.
\<close>

section \<open>State\<close>

record backpatch_target =
  bt_index :: nat
  bt_size :: size
  bt_relative :: bool
  bt_instruction :: nat

record assembled_instruction =
  ai_value :: "u8 list"
  ai_address :: u32

record assembler =
  store :: "assembled_instruction list"
  label_targets :: "string \<rightharpoonup> backpatch_target list"
  label_addresses :: "string \<rightharpoonup> u32 \<times> bool"
  reloc_addresses :: "u32 list"
  current_address :: u32

definition assembler_new :: assembler where
  "assembler_new =
     \<lparr>store = [], label_targets = Map.empty, label_addresses = Map.empty, reloc_addresses = [],
      current_address = 0\<rparr>"

text \<open>A new \<open>AssembledInstruction\<close> at address 0, and its identity.\<close>

definition new_instruction :: "u8 list \<Rightarrow> assembler \<Rightarrow> nat \<times> assembler" where
  "new_instruction bs st =
     (length (store st), st\<lparr>store := store st @ [\<lparr>ai_value = bs, ai_address = 0\<rparr>]\<rparr>)"

definition set_address :: "nat \<Rightarrow> u32 \<Rightarrow> assembler \<Rightarrow> assembler" where
  "set_address i a st = st\<lparr>store := (store st)[i := (store st ! i)\<lparr>ai_address := a\<rparr>]\<rparr>"

definition extend_instruction :: "nat \<Rightarrow> u8 list \<Rightarrow> assembler \<Rightarrow> assembler" where
  "extend_instruction i bs st =
     st\<lparr>store := (store st)[i := (store st ! i)\<lparr>ai_value := ai_value (store st ! i) @ bs\<rparr>]\<rparr>"

section \<open>One node\<close>

definition size_bytes :: "size \<Rightarrow> nat" where
  "size_bytes sz = (case sz of SizeByte \<Rightarrow> 1 | SizeHalf \<Rightarrow> 2 | SizeWord \<Rightarrow> 4)"

definition generate_backpatch_immediate ::
  "string \<Rightarrow> size \<Rightarrow> nat \<Rightarrow> bool \<Rightarrow> assembler \<Rightarrow> assembler" where
  "generate_backpatch_immediate nm sz i is_relative st =
     (let index = length (ai_value (store st ! i));
          st = extend_instruction i (replicate (size_bytes sz) 0xAB) st;
          targets = (case label_targets st nm of Some targets \<Rightarrow> targets | None \<Rightarrow> []);
          target = \<lparr>bt_index = index, bt_size = sz, bt_relative = is_relative, bt_instruction = i\<rparr>
      in st\<lparr>label_targets := (label_targets st)(nm \<mapsto> targets @ [target])\<rparr>)"

definition source_immediate :: "ast_node \<Rightarrow> nat \<Rightarrow> assembler \<Rightarrow> assembler res" where
  "source_immediate opnd i st =
     (case opnd of
        Register reg \<Rightarrow> Inr (extend_instruction i [reg] st)
      | RegisterPointer reg \<Rightarrow> Inr (extend_instruction i [reg] st)
      | Immediate8 immediate \<Rightarrow> Inr (extend_instruction i [immediate] st)
      | Immediate16 immediate \<Rightarrow> Inr (extend_instruction i (le_bytes_16 immediate) st)
      | Immediate32 immediate \<Rightarrow> Inr (extend_instruction i (le_bytes_32 immediate) st)
      | ImmediatePointer immediate \<Rightarrow> Inr (extend_instruction i (le_bytes_32 immediate) st)
      | LabelOperand nm sz is_relative \<Rightarrow> Inr (generate_backpatch_immediate nm sz i is_relative st)
      | LabelOperandPointer nm is_relative \<Rightarrow>
          Inr (generate_backpatch_immediate nm SizeWord i is_relative st)
      | _ \<Rightarrow> Inl NotAnInstruction)"

definition destination_immediate :: "ast_node \<Rightarrow> nat \<Rightarrow> assembler \<Rightarrow> assembler res" where
  "destination_immediate opnd i st =
     (case opnd of
        Register reg \<Rightarrow> Inr (extend_instruction i [reg] st)
      | RegisterPointer reg \<Rightarrow> Inr (extend_instruction i [reg] st)
      | ImmediatePointer immediate \<Rightarrow> Inr (extend_instruction i (le_bytes_32 immediate) st)
      | LabelOperand nm sz is_relative \<Rightarrow> Inr (generate_backpatch_immediate nm sz i is_relative st)
      | LabelOperandPointer nm is_relative \<Rightarrow>
          Inr (generate_backpatch_immediate nm SizeWord i is_relative st)
      | _ \<Rightarrow> Inl NotAnInstruction)"

definition node_to_immediate_values :: "ast_node \<Rightarrow> nat \<Rightarrow> assembler \<Rightarrow> assembler res" where
  "node_to_immediate_values node i st =
     rbind (case node of
         OperationZero _ _ \<Rightarrow> Inr st
       | OperationOne _ _ _ opnd \<Rightarrow> source_immediate opnd i st
       | OperationTwo _ _ _ _ rhs \<Rightarrow> source_immediate rhs i st
       | _ \<Rightarrow> Inl NotAnInstruction) (\<lambda>st.
     case node of
       OperationZero _ _ \<Rightarrow> Inr st
     | OperationOne _ _ _ _ \<Rightarrow> Inr st
     | OperationTwo _ _ _ lhs _ \<Rightarrow> destination_immediate lhs i st
     | _ \<Rightarrow> Inl NotAnInstruction)"

definition as_bytes :: "string \<Rightarrow> u8 list" where
  "as_bytes s = map of_char s"

definition assemble_node :: "ast_node \<Rightarrow> assembler \<Rightarrow> (nat \<times> assembler) res" where
  "assemble_node node st =
     (case node of
        DataByte byte \<Rightarrow> Inr (new_instruction [byte] st)
      | DataHalf half \<Rightarrow> Inr (new_instruction (le_bytes_16 half) st)
      | DataWord word \<Rightarrow> Inr (new_instruction (le_bytes_32 word) st)
      | DataStr str \<Rightarrow> Inr (new_instruction (as_bytes str) st)
      | LabelOperand nm sz is_relative \<Rightarrow>
          (case new_instruction [] st of (i, st) \<Rightarrow>
             Inr (i, generate_backpatch_immediate nm sz i is_relative st))
      | _ \<Rightarrow>
          rbind (condition_source_destination_to_byte node) (\<lambda>lo.
          rbind (instruction_to_byte node) (\<lambda>hi.
          case new_instruction [lo, hi] st of (i, st) \<Rightarrow>
            rbind (node_to_immediate_values node i st) (\<lambda>st. Inr (i, st)))))"

section \<open>The assembling loop\<close>

definition advance_address :: "bool \<Rightarrow> u32 \<Rightarrow> assembler \<Rightarrow> assembler res" where
  "advance_address chk n st =
     rbind (checked_plus chk (current_address st) n) (\<lambda>a. Inr (st\<lparr>current_address := a\<rparr>))"

definition assemble_step :: "bool \<Rightarrow> ast_node \<Rightarrow> assembler \<Rightarrow> assembler res" where
  "assemble_step chk node st =
     (case node of
        LabelDefine nm _ \<Rightarrow>
          Inr (st\<lparr>label_addresses := (label_addresses st)(nm \<mapsto> (current_address st, False))\<rparr>)
      | Constant nm address \<Rightarrow>
          Inr (st\<lparr>label_addresses := (label_addresses st)(nm \<mapsto> (address, True))\<rparr>)
      | Origin origin_address \<Rightarrow>
          if current_address st < origin_address then Inr (st\<lparr>current_address := origin_address\<rparr>)
          else Inl OriginAssert
      | OriginPadded origin_address \<Rightarrow>
          if current_address st < origin_address then
            (let difference = unat (origin_address - current_address st);
                 st = st\<lparr>current_address := origin_address\<rparr>
             in Inr (snd (new_instruction (replicate difference 0) st)))
          else Inl OriginAssert
      | DataFill v sz \<Rightarrow>
          rbind (advance_address chk sz st) (\<lambda>st.
          Inr (snd (new_instruction (replicate (unat sz) v) st)))
      | IncludedBinary bs \<Rightarrow>
          rbind (advance_address chk (word_of_nat (length bs)) st) (\<lambda>st.
          Inr (snd (new_instruction bs st)))
      | _ \<Rightarrow>
          rbind (assemble_node node st) (\<lambda>(i, st).
          let st = set_address i (current_address st) st
          in advance_address chk (word_of_nat (length (ai_value (store st ! i)))) st))"

fun assemble_nodes :: "bool \<Rightarrow> ast_node list \<Rightarrow> assembler \<Rightarrow> assembler res" where
  "assemble_nodes chk [] st = Inr st"
| "assemble_nodes chk (node # nodes) st =
     rbind (assemble_step chk node st) (assemble_nodes chk nodes)"

section \<open>Backpatching\<close>

text \<open>\<open>address as i32 - instruction_address as i32\<close>.\<close>

definition checked_minus_i32 :: "bool \<Rightarrow> u32 \<Rightarrow> u32 \<Rightarrow> u32 res" where
  "checked_minus_i32 chk x y =
     (if chk \<and> (sint x - sint y < - (2 ^ 31) \<or> 2 ^ 31 \<le> sint x - sint y) then Inl ArithmeticOverflow
      else Inr (x - y))"

text \<open>Bytes written one by one from an index of a vector; an index past its end panics.\<close>

definition put_bytes :: "nat \<Rightarrow> u8 list \<Rightarrow> u8 list \<Rightarrow> u8 list res" where
  "put_bytes index bs data =
     (if index + length bs \<le> length data
      then Inr (take index data @ bs @ drop (index + length bs) data)
      else Inl IndexOutOfBounds)"

definition target_write ::
  "bool \<Rightarrow> backpatch_target \<Rightarrow> size \<Rightarrow> u32 \<Rightarrow> assembler \<Rightarrow> assembler res" where
  "target_write chk target sz address st =
     (let i = bt_instruction target; instr = store st ! i in
      rbind (if bt_relative target then checked_minus_i32 chk address (ai_address instr)
             else Inr address) (\<lambda>v.
      rbind (put_bytes (bt_index target) (take (size_bytes sz) (le_bytes_32 v)) (ai_value instr))
        (\<lambda>bs. Inr (st\<lparr>store := (store st)[i := instr\<lparr>ai_value := bs\<rparr>]\<rparr>))))"

definition get_backpatch_location :: "bool \<Rightarrow> backpatch_target \<Rightarrow> assembler \<Rightarrow> u32 res" where
  "get_backpatch_location chk target st =
     checked_plus chk (ai_address (store st ! bt_instruction target)) (word_of_nat (bt_index target))"

fun perform_backpatching ::
  "bool \<Rightarrow> backpatch_target list \<Rightarrow> u32 \<times> bool \<Rightarrow> assembler \<Rightarrow> assembler res" where
  "perform_backpatching chk [] address st = Inr st"
| "perform_backpatching chk (target # targets) address st =
     rbind (target_write chk target (bt_size target) (fst address) st) (\<lambda>st.
     rbind (if \<not> snd address then
              rbind (get_backpatch_location chk target st) (\<lambda>location.
              Inr (st\<lparr>reloc_addresses := reloc_addresses st @ [location]\<rparr>))
            else Inr st)
       (perform_backpatching chk targets address))"

text \<open>
  The tables are hash maps: \<open>names\<close> is the order in which the keys of \<open>LABEL_TARGETS\<close> happen to
  be visited.
\<close>

fun backpatch_labels :: "bool \<Rightarrow> string list \<Rightarrow> assembler \<Rightarrow> assembler res" where
  "backpatch_labels chk [] st = Inr st"
| "backpatch_labels chk (nm # names) st =
     rbind (case label_addresses st nm of
              Some address \<Rightarrow>
                perform_backpatching chk
                  (case label_targets st nm of Some targets \<Rightarrow> targets | None \<Rightarrow> []) address st
            | None \<Rightarrow> Inl (LabelNotFound nm))
       (backpatch_labels chk names)"

section \<open>The binary\<close>

definition instruction_bytes :: "assembler \<Rightarrow> u8 list" where
  "instruction_bytes st = concat (map ai_value (store st))"

definition FXF_RELOC_SIZE :: nat where "FXF_RELOC_SIZE = 0x1C"
definition FXF_RELOC_PTR :: nat where "FXF_RELOC_PTR = 0x20"

definition fxf_header :: "assembler \<Rightarrow> u8 list" where
  "fxf_header st =
     map of_char ''FXF'' @ [0] @
     le_bytes_32 (word_of_nat (sum_list (map (\<lambda>instr. length (ai_value instr)) (store st)))) @
     le_bytes_32 0x24 @
     le_bytes_32 0 @ le_bytes_32 0 @
     le_bytes_32 0 @ le_bytes_32 0 @
     le_bytes_32 0 @ le_bytes_32 0"

definition emit :: "bool \<Rightarrow> bool \<Rightarrow> assembler \<Rightarrow> u8 list res" where
  "emit chk is_fxf st =
     (let binary = (if is_fxf then fxf_header st else []) @ instruction_bytes st in
      if is_fxf then
        (let reloc_ptr = word_of_nat (length binary) :: u32;
             binary = binary @ concat (map le_bytes_32 (reloc_addresses st)) in
         rbind (if chk \<and> 2 ^ 32 \<le> 4 * length (reloc_addresses st) then Inl ArithmeticOverflow
                else Inr (word_of_nat (4 * length (reloc_addresses st)) :: u32)) (\<lambda>reloc_size.
         rbind (put_bytes FXF_RELOC_SIZE (le_bytes_32 reloc_size) binary)
           (put_bytes FXF_RELOC_PTR (le_bytes_32 reloc_ptr))))
      else Inr binary)"

definition assemble :: "bool \<Rightarrow> bool \<Rightarrow> string list \<Rightarrow> ast_node list \<Rightarrow> u8 list res" where
  "assemble chk is_fxf names nodes =
     rbind (assemble_nodes chk nodes assembler_new) (\<lambda>st.
     rbind (backpatch_labels chk names st) (emit chk is_fxf))"

end
