(* ===== verification/AssemblerLaws.thy ===== *)
theory AssemblerLaws
  imports Encoding Assembler
begin

text \<open>
  The laws of the assembler's back end: backpatch targets lie inside their instructions and
  never overlap, the address of an instruction is its place in the code, and filling in the
  labels gives every target its label's address and changes no other byte.
\<close>

section \<open>Backpatch targets\<close>

text \<open>A target lies inside its instruction; two targets never share a byte.\<close>

definition target_end :: "backpatch_target \<Rightarrow> nat" where
  "target_end t = bt_index t + size_bytes (bt_size t)"

definition fits :: "assembler \<Rightarrow> backpatch_target \<Rightarrow> bool" where
  "fits st t \<longleftrightarrow> bt_instruction t < length (store st) \<and>
     target_end t \<le> length (ai_value (store st ! bt_instruction t))"

definition targets_apart :: "backpatch_target \<Rightarrow> backpatch_target \<Rightarrow> bool" where
  "targets_apart t u \<longleftrightarrow> bt_instruction t \<noteq> bt_instruction u \<or>
     target_end t \<le> bt_index u \<or> target_end u \<le> bt_index t"

definition targets_of :: "assembler \<Rightarrow> string \<Rightarrow> backpatch_target list" where
  "targets_of st nm = (case label_targets st nm of Some targets \<Rightarrow> targets | None \<Rightarrow> [])"

definition wf_targets :: "assembler \<Rightarrow> bool" where
  "wf_targets st \<longleftrightarrow>
     (\<forall>nm. \<forall>t\<in>set (targets_of st nm). fits st t) \<and>
     (\<forall>nm. sorted_wrt targets_apart (targets_of st nm)) \<and>
     (\<forall>nm nm'. nm \<noteq> nm' \<longrightarrow>
        (\<forall>t\<in>set (targets_of st nm). \<forall>u\<in>set (targets_of st nm'). targets_apart t u))"

lemma targets_apart_sym: "targets_apart t u \<longleftrightarrow> targets_apart u t"
  by (auto simp: targets_apart_def)

lemma size_bytes_pos [simp]: "0 < size_bytes sz" "size_bytes sz \<le> 4"
  by (cases sz; simp add: size_bytes_def)+

text \<open>
  \<open>grows st st'\<close>: from \<open>st\<close> to \<open>st'\<close> instructions were added and extended, none shortened.
\<close>

definition grows :: "assembler \<Rightarrow> assembler \<Rightarrow> bool" where
  "grows st st' \<longleftrightarrow> length (store st) \<le> length (store st') \<and>
     (\<forall>i < length (store st). length (ai_value (store st ! i)) \<le> length (ai_value (store st' ! i)))"

lemma grows_refl [simp]: "grows st st"
  by (simp add: grows_def)

lemma grows_trans [trans]: "grows a b \<Longrightarrow> grows b c \<Longrightarrow> grows a c"
  unfolding grows_def by (meson le_trans less_le_trans)

lemma grows_fits: "grows st st' \<Longrightarrow> fits st t \<Longrightarrow> fits st' t"
  unfolding grows_def fits_def by (meson le_trans less_le_trans)

lemma wf_targets_grows:
  assumes "wf_targets st" and "grows st st'" and "label_targets st' = label_targets st"
  shows "wf_targets st'"
proof -
  have "targets_of st' nm = targets_of st nm" for nm
    using assms(3) by (simp add: targets_of_def)
  then show ?thesis
    using assms(1) grows_fits [OF assms(2)] by (simp add: wf_targets_def)
qed

lemma new_instruction_laws:
  assumes "new_instruction bs st = (i, st')"
  shows "i < length (store st')" "grows st st'" "label_targets st' = label_targets st"
    "wf_targets st \<Longrightarrow> wf_targets st'"
proof -
  show "i < length (store st')" "grows st st'" "label_targets st' = label_targets st"
    using assms by (auto simp: new_instruction_def grows_def nth_append)
  then show "wf_targets st \<Longrightarrow> wf_targets st'"
    by (rule_tac wf_targets_grows)
qed

lemma extend_instruction_laws:
  "length (store (extend_instruction i bs st)) = length (store st)" "grows st (extend_instruction i bs st)"
  "label_targets (extend_instruction i bs st) = label_targets st"
  "wf_targets st \<Longrightarrow> wf_targets (extend_instruction i bs st)"
proof -
  show "length (store (extend_instruction i bs st)) = length (store st)"
    "grows st (extend_instruction i bs st)"
    "label_targets (extend_instruction i bs st) = label_targets st"
    by (auto simp: extend_instruction_def grows_def) (case_tac "ia = i"; simp)
  then show "wf_targets st \<Longrightarrow> wf_targets (extend_instruction i bs st)"
    by (rule_tac wf_targets_grows)
qed

lemma generate_backpatch_laws:
  assumes "i < length (store st)" and st': "st' = generate_backpatch_immediate nm sz i rel st"
  shows "length (store st') = length (store st)" "grows st st'" "wf_targets st \<Longrightarrow> wf_targets st'"
proof -
  let ?t = "\<lparr>bt_index = length (ai_value (store st ! i)), bt_size = sz, bt_relative = rel,
    bt_instruction = i\<rparr>"
  have store: "store st' = store (extend_instruction i (replicate (size_bytes sz) 0xAB) st)"
    by (simp add: st' generate_backpatch_immediate_def Let_def)
  have targets: "targets_of st' n = (if n = nm then targets_of st nm @ [?t] else targets_of st n)" for n
    by (simp add: st' generate_backpatch_immediate_def targets_of_def Let_def extend_instruction_laws)
  show "length (store st') = length (store st)" and g: "grows st st'"
    using extend_instruction_laws(1,2) by (simp_all add: store grows_def)
  assume wf: "wf_targets st"
  have new: "fits st' ?t"
    using assms(1) by (simp add: fits_def target_end_def store extend_instruction_def)
  have apart: "targets_apart u ?t" if "u \<in> set (targets_of st n)" for u n
    using wf that by (auto simp: wf_targets_def fits_def targets_apart_def)
  have old: "fits st' u" if "u \<in> set (targets_of st n)" for u n
    using wf that g grows_fits by (auto simp: wf_targets_def)
  show "wf_targets st'"
    using wf apart targets_apart_sym old new
    unfolding wf_targets_def targets by (auto simp: sorted_wrt_append)
qed

section \<open>One node\<close>

text \<open>
  \<open>adds st i st'\<close>: instruction \<open>i\<close>, the last one, is worked on; the others, the addresses and the
  labels stay, and targets stay well formed.
\<close>

definition adds :: "assembler \<Rightarrow> nat \<Rightarrow> assembler \<Rightarrow> bool" where
  "adds st i st' \<longleftrightarrow> length (store st') = length (store st) \<and>
     (\<forall>j. j \<noteq> i \<longrightarrow> store st' ! j = store st ! j) \<and>
     ai_address (store st' ! i) = ai_address (store st ! i) \<and>
     current_address st' = current_address st \<and> label_addresses st' = label_addresses st \<and>
     reloc_addresses st' = reloc_addresses st \<and>
     (\<forall>nm. \<forall>t\<in>set (targets_of st' nm). t \<in> set (targets_of st nm) \<or> bt_instruction t = i) \<and>
     (wf_targets st \<longrightarrow> wf_targets st')"

lemma adds_refl [simp]: "adds st i st"
  by (simp add: adds_def)

lemma adds_trans [trans]: "adds a i b \<Longrightarrow> adds b i c \<Longrightarrow> adds a i c"
  unfolding adds_def by (auto; metis)

lemma adds_extend [simp]:
  assumes "i < length (store st)"
  shows "adds st i (extend_instruction i bs st)"
proof -
  have "targets_of (extend_instruction i bs st) nm = targets_of st nm" for nm
    by (simp add: targets_of_def extend_instruction_def)
  then show ?thesis
    using extend_instruction_laws(4) assms by (auto simp: adds_def extend_instruction_def)
qed

lemma adds_generate [simp]:
  assumes "i < length (store st)"
  shows "adds st i (generate_backpatch_immediate nm sz i rel st)"
proof -
  have "wf_targets st \<longrightarrow> wf_targets (generate_backpatch_immediate nm sz i rel st)"
    using generate_backpatch_laws(3) [OF assms refl] by blast
  then show ?thesis
    using assms by (auto simp: adds_def generate_backpatch_immediate_def extend_instruction_def
        Let_def targets_of_def split: if_splits option.splits)
qed

lemma adds_immediates:
  assumes "i < length (store st)"
  shows "source_immediate opnd i st = Inr st' \<Longrightarrow> adds st i st'"
    and "destination_immediate opnd i st = Inr st' \<Longrightarrow> adds st i st'"
  using assms by (auto simp: source_immediate_def destination_immediate_def split: ast_node.splits)

lemma adds_node_to_immediate_values:
  assumes "i < length (store st)" and "node_to_immediate_values node i st = Inr st'"
  shows "adds st i st'"
proof -
  have two: "adds st i st'" if "source_immediate a i st = Inr st1" "destination_immediate b i st1 = Inr st'"
    for a b st1
  proof -
    from that(1) have 1: "adds st i st1" by (rule adds_immediates [OF assms(1)])
    then have "i < length (store st1)" using assms(1) by (simp add: adds_def)
    from adds_immediates(2) [OF this that(2)] 1 show ?thesis by (metis adds_trans)
  qed
  show ?thesis
    using assms two by (auto simp: node_to_immediate_values_def rbind_eq_Inr
        intro: adds_immediates split: ast_node.splits)
qed

lemma new_instruction_store:
  "new_instruction bs st = (i, st') \<Longrightarrow>
    i = length (store st) \<and> store st' = store st @ [\<lparr>ai_value = bs, ai_address = 0\<rparr>] \<and>
    label_targets st' = label_targets st \<and> current_address st' = current_address st \<and>
    label_addresses st' = label_addresses st \<and> reloc_addresses st' = reloc_addresses st"
  by (auto simp: new_instruction_def)

lemma assemble_node_adds:
  assumes "assemble_node node st = Inr (i, st')"
  shows "\<exists>bs st1. new_instruction bs st = (i, st1) \<and> adds st1 i st'"
proof -
  have rest: ?thesis if "rbind (condition_source_destination_to_byte node) (\<lambda>lo.
      rbind (instruction_to_byte node) (\<lambda>hi.
      case new_instruction [lo, hi] st of (i, st) \<Rightarrow>
        rbind (node_to_immediate_values node i st) (\<lambda>st. Inr (i, st)))) = Inr (i, st')"
  proof -
    from that obtain lo hi where *: "(case new_instruction [lo, hi] st of (i, st) \<Rightarrow>
        rbind (node_to_immediate_values node i st) (\<lambda>st. Inr (i, st))) = Inr (i, st')"
      by (elim rbind_InrE)
    obtain j st1 where "new_instruction [lo, hi] st = (j, st1)"
      by (cases "new_instruction [lo, hi] st")
    with * have 1: "new_instruction [lo, hi] st = (i, st1)"
      and 2: "node_to_immediate_values node i st1 = Inr st'"
      by (auto simp: rbind_eq_Inr)
    then have "adds st1 i st'"
      using adds_node_to_immediate_values new_instruction_laws(1) by blast
    with 1 show ?thesis by blast
  qed
  have direct: ?thesis if "new_instruction bs st = (i, st')" for bs
    using that adds_refl by blast
  show ?thesis
  proof (cases node)
    case (LabelOperand nm sz rel)
    with assms obtain st1 where 1: "new_instruction [] st = (i, st1)"
      and 2: "st' = generate_backpatch_immediate nm sz i rel st1"
      by (auto simp: assemble_node_def split: prod.splits)
    with adds_generate [OF new_instruction_laws(1) [OF 1]] show ?thesis by blast
  qed (use assms in \<open>simp_all add: assemble_node_def direct rest\<close>)
qed

section \<open>One step of the assembling loop\<close>

text \<open>\<open>appends st st' x\<close>: the step laid down the bytes of \<open>x\<close> at the current address.\<close>

definition appends :: "assembler \<Rightarrow> assembler \<Rightarrow> assembled_instruction \<Rightarrow> bool" where
  "appends st st' x \<longleftrightarrow> store st' = store st @ [x] \<and>
     current_address st' = current_address st + word_of_nat (length (ai_value x)) \<and>
     label_addresses st' = label_addresses st \<and> reloc_addresses st' = reloc_addresses st \<and>
     (\<forall>nm. \<forall>t\<in>set (targets_of st' nm). t \<in> set (targets_of st nm) \<or>
        bt_instruction t = length (store st) \<and> ai_address x = current_address st) \<and>
     (wf_targets st \<longrightarrow> wf_targets st')"

lemma wf_targets_cong:
  assumes "label_targets st' = label_targets st"
    and "map (\<lambda>x. length (ai_value x)) (store st') = map (\<lambda>x. length (ai_value x)) (store st)"
  shows "wf_targets st' = wf_targets st"
proof -
  have l: "length (store st') = length (store st)"
    using assms(2) by (metis length_map)
  have "length (ai_value (store st' ! i)) = length (ai_value (store st ! i))" if "i < length (store st)" for i
    using assms(2) that l by (metis nth_map)
  then have "fits st' t = fits st t" for t
    by (auto simp: fits_def l)
  moreover have "targets_of st' nm = targets_of st nm" for nm
    using assms(1) by (simp add: targets_of_def)
  ultimately show ?thesis by (simp add: wf_targets_def)
qed

lemma advance_address_Inr:
  "advance_address chk n st = Inr st' \<Longrightarrow> st' = st\<lparr>current_address := current_address st + n\<rparr>"
  by (auto simp: advance_address_def rbind_eq_Inr dest!: checked_plus_Inr)

lemma appends_new:
  assumes "new_instruction bs st1 = (i, st2)" and "store st1 = store st"
    and "label_targets st1 = label_targets st" "label_addresses st1 = label_addresses st"
    and "reloc_addresses st1 = reloc_addresses st"
    and "current_address st1 = current_address st + word_of_nat (length bs)"
  shows "appends st st2 \<lparr>ai_value = bs, ai_address = 0\<rparr>"
proof -
  have "wf_targets st1 = wf_targets st" by (rule wf_targets_cong) (simp_all add: assms)
  then show ?thesis
    using new_instruction_store [OF assms(1)] new_instruction_laws(4) [OF assms(1)] assms
    by (auto simp: appends_def targets_of_def)
qed

lemma appends_node:
  assumes "assemble_node node st = Inr (i, st1)"
    and "advance_address chk (word_of_nat (length (ai_value (store (set_address i a st1) ! i))))
      (set_address i a st1) = Inr st'" and "a = current_address st1"
  shows "\<exists>x. appends st st' x"
proof -
  from assemble_node_adds [OF assms(1)] obtain bs st0
    where new: "new_instruction bs st = (i, st0)" and adds: "adds st0 i st1" by blast
  note n = new_instruction_store [OF new]
  let ?x = "(store st1 ! i)\<lparr>ai_address := a\<rparr>"
  have len: "length (store st1) = Suc (length (store st))" and i: "i = length (store st)"
    using n adds by (auto simp: adds_def)
  have "store st1 ! j = store st ! j" if "j < length (store st)" for j
    using that n adds by (auto simp: adds_def nth_append)
  then have "(store st1)[i := ?x] = store st @ [?x]"
    using len i by (auto intro!: nth_equalityI simp: nth_append nth_list_update less_Suc_eq)
  then have store: "store (set_address i a st1) = store st @ [?x]"
    by (simp add: set_address_def)
  have st': "st' = (set_address i a st1)\<lparr>current_address :=
      current_address st1 + word_of_nat (length (ai_value ?x))\<rparr>"
    using advance_address_Inr [OF assms(2)] store i by (simp add: set_address_def)
  have "map (\<lambda>x. length (ai_value x)) ((store st1)[i := ?x]) = map (\<lambda>x. length (ai_value x)) (store st1)"
    using len i by (auto intro!: nth_equalityI simp: nth_list_update)
  then have wf: "wf_targets st' = wf_targets st1"
    by (intro wf_targets_cong) (simp_all add: st' set_address_def)
  have targets: "targets_of st' nm = targets_of st1 nm" for nm
    by (simp add: st' set_address_def targets_of_def)
  have "appends st st' ?x"
    unfolding appends_def targets wf
    using n adds new_instruction_laws(4) [OF new] store assms(3)
    by (auto simp: st' adds_def set_address_def targets_of_def)
  then show ?thesis by blast
qed

lemma appends_assembled:
  assumes "rbind (assemble_node node st) (\<lambda>(i, st).
      let st = set_address i (current_address st) st
      in advance_address chk (word_of_nat (length (ai_value (store st ! i)))) st) = Inr st'"
  shows "\<exists>x. appends st st' x"
proof -
  from assms obtain i st1 where "assemble_node node st = Inr (i, st1)"
    "advance_address chk (word_of_nat (length (ai_value (store (set_address i (current_address st1) st1) ! i))))
      (set_address i (current_address st1) st1) = Inr st'"
    by (auto simp: Let_def elim!: rbind_InrE split: prod.splits)
  from appends_node [OF this refl] show ?thesis by blast
qed

lemma assemble_step_cases:
  assumes "assemble_step chk node st = Inr st'" and "\<forall>a. node \<noteq> Origin a"
  shows "(\<exists>x. appends st st' x) \<or>
    (\<exists>nm v. st' = st\<lparr>label_addresses := (label_addresses st)(nm \<mapsto> v)\<rparr> \<and>
      (v = (current_address st, False) \<and> (\<exists>k. node = LabelDefine nm k) \<or>
       (\<exists>a. v = (a, True) \<and> node = Constant nm a)))"
proof -
  show ?thesis
  proof (cases node)
    case (OriginPadded a)
    let ?st = "st\<lparr>current_address := a\<rparr>"
    have "new_instruction (replicate (unat (a - current_address st)) 0) ?st = (length (store st), st')"
      using assms(1) by (auto simp: OriginPadded assemble_step_def Let_def new_instruction_def split: if_splits)
    from appends_new [OF this] show ?thesis by auto
  next
    case (DataFill v sz)
    from assms(1) obtain st1 where 1: "advance_address chk sz st = Inr st1"
      and "st' = snd (new_instruction (replicate (unat sz) v) st1)"
      by (auto simp: DataFill assemble_step_def rbind_eq_Inr)
    then have "new_instruction (replicate (unat sz) v) st1 = (length (store st1), st')"
      by (simp add: new_instruction_def)
    from appends_new [OF this, of st] advance_address_Inr [OF 1] show ?thesis by auto
  next
    case (IncludedBinary bs)
    from assms(1) obtain st1 where 1: "advance_address chk (word_of_nat (length bs)) st = Inr st1"
      and "st' = snd (new_instruction bs st1)"
      by (auto simp: IncludedBinary assemble_step_def rbind_eq_Inr)
    then have "new_instruction bs st1 = (length (store st1), st')"
      by (simp add: new_instruction_def)
    from appends_new [OF this, of st] advance_address_Inr [OF 1] show ?thesis by auto
  qed (use assms in \<open>auto simp: assemble_step_def dest: appends_assembled\<close>)
qed

section \<open>Layout\<close>

text \<open>The place of an instruction in the assembled code.\<close>

definition instruction_offset :: "assembler \<Rightarrow> nat \<Rightarrow> nat" where
  "instruction_offset st i = length (concat (map ai_value (take i (store st))))"

text \<open>
  The current address is the number of bytes laid down, and the address of every instruction
  that waits for a label is its place in the code.
\<close>

definition layout :: "assembler \<Rightarrow> bool" where
  "layout st \<longleftrightarrow> wf_targets st \<and>
     current_address st = word_of_nat (length (instruction_bytes st)) \<and>
     (\<forall>nm. \<forall>t\<in>set (targets_of st nm).
        ai_address (store st ! bt_instruction t) = word_of_nat (instruction_offset st (bt_instruction t)))"

lemma layout_new: "layout assembler_new"
  by (simp add: layout_def wf_targets_def assembler_new_def targets_of_def instruction_bytes_def)

lemma layout_appends:
  assumes "layout st" and "appends st st' x"
  shows "layout st'"
proof -
  have store: "store st' = store st @ [x]" using assms(2) by (simp add: appends_def)
  have "ai_address (store st' ! bt_instruction t) = word_of_nat (instruction_offset st' (bt_instruction t))"
    if t: "t \<in> set (targets_of st' nm)" for nm t
  proof (cases "t \<in> set (targets_of st nm)")
    case True
    then have "bt_instruction t < length (store st)"
      using assms(1) by (auto simp: layout_def wf_targets_def fits_def)
    then show ?thesis
      using True assms(1) by (auto simp: layout_def instruction_offset_def store nth_append)
  next
    case False
    then have "bt_instruction t = length (store st)" "ai_address x = current_address st"
      using t assms(2) by (auto simp: appends_def)
    then show ?thesis
      using assms(1) by (simp add: layout_def instruction_offset_def instruction_bytes_def store)
  qed
  then show ?thesis
    using assms by (simp add: layout_def appends_def instruction_bytes_def)
qed

lemma layout_label:
  assumes "layout st"
  shows "layout (st\<lparr>label_addresses := m\<rparr>)"
proof -
  have "wf_targets (st\<lparr>label_addresses := m\<rparr>) = wf_targets st"
    by (rule wf_targets_cong) simp_all
  then show ?thesis
    using assms by (simp add: layout_def targets_of_def instruction_offset_def instruction_bytes_def)
qed

definition no_origin :: "ast_node list \<Rightarrow> bool" where
  "no_origin nodes \<longleftrightarrow> (\<forall>a. Origin a \<notin> set nodes)"

lemma assemble_nodes_append:
  "assemble_nodes chk (xs @ ys) st = rbind (assemble_nodes chk xs st) (assemble_nodes chk ys)"
  by (induction xs arbitrary: st) (simp_all add: rbind_assoc cong: rbind_cong)

lemma layout_nodes:
  assumes "assemble_nodes chk nodes st = Inr st'" and "no_origin nodes" and "layout st"
  shows "layout st' \<and> (\<exists>rest. store st' = store st @ rest)"
  using assms
proof (induction nodes arbitrary: st)
  case (Cons node nodes)
  from Cons.prems(1) obtain st1 where 1: "assemble_step chk node st = Inr st1"
    and 2: "assemble_nodes chk nodes st1 = Inr st'"
    by (auto simp: rbind_eq_Inr)
  have nodes: "\<forall>a. node \<noteq> Origin a" "no_origin nodes"
    using Cons.prems(2) by (auto simp: no_origin_def)
  have step: "layout st1 \<and> (\<exists>rest. store st1 = store st @ rest)"
    using assemble_step_cases [OF 1 nodes(1)]
  proof (elim disjE exE conjE)
    fix x assume x: "appends st st1 x"
    then have "store st1 = store st @ [x]" by (simp add: appends_def)
    then show ?thesis using layout_appends [OF Cons.prems(3) x] by blast
  qed (simp_all add: layout_label [OF Cons.prems(3)])
  obtain rest where "store st1 = store st @ rest" using step by blast
  then show ?case using Cons.IH [OF 2 nodes(2)] step by auto
qed simp

section \<open>Filling in labels\<close>

definition same_shape :: "assembler \<Rightarrow> assembler \<Rightarrow> bool" where
  "same_shape st st' \<longleftrightarrow>
     map (\<lambda>x. (length (ai_value x), ai_address x)) (store st') =
       map (\<lambda>x. (length (ai_value x), ai_address x)) (store st) \<and>
     label_targets st' = label_targets st \<and> label_addresses st' = label_addresses st"

lemma same_shape_refl [simp]: "same_shape st st"
  by (simp add: same_shape_def)

lemma same_shape_trans [trans]: "same_shape a b \<Longrightarrow> same_shape b c \<Longrightarrow> same_shape a c"
  by (simp add: same_shape_def)

lemma same_shape_simps:
  assumes "same_shape st st'"
  shows "length (store st') = length (store st)"
    and "i < length (store st) \<Longrightarrow> length (ai_value (store st' ! i)) = length (ai_value (store st ! i))"
    and "i < length (store st) \<Longrightarrow> ai_address (store st' ! i) = ai_address (store st ! i)"
    and "fits st' t = fits st t" and "targets_of st' nm = targets_of st nm"
proof -
  have m: "map (\<lambda>x. (length (ai_value x), ai_address x)) (store st') =
    map (\<lambda>x. (length (ai_value x), ai_address x)) (store st)"
    using assms by (simp add: same_shape_def)
  show l: "length (store st') = length (store st)"
    using arg_cong [OF m, of length] by simp
  show v: "length (ai_value (store st' ! i)) = length (ai_value (store st ! i))"
    "ai_address (store st' ! i) = ai_address (store st ! i)" if "i < length (store st)" for i
  proof -
    have "map (\<lambda>x. (length (ai_value x), ai_address x)) (store st') ! i =
        map (\<lambda>x. (length (ai_value x), ai_address x)) (store st) ! i"
      by (simp only: m)
    then show "length (ai_value (store st' ! i)) = length (ai_value (store st ! i))"
      "ai_address (store st' ! i) = ai_address (store st ! i)"
      using l that by simp_all
  qed
  show "fits st' t = fits st t"
    by (cases "bt_instruction t < length (store st)") (simp_all add: fits_def l v)
  show "targets_of st' nm = targets_of st nm"
    using assms by (simp add: same_shape_def targets_of_def)
qed

text \<open>Byte \<open>k\<close> of instruction \<open>i\<close>; the bytes of a target and the value they are given.\<close>

definition code_byte :: "assembler \<Rightarrow> nat \<Rightarrow> nat \<Rightarrow> u8" where
  "code_byte st i k = ai_value (store st ! i) ! k"

definition covers :: "backpatch_target \<Rightarrow> nat \<Rightarrow> nat \<Rightarrow> bool" where
  "covers t i k \<longleftrightarrow> bt_instruction t = i \<and> bt_index t \<le> k \<and> k < target_end t"

definition patch_value :: "assembler \<Rightarrow> backpatch_target \<Rightarrow> u32 \<Rightarrow> u32" where
  "patch_value st t address =
     (if bt_relative t then address - ai_address (store st ! bt_instruction t) else address)"

lemma patch_value_shape:
  "same_shape st st' \<Longrightarrow> fits st t \<Longrightarrow> patch_value st' t a = patch_value st t a"
  by (simp add: patch_value_def fits_def same_shape_simps)

lemma target_write_laws:
  assumes "target_write chk t (bt_size t) a st = Inr st'" and "fits st t"
  shows "same_shape st st'" and "reloc_addresses st' = reloc_addresses st"
    and "i < length (store st) \<Longrightarrow> k < length (ai_value (store st ! i)) \<Longrightarrow>
      code_byte st' i k = (if covers t i k then le_bytes_32 (patch_value st t a) ! (k - bt_index t)
                           else code_byte st i k)"
proof -
  let ?j = "bt_instruction t" and ?n = "size_bytes (bt_size t)"
  have v: "(if bt_relative t then checked_minus_i32 chk a (ai_address (store st ! ?j)) else Inr a) = Inr v
      \<Longrightarrow> v = patch_value st t a" for v
    by (auto simp: patch_value_def checked_minus_i32_def split: if_splits)
  let ?new = "take (bt_index t) (ai_value (store st ! ?j)) @ take ?n (le_bytes_32 (patch_value st t a)) @
    drop (bt_index t + ?n) (ai_value (store st ! ?j))"
  have len: "length (take ?n (le_bytes_32 w)) = ?n" for w
    by simp
  have st': "st' = st\<lparr>store := (store st)[?j := (store st ! ?j)\<lparr>ai_value := ?new\<rparr>]\<rparr>"
    using assms(1) v by (auto simp: target_write_def rbind_eq_Inr Let_def put_bytes_def len split: if_splits)
  show "reloc_addresses st' = reloc_addresses st" by (simp add: st')
  have fit: "?j < length (store st)" "bt_index t + ?n \<le> length (ai_value (store st ! ?j))"
    using assms(2) by (simp_all add: fits_def target_end_def)
  show "same_shape st st'"
    using fit by (auto simp: st' same_shape_def len map_update nth_list_update intro!: nth_equalityI)
  assume i: "i < length (store st)" "k < length (ai_value (store st ! i))"
  show "code_byte st' i k = (if covers t i k then le_bytes_32 (patch_value st t a) ! (k - bt_index t)
      else code_byte st i k)"
    using i fit by (cases "i = ?j") (auto simp: code_byte_def st' covers_def target_end_def nth_append len)
qed

lemma covers_apart: "targets_apart t u \<Longrightarrow> covers t i k \<Longrightarrow> \<not> covers u i k"
  by (auto simp: targets_apart_def covers_def)

text \<open>
  \<open>patched ps st st'\<close>: the code of \<open>st'\<close> is that of \<open>st\<close> with the targets of \<open>ps\<close> filled in, each
  with the address it is paired with.
\<close>

definition patched :: "(backpatch_target \<times> u32) list \<Rightarrow> assembler \<Rightarrow> assembler \<Rightarrow> bool" where
  "patched ps st st' \<longleftrightarrow> same_shape st st' \<and>
     (\<forall>i < length (store st). \<forall>k < length (ai_value (store st ! i)).
        (\<forall>t a. (t, a) \<in> set ps \<longrightarrow> covers t i k \<longrightarrow>
           code_byte st' i k = le_bytes_32 (patch_value st t a) ! (k - bt_index t)) \<and>
        ((\<forall>t a. (t, a) \<in> set ps \<longrightarrow> \<not> covers t i k) \<longrightarrow> code_byte st' i k = code_byte st i k))"

lemma patched_shape: "patched ps st st' \<Longrightarrow> same_shape st st'"
  by (simp add: patched_def)

lemma patched_Nil: "patched [] st st"
  by (simp add: patched_def)

lemma patched_append:
  assumes 1: "patched ps st st1" and 2: "patched qs st1 st2"
    and apart: "\<And>t a u b. (t, a) \<in> set ps \<Longrightarrow> (u, b) \<in> set qs \<Longrightarrow> targets_apart t u"
    and fit: "\<And>u b. (u, b) \<in> set qs \<Longrightarrow> fits st u"
  shows "patched (ps @ qs) st st2"
proof -
  note shape = same_shape_simps [OF patched_shape [OF 1]]
  have "(\<forall>t a. (t, a) \<in> set (ps @ qs) \<longrightarrow> covers t i k \<longrightarrow>
        code_byte st2 i k = le_bytes_32 (patch_value st t a) ! (k - bt_index t)) \<and>
      ((\<forall>t a. (t, a) \<in> set (ps @ qs) \<longrightarrow> \<not> covers t i k) \<longrightarrow> code_byte st2 i k = code_byte st i k)"
    if i: "i < length (store st)" and k: "k < length (ai_value (store st ! i))" for i k
  proof -
    have i1: "i < length (store st1)" "k < length (ai_value (store st1 ! i))"
      using i k shape by simp_all
    have p: "code_byte st1 i k = le_bytes_32 (patch_value st t a) ! (k - bt_index t)"
      if "(t, a) \<in> set ps" "covers t i k" for t a
      using 1 i k that unfolding patched_def by blast
    have q: "code_byte st2 i k = le_bytes_32 (patch_value st t a) ! (k - bt_index t)"
      if "(t, a) \<in> set qs" "covers t i k" for t a
      using 2 i1 that patch_value_shape [OF patched_shape [OF 1] fit [OF that(1)]]
      unfolding patched_def by metis
    have u1: "code_byte st1 i k = code_byte st i k" if "\<forall>t a. (t, a) \<in> set ps \<longrightarrow> \<not> covers t i k"
      using 1 i k that unfolding patched_def by blast
    have u2: "code_byte st2 i k = code_byte st1 i k" if "\<forall>t a. (t, a) \<in> set qs \<longrightarrow> \<not> covers t i k"
      using 2 i1 that unfolding patched_def by blast
    show ?thesis
      using p q u1 u2 apart covers_apart by (metis Un_iff set_append)
  qed
  moreover have "same_shape st st2"
    using 1 2 same_shape_trans patched_shape by blast
  ultimately show ?thesis
    unfolding patched_def by blast
qed

text \<open>Where a target is, in the address space of the code.\<close>

definition location :: "assembler \<Rightarrow> backpatch_target \<Rightarrow> u32" where
  "location st t = ai_address (store st ! bt_instruction t) + word_of_nat (bt_index t)"

lemma perform_backpatching_laws:
  assumes "perform_backpatching chk ts address st = Inr st'"
    and "\<And>t. t \<in> set ts \<Longrightarrow> fits st t" and "sorted_wrt targets_apart ts"
  shows "patched (map (\<lambda>t. (t, fst address)) ts) st st' \<and>
    reloc_addresses st' = reloc_addresses st @ (if snd address then [] else map (location st) ts)"
  using assms
proof (induction ts arbitrary: st)
  case Nil
  then show ?case by (simp add: patched_Nil)
next
  case (Cons t ts)
  from Cons.prems(1) obtain st1 st2 where 1: "target_write chk t (bt_size t) (fst address) st = Inr st1"
    and 2: "(if \<not> snd address then
        rbind (get_backpatch_location chk t st1) (\<lambda>location.
        Inr (st1\<lparr>reloc_addresses := reloc_addresses st1 @ [location]\<rparr>)) else Inr st1) = Inr st2"
    and 3: "perform_backpatching chk ts address st2 = Inr st'"
    by (auto simp: rbind_eq_Inr)
  have fit: "fits st t" using Cons.prems(2) by simp
  note w = target_write_laws [OF 1 fit]
  have store2: "store st2 = store st1" "label_targets st2 = label_targets st1"
      "label_addresses st2 = label_addresses st1"
    using 2 by (auto simp: rbind_eq_Inr split: if_splits)
  have shape2: "same_shape st st2"
    using w(1) by (simp add: same_shape_def store2)
  have loc: "location st1 u = location st u" if "fits st u" for u
    using that same_shape_simps(3) [OF w(1)] by (simp add: location_def fits_def)
  have relocs2: "reloc_addresses st2 = reloc_addresses st @ (if snd address then [] else [location st t])"
    using 2 w(2) loc [OF fit]
    by (auto simp: rbind_eq_Inr get_backpatch_location_def location_def dest!: checked_plus_Inr split: if_splits)
  have p1: "patched [(t, fst address)] st st2"
    using w(3) shape2 by (auto simp: patched_def code_byte_def store2)
  have p2: "patched (map (\<lambda>t. (t, fst address)) ts) st2 st' \<and>
      reloc_addresses st' = reloc_addresses st2 @ (if snd address then [] else map (location st2) ts)"
    using Cons.prems(2,3) same_shape_simps(4) [OF shape2] by (intro Cons.IH [OF 3]) simp_all
  have "patched ([(t, fst address)] @ map (\<lambda>t. (t, fst address)) ts) st st'"
    using Cons.prems(2,3) by (intro patched_append [OF p1]) (use p2 in auto)
  moreover have "map (location st2) ts = map (location st) ts"
    using loc Cons.prems(2) by (auto simp: location_def store2)
  ultimately show ?case
    using p2 relocs2 by simp
qed

definition patches :: "assembler \<Rightarrow> string \<Rightarrow> (backpatch_target \<times> u32) list" where
  "patches st nm =
     (case label_addresses st nm of
        Some address \<Rightarrow> map (\<lambda>t. (t, fst address)) (targets_of st nm)
      | None \<Rightarrow> [])"

definition relocations :: "assembler \<Rightarrow> string \<Rightarrow> u32 list" where
  "relocations st nm =
     (case label_addresses st nm of
        Some address \<Rightarrow> if snd address then [] else map (location st) (targets_of st nm)
      | None \<Rightarrow> [])"

lemma patches_targets: "(t, a) \<in> set (patches st nm) \<Longrightarrow> t \<in> set (targets_of st nm)"
  by (auto simp: patches_def split: option.splits)

lemma wf_targets_shape:
  assumes "same_shape st st'"
  shows "wf_targets st' = wf_targets st"
  unfolding wf_targets_def same_shape_simps [OF assms] ..

lemma patches_shape:
  assumes "same_shape st st'"
  shows "patches st' = patches st"
  using assms same_shape_simps(5) [OF assms] by (simp add: fun_eq_iff patches_def same_shape_def cong: option.case_cong)

lemma relocations_shape:
  assumes "same_shape st st'" and "wf_targets st"
  shows "relocations st' = relocations st"
proof -
  have "map (location st') (targets_of st nm) = map (location st) (targets_of st nm)" for nm
    using assms(2) same_shape_simps(3) [OF assms(1)] by (auto simp: wf_targets_def location_def fits_def)
  then show ?thesis
    using assms(1) same_shape_simps(5) [OF assms(1)]
    by (auto simp: relocations_def same_shape_def fun_eq_iff split: option.splits)
qed

lemma backpatch_labels_laws:
  assumes "backpatch_labels chk names st = Inr st'" and "wf_targets st" and "distinct names"
  shows "patched (concat (map (patches st) names)) st st' \<and>
    reloc_addresses st' = reloc_addresses st @ concat (map (relocations st) names) \<and>
    (\<forall>nm\<in>set names. label_addresses st nm \<noteq> None)"
  using assms
proof (induction names arbitrary: st)
  case Nil
  then show ?case by (simp add: patched_Nil)
next
  case (Cons nm names)
  from Cons.prems(1) obtain address st1 where address: "label_addresses st nm = Some address"
    and 1: "perform_backpatching chk (targets_of st nm) address st = Inr st1"
    and 2: "backpatch_labels chk names st1 = Inr st'"
    by (auto simp: rbind_eq_Inr targets_of_def split: option.splits)
  have p1: "patched (patches st nm) st st1 \<and> reloc_addresses st1 = reloc_addresses st @ relocations st nm"
    using perform_backpatching_laws [OF 1] Cons.prems(2) address
    by (auto simp: patches_def relocations_def wf_targets_def)
  then have shape: "same_shape st st1" by (simp add: patched_def)
  have wf1: "wf_targets st1" using wf_targets_shape [OF shape] Cons.prems(2) by simp
  note same = patches_shape [OF shape] relocations_shape [OF shape Cons.prems(2)]
  have p2: "patched (concat (map (patches st) names)) st1 st' \<and>
      reloc_addresses st' = reloc_addresses st1 @ concat (map (relocations st) names) \<and>
      (\<forall>nm\<in>set names. label_addresses st1 nm \<noteq> None)"
    using Cons.IH [OF 2 wf1] Cons.prems(3) unfolding same by simp
  have "patched (patches st nm @ concat (map (patches st) names)) st st'"
  proof (rule patched_append [OF conjunct1 [OF p1] conjunct1 [OF p2]])
    fix t a u b
    assume t: "(t, a) \<in> set (patches st nm)" and u: "(u, b) \<in> set (concat (map (patches st) names))"
    from u obtain nm' where "nm' \<in> set names" "u \<in> set (targets_of st nm')"
      using patches_targets by fastforce
    moreover from this have "nm \<noteq> nm'" using Cons.prems(3) by auto
    ultimately show "targets_apart t u"
      using patches_targets [OF t] Cons.prems(2) unfolding wf_targets_def by blast
  next
    fix u b
    assume "(u, b) \<in> set (concat (map (patches st) names))"
    then obtain nm' where "u \<in> set (targets_of st nm')"
      using patches_targets by fastforce
    then show "fits st u" using Cons.prems(2) by (auto simp: wf_targets_def)
  qed
  then show ?case
    using p1 p2 address shape by (auto simp: same_shape_def)
qed

lemma backpatch_labels_succeeds:
  assumes "wf_targets st" and "\<forall>nm\<in>set names. label_addresses st nm \<noteq> None"
  shows "\<exists>st'. backpatch_labels False names st = Inr st'"
proof -
  have writes: "\<exists>st'. target_write False t (bt_size t) a st = Inr st'" if "fits st t" for t a st
    using that by (auto simp: target_write_def checked_minus_i32_def put_bytes_def fits_def
        target_end_def Let_def)
  have perform: "\<exists>st'. perform_backpatching False ts address st = Inr st'"
    if "\<forall>t\<in>set ts. fits st t" for ts address st
    using that
  proof (induction ts arbitrary: st)
    case (Cons t ts)
    then obtain st1 where 1: "target_write False t (bt_size t) (fst address) st = Inr st1"
      using writes by fastforce
    have fits: "fits (st1\<lparr>reloc_addresses := r\<rparr>) u = fits st u" "fits st1 u = fits st u" for r u
      using same_shape_simps(4) [OF target_write_laws(1) [OF 1]] Cons.prems by (simp_all add: fits_def)
    show ?case
      using Cons.IH Cons.prems by (simp add: 1 get_backpatch_location_def fits)
  qed simp
  show ?thesis
    using assms
  proof (induction names arbitrary: st)
    case (Cons nm names)
    then obtain address where address: "label_addresses st nm = Some address" by auto
    obtain st1 where 1: "perform_backpatching False (targets_of st nm) address st = Inr st1"
      using perform [of "targets_of st nm" st address] Cons.prems(1) by (auto simp: wf_targets_def)
    then have shape: "same_shape st st1"
      using perform_backpatching_laws [OF 1] Cons.prems(1) by (auto simp: wf_targets_def patched_def)
    obtain st' where "backpatch_labels False names st1 = Inr st'"
      using Cons.IH [of st1] Cons.prems wf_targets_shape [OF shape] shape by (auto simp: same_shape_def)
    then show ?case
      using 1 address by (simp add: targets_of_def)
  qed simp
qed

end
