(* ===== verification/AssemblerSpec.thy ===== *)
theory AssemblerSpec
  imports AssemblerLaws "HOL-Library.Multiset"
begin

text \<open>
  The properties of the assembler's back end: where labels are, what the places that wait for
  them hold in the end, that filling them in succeeds and does not depend on the order of a
  hash table, and the layout of an FXF file.
\<close>

text \<open>A byte of data, a label, and a relative jump back to the label.\<close>

definition sample_nodes :: "ast_node list" where
  "sample_nodes =
     [DataByte 7, LabelDefine ''a'' LabelInternal,
      OperationOne SizeWord CondAlways O_Rjmp (LabelOperand ''a'' SizeWord True)]"

definition sample_target :: backpatch_target where
  "sample_target = \<lparr>bt_index = 2, bt_size = SizeWord, bt_relative = True, bt_instruction = 1\<rparr>"

definition sample_assembled :: assembler where
  "sample_assembled =
     \<lparr>store = [\<lparr>ai_value = [7], ai_address = 0\<rparr>,
               \<lparr>ai_value = [0x02, 0x89, 0xAB, 0xAB, 0xAB, 0xAB], ai_address = 1\<rparr>],
      label_targets = [''a'' \<mapsto> [sample_target]], label_addresses = [''a'' \<mapsto> (1, False)],
      reloc_addresses = [], current_address = 7\<rparr>"

lemmas assemble_defs = assemble_step_def assemble_node_def new_instruction_def set_address_def
  advance_address_def checked_plus_def condition_source_destination_to_byte_def source_bits_def
  condition_bits_def instruction_to_byte_def size_to_byte_def node_to_immediate_values_def
  source_immediate_def generate_backpatch_immediate_def extend_instruction_def size_bytes_def

lemma replicate_4: "replicate 4 x = [x, x, x, x]"
  by (simp add: numeral_eq_Suc)

lemma sample_target_Suc: "sample_target =
    \<lparr>bt_index = Suc (Suc 0), bt_size = SizeWord, bt_relative = True, bt_instruction = Suc 0\<rparr>"
  by (simp add: sample_target_def)

lemma sample_assembles: "assemble_nodes True sample_nodes assembler_new = Inr sample_assembled"
  by (simp add: sample_nodes_def sample_assembled_def sample_target_Suc assembler_new_def assemble_defs
      Let_def replicate_4)

lemma sample_targets [simp]: "targets_of sample_assembled ''a'' = [sample_target]"
  by (simp add: targets_of_def sample_assembled_def)

lemma sample_labels [simp]: "label_addresses sample_assembled = [''a'' \<mapsto> (1, False)]"
  by (simp add: sample_assembled_def)

lemma sample_no_origin [simp]: "no_origin sample_nodes"
  by (simp add: no_origin_def sample_nodes_def)

lemma sample_target_fields:
  "bt_instruction sample_target = 1" "bt_index sample_target = 2" "bt_size sample_target = SizeWord"
  "bt_relative sample_target" "take (Suc 0) (store sample_assembled) = [\<lparr>ai_value = [7], ai_address = 0\<rparr>]"
  by (simp_all add: sample_target_def sample_assembled_def)

text \<open>The jump sits at its label, so the distance is 0.\<close>

lemma sample_backpatched:
  "\<exists>st'. backpatch_labels False [''a''] sample_assembled = Inr st' \<and> backpatch_labels True [''a''] sample_assembled = Inr st'"
  by (simp add: sample_target_def target_write_def Let_def checked_minus_i32_def put_bytes_def
      size_bytes_def get_backpatch_location_def checked_plus_def sample_assembled_def)

text \<open>Two words that wait for two labels.\<close>

definition two_labels :: "ast_node list" where
  "two_labels =
     [LabelDefine ''a'' LabelInternal, LabelOperand ''a'' SizeWord False,
      LabelOperand ''b'' SizeWord False, LabelDefine ''b'' LabelInternal]"

lemma two_labels_assembles:
  "\<exists>st. assemble_nodes False two_labels assembler_new = Inr st \<and>
     label_addresses st = [''a'' \<mapsto> (0, False), ''b'' \<mapsto> (8, False)]"
  by (simp add: two_labels_def assembler_new_def assemble_defs Let_def replicate_4)

section \<open>Places in the code\<close>

lemma concat_nth_slot:
  assumes "i < length xs" and "k < length (f (xs ! i))"
  shows "concat (map f xs) ! (length (concat (map f (take i xs))) + k) = f (xs ! i) ! k"
proof -
  have "concat (map f xs) = concat (map f (take i xs)) @ f (xs ! i) @ concat (map f (drop (Suc i) xs))"
    using id_take_nth_drop [OF assms(1)] by (metis concat.simps(2) concat_append list.simps(9) map_append)
  then show ?thesis
    using assms(2) by (simp add: nth_append)
qed

lemma instruction_offset_shape:
  assumes "same_shape st st'"
  shows "instruction_offset st' i = instruction_offset st i"
proof -
  have "map (\<lambda>x. length (ai_value x)) (store st') = map (\<lambda>x. length (ai_value x)) (store st)"
    using assms by (auto simp: same_shape_def list_eq_iff_nth_eq)
  then show ?thesis
    by (simp add: instruction_offset_def length_concat take_map [symmetric] comp_def)
qed

lemma code_byte_place:
  assumes "i < length (store st)" and "k < length (ai_value (store st ! i))"
  shows "instruction_bytes st ! (instruction_offset st i + k) = code_byte st i k"
  unfolding instruction_bytes_def instruction_offset_def code_byte_def
  by (rule concat_nth_slot) (use assms in auto)

lemma code_byte_bound:
  assumes "i < length (store st)" and "k < length (ai_value (store st ! i))"
  shows "instruction_offset st i + k < length (instruction_bytes st)"
proof -
  have "instruction_bytes st = concat (map ai_value (take i (store st))) @ ai_value (store st ! i) @
      concat (map ai_value (drop (Suc i) (store st)))"
    unfolding instruction_bytes_def
    using id_take_nth_drop [OF assms(1)] by (metis concat.simps(2) concat_append list.simps(9) map_append)
  then show ?thesis
    using assms(2) by (simp add: instruction_offset_def)
qed

text \<open>
  C5. Labels. In a program without bare \<open>org\<close>, every place that waits for a label holds, in the
  final code, the label's address, little-endian and cut to the size of the place; a place in a
  relative instruction holds the distance from the start of that instruction instead.
\<close>

theorem labels_filled:
  assumes "assemble_nodes chk nodes assembler_new = Inr st" and "no_origin nodes"
    and "backpatch_labels chk names st = Inr st'" and "distinct names"
    and "nm \<in> set names" and "t \<in> set (targets_of st nm)"
  shows "\<exists>a c. label_addresses st nm = Some (a, c) \<and>
    (let here = instruction_offset st (bt_instruction t); n = size_bytes (bt_size t) in
     take n (drop (here + bt_index t) (instruction_bytes st')) =
     take n (le_bytes_32 (if bt_relative t then a - word_of_nat here else a)))"
proof -
  have lay: "layout st" using layout_nodes [OF assms(1,2) layout_new] by simp
  then have wf: "wf_targets st" by (simp add: layout_def)
  note laws = backpatch_labels_laws [OF assms(3) wf assms(4)]
  obtain a c where a: "label_addresses st nm = Some (a, c)"
    using laws assms(5) by fastforce
  let ?i = "bt_instruction t" and ?n = "size_bytes (bt_size t)"
  let ?here = "instruction_offset st ?i"
  let ?v = "if bt_relative t then a - word_of_nat ?here else a"
  have shape: "same_shape st st'" using laws patched_shape by blast
  note same = same_shape_simps [OF shape]
  have fit: "?i < length (store st)" "bt_index t + ?n \<le> length (ai_value (store st ! ?i))"
    using wf assms(6) by (auto simp: wf_targets_def fits_def target_end_def)
  have v: "patch_value st t a = ?v"
    using lay assms(6) by (auto simp: patch_value_def layout_def)
  have "(t, a) \<in> set (patches st nm)"
    using assms(6) a by (auto simp: patches_def)
  then have mem: "(t, a) \<in> set (concat (map (patches st) names))"
    using assms(5) by auto
  have "instruction_bytes st' ! (?here + bt_index t + j) = le_bytes_32 ?v ! j" if j: "j < ?n" for j
  proof -
    have "instruction_bytes st' ! (?here + (bt_index t + j)) = code_byte st' ?i (bt_index t + j)"
      using code_byte_place [of ?i st' "bt_index t + j"] fit j same instruction_offset_shape [OF shape]
      by simp
    also have "\<dots> = le_bytes_32 (patch_value st t a) ! (bt_index t + j - bt_index t)"
      using laws mem fit j unfolding patched_def by (auto simp: covers_def target_end_def)
    finally show ?thesis by (simp add: v add.assoc)
  qed
  moreover have "?here + bt_index t + ?n \<le> length (instruction_bytes st')"
    using code_byte_bound [of ?i st' "bt_index t + ?n - 1"] fit same(1) same(2) [of ?i]
      instruction_offset_shape [OF shape, of ?i] size_bytes_pos(1) [of "bt_size t"] by linarith
  ultimately have "take ?n (drop (?here + bt_index t) (instruction_bytes st')) = take ?n (le_bytes_32 ?v)"
    using size_bytes_pos(2) [of "bt_size t"] by (intro nth_equalityI) simp_all
  then show ?thesis using a by (auto simp: Let_def)
qed

theorem labels_filled_witness:
  "\<exists>st'. backpatch_labels True [''a''] sample_assembled = Inr st' \<and>
    take 4 (drop 3 (instruction_bytes st')) = [0, 0, 0, 0]"
proof -
  obtain st' where run: "backpatch_labels True [''a''] sample_assembled = Inr st'"
    using sample_backpatched by blast
  have "take 4 (drop 3 (instruction_bytes st')) = [0, 0, 0, 0]"
    using labels_filled [OF sample_assembles sample_no_origin run, of "''a''" sample_target]
    by (auto simp: Let_def size_bytes_def instruction_offset_def le_bytes_32_def sample_target_fields numeral_3_eq_3)
  with run show ?thesis by blast
qed

definition defines_label :: "ast_node \<Rightarrow> string \<Rightarrow> bool" where
  "defines_label node nm \<longleftrightarrow> (\<exists>k. node = LabelDefine nm k) \<or> (\<exists>a. node = Constant nm a)"

text \<open>A step keeps the code so far, and the labels it does not define.\<close>

lemma step_extends:
  assumes "assemble_step chk node st = Inr st'"
  shows "(\<exists>rest. store st' = store st @ rest) \<and>
    (\<not> defines_label node nm \<longrightarrow> label_addresses st' nm = label_addresses st nm)"
proof (cases "\<exists>a. node = Origin a")
  case True
  then show ?thesis using assms by (auto simp: assemble_step_def split: if_splits)
next
  case False
  then have "\<forall>a. node \<noteq> Origin a" by blast
  from assemble_step_cases [OF assms this] show ?thesis by (auto simp: appends_def defines_label_def)
qed

lemma nodes_extend:
  assumes "assemble_nodes chk nodes st = Inr st'"
  shows "(\<exists>rest. store st' = store st @ rest) \<and>
    ((\<forall>node\<in>set nodes. \<not> defines_label node nm) \<longrightarrow> label_addresses st' nm = label_addresses st nm)"
  using assms
proof (induction nodes arbitrary: st)
  case (Cons node nodes)
  from Cons.prems obtain st1 where 1: "assemble_step chk node st = Inr st1"
    and 2: "assemble_nodes chk nodes st1 = Inr st'"
    by (auto simp: rbind_eq_Inr)
  obtain r1 r2 where "store st1 = store st @ r1" "store st' = store st1 @ r2"
    using step_extends [OF 1] Cons.IH [OF 2] by blast
  then show ?case using step_extends [OF 1, of nm] Cons.IH [OF 2] by auto
qed simp

lemma bytes_extend:
  "assemble_nodes chk nodes st = Inr st' \<Longrightarrow> \<exists>rest. instruction_bytes st' = instruction_bytes st @ rest"
  using nodes_extend by (fastforce simp: instruction_bytes_def)

text \<open>Between two origins the address moves with the bytes laid down.\<close>

lemma address_moves:
  assumes "assemble_nodes chk nodes st = Inr st'" and "no_origin nodes"
  shows "current_address st' =
    current_address st + word_of_nat (length (instruction_bytes st') - length (instruction_bytes st))"
  using assms
proof (induction nodes arbitrary: st)
  case (Cons node nodes)
  from Cons.prems(1) obtain st1 where 1: "assemble_step chk node st = Inr st1"
    and 2: "assemble_nodes chk nodes st1 = Inr st'"
    by (auto simp: rbind_eq_Inr)
  have nodes: "\<forall>a. node \<noteq> Origin a" "no_origin nodes"
    using Cons.prems(2) by (auto simp: no_origin_def)
  have "current_address st1 =
      current_address st + word_of_nat (length (instruction_bytes st1) - length (instruction_bytes st)) \<and>
      length (instruction_bytes st) \<le> length (instruction_bytes st1)"
    using assemble_step_cases [OF 1 nodes(1)] by (auto simp: appends_def instruction_bytes_def)
  moreover have "length (instruction_bytes st1) \<le> length (instruction_bytes st')"
    using bytes_extend [OF 2] by auto
  ultimately show ?case using Cons.IH [OF 2 nodes(2)] by (simp add: of_nat_diff)
qed simp

text \<open>
  C23. Label positions. A label's address is that of the last bare \<open>org\<close> before its definition
  (0 when there is none) plus the number of code bytes laid down between the two. The code before
  the definition stays the beginning of the code, and the last definition of a name counts.
\<close>

theorem label_position:
  assumes "assemble_nodes chk (pre @ since @ LabelDefine nm k # later) assembler_new = Inr st"
    and "pre = [] \<and> base = 0 \<or> (\<exists>front. pre = front @ [Origin base])" and "no_origin since"
    and "\<forall>node\<in>set later. \<not> defines_label node nm"
  shows "\<exists>st0 st1 laid rest. assemble_nodes chk pre assembler_new = Inr st0 \<and>
    assemble_nodes chk (pre @ since) assembler_new = Inr st1 \<and>
    instruction_bytes st1 = instruction_bytes st0 @ laid \<and>
    instruction_bytes st = instruction_bytes st1 @ rest \<and>
    label_addresses st nm = Some (base + word_of_nat (length laid), False)"
proof -
  from assms(1) obtain st0 st1 st2 where 0: "assemble_nodes chk pre assembler_new = Inr st0"
    and 1: "assemble_nodes chk since st0 = Inr st1"
    and 2: "assemble_step chk (LabelDefine nm k) st1 = Inr st2"
    and 3: "assemble_nodes chk later st2 = Inr st"
    by (auto simp: assemble_nodes_append rbind_eq_Inr)
  have st2: "st2 = st1\<lparr>label_addresses := (label_addresses st1)(nm \<mapsto> (current_address st1, False))\<rparr>"
    using 2 by (simp add: assemble_step_def)
  have base: "current_address st0 = base"
    using assms(2)
  proof (elim disjE exE conjE)
    fix front assume "pre = front @ [Origin base]"
    then show ?thesis
      using 0 by (auto simp: assemble_nodes_append rbind_eq_Inr assemble_step_def split: if_splits)
  qed (use 0 in \<open>auto simp: assembler_new_def\<close>)
  obtain laid where laid: "instruction_bytes st1 = instruction_bytes st0 @ laid"
    using bytes_extend [OF 1] by blast
  obtain rest where "instruction_bytes st = instruction_bytes st2 @ rest"
    using bytes_extend [OF 3] by blast
  then have "instruction_bytes st = instruction_bytes st1 @ rest"
    by (simp add: st2 instruction_bytes_def)
  moreover have "label_addresses st nm = Some (current_address st1, False)"
    using nodes_extend [OF 3, of nm] assms(4) by (simp add: st2)
  moreover have "current_address st1 = base + word_of_nat (length laid)"
    using address_moves [OF 1 assms(3)] by (simp add: base laid)
  ultimately show ?thesis using 0 1 laid by (auto simp: assemble_nodes_append)
qed

text \<open>A label two bytes behind \<open>org 0x100\<close>, in a program that starts with a byte at 0.\<close>

theorem label_position_witness:
  "\<exists>st. assemble_nodes True [DataByte 7, Origin 0x100, DataHalf 5, LabelDefine ''a'' LabelInternal, DataByte 9]
      assembler_new = Inr st \<and> label_addresses st ''a'' = Some (0x102, False)"
proof -
  let ?nodes = "[DataByte 7, Origin 0x100, DataHalf 5, LabelDefine ''a'' LabelInternal, DataByte 9]"
  obtain st where run: "assemble_nodes True ?nodes assembler_new = Inr st"
    by (simp add: assembler_new_def assemble_step_def assemble_node_def new_instruction_def set_address_def
        advance_address_def checked_plus_def Let_def)
  have split: "?nodes = [DataByte 7, Origin 0x100] @ [DataHalf 5] @ LabelDefine ''a'' LabelInternal # [DataByte 9]"
    by simp
  from label_position [OF run [unfolded split], of "0x100"] obtain st0 st1 laid where
    *: "assemble_nodes True [DataByte 7, Origin 0x100] assembler_new = Inr st0"
    "assemble_nodes True ([DataByte 7, Origin 0x100] @ [DataHalf 5]) assembler_new = Inr st1"
    "instruction_bytes st1 = instruction_bytes st0 @ laid"
    "label_addresses st ''a'' = Some (0x100 + word_of_nat (length laid), False)"
    by (auto simp: no_origin_def defines_label_def)
  have "length laid = 2"
    using *(1-3) by (auto simp: assembler_new_def assemble_step_def assemble_node_def new_instruction_def
        set_address_def advance_address_def checked_plus_def Let_def instruction_bytes_def le_bytes_16_def)
  then show ?thesis using run *(4) by simp
qed

lemma wf_targets_step:
  assumes "assemble_step chk node st = Inr st'" and "wf_targets st"
  shows "wf_targets st'"
proof (cases "\<exists>a. node = Origin a")
  case True
  then obtain a where "st' = st\<lparr>current_address := a\<rparr>"
    using assms(1) by (auto simp: assemble_step_def split: if_splits)
  then show ?thesis
    using assms(2) wf_targets_cong [of st' st] by simp
next
  case False
  then show ?thesis
    using assemble_step_cases [OF assms(1)] assms(2) wf_targets_cong [of st' st]
    by (auto simp: appends_def)
qed

lemma wf_targets_nodes:
  "assemble_nodes chk nodes st = Inr st' \<Longrightarrow> wf_targets st \<Longrightarrow> wf_targets st'"
  by (induction nodes arbitrary: st) (auto simp: rbind_eq_Inr dest: wf_targets_step)

lemma assembled_wf: "assemble_nodes chk nodes assembler_new = Inr st \<Longrightarrow> wf_targets st"
  using wf_targets_nodes layout_new by (auto simp: layout_def)

text \<open>
  C35. Backpatching never fails on a known label. Every place that waits for a label lies inside
  its instruction, so that in the build without overflow checks filling in the labels succeeds
  exactly when each of them is defined.
\<close>

theorem backpatching_succeeds:
  assumes "assemble_nodes chk nodes assembler_new = Inr st" and "distinct names"
  shows "(\<exists>st'. backpatch_labels False names st = Inr st') \<longleftrightarrow>
    (\<forall>nm\<in>set names. label_addresses st nm \<noteq> None)"
  using backpatch_labels_succeeds [OF assembled_wf [OF assms(1)]]
    backpatch_labels_laws [OF _ assembled_wf [OF assms(1)] assms(2)] by blast

theorem backpatching_succeeds_witness:
  "(\<exists>st'. backpatch_labels False [''a''] sample_assembled = Inr st') \<and>
   \<not> (\<exists>st'. backpatch_labels False [''b''] sample_assembled = Inr st')"
  using backpatching_succeeds [OF sample_assembles, of "[''a'']"]
    backpatching_succeeds [OF sample_assembles, of "[''b'']"] by simp

text \<open>
  C25. Order of the labels. The order in which the hash table hands out the labels does not
  matter: the code is the same, and the relocation table has the same entries in some order.
\<close>

theorem backpatch_order:
  assumes "assemble_nodes chk nodes assembler_new = Inr st"
    and "backpatch_labels chk names st = Inr st1" and "backpatch_labels chk names' st = Inr st2"
    and "distinct names" and "mset names' = mset names"
  shows "instruction_bytes st1 = instruction_bytes st2 \<and>
    mset (reloc_addresses st1) = mset (reloc_addresses st2)"
proof -
  note wf = assembled_wf [OF assms(1)]
  have d: "distinct names'" and s: "set names' = set names"
    using assms(4,5) by (metis mset_eq_imp_distinct_iff, metis mset_eq_setD)
  note 1 = backpatch_labels_laws [OF assms(2) wf assms(4)]
    and 2 = backpatch_labels_laws [OF assms(3) wf d]
  note shape = same_shape_simps [OF patched_shape [OF conjunct1 [OF 1]]]
    same_shape_simps [OF patched_shape [OF conjunct1 [OF 2]]]
  have mem: "x \<in> set (concat (map (patches st) names')) \<longleftrightarrow> x \<in> set (concat (map (patches st) names))" for x
    by (simp add: s)
  have "code_byte st1 i k = code_byte st2 i k"
    if i: "i < length (store st)" and k: "k < length (ai_value (store st ! i))" for i k
    using conjunct1 [OF 1] conjunct1 [OF 2] i k unfolding patched_def mem by metis
  then have "ai_value (store st1 ! i) = ai_value (store st2 ! i)" if "i < length (store st)" for i
    using that shape by (intro nth_equalityI) (simp_all add: code_byte_def)
  then have "map ai_value (store st1) = map ai_value (store st2)"
    using shape by (intro nth_equalityI) simp_all
  moreover have "mset (concat (map (relocations st) names)) = mset (concat (map (relocations st) names'))"
    using assms(5) by (simp add: mset_concat) (metis mset_map sum_mset_sum_list)
  ultimately show ?thesis
    using 1 2 by (simp add: instruction_bytes_def)
qed

theorem backpatch_order_witness:
  "\<exists>st st1 st2. assemble_nodes False two_labels assembler_new = Inr st \<and>
     backpatch_labels False [''a'', ''b''] st = Inr st1 \<and>
     backpatch_labels False [''b'', ''a''] st = Inr st2 \<and>
     instruction_bytes st1 = instruction_bytes st2"
proof -
  obtain st where st: "assemble_nodes False two_labels assembler_new = Inr st"
    and labels: "label_addresses st = [''a'' \<mapsto> (0, False), ''b'' \<mapsto> (8, False)]"
    using two_labels_assembles by blast
  obtain st1 where 1: "backpatch_labels False [''a'', ''b''] st = Inr st1"
    using backpatch_labels_succeeds [OF assembled_wf [OF st], of "[''a'', ''b'']"] labels by auto
  obtain st2 where 2: "backpatch_labels False [''b'', ''a''] st = Inr st2"
    using backpatch_labels_succeeds [OF assembled_wf [OF st], of "[''b'', ''a'']"] labels by auto
  show ?thesis using backpatch_order [OF st 1 2] st 1 2 by auto
qed

section \<open>FXF\<close>

lemma put_bytes_at:
  assumes "length xs = n" and "length old = length bs"
  shows "put_bytes n bs (xs @ old @ ys) = Inr (xs @ bs @ ys)"
  using assms by (simp add: put_bytes_def)

text \<open>
  C22. FXF layout. An FXF file is the magic and version, the size of the code and its pointer
  \<open>0x24\<close>, four empty fields, the size of the relocation table in bytes and its pointer, the code,
  and the table, with every number little-endian.
\<close>

theorem fxf_layout:
  assumes "emit chk True st = Inr binary"
  shows "binary =
    [0x46, 0x58, 0x46, 0] @ le_bytes_32 (word_of_nat (length (instruction_bytes st))) @
    le_bytes_32 0x24 @ concat (replicate 4 (le_bytes_32 0)) @
    le_bytes_32 (word_of_nat (4 * length (reloc_addresses st))) @
    le_bytes_32 (word_of_nat (36 + length (instruction_bytes st))) @
    instruction_bytes st @ concat (map le_bytes_32 (reloc_addresses st))"
proof -
  define code where "code = instruction_bytes st"
  define table where "table = concat (map le_bytes_32 (reloc_addresses st))"
  define z where "z = le_bytes_32 0"
  define pre where "pre = [0x46, 0x58, 0x46, 0] @ le_bytes_32 (word_of_nat (length code)) @
    le_bytes_32 0x24 @ z @ z @ z @ z"
  define sz where "sz = le_bytes_32 (word_of_nat (4 * length (reloc_addresses st)))"
  define ptr where "ptr = le_bytes_32 (word_of_nat (36 + length code))"
  have lens: "length pre = 28" "length sz = 4" "length ptr = 4" "length z = 4"
    by (simp_all add: pre_def sz_def ptr_def z_def)
  have sum: "sum_list (map (\<lambda>x. length (ai_value x)) (store st)) = length code"
    by (simp add: code_def instruction_bytes_def length_concat comp_def)
  have header: "fxf_header st = pre @ z @ z"
    by (simp add: fxf_header_def sum pre_def z_def)
  have "put_bytes FXF_RELOC_SIZE sz (pre @ z @ (z @ code @ table)) = Inr (pre @ sz @ z @ code @ table)"
    by (rule put_bytes_at) (simp_all add: FXF_RELOC_SIZE_def lens)
  moreover have "put_bytes FXF_RELOC_PTR ptr ((pre @ sz) @ z @ (code @ table)) =
      Inr ((pre @ sz) @ ptr @ (code @ table))"
    by (rule put_bytes_at) (simp_all add: FXF_RELOC_PTR_def lens)
  moreover from assms have "rbind (put_bytes FXF_RELOC_SIZE sz (pre @ z @ (z @ code @ table)))
      (put_bytes FXF_RELOC_PTR ptr) = Inr binary"
    unfolding emit_def Let_def header
    by (auto simp: rbind_eq_Inr lens sz_def ptr_def code_def table_def add.commute split: if_splits)
  ultimately have "binary = pre @ sz @ ptr @ code @ table"
    by simp
  then show ?thesis
    by (simp add: pre_def sz_def ptr_def code_def table_def z_def numeral_eq_Suc)
qed

theorem fxf_layout_witness:
  "\<exists>binary. emit True True sample_assembled = Inr binary \<and> take 4 binary = [0x46, 0x58, 0x46, 0]"
proof -
  obtain binary where run: "emit True True sample_assembled = Inr binary"
    by (auto simp: emit_def Let_def put_bytes_def FXF_RELOC_SIZE_def FXF_RELOC_PTR_def fxf_header_def
        sample_assembled_def)
  from fxf_layout [OF run] run show ?thesis by simp
qed

end
