(* ===== verification/Programs.thy ===== *)
theory Programs
  imports AssemblerLaws Encoding StepLaws Samples
begin

text \<open>
  The assembler and the processor together: the bytes of an assembled instruction are the
  instruction the processor runs, its operands read back what the source text says, and the
  assembler counts addresses as the processor does. Then a loop, from its code in memory.
\<close>

section \<open>The bytes of an assembled instruction\<close>

text \<open>The bytes an operand is assembled to; a label leaves room that backpatching fills.\<close>

definition operand_bytes :: "ast_node \<Rightarrow> u8 list" where
  "operand_bytes opnd =
     (case opnd of
        Register reg \<Rightarrow> [reg]
      | RegisterPointer reg \<Rightarrow> [reg]
      | Immediate8 v \<Rightarrow> [v]
      | Immediate16 v \<Rightarrow> le_bytes_16 v
      | Immediate32 v \<Rightarrow> le_bytes_32 v
      | ImmediatePointer v \<Rightarrow> le_bytes_32 v
      | LabelOperand _ sz _ \<Rightarrow> replicate (size_bytes sz) 0xAB
      | _ \<Rightarrow> replicate 4 0xAB)"

definition node_operands :: "ast_node \<Rightarrow> ast_node list" where
  "node_operands node =
     (case node of
        OperationOne _ _ _ opnd \<Rightarrow> [opnd]
      | OperationTwo _ _ _ lhs rhs \<Rightarrow> [rhs, lhs]
      | _ \<Rightarrow> [])"

lemma generate_bytes:
  "i < length (store st) \<Longrightarrow> ai_value (store (generate_backpatch_immediate nm sz i rel st) ! i) =
     ai_value (store st ! i) @ replicate (size_bytes sz) 0xAB"
  by (simp add: generate_backpatch_immediate_def extend_instruction_def Let_def)

lemma immediate_bytes:
  assumes "i < length (store st)"
  shows "source_immediate opnd i st = Inr st' \<Longrightarrow>
      ai_value (store st' ! i) = ai_value (store st ! i) @ operand_bytes opnd"
    and "destination_immediate opnd i st = Inr st' \<Longrightarrow>
      ai_value (store st' ! i) = ai_value (store st ! i) @ operand_bytes opnd"
  using assms
  by (auto simp: source_immediate_def destination_immediate_def operand_bytes_def generate_bytes
      extend_instruction_def size_bytes_def split: ast_node.splits)

lemma immediates_bytes:
  assumes "node_to_immediate_values node i st = Inr st'" and "i < length (store st)"
  shows "ai_value (store st' ! i) = ai_value (store st ! i) @ concat (map operand_bytes (node_operands node))"
proof -
  have two: "ai_value (store st2 ! i) = ai_value (store st ! i) @ operand_bytes a @ operand_bytes b"
    if s: "source_immediate a i st = Inr st1" and d: "destination_immediate b i st1 = Inr st2" for a b st1 st2
  proof -
    have "i < length (store st1)" using adds_immediates(1) [OF assms(2) s] assms(2) by (simp add: adds_def)
    from immediate_bytes(2) [OF this d] show ?thesis by (simp add: immediate_bytes(1) [OF assms(2) s])
  qed
  show ?thesis
    using assms(1) immediate_bytes(1) [OF assms(2)]
    by (cases node) (auto simp: node_to_immediate_values_def node_operands_def rbind_eq_Inr dest: two)
qed

definition is_operation :: "ast_node \<Rightarrow> bool" where
  "is_operation node \<longleftrightarrow>
     (case node of OperationZero _ _ \<Rightarrow> True | OperationOne _ _ _ _ \<Rightarrow> True
      | OperationTwo _ _ _ _ _ \<Rightarrow> True | _ \<Rightarrow> False)"

lemma assembled_bytes:
  assumes "assemble_node node st = Inr (i, st')" and "is_operation node"
  shows "\<exists>lo hi. condition_source_destination_to_byte node = Inr lo \<and> instruction_to_byte node = Inr hi \<and>
    ai_value (store st' ! i) = [lo, hi] @ concat (map operand_bytes (node_operands node))"
proof -
  have "rbind (condition_source_destination_to_byte node) (\<lambda>lo.
      rbind (instruction_to_byte node) (\<lambda>hi.
      case new_instruction [lo, hi] st of (i, st) \<Rightarrow>
        rbind (node_to_immediate_values node i st) (\<lambda>st. Inr (i, st)))) = Inr (i, st')"
    using assms by (cases node) (simp_all add: assemble_node_def is_operation_def)
  then obtain lo hi st1 where lo: "condition_source_destination_to_byte node = Inr lo"
    and hi: "instruction_to_byte node = Inr hi" and new: "new_instruction [lo, hi] st = (i, st1)"
    and imm: "node_to_immediate_values node i st1 = Inr st'"
    by (auto simp: rbind_eq_Inr new_instruction_def)
  have st1: "i < length (store st1)" "ai_value (store st1 ! i) = [lo, hi]"
    using new by (auto simp: new_instruction_def nth_append)
  show ?thesis using lo hi immediates_bytes [OF imm st1(1)] st1(2) by simp
qed

text \<open>
  The operands of an instruction that the parser makes have the size of the instruction: an
  immediate and the room for a label are as wide as the operation.
\<close>

definition sized :: "size \<Rightarrow> ast_node \<Rightarrow> bool" where
  "sized sz opnd \<longleftrightarrow>
     (case opnd of
        Immediate8 _ \<Rightarrow> sz = SizeByte | Immediate16 _ \<Rightarrow> sz = SizeHalf | Immediate32 _ \<Rightarrow> sz = SizeWord
      | LabelOperand _ sz' _ \<Rightarrow> sz' = sz | _ \<Rightarrow> True)"

definition node_size :: "ast_node \<Rightarrow> size" where
  "node_size node =
     (case node of OperationOne sz _ _ _ \<Rightarrow> sz | OperationTwo sz _ _ _ _ \<Rightarrow> sz | _ \<Rightarrow> SizeWord)"

lemma operand_bytes_length:
  assumes "sized sz opnd" and "source_bits opnd = Inr sb \<or> destination_bits opnd = Inr sb"
  shows "word_of_nat (length (operand_bytes opnd)) = operand_length (operand_of sz opnd)"
  using assms
  by (cases opnd; cases sz)
     (auto simp: sized_def operand_bytes_def operand_length_def operand_of_def immediate_operand_def
        source_bits_def destination_bits_def size_bytes_def)

lemma instruction_operands:
  assumes "instruction_to_byte node = Inr hi"
  shows "operands (instruction_of node) = map (operand_of (node_size node)) (node_operands node)"
proof (cases node)
  case (OperationZero cond instr)
  then show ?thesis by (cases instr) (simp_all add: instruction_of_def operands_def node_operands_def)
next
  case (OperationOne sz cond instr opnd)
  then show ?thesis
    by (cases instr) (simp_all add: instruction_of_def operands_def node_operands_def node_size_def Let_def)
next
  case (OperationTwo sz cond instr lhs rhs)
  then show ?thesis
    by (cases instr) (simp_all add: instruction_of_def operands_def node_operands_def node_size_def Let_def)
qed (use assms in \<open>simp_all add: instruction_to_byte_def\<close>)

lemma node_operands_bits:
  assumes "condition_source_destination_to_byte node = Inr lo" and "opnd \<in> set (node_operands node)"
  shows "\<exists>sb. source_bits opnd = Inr sb \<or> destination_bits opnd = Inr sb"
  using assms
  by (cases node) (auto simp: condition_source_destination_to_byte_def node_operands_def rbind_eq_Inr)

lemma length_concat_word:
  "word_of_nat (length (concat xss)) = sum_list (map (\<lambda>xs. word_of_nat (length xs) :: u32) xss)"
  by (induction xss) simp_all

lemma assembled_length:
  assumes "assemble_node node st = Inr (i, st')" and "is_operation node"
    and "\<forall>opnd\<in>set (node_operands node). sized (node_size node) opnd"
  shows "word_of_nat (length (ai_value (store st' ! i))) = instruction_length (instruction_of node)"
proof -
  from assembled_bytes [OF assms(1,2)] obtain lo hi
    where lo: "condition_source_destination_to_byte node = Inr lo" and hi: "instruction_to_byte node = Inr hi"
    and bytes: "ai_value (store st' ! i) = [lo, hi] @ concat (map operand_bytes (node_operands node))"
    by blast
  have "word_of_nat (length (operand_bytes x)) = operand_length (operand_of (node_size node) x)"
    if x: "x \<in> set (node_operands node)" for x
    using node_operands_bits [OF lo x] operand_bytes_length assms(3) x by blast
  then have maps: "map ((\<lambda>xs. word_of_nat (length xs)) \<circ> operand_bytes) (node_operands node) =
      map (operand_length \<circ> operand_of (node_size node)) (node_operands node)"
    by (auto simp: comp_def)
  have "word_of_nat (length (concat (map operand_bytes (node_operands node)))) =
      sum_list (map operand_length (map (operand_of (node_size node)) (node_operands node)))"
    by (simp only: length_concat_word map_map maps)
  then show ?thesis
    unfolding bytes instruction_length_def instruction_operands [OF hi] by (simp add: add.commute)
qed

section \<open>Code in memory\<close>

lemma load_bytes_part:
  assumes "load_bytes n m a = Inr bs" and "k + j \<le> n" and "n \<le> 512" and "0 < j"
  shows "load_bytes j m (a + word_of_nat k) = Inr (take j (drop k bs))"
    and "unat a + k < 2 ^ 32" and "unat (a + word_of_nat k) = unat a + k"
proof -
  have "mapped n a" using load_bytes_Inr_iff [OF assms(3)] assms(1) by blast
  then have bound: "unat a + n \<le> 0xF0080000" by (auto simp: mapped_def in_ram_def in_rom_def)
  then show small: "unat a + k < 2 ^ 32" using assms(2,4) by simp
  have k: "k < 2 ^ 32" using assms(2,3) by simp
  show u: "unat (a + word_of_nat k) = unat a + k"
    unfolding unat_word_ariths(1) using small u32_of_small [OF k] by simp
  have bs: "bs = get_slice (region_bytes m r) off n" if "find_unwrapped n a = Inr (r, off)" for r off
    using assms(1) that by (simp add: load_bytes_def)
  have "find_unwrapped j (a + word_of_nat k) = Inr (r, off + k)" if "find_unwrapped n a = Inr (r, off)" for r off
    using that assms(2,3,4)
    by (auto simp: find_unwrapped_spec in_ram_def in_rom_def u split: if_splits)
  moreover obtain r off where slot: "find_unwrapped n a = Inr (r, off)"
    using assms(1) by (cases "find_unwrapped n a") (auto simp: load_bytes_def)
  ultimately have "load_bytes j m (a + word_of_nat k) = Inr (get_slice (region_bytes m r) (off + k) j)"
    by (simp add: load_bytes_def)
  also have "get_slice (region_bytes m r) (off + k) j = take j (drop k bs)"
    unfolding bs [OF slot] using assms(2)
    by (intro nth_equalityI) (auto simp: get_slice_def add.assoc)
  finally show "load_bytes j m (a + word_of_nat k) = Inr (take j (drop k bs))" .
qed

text \<open>The bytes \<open>bs\<close> are at the instruction pointer.\<close>

definition code_at :: "'k cpu \<Rightarrow> u8 list \<Rightarrow> bool" where
  "code_at c bs \<longleftrightarrow> length bs \<le> 512 \<and>
     load_bytes (length bs) (memory (bus c)) (instruction_pointer c) = Inr bs"

lemma code_fetch:
  assumes "code_at c bs" and "k + j \<le> length bs" and "0 < j"
  shows "ip_plus e c (word_of_nat k) = Inr (instruction_pointer c + word_of_nat k)"
    and "load_bytes j (memory (bus c)) (instruction_pointer c + word_of_nat k) = Inr (take j (drop k bs))"
proof -
  note part = load_bytes_part [of "length bs" "memory (bus c)" "instruction_pointer c" bs k j]
  have k: "unat (word_of_nat k :: u32) = k" using assms(1,2) by (intro u32_of_small) (simp add: code_at_def)
  show "ip_plus e c (word_of_nat k) = Inr (instruction_pointer c + word_of_nat k)"
    using part(2) assms by (simp add: ip_plus_def checked_plus_def k code_at_def)
  show "load_bytes j (memory (bus c)) (instruction_pointer c + word_of_nat k) = Inr (take j (drop k bs))"
    using part(1) assms by (simp add: code_at_def)
qed

lemma code_fetches:
  assumes "code_at c bs"
  shows "k < length bs \<Longrightarrow> fetch_8 e c (word_of_nat k) = Inr (bs ! k)"
    and "k + 2 \<le> length bs \<Longrightarrow> fetch_16 e c (word_of_nat k) = Inr (le_word_16 (take 2 (drop k bs)))"
    and "k + 4 \<le> length bs \<Longrightarrow> fetch_32 e c (word_of_nat k) = Inr (le_word_32 (take 4 (drop k bs)))"
  using code_fetch(1) [OF assms, of k 1 e] code_fetch(2) [OF assms, of k 1]
    code_fetch(1) [OF assms, of k 2 e] code_fetch(2) [OF assms, of k 2]
    code_fetch(1) [OF assms, of k 4 e] code_fetch(2) [OF assms, of k 4]
  by (simp_all add: fetch_8_def fetch_16_def fetch_32_def mem_read_8_def mem_read_16_def mem_read_32_def
      read_8_def read_16_def read_32_def le_word_8_def hd_drop_conv_nth take_Suc)

lemma code_opcode:
  assumes "code_at c bs" and "2 \<le> length bs"
  shows "mem_read_16 c (instruction_pointer c) = Inr (le_word_16 (take 2 bs))"
  using code_fetch(2) [OF assms(1), of 0 2] assms(2) by (simp add: mem_read_16_def read_16_def)

section \<open>Operands read back\<close>

text \<open>What an operand of the source text means to the processor.\<close>

definition operand_value :: "'k cpu \<Rightarrow> size \<Rightarrow> ast_node \<Rightarrow> u32 res" where
  "operand_value c sz opnd =
     (case opnd of
        Register reg \<Rightarrow> read_register c reg
      | RegisterPointer reg \<Rightarrow> rbind (read_register c reg) (mem_read_32 c)
      | Immediate8 v \<Rightarrow> Inr (ucast v)
      | Immediate16 v \<Rightarrow> Inr (ucast v)
      | Immediate32 v \<Rightarrow> Inr v
      | ImmediatePointer p \<Rightarrow>
          (case sz of
             SizeByte \<Rightarrow> rbind (mem_read_8 c p) (\<lambda>v. Inr (ucast v))
           | SizeHalf \<Rightarrow> rbind (mem_read_16 c p) (\<lambda>v. Inr (ucast v))
           | SizeWord \<Rightarrow> mem_read_32 c p)
      | _ \<Rightarrow> Inl NotAnInstruction)"

definition has_label :: "ast_node \<Rightarrow> bool" where
  "has_label opnd \<longleftrightarrow>
     (case opnd of LabelOperand _ _ _ \<Rightarrow> True | LabelOperandPointer _ _ \<Rightarrow> True | _ \<Rightarrow> False)"

lemma read_source_assembled:
  assumes "code_at c ([lo, hi] @ operand_bytes opnd @ rest)" and "sized sz opnd"
    and "source_bits opnd = Inr sb" and "\<not> has_label opnd"
  shows "read_source e c (operand_of sz opnd) =
    rbind (operand_value c sz opnd) (\<lambda>v. Inr (v, 2 + operand_length (operand_of sz opnd)))"
proof -
  note fetch = code_fetches [OF assms(1), of 2]
  show ?thesis
    using assms(2-4) fetch
    by (cases opnd; cases sz)
       (auto simp: sized_def source_bits_def has_label_def operand_bytes_def operand_of_def operand_value_def
          immediate_operand_def read_source_def operand_length_def rbind_assoc Let_def)
qed

lemma destination_assembled:
  assumes "code_at c (pre @ operand_bytes opnd)" and "destination_bits opnd = Inr db" and "\<not> has_label opnd"
  shows "(case opnd of
      ImmediatePointer p \<Rightarrow> fetch_32 e c (word_of_nat (length pre)) = Inr p
    | Register reg \<Rightarrow> fetch_8 e c (word_of_nat (length pre)) = Inr reg
    | RegisterPointer reg \<Rightarrow> fetch_8 e c (word_of_nat (length pre)) = Inr reg
    | _ \<Rightarrow> False)"
  using assms(2,3) code_fetches [OF assms(1), of "length pre" e]
  by (cases opnd) (auto simp: destination_bits_def has_label_def operand_bytes_def)

text \<open>
  C14. Instruction lengths agree. The assembler emits for every instruction exactly as many bytes
  as the processor steps over, so that the assembler's addresses are the processor's.
\<close>

theorem assembled_lengths:
  assumes "assemble_node node st = Inr (i, st')" and "is_operation node"
    and "\<forall>opnd\<in>set (node_operands node). sized (node_size node) opnd"
  shows "word_of_nat (length (ai_value (store st' ! i))) = instruction_length (instruction_of node)"
  using assms by (rule assembled_length)

text \<open>\<open>add.16 [0x1000], 5\<close>\<close>

definition sample_add :: ast_node where
  "sample_add = OperationTwo SizeHalf CondAlways T_Add (ImmediatePointer 0x1000) (Immediate16 5)"

lemma sample_add_assembles:
  "\<exists>st'. assemble_node sample_add assembler_new = Inr (0, st') \<and>
     ai_value (store st' ! 0) = [0x0E, 0x41, 5, 0, 0, 0x10, 0, 0]"
  by (simp add: sample_add_def assemble_node_def condition_source_destination_to_byte_def source_bits_def
      destination_bits_def condition_bits_def instruction_to_byte_def size_to_byte_def new_instruction_def
      node_to_immediate_values_def source_immediate_def destination_immediate_def extend_instruction_def
      assembler_new_def le_bytes_16_def le_bytes_32_def)

theorem assembled_lengths_witness:
  "\<exists>st'. assemble_node sample_add assembler_new = Inr (0, st') \<and>
     length (ai_value (store st' ! 0)) = 8 \<and> instruction_length (instruction_of sample_add) = 8"
proof -
  obtain st' where a: "assemble_node sample_add assembler_new = Inr (0, st')"
    "ai_value (store st' ! 0) = [0x0E, 0x41, 5, 0, 0, 0x10, 0, 0]"
    using sample_add_assembles by blast
  have "instruction_length (instruction_of sample_add) = 8"
    using assembled_lengths [OF a(1)] a(2)
    by (simp add: sample_add_def is_operation_def node_operands_def node_size_def sized_def)
  then show ?thesis using a by auto
qed

text \<open>
  C8. The processor runs what was assembled. With the bytes of an assembled two-operand
  instruction at the instruction pointer, a step executes that instruction, its source operand
  evaluates to what the operand of the source text means, and its destination operand is found
  right behind it.
\<close>

theorem assembled_runs:
  assumes "assemble_node (OperationTwo sz cond instr lhs rhs) st = Inr (i, st')"
    and "sized sz rhs" and "\<not> has_label rhs" and "\<not> has_label lhs"
    and "code_at c (ai_value (store st' ! i))"
  shows "execute_memory_instruction e c =
      rbind (execute_instruction e (instruction_of (OperationTwo sz cond instr lhs rhs)) c)
        (\<lambda>(nx, c). Inr (c\<lparr>instruction_pointer := nx\<rparr>)) \<and>
    read_source e c (operand_of sz rhs) =
      rbind (operand_value c sz rhs) (\<lambda>v. Inr (v, 2 + operand_length (operand_of sz rhs))) \<and>
    (case lhs of
       ImmediatePointer p \<Rightarrow> fetch_32 e c (2 + operand_length (operand_of sz rhs)) = Inr p
     | Register reg \<Rightarrow> fetch_8 e c (2 + operand_length (operand_of sz rhs)) = Inr reg
     | RegisterPointer reg \<Rightarrow> fetch_8 e c (2 + operand_length (operand_of sz rhs)) = Inr reg
     | _ \<Rightarrow> False)"
proof -
  let ?node = "OperationTwo sz cond instr lhs rhs"
  have "is_operation ?node" by (simp add: is_operation_def)
  from assembled_bytes [OF assms(1) this] obtain lo hi
    where lo: "condition_source_destination_to_byte ?node = Inr lo" and hi: "instruction_to_byte ?node = Inr hi"
    and bytes: "ai_value (store st' ! i) = [lo, hi] @ operand_bytes rhs @ operand_bytes lhs"
    by (auto simp: node_operands_def)
  obtain sb db where sb: "source_bits rhs = Inr sb" and db: "destination_bits lhs = Inr db"
    using lo by (auto simp: condition_source_destination_to_byte_def rbind_eq_Inr)
  have code: "code_at c ([lo, hi] @ operand_bytes rhs @ operand_bytes lhs)"
    "code_at c (([lo, hi] @ operand_bytes rhs) @ operand_bytes lhs)"
    using assms(5) by (simp_all only: bytes append_assoc)
  have "mem_read_16 c (instruction_pointer c) = Inr (le_word_16 [lo, hi])"
    using code_opcode [OF code(1)] by simp
  moreover have "word_of_nat (length ([lo, hi] @ operand_bytes rhs)) = 2 + operand_length (operand_of sz rhs)"
    using operand_bytes_length [OF assms(2)] sb by (auto simp: add.commute)
  ultimately show ?thesis
    using read_source_assembled [OF code(1) assms(2) sb assms(3), of e]
      destination_assembled [OF code(2) db assms(4), of e] opcode_decodes [OF hi lo]
    by (simp add: execute_memory_instruction_def cong: ast_node.case_cong)
qed

lemma sample_code_at: "length code \<le> 512 \<Longrightarrow> code_at (sample_cpu code regs) code"
  using sample_load [of 0 "length code" code] by (simp add: code_at_def)

theorem assembled_runs_witness:
  "\<exists>st'. assemble_node sample_add assembler_new = Inr (0, st') \<and>
     read_source sample_env (sample_cpu (ai_value (store st' ! 0)) []) OpImmediate16 = Inr (5, 4) \<and>
     fetch_32 sample_env (sample_cpu (ai_value (store st' ! 0)) []) 4 = Inr 0x1000"
proof -
  obtain st' where a: "assemble_node sample_add assembler_new = Inr (0, st')"
    "ai_value (store st' ! 0) = [0x0E, 0x41, 5, 0, 0, 0x10, 0, 0]"
    using sample_add_assembles by blast
  have "code_at (sample_cpu (ai_value (store st' ! 0)) []) (ai_value (store st' ! 0))"
    by (rule sample_code_at) (simp add: a(2))
  from assembled_runs [OF a(1) [unfolded sample_add_def] _ _ _ this, of sample_env] show ?thesis
    using a(1)
    by (simp add: sized_def has_label_def operand_of_def immediate_operand_def operand_value_def
        operand_length_def)
qed

section \<open>A loop\<close>

primrec run_steps :: "'k env \<Rightarrow> nat \<Rightarrow> 'k cpu \<Rightarrow> 'k cpu res" where
  "run_steps e 0 c = Inr c"
| "run_steps e (Suc n) c = rbind (execute_memory_instruction e c) (run_steps e n)"

lemma run_steps_snoc: "run_steps e (Suc k) c = rbind (run_steps e k c) (execute_memory_instruction e)"
proof (induction k arbitrary: c)
  case 0
  have "run_steps e 0 = Inr" by (rule ext) simp
  then show ?case by simp
next
  case (Suc k)
  then show ?case
    by (cases "execute_memory_instruction e c") (simp_all only: run_steps.simps rbind_Inl rbind_Inr)
qed

definition counter :: "u32 \<Rightarrow> 'k cpu \<Rightarrow> 'k cpu" where
  "counter w c = c\<lparr>register := (register c)[31 := w]\<rparr>"

lemma counter_twice [simp]: "counter w (counter w' c) = counter w c"
  by (simp add: counter_def)

lemma counter_fields [simp]: "flag (counter w c) = flag c" "bus (counter w c) = bus c"
  "instruction_pointer (counter w c) = instruction_pointer c" "length (register (counter w c)) = length (register c)"
  "length (register c) = 32 \<Longrightarrow> register (counter w c) ! 31 = w"
  by (simp_all add: counter_def)

lemma counter_same: "length (register c) = 32 \<Longrightarrow> counter (register c ! 31) c = c"
  by (simp add: counter_def)

lemma loop_step:
  assumes "code_at c ([lo, hi] @ le_bytes_32 target)"
    and "from_half (le_word_16 [lo, hi]) = Some (I_Loop cond OpImmediate32)"
    and "check_condition c cond" and "length (register c) = 32" and "register c ! 31 = w"
  shows "execute_memory_instruction e c = Inr ((counter (w - 1) c)\<lparr>instruction_pointer :=
      if w - 1 \<noteq> 0 then target else instruction_pointer c + 6\<rparr>)"
proof -
  have len: "length ([lo, hi] @ le_bytes_32 target) = 6" by simp
  have op: "mem_read_16 c (instruction_pointer c) = Inr (le_word_16 [lo, hi])"
    using code_opcode [OF assms(1)] by simp
  have src: "read_source e c OpImmediate32 = Inr (target, 6)"
    using code_fetches(3) [OF assms(1), of 2 e] by (simp add: read_source_def)
  have "ip_plus e c 6 = Inr (instruction_pointer c + 6)"
  proof -
    have "unat (instruction_pointer c) + 6 < 2 ^ 32"
      using load_bytes_Inr_iff [of 6 "memory (bus c)" "instruction_pointer c"] assms(1) len
      by (auto simp: code_at_def mapped_def in_ram_def in_rom_def)
    then show ?thesis by (simp add: ip_plus_def checked_plus_def)
  qed
  then have ip: "advance e 6 (counter v c) = Inr (instruction_pointer c + 6, counter v c)" for v
    by (simp add: advance_def ip_plus_def)
  have reg: "read_register c 31 = Inr w" "write_register c 31 v = Inr (counter v c)" for v
    using assms(4,5) by (simp_all add: read_register_def write_register_def counter_def)
  show ?thesis
    using ip [of "w - 1"] ip [of 0]
    by (simp add: execute_memory_instruction_def op assms(2,3) execute_instruction_def exec_loop_def src reg
        overflowing_sub_def Let_def)
qed

text \<open>
  C21. Loops end. A \<open>loop\<close> instruction that jumps to itself runs exactly as many times as register
  31 says, \<open>2 ^ 32\<close> times when it says 0, and then goes on behind itself with the register 0 and
  nothing else changed; before that it has not left its place.
\<close>

theorem loop_terminates:
  fixes c :: "'k cpu"
  defines "n \<equiv> (if register c ! 31 = 0 then 2 ^ 32 else unat (register c ! 31))"
  assumes "code_at c ([lo, hi] @ le_bytes_32 (instruction_pointer c))"
    and "from_half (le_word_16 [lo, hi]) = Some (I_Loop cond OpImmediate32)"
    and "check_condition c cond" and "length (register c) = 32"
  shows "run_steps e n c = Inr (c\<lparr>register := (register c)[31 := 0],
      instruction_pointer := instruction_pointer c + 6\<rparr>) \<and>
    (\<forall>k<n. \<exists>c'. run_steps e k c = Inr c' \<and> instruction_pointer c' = instruction_pointer c)"
proof -
  let ?w = "register c ! 31"
  have step: "execute_memory_instruction e (counter w c) = Inr (if w - 1 \<noteq> 0 then counter (w - 1) c
      else (counter 0 c)\<lparr>instruction_pointer := instruction_pointer c + 6\<rparr>)" for w
  proof -
    have "code_at (counter w c) ([lo, hi] @ le_bytes_32 (instruction_pointer c))"
      using assms(2) by (simp add: code_at_def)
    moreover have "check_condition (counter w c) cond"
      using assms(4) by (simp add: check_condition_def split: condition.splits)
    ultimately show ?thesis
      using loop_step [of "counter w c" lo hi "instruction_pointer c" cond w e] assms(3,5)
      by (auto simp: counter_def)
  qed
  have word_n: "(word_of_nat n :: u32) = ?w" by (simp add: n_def)
  have nz: "?w - word_of_nat k \<noteq> 0" if "0 < k" "k < n" for k
  proof
    assume "?w - word_of_nat k = 0"
    then have "unat ?w = k mod 2 ^ 32" by (simp add: unat_of_nat)
    then show False using that by (auto simp: n_def split: if_splits)
  qed
  have before: "run_steps e k c = Inr (counter (?w - word_of_nat k) c)" if "k < n" for k
    using that
  proof (induction k)
    case 0
    then show ?case by (simp add: counter_same assms(5))
  next
    case (Suc k)
    then have "?w - word_of_nat k - 1 \<noteq> 0" using nz [of "Suc k"] by (simp add: algebra_simps)
    then show ?case
      unfolding run_steps_snoc using Suc step [of "?w - word_of_nat k"] by (simp add: algebra_simps)
  qed
  have "0 < n" by (auto simp: n_def unat_gt_0)
  then obtain k where k: "n = Suc k" by (cases n) auto
  have "?w - word_of_nat k = 1" using word_n by (simp add: k algebra_simps)
  then have "run_steps e n c = Inr ((counter 0 c)\<lparr>instruction_pointer := instruction_pointer c + 6\<rparr>)"
    unfolding k run_steps_snoc using before [of k] step [of 1] k by simp
  then show ?thesis using before by (auto simp: counter_def)
qed

theorem loop_terminates_witness:
  "run_steps sample_env 3 (sample_cpu [0x02, 0xA8, 0, 0, 0, 0] (replicate 31 0 @ [3])) =
     Inr ((sample_cpu [0x02, 0xA8, 0, 0, 0, 0] (replicate 31 0 @ [3]))
       \<lparr>register := replicate 32 0, instruction_pointer := 6\<rparr>)"
proof -
  let ?c = "sample_cpu [0x02, 0xA8, 0, 0, 0, 0] (replicate 31 0 @ [3])"
  have "code_at ?c ([0x02, 0xA8] @ le_bytes_32 (instruction_pointer ?c))"
    using sample_code_at [of "[0x02, 0xA8, 0, 0, 0, 0]" "replicate 31 0 @ [3]"] by (simp add: le_bytes_32_def)
  moreover have "from_half (le_word_16 [0x02, 0xA8]) = Some (I_Loop CondAlways OpImmediate32)"
    by (simp add: le_word_16_def from_half_def decode_size_def decode_source_def
        decode_destination_def decode_condition_def decode_opcode_def Let_def)
  moreover have "register ?c ! 31 = 3" "(register ?c)[31 := 0] = replicate 32 0"
    by (simp_all add: nth_append list_update_append replicate_app_Cons_same flip: replicate_Suc)
  ultimately show ?thesis
    using loop_terminates [of ?c "0x02" "0xA8" CondAlways sample_env] by (simp add: check_condition_def)
qed

end
