(* ===== verification/JumpSpec.thy ===== *)
theory JumpSpec
  imports AssemblerSpec Programs MachineSpec
begin

text \<open>
  From the label of a jump in the source to the place the processor jumps to: the code that the
  assembler emits for jumps, the labels filled in, the code loaded into memory, and the step that
  executes it.
\<close>

section \<open>Where the targets of an instruction are\<close>

lemma targets_of_other [simp]:
  "targets_of (st\<lparr>store := xs\<rparr>) nm = targets_of st nm"
  "targets_of (st\<lparr>label_addresses := m\<rparr>) nm = targets_of st nm"
  "targets_of (st\<lparr>current_address := a\<rparr>) nm = targets_of st nm"
  by (simp_all add: targets_of_def)

lemma appends_targets:
  assumes "assemble_step chk node st = Inr st'" and "\<forall>a. node \<noteq> Origin a"
    and "t \<in> set (targets_of st' nm)"
  shows "t \<in> set (targets_of st nm) \<or> length (store st) \<le> bt_instruction t"
  using assemble_step_cases [OF assms(1,2)] assms(3)
  by (fastforce simp: appends_def)

lemma later_targets:
  assumes "assemble_nodes chk nodes st = Inr st'" and "no_origin nodes" and "layout st"
    and "t \<in> set (targets_of st' nm)"
  shows "t \<in> set (targets_of st nm) \<or> length (store st) \<le> bt_instruction t"
  using assms
proof (induction nodes arbitrary: st)
  case (Cons node nodes)
  from Cons.prems(1) obtain st1 where 1: "assemble_step chk node st = Inr st1"
    and 2: "assemble_nodes chk nodes st1 = Inr st'"
    by (auto simp: rbind_eq_Inr)
  have o: "\<forall>a. node \<noteq> Origin a" "no_origin [node]" "no_origin nodes"
    using Cons.prems(2) by (auto simp: no_origin_def)
  have "assemble_nodes chk [node] st = Inr st1" using 1 by simp
  from layout_nodes [OF this o(2) Cons.prems(3)]
  have "layout st1" "length (store st) \<le> length (store st1)" by auto
  then show ?case
    using Cons.IH [OF 2 o(3) _ Cons.prems(4)] appends_targets [OF 1 o(1)] by fastforce
qed simp

lemma targets_of_update:
  "targets_of (st\<lparr>label_targets := (label_targets st)(nm \<mapsto> ts)\<rparr>) n = (if n = nm then ts else targets_of st n)"
  by (simp add: targets_of_def)

text \<open>Targets are never given up.\<close>

lemma targets_kept_simps:
  "set (targets_of st n) \<subseteq> set (targets_of (generate_backpatch_immediate nm sz i rel st) n)"
  "targets_of (extend_instruction i bs st) n = targets_of st n"
  "targets_of (set_address i a st) n = targets_of st n"
  "targets_of (snd (new_instruction bs st)) n = targets_of st n"
  by (simp_all add: generate_backpatch_immediate_def extend_instruction_def set_address_def
      new_instruction_def Let_def) (auto simp: targets_of_def)

lemma targets_kept_immediates:
  "source_immediate opnd i st = Inr st' \<Longrightarrow> set (targets_of st n) \<subseteq> set (targets_of st' n)"
  "destination_immediate opnd i st = Inr st' \<Longrightarrow> set (targets_of st n) \<subseteq> set (targets_of st' n)"
  by (auto simp: source_immediate_def destination_immediate_def targets_kept_simps(2)
      intro: targets_kept_simps(1) [THEN subsetD] split: ast_node.splits)

lemma targets_kept_node:
  assumes "assemble_node node st = Inr (i, st')"
  shows "set (targets_of st n) \<subseteq> set (targets_of st' n)"
proof -
  have imm: "set (targets_of s n) \<subseteq> set (targets_of s' n)" if "node_to_immediate_values node i s = Inr s'" for s s'
    using that targets_kept_immediates
    by (auto simp: node_to_immediate_values_def rbind_eq_Inr split: ast_node.splits; blast)
  have new: "targets_of s' n = targets_of s n" if "new_instruction bs s = (j, s')" for bs s j s'
    using that by (auto simp: new_instruction_def targets_of_def)
  have rest: ?thesis if "rbind (condition_source_destination_to_byte node) (\<lambda>lo.
      rbind (instruction_to_byte node) (\<lambda>hi.
      case new_instruction [lo, hi] st of (i, st) \<Rightarrow>
        rbind (node_to_immediate_values node i st) (\<lambda>st. Inr (i, st)))) = Inr (i, st')"
    using that imm new by (fastforce simp: rbind_eq_Inr split: prod.splits)
  show ?thesis
  proof (cases node)
    case (LabelOperand nm sz rel)
    then obtain s where s: "new_instruction [] st = (i, s)" "st' = generate_backpatch_immediate nm sz i rel s"
      using assms by (auto simp: assemble_node_def split: prod.splits)
    show ?thesis using targets_kept_simps(1) [of s n nm sz i rel] new [OF s(1)] s(2) by simp
  qed (use assms new in \<open>simp_all add: assemble_node_def rest\<close>)
qed

lemma targets_kept_step:
  assumes "assemble_step chk node st = Inr st'"
  shows "set (targets_of st n) \<subseteq> set (targets_of st' n)"
proof -
  have adv: "targets_of s' n = targets_of s n" if "advance_address chk k s = Inr s'" for k s s'
    using that by (auto simp: advance_address_def rbind_eq_Inr)
  have rest: ?thesis if "rbind (assemble_node node st) (\<lambda>(i, st).
      let st = set_address i (current_address st) st
      in advance_address chk (word_of_nat (length (ai_value (store st ! i)))) st) = Inr st'"
    using that targets_kept_node adv targets_kept_simps(3)
    by (fastforce simp: rbind_eq_Inr Let_def)
  show ?thesis
    using assms rest adv
    by (cases node)
       (auto simp: assemble_step_def rbind_eq_Inr Let_def new_instruction_def split: if_splits)
qed

lemma targets_kept:
  "assemble_nodes chk nodes st = Inr st' \<Longrightarrow> set (targets_of st n) \<subseteq> set (targets_of st' n)"
  by (induction nodes arbitrary: st) (auto simp: rbind_eq_Inr dest: targets_kept_step)

section \<open>The code of a jump\<close>

definition jump_node :: "condition \<Rightarrow> string \<Rightarrow> bool \<Rightarrow> ast_node" where
  "jump_node cond nm rel =
     OperationOne SizeWord cond (if rel then O_Rjmp else O_Jmp) (LabelOperand nm SizeWord rel)"

lemma jump_opcode:
  "\<exists>lo hi. condition_source_destination_to_byte (jump_node cond nm rel) = Inr lo \<and>
     instruction_to_byte (jump_node cond nm rel) = Inr hi"
  by (simp add: jump_node_def condition_source_destination_to_byte_def instruction_to_byte_def source_bits_def)

lemma assemble_jump:
  assumes "assemble_step chk (jump_node cond nm rel) st = Inr st'"
    and "condition_source_destination_to_byte (jump_node cond nm rel) = Inr lo"
    and "instruction_to_byte (jump_node cond nm rel) = Inr hi"
  shows "store st' = store st @ [\<lparr>ai_value = [lo, hi] @ replicate 4 0xAB, ai_address = current_address st\<rparr>] \<and>
    targets_of st' n = (if n = nm then targets_of st nm @
      [\<lparr>bt_index = 2, bt_size = SizeWord, bt_relative = rel, bt_instruction = length (store st)\<rparr>]
      else targets_of st n)"
  using assms
  by (auto simp: jump_node_def assemble_step_def assemble_node_def new_instruction_def node_to_immediate_values_def
      source_immediate_def generate_backpatch_immediate_def extend_instruction_def set_address_def size_bytes_def
      Let_def targets_of_def numeral_2_eq_2 dest!: advance_address_Inr)

lemma slot_bytes:
  assumes "i < length (store st)"
  shows "take (length (ai_value (store st ! i))) (drop (instruction_offset st i) (instruction_bytes st)) =
    ai_value (store st ! i)"
    and "instruction_offset st i + length (ai_value (store st ! i)) \<le> length (instruction_bytes st)"
proof -
  have "instruction_bytes st = concat (map ai_value (take i (store st))) @ ai_value (store st ! i) @
      concat (map ai_value (drop (Suc i) (store st)))"
    unfolding instruction_bytes_def
    using id_take_nth_drop [OF assms] by (metis concat.simps(2) concat_append list.simps(9) map_append)
  then show "take (length (ai_value (store st ! i))) (drop (instruction_offset st i) (instruction_bytes st)) =
    ai_value (store st ! i)"
    and "instruction_offset st i + length (ai_value (store st ! i)) \<le> length (instruction_bytes st)"
    by (simp_all add: instruction_offset_def)
qed

text \<open>The six bytes of a jump after backpatching: the opcode, and the address or the distance.\<close>

lemma jump_bytes:
  assumes prog: "assemble_nodes chk (before @ jump_node cond nm rel # later) assembler_new = Inr st"
    and "no_origin (before @ later)"
    and bp: "backpatch_labels chk names st = Inr st'" "distinct names" "nm \<in> set names"
    and 0: "assemble_nodes chk before assembler_new = Inr st0"
    and lo: "condition_source_destination_to_byte (jump_node cond nm rel) = Inr lo"
    and hi: "instruction_to_byte (jump_node cond nm rel) = Inr hi"
  defines "pos \<equiv> length (instruction_bytes st0)"
  shows "\<exists>a k. label_addresses st nm = Some (a, k) \<and> pos + 6 \<le> length (instruction_bytes st') \<and>
    take 6 (drop pos (instruction_bytes st')) =
      [lo, hi] @ le_bytes_32 (if rel then a - word_of_nat pos else a)"
proof -
  let ?i = "length (store st0)" and ?node = "jump_node cond nm rel"
  let ?t = "\<lparr>bt_index = 2, bt_size = SizeWord, bt_relative = rel, bt_instruction = ?i\<rparr>"
  obtain st1 where 1: "assemble_step chk ?node st0 = Inr st1" and 2: "assemble_nodes chk later st1 = Inr st"
    using prog 0 by (auto simp: assemble_nodes_append rbind_eq_Inr)
  note jump = assemble_jump [OF 1 lo hi]
  have o: "no_origin before" "no_origin later" "no_origin [?node]"
    using assms(2) by (auto simp: no_origin_def jump_node_def)
  have lay0: "layout st0" using layout_nodes [OF 0 o(1) layout_new] by simp
  have lay1: "layout st1" using layout_nodes [OF _ o(3) lay0, of chk st1] 1 by simp
  from layout_nodes [OF 2 o(2) lay1] obtain rest where lay: "layout st" and store: "store st = store st1 @ rest"
    by blast
  have slot: "?i < length (store st)" "store st ! ?i =
      \<lparr>ai_value = [lo, hi] @ replicate 4 0xAB, ai_address = word_of_nat pos\<rparr>"
    using lay0 jump by (simp_all add: store nth_append layout_def pos_def)
  have offset: "instruction_offset st ?i = pos"
    using jump by (simp add: instruction_offset_def store pos_def instruction_bytes_def)
  have t: "?t \<in> set (targets_of st nm)" using targets_kept [OF 2, of nm] jump by auto
  have only: "u = ?t" if u: "u \<in> set (targets_of st n)" "bt_instruction u = ?i" for u n
  proof -
    have "u \<in> set (targets_of st1 n)" using later_targets [OF 2 o(2) lay1 u(1)] u(2) jump by auto
    moreover have "u \<notin> set (targets_of st0 n)" for n
      using lay0 u(2) by (force simp: layout_def wf_targets_def fits_def)
    ultimately show ?thesis using jump [of n] by (auto split: if_splits)
  qed
  have wf: "wf_targets st" using lay by (simp add: layout_def)
  note laws = backpatch_labels_laws [OF bp(1) wf bp(2)]
  then have patched: "patched (concat (map (patches st) names)) st st'" by blast
  note shape = same_shape_simps [OF patched_shape [OF patched]]
  obtain a k where a: "label_addresses st nm = Some (a, k)" using laws bp(3) by fastforce
  let ?v = "if rel then a - word_of_nat pos else a"
  have mem: "(?t, a) \<in> set (concat (map (patches st) names))"
    using bp(3) t a by (force simp: patches_def)
  have v: "patch_value st ?t a = ?v" by (simp add: patch_value_def slot)
  have byte: "code_byte st' ?i k = ([lo, hi] @ le_bytes_32 ?v) ! k" if k: "k < 6" for k
  proof (cases "k < 2")
    case True
    have "\<forall>u b. (u, b) \<in> set (concat (map (patches st) names)) \<longrightarrow> \<not> covers u ?i k"
    proof (intro allI impI notI)
      fix u b assume "(u, b) \<in> set (concat (map (patches st) names))" "covers u ?i k"
      then have "u = ?t" using only patches_targets by (fastforce simp: covers_def)
      with \<open>covers u ?i k\<close> True show False by (simp add: covers_def)
    qed
    then have "code_byte st' ?i k = code_byte st ?i k"
      using patched slot k by (simp add: patched_def)
    then show ?thesis using less_2_cases [OF True] slot by (auto simp: code_byte_def)
  next
    case False
    then have "covers ?t ?i k" using k by (simp add: covers_def target_end_def size_bytes_def)
    then have "code_byte st' ?i k = le_bytes_32 (patch_value st ?t a) ! (k - 2)"
      using patched mem slot k unfolding patched_def by fastforce
    then show ?thesis unfolding v using False by (simp add: nth_append numeral_2_eq_2)
  qed
  have len: "length (ai_value (store st' ! ?i)) = 6" "?i < length (store st')"
    using shape slot by simp_all
  have "ai_value (store st' ! ?i) = [lo, hi] @ le_bytes_32 ?v"
    using len byte by (intro nth_equalityI) (simp_all add: code_byte_def)
  moreover have "instruction_offset st' ?i = pos"
    using instruction_offset_shape [OF patched_shape [OF patched]] offset by simp
  ultimately show ?thesis using slot_bytes [OF len(2)] len(1) a by auto
qed

text \<open>Code that lies in memory from \<open>base\<close> on: every access inside it reads its bytes.\<close>

definition loaded :: "memory \<Rightarrow> u32 \<Rightarrow> u8 list \<Rightarrow> bool" where
  "loaded m base code \<longleftrightarrow>
     (\<forall>k n. 0 < n \<longrightarrow> n \<le> 512 \<longrightarrow> k + n \<le> length code \<longrightarrow>
        load_bytes n m (base + word_of_nat k) = Inr (take n (drop k code)))"

lemma loaded_code_at:
  assumes "loaded (memory (bus c)) base code" and "instruction_pointer c = base + word_of_nat k"
    and "0 < n" and "n \<le> 512" and "k + n \<le> length code"
  shows "code_at c (take n (drop k code))"
  using assms by (auto simp: loaded_def code_at_def)

lemma rom_loaded:
  assumes "length bs \<le> 0x80000"
  shows "loaded (write_rom bs memory_buffer_new) 0xF0000000 bs"
  unfolding loaded_def
proof (intro allI impI)
  fix k n assume n: "0 < n" "n \<le> 512" "k + n \<le> length bs"
  have "map (\<lambda>j. if k + j < length bs then bs ! (k + j) else 0) [0..<n] = take n (drop k bs)"
    using n by (intro nth_equalityI) auto
  then show "load_bytes n (write_rom bs memory_buffer_new) (0xF0000000 + word_of_nat k) = Inr (take n (drop k bs))"
    using rom_load [of k n bs] n assms by simp
qed

lemma jump_step:
  assumes "code_at c ([lo, hi] @ le_bytes_32 v)"
    and "condition_source_destination_to_byte (jump_node cond nm rel) = Inr lo"
    and "instruction_to_byte (jump_node cond nm rel) = Inr hi" and "check_condition c cond"
  shows "execute_memory_instruction e c =
    Inr (c\<lparr>instruction_pointer := if rel then instruction_pointer c + v else v\<rparr>)"
proof -
  have op: "mem_read_16 c (instruction_pointer c) = Inr (le_word_16 [lo, hi])"
    using code_opcode [OF assms(1)] by simp
  have src: "read_source e c OpImmediate32 = Inr (v, 6)"
    using code_fetches(3) [OF assms(1), of 2 e] by (simp add: read_source_def)
  have "from_half (le_word_16 [lo, hi]) = Some ((if rel then I_Rjmp else I_Jmp) cond OpImmediate32)"
    using opcode_decodes [OF assms(3,2)]
    by (simp add: jump_node_def instruction_of_def operand_of_def immediate_operand_def Let_def)
  then show ?thesis
    using assms(4)
    by (simp add: execute_memory_instruction_def op execute_instruction_def exec_rjmp_def exec_jmp_def src
        relative_to_absolute_def)
qed

lemma label_placed:
  assumes "assemble_nodes chk (pre @ LabelDefine nm k # post) assembler_new = Inr st" and "no_origin pre"
    and "\<forall>node\<in>set post. \<not> defines_label node nm"
  shows "\<exists>st1. assemble_nodes chk pre assembler_new = Inr st1 \<and>
    length (instruction_bytes st1) \<le> length (instruction_bytes st) \<and>
    label_addresses st nm = Some (word_of_nat (length (instruction_bytes st1)), False)"
proof -
  from assms(1) obtain st1 st2 where 1: "assemble_nodes chk pre assembler_new = Inr st1"
    and 2: "assemble_step chk (LabelDefine nm k) st1 = Inr st2" and 3: "assemble_nodes chk post st2 = Inr st"
    by (auto simp: assemble_nodes_append rbind_eq_Inr)
  have st2: "st2 = st1\<lparr>label_addresses := (label_addresses st1)(nm \<mapsto> (current_address st1, False))\<rparr>"
    using 2 by (simp add: assemble_step_def)
  have "current_address st1 = word_of_nat (length (instruction_bytes st1))"
    using layout_nodes [OF 1 assms(2) layout_new] by (simp add: layout_def)
  moreover have "label_addresses st nm = label_addresses st2 nm"
    using nodes_extend [OF 3, of nm] assms(3) by blast
  moreover have "length (instruction_bytes st2) \<le> length (instruction_bytes st)"
    using bytes_extend [OF 3] by auto
  ultimately show ?thesis using 1 by (simp add: st2 instruction_bytes_def)
qed

text \<open>
  C13. Jumps reach their labels. A program without bare \<open>org\<close> is assembled, its labels are filled
  in, and the code is loaded anywhere in memory. A \<open>rjmp\<close> to a label in it that is taken goes to
  the place where the code behind the label was loaded; a \<open>jmp\<close> goes to that place when the code
  was loaded at 0. The label may come before or after the jump.
\<close>

theorem jumps_reach_labels:
  assumes "assemble_nodes chk nodes assembler_new = Inr st" and "no_origin nodes"
    and "nodes = before @ jump_node cond nm rel # later"
    and "nodes = pre @ LabelDefine nm k # post" and "\<forall>node\<in>set post. \<not> defines_label node nm"
    and "backpatch_labels chk names st = Inr st'" and "distinct names" and "nm \<in> set names"
    and "assemble_nodes chk before assembler_new = Inr st0"
    and "loaded (memory (bus c)) base (instruction_bytes st')"
    and "instruction_pointer c = base + word_of_nat (length (instruction_bytes st0))"
    and "check_condition c cond"
  shows "\<exists>st1. assemble_nodes chk pre assembler_new = Inr st1 \<and>
    length (instruction_bytes st1) \<le> length (instruction_bytes st) \<and>
    execute_memory_instruction e c = Inr (c\<lparr>instruction_pointer :=
      (if rel then base else 0) + word_of_nat (length (instruction_bytes st1))\<rparr>)"
proof -
  obtain lo hi where lo: "condition_source_destination_to_byte (jump_node cond nm rel) = Inr lo"
    and hi: "instruction_to_byte (jump_node cond nm rel) = Inr hi"
    using jump_opcode by blast
  let ?pos = "length (instruction_bytes st0)"
  have o: "no_origin (before @ later)" using assms(2,3) by (auto simp: no_origin_def)
  have o_pre: "no_origin pre" using assms(2) unfolding assms(4) by (simp add: no_origin_def)
  obtain st1 where st1: "assemble_nodes chk pre assembler_new = Inr st1"
    "length (instruction_bytes st1) \<le> length (instruction_bytes st)"
    and label: "label_addresses st nm = Some (word_of_nat (length (instruction_bytes st1)), False)"
    using label_placed [OF assms(1) [unfolded assms(4)] o_pre assms(5)] by blast
  from jump_bytes [OF assms(1) [unfolded assms(3)] o assms(6-9) lo hi] obtain a k
    where a: "label_addresses st nm = Some (a, k)" and pos: "?pos + 6 \<le> length (instruction_bytes st')"
    and bytes: "take 6 (drop ?pos (instruction_bytes st')) =
      [lo, hi] @ le_bytes_32 (if rel then a - word_of_nat ?pos else a)"
    by blast
  have "code_at c ([lo, hi] @ le_bytes_32 (if rel then a - word_of_nat ?pos else a))"
    using loaded_code_at [OF assms(10,11) _ _ pos] by (simp add: bytes)
  from jump_step [OF this lo hi assms(12)] a label st1 assms(11) show ?thesis by (cases rel) simp_all
qed

text \<open>\<open>rjmp\<close> back over a byte of data, in the ROM.\<close>

theorem jumps_reach_labels_witness:
  "\<exists>st'. backpatch_labels True [''a''] sample_assembled = Inr st' \<and>
     execute_memory_instruction sample_env ((sample_cpu [] [])\<lparr>bus := (bus (sample_cpu [] []))
       \<lparr>memory := write_rom (instruction_bytes st') memory_buffer_new\<rparr>, instruction_pointer := 0xF0000001\<rparr>) =
     Inr ((sample_cpu [] [])\<lparr>bus := (bus (sample_cpu [] []))
       \<lparr>memory := write_rom (instruction_bytes st') memory_buffer_new\<rparr>, instruction_pointer := 0xF0000001\<rparr>)"
proof -
  obtain st' where run: "backpatch_labels True [''a''] sample_assembled = Inr st'"
    using sample_backpatched by blast
  let ?c = "(sample_cpu [] [])\<lparr>bus := (bus (sample_cpu [] []))
       \<lparr>memory := write_rom (instruction_bytes st') memory_buffer_new\<rparr>, instruction_pointer := 0xF0000001\<rparr>"
  have prog: "sample_nodes = [DataByte 7, LabelDefine ''a'' LabelInternal] @ jump_node CondAlways ''a'' True # []"
    and split: "sample_nodes = [DataByte 7] @ LabelDefine ''a'' LabelInternal # [jump_node CondAlways ''a'' True]"
    by (simp_all add: sample_nodes_def jump_node_def)
  obtain st0 where st0: "assemble_nodes True [DataByte 7, LabelDefine ''a'' LabelInternal] assembler_new = Inr st0"
    "length (instruction_bytes st0) = 1"
    by (simp add: assembler_new_def assemble_defs Let_def instruction_bytes_def)
  have same: "same_shape sample_assembled st'"
    using backpatch_labels_laws [OF run assembled_wf [OF sample_assembles]] patched_shape by auto
  have "length (instruction_bytes st') = 7"
    using instruction_offset_shape [OF same, of 2] same_shape_simps(1) [OF same]
    by (simp add: instruction_offset_def instruction_bytes_def sample_assembled_def)
  then have "loaded (memory (bus ?c)) 0xF0000000 (instruction_bytes st')" by (simp add: rom_loaded)
  from jumps_reach_labels [OF sample_assembles sample_no_origin prog split _ run _ _ st0(1) this]
  obtain st1 where st1: "assemble_nodes True [DataByte 7] assembler_new = Inr st1"
    and step: "execute_memory_instruction sample_env ?c =
      Inr (?c\<lparr>instruction_pointer := 0xF0000000 + word_of_nat (length (instruction_bytes st1))\<rparr>)"
    using st0(2) by (fastforce simp: defines_label_def jump_node_def check_condition_def)
  have "length (instruction_bytes st1) = 1"
    using st1 by (auto simp: assembler_new_def assemble_defs Let_def instruction_bytes_def)
  then show ?thesis using run step by simp
qed

end
