(* ===== verification/Parser.thy ===== *)
theory Parser
  imports Assembler
begin

text \<open>
  The parser of the assembler (fox32asm/src/main.rs, parse to parse_instruction_two): from the
  pairs that the grammar of fox32.pest makes of a source text to the syntax tree. The grammar
  itself is run by the pest library, so a pair is an input here: its rule, its text and the pairs
  inside it. The two statics CURRENT_SIZE and CURRENT_CONDITION are the state parse_state.
\<close>

section \<open>The pairs of the grammar\<close>

text \<open>The rules of \<open>fox32.pest\<close> that make a pair, and the end of the input.\<close>

datatype (plugins only: code) rule =
    R_EOI | R_assembly
  | R_origin | R_origin_padding | R_origin_no_padding | R_include_bin
  | R_data | R_data_byte | R_data_half | R_data_word | R_data_str | R_data_fill
  | R_constant | R_constant_name
  | R_label | R_label_kind | R_label_name | R_label_external | R_label_global
  | R_operand | R_operand_value_ptr | R_operand_value | R_size | R_condition
  | R_instruction | R_instruction_conditional | R_instruction_zero | R_instruction_one
  | R_instruction_two
  | R_immediate_bin | R_body_bin | R_immediate_hex | R_body_hex | R_immediate_dec | R_body_dec
  | R_immediate_char | R_body_char | R_immediate_str | R_body_str
  | R_register | R_register_num

datatype pair = Pair (as_rule: rule) (as_str: string) (into_inner: "pair list")

text \<open>\<open>pairs.next().unwrap()\<close>: the first pair and the rest.\<close>

definition next_pair :: "pair list \<Rightarrow> (pair \<times> pair list) res" where
  "next_pair pairs = (case pairs of p # rest \<Rightarrow> Inr (p, rest) | [] \<Rightarrow> Inl UnwrapNone)"

definition first_pair :: "pair list \<Rightarrow> pair res" where
  "first_pair pairs = rbind (next_pair pairs) (\<lambda>(p, _). Inr p)"

text \<open>The two statics that the functions of the parser share.\<close>

record parse_state =
  current_size :: size
  current_condition :: condition

definition parse_state_new :: parse_state where
  "parse_state_new = \<lparr>current_size = SizeWord, current_condition = CondAlways\<rparr>"

section \<open>Numbers\<close>

definition char_digit :: "char \<Rightarrow> nat option" where
  "char_digit ch =
     (let n = of_char ch :: nat in
      if 48 \<le> n \<and> n \<le> 57 then Some (n - 48)
      else if 97 \<le> n \<and> n \<le> 122 then Some (n - 87)
      else if 65 \<le> n \<and> n \<le> 90 then Some (n - 55)
      else None)"

fun digits_value :: "nat \<Rightarrow> nat \<Rightarrow> nat \<Rightarrow> string \<Rightarrow> nat option" where
  "digits_value bound radix acc [] = Some acc"
| "digits_value bound radix acc (ch # rest) =
     (case char_digit ch of
        Some d \<Rightarrow>
          if d < radix \<and> acc * radix + d < bound then digits_value bound radix (acc * radix + d) rest
          else None
      | None \<Rightarrow> None)"

text \<open>
  \<open>from_str_radix\<close> of an unsigned type with values below \<open>bound\<close>: the empty string and a lone
  sign are errors, a leading plus is skipped.
\<close>

definition from_str_radix :: "nat \<Rightarrow> string \<Rightarrow> nat \<Rightarrow> nat res" where
  "from_str_radix bound s radix =
     (let digits = (case s of ch # rest \<Rightarrow> if ch = CHR ''+'' then rest else s | [] \<Rightarrow> [])
      in if digits = [] then Inl InvalidNumber
         else case digits_value bound radix 0 digits of Some n \<Rightarrow> Inr n | None \<Rightarrow> Inl InvalidNumber)"

definition remove_underscores :: "string \<Rightarrow> string" where
  "remove_underscores input = filter (\<lambda>c. c \<noteq> CHR ''_'') input"

definition parse_u32 :: "nat \<Rightarrow> string \<Rightarrow> u32 res" where
  "parse_u32 radix s =
     rbind (from_str_radix (2 ^ 32) (remove_underscores s) radix) (\<lambda>n. Inr (word_of_nat n))"

section \<open>Sizes, conditions, operands\<close>

definition parse_size :: "pair \<Rightarrow> size res" where
  "parse_size p =
     (if as_str p = ''.8'' then Inr SizeByte
      else if as_str p = ''.16'' then Inr SizeHalf
      else if as_str p = ''.32'' then Inr SizeWord
      else Inl UnsupportedSyntax)"

definition parse_condition :: "pair \<Rightarrow> condition res" where
  "parse_condition p =
     (if as_str p = ''ifz'' then Inr CondZero
      else if as_str p = ''ifnz'' then Inr CondNotZero
      else if as_str p = ''ifc'' then Inr CondCarry
      else if as_str p = ''ifnc'' then Inr CondNotCarry
      else if as_str p = ''ifgt'' then Inr CondGreaterThan
      else if as_str p = ''ifgteq'' then Inr CondNotCarry
      else if as_str p = ''iflt'' then Inr CondCarry
      else if as_str p = ''iflteq'' then Inr CondLessThanEqualTo
      else Inl UnsupportedSyntax)"

definition immediate_node :: "bool \<Rightarrow> size \<Rightarrow> u32 \<Rightarrow> ast_node" where
  "immediate_node is_pointer sz immediate =
     (if is_pointer then ImmediatePointer immediate
      else case sz of
             SizeByte \<Rightarrow> Immediate8 (ucast immediate)
           | SizeHalf \<Rightarrow> Immediate16 (ucast immediate)
           | SizeWord \<Rightarrow> Immediate32 immediate)"

definition parse_register :: "string \<Rightarrow> u8 res" where
  "parse_register s =
     rbind (if s = ''sp'' then Inr 32
            else rbind (from_str_radix (2 ^ 8) s 10) (\<lambda>n. Inr (word_of_nat n))) (\<lambda>register_num.
     if 32 < register_num then Inl RegisterOutOfRange else Inr register_num)"

definition parse_operand_value :: "pair \<Rightarrow> bool \<Rightarrow> size \<Rightarrow> ast_node res" where
  "parse_operand_value p is_pointer sz =
     (case as_rule p of
        R_immediate_bin \<Rightarrow>
          rbind (first_pair (into_inner p)) (\<lambda>body.
          rbind (parse_u32 2 (as_str body)) (\<lambda>v. Inr (immediate_node is_pointer sz v)))
      | R_immediate_hex \<Rightarrow>
          rbind (first_pair (into_inner p)) (\<lambda>body.
          rbind (parse_u32 16 (as_str body)) (\<lambda>v. Inr (immediate_node is_pointer sz v)))
      | R_immediate_dec \<Rightarrow>
          rbind (first_pair (into_inner p)) (\<lambda>body.
          rbind (parse_u32 10 (as_str body)) (\<lambda>v. Inr (immediate_node is_pointer sz v)))
      | R_immediate_char \<Rightarrow>
          rbind (first_pair (into_inner p)) (\<lambda>body.
          if as_str body = [] then Inl UnwrapNone
          else Inr (immediate_node is_pointer sz (ucast (of_char (hd (as_str body)) :: u8))))
      | R_register \<Rightarrow>
          rbind (first_pair (into_inner p)) (\<lambda>register_num_pair.
          rbind (parse_register (as_str register_num_pair)) (\<lambda>register_num.
          Inr (if is_pointer then RegisterPointer register_num else Register register_num)))
      | R_label_name \<Rightarrow>
          Inr (if is_pointer then LabelOperandPointer (as_str p) False
               else LabelOperand (as_str p) sz False)
      | _ \<Rightarrow> Inl UnsupportedSyntax)"

definition parse_operand :: "pair \<Rightarrow> bool \<Rightarrow> parse_state \<Rightarrow> ast_node res" where
  "parse_operand p is_pointer st =
     (let sz = current_size st in
      rbind (if is_pointer then first_pair (into_inner p) else Inr p) (\<lambda>p.
      if as_rule p = R_operand_value then
        rbind (first_pair (into_inner p)) (\<lambda>v. parse_operand_value v is_pointer sz)
      else Inl UnsupportedSyntax))"

section \<open>Instructions\<close>

definition parse_instruction_zero :: "pair \<Rightarrow> condition \<Rightarrow> ast_node res" where
  "parse_instruction_zero p condition =
     (case map_of
        [(''nop'', Z_Nop), (''halt'', Z_Halt), (''brk'', Z_Brk), (''ret'', Z_Ret), (''reti'', Z_Reti),
         (''ise'', Z_Ise), (''icl'', Z_Icl)] (as_str p) of
        Some instr \<Rightarrow> Inr (OperationZero condition instr)
      | None \<Rightarrow> Inl UnsupportedSyntax)"

definition make_relative :: "ast_node \<Rightarrow> ast_node" where
  "make_relative opnd =
     (case opnd of
        LabelOperand nm sz _ \<Rightarrow> LabelOperand nm sz True
      | LabelOperandPointer nm _ \<Rightarrow> LabelOperandPointer nm True
      | _ \<Rightarrow> opnd)"

definition parse_instruction_one :: "pair \<Rightarrow> ast_node \<Rightarrow> size \<Rightarrow> condition \<Rightarrow> ast_node res" where
  "parse_instruction_one p opnd sz condition =
     (case map_of
        [(''inc'', O_Inc), (''dec'', O_Dec), (''not'', O_Not), (''jmp'', O_Jmp), (''call'', O_Call),
         (''loop'', O_Loop), (''rjmp'', O_Rjmp), (''rcall'', O_Rcall), (''rloop'', O_Rloop),
         (''push'', O_Push), (''pop'', O_Pop)] (as_str p) of
        Some instr \<Rightarrow>
          Inr (OperationOne sz condition instr
            (if instr \<in> {O_Rjmp, O_Rcall, O_Rloop} then make_relative opnd else opnd))
      | None \<Rightarrow> Inl UnsupportedSyntax)"

definition parse_instruction_two ::
  "pair \<Rightarrow> ast_node \<Rightarrow> ast_node \<Rightarrow> size \<Rightarrow> condition \<Rightarrow> ast_node res" where
  "parse_instruction_two p lhs rhs sz condition =
     (case map_of
        [(''add'', T_Add), (''sub'', T_Sub), (''mul'', T_Mul), (''div'', T_Div), (''rem'', T_Rem),
         (''and'', T_And), (''or'', T_Or), (''xor'', T_Xor), (''sla'', T_Sla), (''sra'', T_Sra),
         (''srl'', T_Srl), (''rol'', T_Rol), (''ror'', T_Ror), (''bse'', T_Bse), (''bcl'', T_Bcl),
         (''bts'', T_Bts), (''cmp'', T_Cmp), (''mov'', T_Mov), (''movz'', T_Movz), (''rta'', T_Rta),
         (''in'', T_In), (''out'', T_Out)] (as_str p) of
        Some instr \<Rightarrow>
          Inr (if instr = T_Rta then OperationTwo sz condition instr (make_relative lhs) (make_relative rhs)
               else OperationTwo sz condition instr lhs rhs)
      | None \<Rightarrow> Inl UnsupportedSyntax)"

section \<open>Directives\<close>

definition parse_constant :: "pair list \<Rightarrow> parse_state \<Rightarrow> (ast_node \<times> parse_state) res" where
  "parse_constant pairs st =
     (let st = st\<lparr>current_size := SizeWord\<rparr> in
      rbind (next_pair pairs) (\<lambda>(name_pair, pairs).
      rbind (first_pair (into_inner name_pair)) (\<lambda>constant_name.
      rbind (next_pair pairs) (\<lambda>(operand_pair, pairs).
      rbind (parse_operand operand_pair False st) (\<lambda>operand_ast.
      case operand_ast of
        Immediate32 address \<Rightarrow> Inr (Constant (as_str constant_name) address, st)
      | _ \<Rightarrow> Inl ConstantNotImmediate)))))"

definition parse_label :: "pair \<Rightarrow> pair option \<Rightarrow> ast_node res" where
  "parse_label p following =
     (case as_rule p of
        R_label_kind \<Rightarrow>
          rbind (first_pair (into_inner p)) (\<lambda>pair_inner.
          rbind (case following of Some q \<Rightarrow> Inr q | None \<Rightarrow> Inl UnwrapNone) (\<lambda>name_pair.
          case as_rule pair_inner of
            R_label_external \<Rightarrow> Inr (LabelDefine (as_str name_pair) LabelExternal)
          | R_label_global \<Rightarrow> Inr (LabelDefine (as_str name_pair) LabelGlobal)
          | _ \<Rightarrow> Inl Unreachable))
      | _ \<Rightarrow> Inr (LabelDefine (as_str p) LabelInternal))"

text \<open>An operand of a directive: it is read at the size the last instruction left behind.\<close>

definition directive_word :: "pair list \<Rightarrow> nat \<Rightarrow> parse_state \<Rightarrow> u32 res" where
  "directive_word pairs n st =
     rbind (if n < length pairs then Inr (pairs ! n) else Inl UnwrapNone) (\<lambda>operand.
     rbind (parse_operand operand False st) (\<lambda>ast.
     case ast of Immediate32 word \<Rightarrow> Inr word | _ \<Rightarrow> Inl Unreachable))"

definition parse_data :: "pair \<Rightarrow> parse_state \<Rightarrow> ast_node res" where
  "parse_data p st =
     (case as_rule p of
        R_data_byte \<Rightarrow> rbind (directive_word (into_inner p) 0 st) (\<lambda>word. Inr (DataByte (ucast word)))
      | R_data_half \<Rightarrow> rbind (directive_word (into_inner p) 0 st) (\<lambda>word. Inr (DataHalf (ucast word)))
      | R_data_word \<Rightarrow>
          rbind (first_pair (into_inner p)) (\<lambda>operand.
          rbind (parse_operand operand False st) (\<lambda>ast.
          case ast of
            Immediate32 word \<Rightarrow> Inr (DataWord word)
          | LabelOperand nm sz is_relative \<Rightarrow> Inr (LabelOperand nm sz is_relative)
          | _ \<Rightarrow> Inl Unreachable))
      | R_data_str \<Rightarrow>
          rbind (first_pair (into_inner p)) (\<lambda>immediate_str.
          rbind (first_pair (into_inner immediate_str)) (\<lambda>body. Inr (DataStr (as_str body))))
      | R_data_fill \<Rightarrow>
          rbind (directive_word (into_inner p) 0 st) (\<lambda>word.
          rbind (directive_word (into_inner p) 1 st) (\<lambda>sz. Inr (DataFill (ucast word) sz)))
      | _ \<Rightarrow> Inl UnsupportedSyntax)"

definition parse_origin :: "pair \<Rightarrow> parse_state \<Rightarrow> ast_node res" where
  "parse_origin p st =
     (case as_rule p of
        R_origin_no_padding \<Rightarrow> rbind (directive_word (into_inner p) 0 st) (\<lambda>a. Inr (Origin a))
      | R_origin_padding \<Rightarrow> rbind (directive_word (into_inner p) 0 st) (\<lambda>a. Inr (OriginPadded a))
      | _ \<Rightarrow> Inl UnsupportedSyntax)"

text \<open>
  \<open>str::trim\<close> on ASCII; a file is looked up by the path in the directive, relative to the
  directory of the source, and \<open>None\<close> is a path that cannot be read.
\<close>

definition is_blank :: "char \<Rightarrow> bool" where
  "is_blank ch = (of_char ch \<in> {9, 10, 11, 12, 13, 32 :: nat})"

definition trim :: "string \<Rightarrow> string" where
  "trim s = rev (dropWhile is_blank (rev (dropWhile is_blank s)))"

definition include_binary_file :: "(string \<Rightarrow> u8 list option) \<Rightarrow> pair \<Rightarrow> ast_node res" where
  "include_binary_file files p =
     rbind (first_pair (into_inner p)) (\<lambda>body.
     case files (trim (as_str body)) of
       Some binary \<Rightarrow> Inr (IncludedBinary binary)
     | None \<Rightarrow> Inl IncludeFailed)"

section \<open>Expressions\<close>

text \<open>The optional size before the operands of an instruction.\<close>

definition take_size :: "pair list \<Rightarrow> (size \<times> pair list) res" where
  "take_size inner =
     rbind (first_pair inner) (\<lambda>q.
     if as_rule q = R_size then rbind (parse_size q) (\<lambda>sz. Inr (sz, tl inner))
     else Inr (SizeWord, inner))"

text \<open>The optional condition before an instruction, and the mark of a pointer operand.\<close>

definition take_condition :: "pair list \<Rightarrow> (condition \<times> bool \<times> pair list) res" where
  "take_condition inner =
     rbind (first_pair inner) (\<lambda>q.
     case as_rule q of
       R_condition \<Rightarrow> rbind (parse_condition q) (\<lambda>cond. Inr (cond, False, tl inner))
     | R_operand_value_ptr \<Rightarrow> Inr (CondAlways, True, inner)
     | _ \<Rightarrow> Inr (CondAlways, False, inner))"

lemma next_pair_size:
  "next_pair pairs = Inr (q, rest) \<Longrightarrow> size q \<le> size_list size pairs \<and> size_list size rest \<le> size_list size pairs"
  by (cases pairs) (simp_all add: next_pair_def)

lemma first_pair_size: "first_pair pairs = Inr q \<Longrightarrow> size q \<le> size_list size pairs"
  by (cases pairs) (simp_all add: first_pair_def next_pair_def)

lemma take_condition_size:
  assumes "take_condition inner = Inr (cond, ptr, rest)"
  shows "size_list size rest \<le> size_list size inner"
proof (cases inner)
  case (Cons q qs)
  then show ?thesis
    using assms
    by (cases "parse_condition q"; cases "as_rule q")
       (simp_all add: take_condition_def first_pair_def next_pair_def)
qed (use assms in \<open>simp add: take_condition_def first_pair_def next_pair_def\<close>)

lemma take_size_size:
  assumes "take_size inner = Inr (sz, rest)"
  shows "size_list size rest \<le> size_list size inner"
proof (cases inner)
  case (Cons q qs)
  then show ?thesis
    using assms
    by (cases "parse_size q") (auto simp: take_size_def first_pair_def next_pair_def split: if_splits)
qed (use assms in \<open>simp add: take_size_def first_pair_def next_pair_def\<close>)

lemma size_inner: "size_list size (into_inner p) < size p"
  by (cases p) simp

lemma inner_sizes:
  "next_pair (into_inner p) = Inr (q, rest) \<Longrightarrow> size q < size p \<and> size_list size rest < size p"
  "take_condition (into_inner p) = Inr (cond, ptr, rest) \<Longrightarrow> size_list size rest < size p"
  using size_inner [of p] next_pair_size take_condition_size
  by (blast intro: le_less_trans)+

function build_ast_from_expression ::
    "(string \<Rightarrow> u8 list option) \<Rightarrow> pair \<Rightarrow> parse_state \<Rightarrow> (ast_node \<times> parse_state) res"
  and parse_instruction ::
    "(string \<Rightarrow> u8 list option) \<Rightarrow> pair \<Rightarrow> parse_state \<Rightarrow> (ast_node \<times> parse_state) res" where
  "build_ast_from_expression files p st =
     rbind (take_condition (into_inner p)) (\<lambda>(cond, is_pointer, inner).
     let st = st\<lparr>current_condition := cond\<rparr> in
     case as_rule p of
       R_assembly \<Rightarrow> rbind (first_pair inner) (\<lambda>q. build_ast_from_expression files q st)
     | R_instruction \<Rightarrow> rbind (first_pair inner) (\<lambda>q. parse_instruction files q st)
     | R_operand \<Rightarrow>
         rbind (first_pair inner) (\<lambda>q.
         rbind (parse_operand q is_pointer st) (\<lambda>node. Inr (node, st)))
     | R_constant \<Rightarrow> parse_constant inner st
     | R_label \<Rightarrow>
         rbind (next_pair inner) (\<lambda>(q, rest).
         rbind (parse_label q (case rest of r # _ \<Rightarrow> Some r | [] \<Rightarrow> None)) (\<lambda>node. Inr (node, st)))
     | R_data \<Rightarrow>
         rbind (first_pair inner) (\<lambda>q. rbind (parse_data q st) (\<lambda>node. Inr (node, st)))
     | R_origin \<Rightarrow>
         rbind (first_pair inner) (\<lambda>q. rbind (parse_origin q st) (\<lambda>node. Inr (node, st)))
     | R_include_bin \<Rightarrow>
         rbind (first_pair inner) (\<lambda>q.
         rbind (include_binary_file files q) (\<lambda>node. Inr (node, st)))
     | _ \<Rightarrow> Inl UnsupportedSyntax)"
| "parse_instruction files p st =
     (let condition = current_condition st in
      if as_rule p = R_instruction_conditional then
          rbind (next_pair (into_inner p)) (\<lambda>(instr, inner).
          case as_rule instr of
            R_instruction_zero \<Rightarrow>
              rbind (parse_instruction_zero instr condition) (\<lambda>node. Inr (node, st))
          | R_instruction_one \<Rightarrow>
              rbind (take_size inner) (\<lambda>(sz, inner).
              let st = st\<lparr>current_size := sz\<rparr> in
              rbind (next_pair inner) (\<lambda>(operand, inner).
              rbind (build_ast_from_expression files operand st) (\<lambda>(operand_ast, st).
              rbind (parse_instruction_one instr operand_ast sz condition) (\<lambda>node. Inr (node, st)))))
          | R_instruction_two \<Rightarrow>
              rbind (take_size inner) (\<lambda>(sz, inner).
              let st = st\<lparr>current_size := sz\<rparr> in
              rbind (next_pair inner) (\<lambda>(lhs, inner).
              rbind (next_pair inner) (\<lambda>(rhs, inner).
              rbind (build_ast_from_expression files lhs st) (\<lambda>(lhs_ast, st).
              rbind (build_ast_from_expression files rhs st) (\<lambda>(rhs_ast, st).
              rbind (parse_instruction_two instr lhs_ast rhs_ast sz condition) (\<lambda>node.
              Inr (node, st)))))))
          | _ \<Rightarrow> Inl UnsupportedSyntax)
      else Inl UnsupportedSyntax)"
  by pat_completeness auto

termination
  by (relation "measure (\<lambda>x. case x of Inl (_, p, _) \<Rightarrow> size p | Inr (_, p, _) \<Rightarrow> size p)",
      simp_all, safe?)
     (drule inner_sizes | drule next_pair_size first_pair_size take_size_size | elim conjE | linarith)+

fun parse_pairs ::
  "(string \<Rightarrow> u8 list option) \<Rightarrow> pair list \<Rightarrow> parse_state \<Rightarrow> ast_node list res" where
  "parse_pairs files [] st = Inr []"
| "parse_pairs files (p # pairs) st =
     (if as_rule p = R_EOI then Inr []
      else rbind (build_ast_from_expression files p st) (\<lambda>(node, st).
           rbind (parse_pairs files pairs st) (\<lambda>nodes. Inr (node # nodes))))"

text \<open>\<open>tree\<close> is what the parser generated from the grammar answers; it has the pair of \<open>assembly\<close> first.\<close>

definition parse :: "(string \<Rightarrow> u8 list option) \<Rightarrow> pair list option \<Rightarrow> ast_node list res" where
  "parse files tree =
     (case tree of
        None \<Rightarrow> Inl UnsupportedSyntax
      | Some pairs \<Rightarrow>
          rbind (first_pair pairs) (\<lambda>assembly.
          parse_pairs files (into_inner assembly) parse_state_new))"

end
