(* ===== verification/ParserLaws.thy ===== *)
theory ParserLaws
  imports Parser Programs
begin

text \<open>
  What the parser makes of an instruction has the sizes of the instruction; numbers and operands
  written out are read back.
\<close>

declare build_ast_from_expression.simps [simp del] parse_instruction.simps [simp del]

section \<open>Operands have the size of their instruction\<close>

lemma immediate_node_sized: "sized sz (immediate_node is_pointer sz v)"
  by (cases sz) (simp_all add: immediate_node_def sized_def)

lemma parse_operand_value_sized:
  assumes "parse_operand_value p is_pointer sz = Inr node"
  shows "sized sz node"
proof -
  have other: "sized sz (Register r)" "sized sz (RegisterPointer r)" "sized sz (LabelOperand nm sz rel)"
    "sized sz (LabelOperandPointer nm rel)" for r nm rel
    by (simp_all add: sized_def)
  show ?thesis
    using assms immediate_node_sized other
    by (cases "as_rule p") (auto simp: parse_operand_value_def rbind_eq_Inr split: list.splits if_splits)
qed

lemma parse_operand_sized:
  "parse_operand p is_pointer st = Inr node \<Longrightarrow> sized (current_size st) node"
  by (auto simp: parse_operand_def rbind_eq_Inr Let_def parse_operand_value_sized split: if_splits)

lemma make_relative_sized: "sized sz node \<Longrightarrow> sized sz (make_relative node)"
  by (cases node) (simp_all add: make_relative_def sized_def)

text \<open>
  What the grammar says of an instruction: its operands are pairs of the rule \<open>operand\<close>.
\<close>

definition operand_pairs :: "pair \<Rightarrow> bool" where
  "operand_pairs p \<longleftrightarrow> (\<forall>q\<in>set (tl (into_inner p)). as_rule q = R_size \<or> as_rule q = R_operand)"

definition instruction_pair :: "pair \<Rightarrow> bool" where
  "instruction_pair p \<longleftrightarrow> as_rule p = R_instruction \<and>
     (\<forall>q\<in>set (into_inner p). as_rule q = R_instruction_conditional \<longrightarrow> operand_pairs q)"

lemma build_operand:
  assumes "build_ast_from_expression files p st = Inr (node, st')" and "as_rule p = R_operand"
  shows "sized (current_size st) node \<and> current_size st' = current_size st"
  using assms parse_operand_sized
  by (fastforce simp: build_ast_from_expression.simps [of files p] rbind_eq_Inr Let_def)

lemma next_pair_set: "next_pair pairs = Inr (q, rest) \<Longrightarrow> q \<in> set pairs \<and> set rest \<subseteq> set pairs \<and> rest = tl pairs"
  by (cases pairs) (auto simp: next_pair_def)

lemma take_size_set: "take_size inner = Inr (sz, rest) \<Longrightarrow> set rest \<subseteq> set inner"
  by (cases inner) (auto simp: take_size_def first_pair_def next_pair_def rbind_eq_Inr split: if_splits)

lemma build_other_rule:
  "as_rule p = R_size \<Longrightarrow> build_ast_from_expression files p st \<noteq> Inr r"
  by (auto simp: build_ast_from_expression.simps [of files p] rbind_eq_Inr)

lemma parse_instruction_sized:
  assumes "parse_instruction files p st = Inr (node, st')" and "operand_pairs p"
  shows "is_operation node \<and> (\<forall>opnd\<in>set (node_operands node). sized (node_size node) opnd)"
proof -
  have rules: "as_rule p = R_instruction_conditional"
    using assms(1) by (auto simp: parse_instruction.simps Let_def split: if_splits)
  then obtain instr inner where head: "next_pair (into_inner p) = Inr (instr, inner)"
    using assms(1) by (auto simp: parse_instruction.simps Let_def rbind_eq_Inr)
  have inner: "as_rule q = R_size \<or> as_rule q = R_operand" if "q \<in> set inner" for q
    using assms(2) next_pair_set [OF head] that by (auto simp: operand_pairs_def)
  have build: "sized (current_size s) n \<and> current_size s' = current_size s"
    if "build_ast_from_expression files q s = Inr (n, s')" "q \<in> set inner" for q s n s'
    using inner [OF that(2)] build_operand [OF that(1)] build_other_rule [of q files s] that(1) by auto
  note run = assms(1) [unfolded parse_instruction.simps [of files p] rules simp_thms if_True head rbind_Inr prod.case Let_def]
  consider "as_rule instr = R_instruction_zero" | "as_rule instr = R_instruction_one"
    | "as_rule instr = R_instruction_two"
    using run by (cases "as_rule instr") auto
  then show ?thesis
  proof cases
    case 1
    then show ?thesis
      using run 1 by (auto simp: rbind_eq_Inr parse_instruction_zero_def is_operation_def node_operands_def
          split: option.splits)
  next
    case 2
    then obtain sz rest q rest' n s where
      *: "take_size inner = Inr (sz, rest)" "next_pair rest = Inr (q, rest')"
        "build_ast_from_expression files q (st\<lparr>current_size := sz\<rparr>) = Inr (n, s)"
        "parse_instruction_one instr n sz (current_condition st) = Inr node"
      using run 2 by (auto simp: rbind_eq_Inr)
    have "sized sz n"
      using build [OF *(3)] take_size_set [OF *(1)] next_pair_set [OF *(2)] by auto
    then show ?thesis
      using *(4) make_relative_sized
      by (auto simp: parse_instruction_one_def is_operation_def node_operands_def node_size_def
          split: option.splits if_splits)
  next
    case 3
    then obtain sz rest l rest1 r rest2 ln s rn s' where
      *: "take_size inner = Inr (sz, rest)" "next_pair rest = Inr (l, rest1)" "next_pair rest1 = Inr (r, rest2)"
        "build_ast_from_expression files l (st\<lparr>current_size := sz\<rparr>) = Inr (ln, s)"
        "build_ast_from_expression files r s = Inr (rn, s')"
        "parse_instruction_two instr ln rn sz (current_condition st) = Inr node"
      using run 3 by (auto simp: rbind_eq_Inr)
    have "l \<in> set inner" "r \<in> set inner"
      using take_size_set [OF *(1)] next_pair_set [OF *(2)] next_pair_set [OF *(3)] by auto
    then have "sized sz ln" "sized sz rn"
      using build [OF *(4)] build [OF *(5)] by auto
    then show ?thesis
      using *(6) make_relative_sized
      by (auto simp: parse_instruction_two_def is_operation_def node_operands_def node_size_def
          split: option.splits if_splits)
  qed
qed

section \<open>Writing instructions back\<close>

text \<open>The text of a number, and the pairs of the grammar for an operand and an instruction.\<close>

definition digit_char :: "nat \<Rightarrow> char" where
  "digit_char d = (if d < 10 then char_of (48 + d) else char_of (87 + d))"

function number_text :: "nat \<Rightarrow> nat \<Rightarrow> string" where
  "number_text radix n =
     (if radix < 2 \<or> n < radix then [digit_char n] else number_text radix (n div radix) @ [digit_char (n mod radix)])"
  by pat_completeness auto
termination by (relation "measure snd") (auto intro!: div_less_dividend)

declare number_text.simps [simp del]

lemma of_digit_char:
  "d < 16 \<Longrightarrow> (of_char (digit_char d) :: nat) = (if d < 10 then 48 + d else 87 + d)"
  by (simp add: digit_char_def)

lemma char_digit_char: "d < 16 \<Longrightarrow> char_digit (digit_char d) = Some d"
  using of_digit_char [of d] by (auto simp: char_digit_def Let_def)

lemma digit_char_other: "d < 16 \<Longrightarrow> digit_char d \<noteq> CHR ''_''" "d < 16 \<Longrightarrow> digit_char d \<noteq> CHR ''+''"
  using of_digit_char [of d] by (auto split: if_splits)

lemma digits_value_snoc:
  "digits_value bound radix acc (xs @ [ch]) =
     (case digits_value bound radix acc xs of Some a \<Rightarrow> digits_value bound radix a [ch] | None \<Rightarrow> None)"
  by (induction xs arbitrary: acc) (auto split: option.splits)

lemma number_text_digits:
  assumes "2 \<le> radix" and "radix \<le> 16"
  shows "set (number_text radix n) \<subseteq> digit_char ` {..<16} \<and> number_text radix n \<noteq> []"
  using assms
proof (induction radix n rule: number_text.induct)
  case (1 radix n)
  then show ?case
  proof (cases "n < radix")
    case False
    have "n mod radix < radix" using 1(2) by simp
    then have "digit_char (n mod radix) \<in> digit_char ` {..<16}" using 1(3) by (intro imageI) simp
    then show ?thesis using False 1 by (subst (1 2) number_text.simps) simp
  qed (subst (1 2) number_text.simps; auto)
qed

lemma digits_value_text:
  assumes "2 \<le> radix" and "radix \<le> 16" and "n < bound"
  shows "digits_value bound radix 0 (number_text radix n) = Some n"
  using assms
proof (induction radix n rule: number_text.induct)
  case (1 radix n)
  show ?case
  proof (cases "n < radix")
    case True
    then show ?thesis
      using 1 by (subst number_text.simps) (simp add: char_digit_char)
  next
    case False
    have "n div radix < bound" using 1(4) div_le_dividend [of n radix] by linarith
    with False 1 have "digits_value bound radix 0 (number_text radix (n div radix)) = Some (n div radix)"
      by simp
    moreover have "n mod radix < radix" using 1(2) by simp
    moreover from this have "n mod radix < 16" using 1(3) by linarith
    ultimately show ?thesis
      using False 1(2,4) by (subst number_text.simps) (simp add: digits_value_snoc char_digit_char)
  qed
qed

lemma from_str_radix_text:
  assumes "2 \<le> radix" and "radix \<le> 16" and "n < bound"
  shows "from_str_radix bound (number_text radix n) radix = Inr n"
    and "remove_underscores (number_text radix n) = number_text radix n"
proof -
  note digits = number_text_digits [OF assms(1,2), of n]
  then obtain d ds where t: "number_text radix n = digit_char d # ds" "d < 16"
    by (cases "number_text radix n") auto
  show "from_str_radix bound (number_text radix n) radix = Inr n"
    using digits_value_text [OF assms] digit_char_other(2) [OF t(2)]
    by (simp add: from_str_radix_def t(1))
  have "ch \<noteq> CHR ''_''" if ch: "ch \<in> set (number_text radix n)" for ch
  proof -
    obtain d where "ch = digit_char d" "d < 16" using subsetD [OF conjunct1 [OF digits] ch] by auto
    then show ?thesis using digit_char_other(1) by simp
  qed
  then show "remove_underscores (number_text radix n) = number_text radix n"
    unfolding remove_underscores_def filter_id_conv by simp
qed

definition hex_pair :: "nat \<Rightarrow> pair" where
  "hex_pair n = (let t = number_text 16 n in Pair R_immediate_hex (''0x'' @ t) [Pair R_body_hex t []])"

definition register_pair :: "u8 \<Rightarrow> pair" where
  "register_pair reg =
     (let t = (if reg = 32 then ''sp'' else number_text 10 (unat reg))
      in Pair R_register (''r'' @ t) [Pair R_register_num t []])"

definition value_pair :: "ast_node \<Rightarrow> pair" where
  "value_pair opnd =
     (case opnd of
        Register reg \<Rightarrow> register_pair reg
      | RegisterPointer reg \<Rightarrow> register_pair reg
      | Immediate8 v \<Rightarrow> hex_pair (unat v)
      | Immediate16 v \<Rightarrow> hex_pair (unat v)
      | Immediate32 v \<Rightarrow> hex_pair (unat v)
      | ImmediatePointer v \<Rightarrow> hex_pair (unat v)
      | LabelOperand nm _ _ \<Rightarrow> Pair R_label_name nm []
      | LabelOperandPointer nm _ \<Rightarrow> Pair R_label_name nm []
      | _ \<Rightarrow> Pair R_EOI [] [])"

definition is_pointer :: "ast_node \<Rightarrow> bool" where
  "is_pointer opnd =
     (case opnd of RegisterPointer _ \<Rightarrow> True | ImmediatePointer _ \<Rightarrow> True
      | LabelOperandPointer _ _ \<Rightarrow> True | _ \<Rightarrow> False)"

definition operand_pair :: "ast_node \<Rightarrow> pair" where
  "operand_pair opnd =
     (let v = value_pair opnd; value = Pair R_operand_value (as_str v) [v]
      in if is_pointer opnd
         then Pair R_operand (''['' @ as_str v @ '']'') [Pair R_operand_value_ptr (as_str v) [value]]
         else Pair R_operand (as_str v) [value])"

text \<open>An operand as the parser makes it, before it is marked relative.\<close>

definition source_operand :: "size \<Rightarrow> ast_node \<Rightarrow> bool" where
  "source_operand sz opnd =
     (case opnd of
        Register reg \<Rightarrow> reg \<le> 32
      | RegisterPointer reg \<Rightarrow> reg \<le> 32
      | Immediate8 _ \<Rightarrow> sz = SizeByte
      | Immediate16 _ \<Rightarrow> sz = SizeHalf
      | Immediate32 _ \<Rightarrow> sz = SizeWord
      | ImmediatePointer _ \<Rightarrow> True
      | LabelOperand _ sz' rel \<Rightarrow> sz' = sz \<and> \<not> rel
      | LabelOperandPointer _ rel \<Rightarrow> \<not> rel
      | _ \<Rightarrow> False)"

lemma parse_u32_hex: "n < 2 ^ 32 \<Longrightarrow> parse_u32 16 (number_text 16 n) = Inr (word_of_nat n)"
  by (simp add: parse_u32_def from_str_radix_text)

lemma parse_register_text:
  assumes "reg \<le> 32"
  shows "parse_register (if reg = 32 then ''sp'' else number_text 10 (unat reg)) = Inr reg"
proof (cases "reg = 32")
  case False
  have "unat reg < 2 ^ 8" using unsigned_less [of reg] by simp
  moreover have "number_text 10 (unat reg) \<noteq> ''sp''"
  proof
    assume "number_text 10 (unat reg) = ''sp''"
    then have "CHR ''s'' \<in> digit_char ` {..<16}" using number_text_digits [of 10 "unat reg"] by auto
    then obtain d where "d < 16" "digit_char d = CHR ''s''" by auto
    then show False using of_digit_char [of d] by (simp split: if_splits)
  qed
  ultimately show ?thesis
    using assms False by (simp add: parse_register_def from_str_radix_text not_less)
qed (simp add: parse_register_def)

lemma hex_bound: "unat (v8 :: u8) < 2 ^ 32" "unat (v16 :: u16) < 2 ^ 32" "unat (v32 :: u32) < 2 ^ 32"
proof -
  have "unat v8 < 2 ^ 8" using unsigned_less [of v8] by simp
  moreover have "unat v16 < 2 ^ 16" using unsigned_less [of v16] by simp
  ultimately show "unat v8 < 2 ^ 32" "unat v16 < 2 ^ 32" by simp_all
  show "unat v32 < 2 ^ 32" using unat_u32_bound [of v32] by simp
qed

lemma ucast_back [simp]: "ucast (ucast (v8 :: u8) :: u32) = v8" "ucast (ucast (v16 :: u16) :: u32) = v16"
  by (rule bit_word_eqI; use bit_imp_le_length in \<open>force simp: bit_simps\<close>)+

lemma parse_value_pair:
  assumes "source_operand sz opnd"
  shows "parse_operand_value (value_pair opnd) (is_pointer opnd) sz = Inr opnd"
  using assms parse_register_text hex_bound
  by (cases opnd)
     (auto simp: source_operand_def value_pair_def is_pointer_def hex_pair_def register_pair_def Let_def
        parse_operand_value_def first_pair_def next_pair_def parse_u32_hex immediate_node_def)

lemma build_operand_pair:
  assumes "source_operand (current_size st) opnd"
  shows "build_ast_from_expression files (operand_pair opnd) st = Inr (opnd, st\<lparr>current_condition := CondAlways\<rparr>)"
  using parse_value_pair [OF assms]
  by (cases "is_pointer opnd")
     (simp_all add: build_ast_from_expression.simps operand_pair_def take_condition_def first_pair_def
        next_pair_def parse_operand_def Let_def)

end
