(* ===== verification/ParserSpec.thy ===== *)
theory ParserSpec
  imports ParserLaws
begin

text \<open>
  Instructions written out as the pairs of the grammar, and the properties of the parser: whole
  programs read back, the sizes of operands, and directives behind an instruction.
\<close>

definition zero_name :: "instruction_zero \<Rightarrow> string" where
  "zero_name instr =
     (case instr of Z_Nop \<Rightarrow> ''nop'' | Z_Halt \<Rightarrow> ''halt'' | Z_Brk \<Rightarrow> ''brk'' | Z_Ret \<Rightarrow> ''ret''
      | Z_Reti \<Rightarrow> ''reti'' | Z_Ise \<Rightarrow> ''ise'' | Z_Icl \<Rightarrow> ''icl'')"

definition one_name :: "instruction_one \<Rightarrow> string" where
  "one_name instr =
     (case instr of O_Inc \<Rightarrow> ''inc'' | O_Dec \<Rightarrow> ''dec'' | O_Not \<Rightarrow> ''not'' | O_Jmp \<Rightarrow> ''jmp''
      | O_Call \<Rightarrow> ''call'' | O_Loop \<Rightarrow> ''loop'' | O_Rjmp \<Rightarrow> ''rjmp'' | O_Rcall \<Rightarrow> ''rcall''
      | O_Rloop \<Rightarrow> ''rloop'' | O_Push \<Rightarrow> ''push'' | O_Pop \<Rightarrow> ''pop'')"

definition two_name :: "instruction_two \<Rightarrow> string" where
  "two_name instr =
     (case instr of T_Add \<Rightarrow> ''add'' | T_Sub \<Rightarrow> ''sub'' | T_Mul \<Rightarrow> ''mul'' | T_Div \<Rightarrow> ''div''
      | T_Rem \<Rightarrow> ''rem'' | T_And \<Rightarrow> ''and'' | T_Or \<Rightarrow> ''or'' | T_Xor \<Rightarrow> ''xor'' | T_Sla \<Rightarrow> ''sla''
      | T_Sra \<Rightarrow> ''sra'' | T_Srl \<Rightarrow> ''srl'' | T_Rol \<Rightarrow> ''rol'' | T_Ror \<Rightarrow> ''ror'' | T_Bse \<Rightarrow> ''bse''
      | T_Bcl \<Rightarrow> ''bcl'' | T_Bts \<Rightarrow> ''bts'' | T_Cmp \<Rightarrow> ''cmp'' | T_Mov \<Rightarrow> ''mov'' | T_Movz \<Rightarrow> ''movz''
      | T_Rta \<Rightarrow> ''rta'' | T_In \<Rightarrow> ''in'' | T_Out \<Rightarrow> ''out'')"

definition size_name :: "size \<Rightarrow> string" where
  "size_name sz = (case sz of SizeByte \<Rightarrow> ''.8'' | SizeHalf \<Rightarrow> ''.16'' | SizeWord \<Rightarrow> ''.32'')"

definition condition_pairs :: "condition \<Rightarrow> pair list" where
  "condition_pairs cond =
     (let p = (\<lambda>s. [Pair R_condition s []]) in
      case cond of
        CondAlways \<Rightarrow> [] | CondZero \<Rightarrow> p ''ifz'' | CondNotZero \<Rightarrow> p ''ifnz'' | CondCarry \<Rightarrow> p ''ifc''
      | CondNotCarry \<Rightarrow> p ''ifnc'' | CondGreaterThan \<Rightarrow> p ''ifgt'' | CondLessThanEqualTo \<Rightarrow> p ''iflteq'')"

definition make_absolute :: "ast_node \<Rightarrow> ast_node" where
  "make_absolute opnd =
     (case opnd of
        LabelOperand nm sz _ \<Rightarrow> LabelOperand nm sz False
      | LabelOperandPointer nm _ \<Rightarrow> LabelOperandPointer nm False
      | _ \<Rightarrow> opnd)"

definition unparse :: "ast_node \<Rightarrow> pair" where
  "unparse node =
     (let wrap = (\<lambda>cond inner. Pair R_instruction [] (condition_pairs cond @ [Pair R_instruction_conditional [] inner])) in
      case node of
        OperationZero cond instr \<Rightarrow> wrap cond [Pair R_instruction_zero (zero_name instr) []]
      | OperationOne sz cond instr opnd \<Rightarrow>
          wrap cond [Pair R_instruction_one (one_name instr) [], Pair R_size (size_name sz) [],
            operand_pair (make_absolute opnd)]
      | OperationTwo sz cond instr lhs rhs \<Rightarrow>
          wrap cond [Pair R_instruction_two (two_name instr) [], Pair R_size (size_name sz) [],
            operand_pair (make_absolute lhs), operand_pair (make_absolute rhs)]
      | _ \<Rightarrow> Pair R_EOI [] [])"

text \<open>
  The instructions that have a source text: operands of the instruction's size, registers up to
  32, and labels relative exactly in the relative jumps and in \<open>rta\<close>.
\<close>

definition written_operand :: "bool \<Rightarrow> size \<Rightarrow> ast_node \<Rightarrow> bool" where
  "written_operand relative sz opnd \<longleftrightarrow> source_operand sz (make_absolute opnd) \<and>
     (case opnd of
        LabelOperand _ _ rel \<Rightarrow> rel = relative
      | LabelOperandPointer _ rel \<Rightarrow> rel = relative
      | _ \<Rightarrow> True)"

definition written :: "ast_node \<Rightarrow> bool" where
  "written node =
     (case node of
        OperationZero _ _ \<Rightarrow> True
      | OperationOne sz _ instr opnd \<Rightarrow>
          written_operand (instr \<in> {O_Rjmp, O_Rcall, O_Rloop}) sz opnd
      | OperationTwo sz _ instr lhs rhs \<Rightarrow>
          written_operand (instr = T_Rta) sz lhs \<and> written_operand (instr = T_Rta) sz rhs
      | _ \<Rightarrow> False)"

lemma parse_zero_name: "parse_instruction_zero (Pair r (zero_name z) ps) cond = Inr (OperationZero cond z)"
  by (cases z) (simp_all add: parse_instruction_zero_def zero_name_def)

lemma parse_one_name:
  "parse_instruction_one (Pair r (one_name i) ps) opnd sz cond =
     Inr (OperationOne sz cond i (if i \<in> {O_Rjmp, O_Rcall, O_Rloop} then make_relative opnd else opnd))"
  by (cases i) (simp_all add: parse_instruction_one_def one_name_def)

lemma parse_two_name:
  "parse_instruction_two (Pair r (two_name t) ps) lhs rhs sz cond =
     Inr (if t = T_Rta then OperationTwo sz cond t (make_relative lhs) (make_relative rhs)
          else OperationTwo sz cond t lhs rhs)"
  by (cases t) (simp_all add: parse_instruction_two_def two_name_def)

lemmas parse_names = parse_zero_name parse_one_name parse_two_name

lemma take_condition_written:
  "take_condition (condition_pairs cond @ [Pair R_instruction_conditional s inner]) =
     Inr (cond, False, [Pair R_instruction_conditional s inner])"
  by (cases cond)
     (simp_all add: condition_pairs_def take_condition_def first_pair_def next_pair_def parse_condition_def)

lemma take_size_written:
  "take_size (Pair R_size (size_name sz) [] # rest) = Inr (sz, rest)"
  by (cases sz) (simp_all add: size_name_def take_size_def first_pair_def next_pair_def parse_size_def)

lemma build_instruction:
  "build_ast_from_expression files (Pair R_instruction s
      (condition_pairs cond @ [Pair R_instruction_conditional s' inner])) st =
   parse_instruction files (Pair R_instruction_conditional s' inner) (st\<lparr>current_condition := cond\<rparr>)"
  by (subst build_ast_from_expression.simps)
     (simp add: take_condition_written first_pair_def next_pair_def)

lemma written_operandD:
  "written_operand relative sz opnd \<Longrightarrow> source_operand sz (make_absolute opnd)"
  "written_operand relative sz opnd \<Longrightarrow> relative \<Longrightarrow> make_relative (make_absolute opnd) = opnd"
  "written_operand relative sz opnd \<Longrightarrow> \<not> relative \<Longrightarrow> make_absolute opnd = opnd"
  by (cases opnd; simp add: written_operand_def make_absolute_def make_relative_def)+

definition size_after :: "ast_node \<Rightarrow> size \<Rightarrow> size" where
  "size_after node sz =
     (case node of OperationOne sz' _ _ _ \<Rightarrow> sz' | OperationTwo sz' _ _ _ _ \<Rightarrow> sz' | _ \<Rightarrow> sz)"

text \<open>
  Reading back one instruction: the parser answers the node, and remembers the size of the last
  instruction that has operands.
\<close>

lemma build_unparse:
  assumes "written node"
  shows "\<exists>st'. build_ast_from_expression files (unparse node) st = Inr (node, st') \<and>
    current_size st' = size_after node (current_size st)"
proof (cases node)
  case (OperationZero cond instr)
  then show ?thesis
    by (simp add: size_after_def unparse_def build_instruction parse_instruction.simps next_pair_def parse_names)
next
  case (OperationOne sz cond instr opnd)
  then have w: "written_operand (instr \<in> {O_Rjmp, O_Rcall, O_Rloop}) sz opnd"
    using assms by (simp add: written_def)
  note d = written_operandD [OF w]
  have build: "build_ast_from_expression files (operand_pair (make_absolute opnd)) st' =
      Inr (make_absolute opnd, st'\<lparr>current_condition := CondAlways\<rparr>)" if "current_size st' = sz" for st'
    using build_operand_pair [of st'] d(1) that by simp
  show ?thesis
    unfolding OperationOne
  proof (cases "instr \<in> {O_Rjmp, O_Rcall, O_Rloop}")
    case True
    then show "\<exists>st'. build_ast_from_expression files (unparse (OperationOne sz cond instr opnd)) st =
        Inr (OperationOne sz cond instr opnd, st') \<and>
        current_size st' = size_after (OperationOne sz cond instr opnd) (current_size st)"
      using d(2) [OF True]
      by (simp add: size_after_def unparse_def build_instruction parse_instruction.simps next_pair_def take_size_written
          Let_def build parse_names del: insert_iff)
  next
    case False
    then show "\<exists>st'. build_ast_from_expression files (unparse (OperationOne sz cond instr opnd)) st =
        Inr (OperationOne sz cond instr opnd, st') \<and>
        current_size st' = size_after (OperationOne sz cond instr opnd) (current_size st)"
      using d(3) [OF False] build
      by (simp add: size_after_def unparse_def build_instruction parse_instruction.simps next_pair_def take_size_written
          Let_def parse_names del: insert_iff)
  qed
next
  case (OperationTwo sz cond instr lhs rhs)
  then have w: "written_operand (instr = T_Rta) sz lhs" "written_operand (instr = T_Rta) sz rhs"
    using assms by (simp_all add: written_def)
  note l = written_operandD [OF w(1)] and r = written_operandD [OF w(2)]
  have build_lhs: "build_ast_from_expression files (operand_pair (make_absolute lhs)) st' =
      Inr (make_absolute lhs, st'\<lparr>current_condition := CondAlways\<rparr>)" if "current_size st' = sz" for st'
    using build_operand_pair [of st'] l(1) that by simp
  have build_rhs: "build_ast_from_expression files (operand_pair (make_absolute rhs)) st' =
      Inr (make_absolute rhs, st'\<lparr>current_condition := CondAlways\<rparr>)" if "current_size st' = sz" for st'
    using build_operand_pair [of st'] r(1) that by simp
  show ?thesis
    unfolding OperationTwo
  proof (cases "instr = T_Rta")
    case True
    then show "\<exists>st'. build_ast_from_expression files (unparse (OperationTwo sz cond instr lhs rhs)) st =
        Inr (OperationTwo sz cond instr lhs rhs, st') \<and>
        current_size st' = size_after (OperationTwo sz cond instr lhs rhs) (current_size st)"
      using l(2) [OF True] r(2) [OF True]
      by (simp add: size_after_def unparse_def build_instruction parse_instruction.simps next_pair_def take_size_written
          Let_def parse_names build_lhs build_rhs)
  next
    case False
    then show "\<exists>st'. build_ast_from_expression files (unparse (OperationTwo sz cond instr lhs rhs)) st =
        Inr (OperationTwo sz cond instr lhs rhs, st') \<and>
        current_size st' = size_after (OperationTwo sz cond instr lhs rhs) (current_size st)"
      using l(3) [OF False] r(3) [OF False] build_lhs build_rhs
      by (simp add: size_after_def unparse_def build_instruction parse_instruction.simps next_pair_def take_size_written
          Let_def parse_names)
  qed
qed (use assms in \<open>simp_all add: written_def\<close>)

definition program_pair :: "pair list \<Rightarrow> pair" where
  "program_pair pairs = Pair R_assembly [] (pairs @ [Pair R_EOI [] []])"

lemma as_rule_unparse: "written node \<Longrightarrow> as_rule (unparse node) = R_instruction"
  by (cases node) (simp_all add: unparse_def written_def Let_def)

text \<open>The parser gets past the instructions, and is left with the size of the last one.\<close>

lemma parse_pairs_unparse:
  assumes "\<forall>node\<in>set nodes. written node"
  shows "\<exists>st'. parse_pairs files (map unparse nodes @ pairs) st =
      rbind (parse_pairs files pairs st') (\<lambda>rest. Inr (nodes @ rest)) \<and>
    current_size st' = fold size_after nodes (current_size st)"
  using assms
proof (induction nodes arbitrary: st)
  case Nil
  show ?case by (rule exI [of _ st]) (cases "parse_pairs files pairs st"; simp)
next
  case (Cons node nodes)
  then have w: "written node" by simp
  obtain st1 where st1: "build_ast_from_expression files (unparse node) st = Inr (node, st1)"
      "current_size st1 = size_after node (current_size st)"
    using build_unparse [OF w] by blast
  obtain st2 where st2: "parse_pairs files (map unparse nodes @ pairs) st1 =
      rbind (parse_pairs files pairs st2) (\<lambda>rest. Inr (nodes @ rest))"
      "current_size st2 = fold size_after nodes (current_size st1)"
    using Cons by auto
  show ?case
    by (rule exI [of _ st2]; cases "parse_pairs files pairs st2")
       (simp_all add: as_rule_unparse [OF w] st1 st2)
qed

text \<open>
  C7. Programs read back. The parser makes of the pairs for the text of a list of instructions
  exactly those instructions, in order: operands, sizes, conditions and the relative labels of
  relative jumps and \<open>rta\<close> included.
\<close>

theorem parse_unparse:
  assumes "\<forall>node\<in>set nodes. written node"
  shows "parse files (Some [program_pair (map unparse nodes)]) = Inr nodes"
  using parse_pairs_unparse [OF assms, of files "[Pair R_EOI [] []]" parse_state_new]
  by (auto simp: parse_def first_pair_def next_pair_def program_pair_def)

theorem parse_unparse_witness:
  "parse Map.empty (Some [program_pair (map unparse
      [OperationTwo SizeHalf CondGreaterThan T_Rta (Register 32) (LabelOperand ''loop'' SizeHalf True),
       OperationOne SizeWord CondAlways O_Jmp (ImmediatePointer 4096), OperationZero CondZero Z_Ret])]) =
     Inr [OperationTwo SizeHalf CondGreaterThan T_Rta (Register 32) (LabelOperand ''loop'' SizeHalf True),
       OperationOne SizeWord CondAlways O_Jmp (ImmediatePointer 4096), OperationZero CondZero Z_Ret]"
  by (rule parse_unparse)
     (simp add: written_def written_operand_def source_operand_def make_absolute_def make_relative_def)

lemma take_condition_set:
  assumes "take_condition inner = Inr (cond, ptr, rest)"
  shows "set rest \<subseteq> set inner"
proof (cases inner)
  case (Cons q qs)
  then show ?thesis
    using assms
    by (cases "parse_condition q"; cases "as_rule q")
       (auto simp: take_condition_def first_pair_def next_pair_def)
qed (use assms in \<open>simp add: take_condition_def first_pair_def next_pair_def\<close>)

text \<open>
  C29. Sizes of operands. What the parser makes of an instruction is an operation whose immediates
  and label slots are as wide as the operation, which is what the assembler needs to count
  addresses as the processor does.
\<close>

theorem parsed_sizes:
  assumes "build_ast_from_expression files p st = Inr (node, st')" and "instruction_pair p"
  shows "is_operation node \<and> (\<forall>opnd\<in>set (node_operands node). sized (node_size node) opnd)"
proof -
  have rule: "as_rule p = R_instruction" using assms(2) by (simp add: instruction_pair_def)
  then obtain cond ptr inner q where "take_condition (into_inner p) = Inr (cond, ptr, inner)"
    and q: "first_pair inner = Inr q"
    and run: "parse_instruction files q (st\<lparr>current_condition := cond\<rparr>) = Inr (node, st')"
    using assms(1) by (auto simp: build_ast_from_expression.simps [of files p] rbind_eq_Inr Let_def)
  then have "set inner \<subseteq> set (into_inner p)" using take_condition_set by blast
  moreover have "q \<in> set inner" using q by (cases inner) (auto simp: first_pair_def next_pair_def)
  moreover have "as_rule q = R_instruction_conditional"
    using run by (auto simp: parse_instruction.simps [of files q] Let_def split: if_splits)
  ultimately have "operand_pairs q" using assms(2) by (auto simp: instruction_pair_def)
  from parse_instruction_sized [OF run this] show ?thesis .
qed

theorem parsed_sizes_witness:
  "\<exists>node st'. build_ast_from_expression Map.empty
      (unparse (OperationTwo SizeHalf CondAlways T_Mov (Register 1) (Immediate16 7))) parse_state_new = Inr (node, st') \<and>
    is_operation node \<and> (\<forall>opnd\<in>set (node_operands node). sized (node_size node) opnd)"
proof -
  let ?node = "OperationTwo SizeHalf CondAlways T_Mov (Register 1) (Immediate16 7)"
  have "written ?node"
    by (simp add: written_def written_operand_def source_operand_def make_absolute_def)
  then obtain st' where st': "build_ast_from_expression Map.empty (unparse ?node) parse_state_new = Inr (?node, st')"
    using build_unparse by blast
  have "instruction_pair (unparse ?node)"
    by (simp add: instruction_pair_def operand_pairs_def unparse_def condition_pairs_def operand_pair_def
        make_absolute_def is_pointer_def Let_def)
  from parsed_sizes [OF st' this] st' show ?thesis by blast
qed

definition number_pair :: "u32 \<Rightarrow> pair" where
  "number_pair v = Pair R_operand_value [] [value_pair (Immediate32 v)]"

lemma directive_word_number:
  "directive_word (number_pair v # rest) 0 st = (if current_size st = SizeWord then Inr v else Inl Unreachable)"
  "directive_word (p # number_pair v # rest) (Suc 0) st =
     (if current_size st = SizeWord then Inr v else Inl Unreachable)"
  using hex_bound(3) [of v]
  by (cases "current_size st"; simp add: directive_word_def number_pair_def value_pair_def hex_pair_def Let_def
      parse_operand_def parse_operand_value_def first_pair_def next_pair_def parse_u32_hex immediate_node_def)+

text \<open>
  Source items: written instructions, constants, labels, and the directives that take a number, as
  the grammar makes pairs of them, and the nodes they stand for.
\<close>

datatype directive = D_Byte | D_Half | D_Word | D_Origin | D_OriginPadded

datatype item =
  ItemInstruction ast_node | ItemConst string u32 | ItemLabel string
  | ItemNumber directive u32 | ItemFill u32 u32

definition directive_pair :: "directive \<Rightarrow> u32 \<Rightarrow> pair" where
  "directive_pair d v =
     (let data = (\<lambda>r. Pair R_data [] [Pair r [] [number_pair v]]);
          origin = (\<lambda>r. Pair R_origin [] [Pair r [] [number_pair v]])
      in case d of
           D_Byte \<Rightarrow> data R_data_byte | D_Half \<Rightarrow> data R_data_half | D_Word \<Rightarrow> data R_data_word
         | D_Origin \<Rightarrow> origin R_origin_no_padding | D_OriginPadded \<Rightarrow> origin R_origin_padding)"

definition directive_node :: "directive \<Rightarrow> u32 \<Rightarrow> ast_node" where
  "directive_node d v =
     (case d of
        D_Byte \<Rightarrow> DataByte (ucast v) | D_Half \<Rightarrow> DataHalf (ucast v) | D_Word \<Rightarrow> DataWord v
      | D_Origin \<Rightarrow> Origin v | D_OriginPadded \<Rightarrow> OriginPadded v)"

primrec item_pair :: "item \<Rightarrow> pair" where
  "item_pair (ItemInstruction node) = unparse node"
| "item_pair (ItemConst nm v) =
     Pair R_constant [] [Pair R_constant_name [] [Pair R_label_name nm []], number_pair v]"
| "item_pair (ItemLabel nm) = Pair R_label [] [Pair R_label_name nm []]"
| "item_pair (ItemNumber d v) = directive_pair d v"
| "item_pair (ItemFill v n) = Pair R_data [] [Pair R_data_fill [] [number_pair v, number_pair n]]"

primrec item_node :: "item \<Rightarrow> ast_node" where
  "item_node (ItemInstruction node) = node"
| "item_node (ItemConst nm v) = Constant nm v"
| "item_node (ItemLabel nm) = LabelDefine nm LabelInternal"
| "item_node (ItemNumber d v) = directive_node d v"
| "item_node (ItemFill v n) = DataFill (ucast v) n"

text \<open>
  The size the parser is left with after an item: that of an instruction with operands, a word
  after a constant. A directive with a number is read only where that size is a word.
\<close>

primrec item_size :: "item \<Rightarrow> size \<Rightarrow> size" where
  "item_size (ItemInstruction node) sz = size_after node sz"
| "item_size (ItemConst nm v) sz = SizeWord"
| "item_size (ItemLabel nm) sz = sz"
| "item_size (ItemNumber d v) sz = sz"
| "item_size (ItemFill v n) sz = sz"

primrec item_reads :: "item \<Rightarrow> size \<Rightarrow> bool" where
  "item_reads (ItemInstruction node) sz = True"
| "item_reads (ItemConst nm v) sz = True"
| "item_reads (ItemLabel nm) sz = True"
| "item_reads (ItemNumber d v) sz = (sz = SizeWord)"
| "item_reads (ItemFill v n) sz = (sz = SizeWord)"

fun numbers_read :: "size \<Rightarrow> item list \<Rightarrow> bool" where
  "numbers_read sz [] = True"
| "numbers_read sz (item # items) = (item_reads item sz \<and> numbers_read (item_size item sz) items)"

lemma word_operand:
  "parse_operand (number_pair v) False st =
     Inr (immediate_node False (current_size st) v)"
  using hex_bound(3) [of v]
  by (simp add: number_pair_def value_pair_def hex_pair_def parse_operand_def parse_operand_value_def
      first_pair_def next_pair_def parse_u32_hex Let_def)

lemma word_only:
  "(case immediate_node False sz v of
      Immediate32 w \<Rightarrow> f w | LabelOperand nm sz' rel \<Rightarrow> g nm sz' rel | _ \<Rightarrow> Inl Unreachable) =
    (if sz = SizeWord then f v else Inl Unreachable)"
  by (cases sz) (simp_all add: immediate_node_def)

lemma build_number:
  "build_ast_from_expression files (directive_pair d v) st =
     (if current_size st = SizeWord then Inr (directive_node d v, st\<lparr>current_condition := CondAlways\<rparr>)
      else Inl Unreachable)"
  by (cases d; subst build_ast_from_expression.simps)
     (simp_all add: directive_pair_def directive_node_def take_condition_def first_pair_def next_pair_def
        parse_data_def parse_origin_def directive_word_number word_operand word_only)

lemma build_fill:
  "build_ast_from_expression files (Pair R_data [] [Pair R_data_fill [] [number_pair v, number_pair n]]) st =
     (if current_size st = SizeWord then Inr (DataFill (ucast v) n, st\<lparr>current_condition := CondAlways\<rparr>)
      else Inl Unreachable)"
  by (subst build_ast_from_expression.simps)
     (simp add: take_condition_def first_pair_def next_pair_def parse_data_def directive_word_number)

lemma build_item:
  assumes "\<forall>node. item = ItemInstruction node \<longrightarrow> written node"
  shows "if item_reads item (current_size st)
    then \<exists>st'. build_ast_from_expression files (item_pair item) st = Inr (item_node item, st') \<and>
      current_size st' = item_size item (current_size st)
    else build_ast_from_expression files (item_pair item) st = Inl Unreachable"
proof (cases item)
  case (ItemInstruction node)
  then show ?thesis using build_unparse assms by auto
next
  case (ItemConst nm v)
  then show ?thesis
    by (subst build_ast_from_expression.simps)
       (simp add: take_condition_def first_pair_def next_pair_def parse_constant_def word_operand immediate_node_def Let_def)
next
  case (ItemLabel nm)
  then show ?thesis
    by (subst build_ast_from_expression.simps)
       (simp add: take_condition_def first_pair_def next_pair_def parse_label_def Let_def)
next
  case (ItemNumber d v)
  then show ?thesis by (auto simp: build_number)
next
  case (ItemFill v n)
  then show ?thesis by (auto simp: build_fill)
qed

lemma parse_items:
  assumes "\<forall>node. ItemInstruction node \<in> set items \<longrightarrow> written node"
  shows "parse_pairs files (map item_pair items @ [Pair R_EOI [] []]) st =
    (if numbers_read (current_size st) items then Inr (map item_node items) else Inl Unreachable)"
  using assms
proof (induction items arbitrary: st)
  case (Cons item items)
  have "as_rule (item_pair item) \<noteq> R_EOI"
  proof (cases item)
    case (ItemNumber d v)
    then show ?thesis by (cases d) (simp_all add: directive_pair_def)
  qed (use Cons.prems as_rule_unparse in \<open>simp_all\<close>)
  moreover have "\<forall>node. item = ItemInstruction node \<longrightarrow> written node" using Cons.prems by simp
  note build_item [OF this, of st files]
  moreover have "parse_pairs files (map item_pair items @ [Pair R_EOI [] []]) st' =
    (if numbers_read (current_size st') items then Inr (map item_node items) else Inl Unreachable)" for st'
    using Cons by simp
  ultimately show ?case by (auto split: if_splits)
qed simp

text \<open>
  C26. Numbers are read at the size the last instruction left behind. A program of instructions,
  constants, labels, \<open>data.8\<close>, \<open>data.16\<close>, \<open>data.32\<close>, \<open>data.fill\<close>, \<open>org\<close> and \<open>org.pad\<close> with numbers
  parses to exactly its items if at each of these directives the last instruction with operands
  is a word one, or a constant was defined since, or there is none before it. Otherwise the
  parser panics at \<open>unreachable!()\<close>.
\<close>

theorem directive_after_instructions:
  assumes "\<forall>node. ItemInstruction node \<in> set items \<longrightarrow> written node"
  shows "parse files (Some [program_pair (map item_pair items)]) =
    (if numbers_read SizeWord items then Inr (map item_node items) else Inl Unreachable)"
  using parse_items [OF assms, of files parse_state_new]
  by (simp add: parse_def first_pair_def next_pair_def program_pair_def parse_state_new_def)

text \<open>\<open>inc.8 r0\<close> before \<open>data.8 5\<close> makes the parser panic; a constant between the two saves it.\<close>

theorem directive_after_instructions_witness:
  "parse Map.empty (Some [program_pair (map item_pair
      [ItemInstruction (OperationOne SizeByte CondAlways O_Inc (Register 0)), ItemLabel ''a'',
       ItemNumber D_Byte 5])]) = Inl Unreachable \<and>
   parse Map.empty (Some [program_pair (map item_pair
      [ItemInstruction (OperationOne SizeByte CondAlways O_Inc (Register 0)), ItemConst ''b'' 1,
       ItemNumber D_Byte 5])]) =
     Inr [OperationOne SizeByte CondAlways O_Inc (Register 0), Constant ''b'' 1, DataByte 5]"
proof -
  have "written (OperationOne SizeByte CondAlways O_Inc (Register 0))"
    by (simp add: written_def written_operand_def source_operand_def make_absolute_def)
  then show ?thesis
    using directive_after_instructions [of "[ItemInstruction (OperationOne SizeByte CondAlways O_Inc (Register 0)),
        ItemLabel ''a'', ItemNumber D_Byte 5]" Map.empty]
      directive_after_instructions [of "[ItemInstruction (OperationOne SizeByte CondAlways O_Inc (Register 0)),
        ItemConst ''b'' 1, ItemNumber D_Byte 5]" Map.empty]
    by (simp add: size_after_def directive_node_def)
qed

end
