(* ===== verification/Includes.thy ===== *)
theory Includes
  imports Parser
begin

text \<open>
  The text includes of the assembler (fox32asm/src/main.rs, include_text_file and the loop in main
  that calls it) and the whole way from the source text to the binary. The file system and the
  parser that pest generates from the grammar are parameters. Strings are ASCII: the source slices
  a line by bytes.
\<close>

section \<open>Lines\<close>

text \<open>
  \<open>str::lines\<close>: a line ends with a newline, and a carriage return before the newline belongs to
  the line end. The last line need not end.
\<close>

definition strip_cr :: "string \<Rightarrow> string" where
  "strip_cr line = (if line \<noteq> [] \<and> last line = CHR 0x0D then butlast line else line)"

fun lines_from :: "string \<Rightarrow> string \<Rightarrow> string list" where
  "lines_from acc [] = (if acc = [] then [] else [acc])"
| "lines_from acc (ch # rest) =
     (if ch = CHR 0x0A then strip_cr acc # lines_from [] rest else lines_from (acc @ [ch]) rest)"

definition lines :: "string \<Rightarrow> string list" where
  "lines s = lines_from [] s"

fun push_lines :: "string list \<Rightarrow> string" where
  "push_lines [] = []"
| "push_lines (line # rest) = line @ [CHR 0x0A] @ push_lines rest"

section \<open>Includes\<close>

definition include_mark :: string where
  "include_mark = ''#include '' @ [CHR 0x22]"

definition is_include :: "string \<Rightarrow> bool" where
  "is_include line \<longleftrightarrow> take (length include_mark) (trim line) = include_mark"

text \<open>
  The path of an include: behind the first quote, up to the last character. \<open>texts\<close> is the file
  system: the text of the file at a path relative to the directory of the source.
\<close>

definition path_start :: "string \<Rightarrow> nat" where
  "path_start line = length (takeWhile (\<lambda>ch. ch \<noteq> CHR 0x22) line) + 1"

definition include_path :: "string \<Rightarrow> string res" where
  "include_path line =
     (if CHR 0x22 \<notin> set line then Inl UnwrapNone
      else if length line - 1 < path_start line then Inl IndexOutOfBounds
      else Inr (take (length line - 1 - path_start line) (drop (path_start line) line)))"

definition include_text_file ::
  "(string \<Rightarrow> string option) \<Rightarrow> nat \<Rightarrow> string \<Rightarrow> string \<Rightarrow> string res" where
  "include_text_file texts line_number line input_file =
     rbind (include_path line) (\<lambda>path.
     case texts path of
       None \<Rightarrow> Inl IncludeFailed
     | Some included_file \<Rightarrow>
         Inr (push_lines (take line_number (lines input_file)) @
              (included_file @ [CHR 0x0A]) @
              push_lines (drop (Suc line_number) (lines input_file))))"

text \<open>One pass of the loop in \<open>main\<close>: the first include line of the text is replaced.\<close>

fun first_include :: "nat \<Rightarrow> string list \<Rightarrow> (nat \<times> string) option" where
  "first_include n [] = None"
| "first_include n (line # rest) =
     (if is_include line then Some (n, line) else first_include (Suc n) rest)"

definition include_pass :: "(string \<Rightarrow> string option) \<Rightarrow> string \<Rightarrow> string res" where
  "include_pass texts input_file =
     (case first_include 0 (lines input_file) of
        None \<Rightarrow> Inr input_file
      | Some (line_number, line) \<Rightarrow> include_text_file texts line_number (trim line) input_file)"

primrec include_passes :: "nat \<Rightarrow> (string \<Rightarrow> string option) \<Rightarrow> string \<Rightarrow> string res" where
  "include_passes 0 texts input_file = Inr input_file"
| "include_passes (Suc n) texts input_file =
     rbind (include_pass texts input_file) (include_passes n texts)"

definition resolve_includes :: "(string \<Rightarrow> string option) \<Rightarrow> string \<Rightarrow> string res" where
  "resolve_includes texts input_file = include_passes 128 texts input_file"

text \<open>
  \<open>main\<close>: from the source text to the binary. \<open>grammar\<close> is the parser that pest generates from
  the grammar.
\<close>

definition compile ::
  "bool \<Rightarrow> bool \<Rightarrow> string list \<Rightarrow> (string \<Rightarrow> string option) \<Rightarrow> (string \<Rightarrow> u8 list option) \<Rightarrow>
   (string \<Rightarrow> pair list option) \<Rightarrow> string \<Rightarrow> u8 list res" where
  "compile chk is_fxf names texts files grammar input_file =
     rbind (resolve_includes texts input_file) (\<lambda>source.
     rbind (parse files (grammar source)) (assemble chk is_fxf names))"

section \<open>Laws of lines\<close>

definition clean :: "string \<Rightarrow> bool" where
  "clean line \<longleftrightarrow> CHR 0x0A \<notin> set line \<and> CHR 0x0D \<notin> set line"

lemma strip_cr_clean: "CHR 0x0D \<notin> set line \<Longrightarrow> strip_cr line = line"
  by (metis last_in_set strip_cr_def)

lemma lines_from_clean:
  "CHR 0x0A \<notin> set line \<Longrightarrow> CHR 0x0D \<notin> set (acc @ line) \<Longrightarrow>
   lines_from acc (line @ CHR 0x0A # rest) = (acc @ line) # lines_from [] rest"
  by (induction line arbitrary: acc) (auto simp: strip_cr_clean)

lemma lines_push_lines:
  "list_all clean ls \<Longrightarrow> lines (push_lines ls @ rest) = ls @ lines rest"
  by (induction ls) (simp_all add: lines_def lines_from_clean clean_def)

lemma lines_from_append:
  "lines_from acc (s @ CHR 0x0A # rest) = lines_from acc (s @ [CHR 0x0A]) @ lines_from [] rest"
  by (induction s arbitrary: acc) simp_all

lemma lines_append: "lines (s @ [CHR 0x0A] @ rest) = lines (s @ [CHR 0x0A]) @ lines rest"
  using lines_from_append [of "[]" s rest] by (simp add: lines_def)

lemma lines_from_all_clean:
  "CHR 0x0D \<notin> set (acc @ s) \<Longrightarrow> CHR 0x0A \<notin> set acc \<Longrightarrow> list_all clean (lines_from acc s)"
  by (induction acc s rule: lines_from.induct) (auto simp: clean_def strip_cr_clean)

lemma lines_clean: "CHR 0x0D \<notin> set s \<Longrightarrow> list_all clean (lines s)"
  using lines_from_all_clean [of "[]" s] by (simp add: lines_def)

end
