(* ===== verification/IncludesSpec.thy ===== *)
theory IncludesSpec
  imports Includes
begin

text \<open>
  What a text with includes stands for, and that the 128 passes of the loop in main compute it.
\<close>

section \<open>What includes stand for\<close>

text \<open>
  Lines \<open>ls\<close> stand for the lines \<open>out\<close>, with \<open>k\<close> includes: every include line for what the lines
  of its file stand for, every other line for itself.
\<close>

inductive expands :: "(string \<Rightarrow> string option) \<Rightarrow> string list \<Rightarrow> nat \<Rightarrow> string list \<Rightarrow> bool"
  for texts where
  expands_Nil: "expands texts [] 0 []"
| expands_line: "\<not> is_include line \<Longrightarrow> expands texts ls k out \<Longrightarrow> expands texts (line # ls) k (line # out)"
| expands_include:
    "is_include line \<Longrightarrow> include_path (trim line) = Inr path \<Longrightarrow> texts path = Some t \<Longrightarrow>
     expands texts (lines (t @ [CHR 0x0A])) k out \<Longrightarrow> expands texts ls k' out' \<Longrightarrow>
     expands texts (line # ls) (Suc (k + k')) (out @ out')"

inductive_cases expands_ConsE: "expands texts (line # ls) k out"

lemma expands_append:
  "expands texts ls k out \<Longrightarrow> expands texts ls' k' out' \<Longrightarrow> expands texts (ls @ ls') (k + k') (out @ out')"
proof (induction rule: expands.induct)
  case (expands_include line path t k out ls k'' out'')
  then have "expands texts (line # ls @ ls') (Suc (k + (k'' + k'))) (out @ (out'' @ out'))"
    by (intro expands.expands_include)
  then show ?case by (simp add: add.assoc)
qed (auto intro: expands.intros)

lemma expands_done:
  assumes "expands texts ls k out" and "first_include n ls = None"
  shows "k = 0 \<and> out = ls"
  using assms by (induction arbitrary: n rule: expands.induct) (auto split: if_splits)

lemma expands_some:
  "expands texts ls k out \<Longrightarrow> first_include n ls = Some x \<Longrightarrow> k \<noteq> 0 \<and> (\<exists>line\<in>set ls. is_include line)"
  by (induction arbitrary: n rule: expands.induct) (auto split: if_splits)

text \<open>Replacing the first include takes one include away.\<close>

lemma expands_first:
  assumes "expands texts ls k out" and "first_include n ls = Some (i, line)"
  shows "\<exists>path t j. i = n + j \<and> include_path (trim line) = Inr path \<and> texts path = Some t \<and>
    expands texts (take j ls @ lines (t @ [CHR 0x0A]) @ drop (Suc j) ls) (k - 1) out"
  using assms
proof (induction arbitrary: n rule: expands.induct)
  case expands_Nil
  then show ?case by simp
next
  case (expands_line head ls k out)
  then obtain path t j where j: "i = Suc n + j" and t: "include_path (trim line) = Inr path" "texts path = Some t"
    and rest: "expands texts (take j ls @ lines (t @ [CHR 0x0A]) @ drop (Suc j) ls) (k - 1) out"
    by force
  from expands.expands_line [OF expands_line.hyps(1) rest] t j show ?case
    by (intro exI [of _ path] exI [of _ t] exI [of _ "Suc j"]) simp
next
  case (expands_include head path t k out ls k' out')
  then have "i = n" "line = head" by simp_all
  with expands_include expands_append [OF expands_include.hyps(4,5)] show ?case
    by (intro exI [of _ path] exI [of _ t] exI [of _ 0]) simp
qed

definition no_cr :: "string \<Rightarrow> bool" where
  "no_cr s \<longleftrightarrow> CHR 0x0D \<notin> set s"

lemma no_cr_push_lines: "list_all clean ls \<Longrightarrow> no_cr (push_lines ls)"
  by (induction ls) (auto simp: no_cr_def clean_def)

lemma include_pass_expands:
  assumes "expands texts (lines s) k out" and "no_cr s" and "\<forall>path t. texts path = Some t \<longrightarrow> no_cr t"
  shows "\<exists>s'. include_pass texts s = Inr s' \<and> no_cr s' \<and> expands texts (lines s') (k - 1) out"
proof (cases "first_include 0 (lines s)")
  case None
  then show ?thesis using assms expands_done [OF assms(1) None] by (simp add: include_pass_def)
next
  case (Some x)
  obtain i line where x: "first_include 0 (lines s) = Some (i, line)" using Some by (cases x) simp
  from expands_first [OF assms(1) x] obtain path t where t: "include_path (trim line) = Inr path" "texts path = Some t"
    and rest: "expands texts (take i (lines s) @ lines (t @ [CHR 0x0A]) @ drop (Suc i) (lines s)) (k - 1) out"
    by auto
  let ?pre = "take i (lines s)" and ?post = "drop (Suc i) (lines s)"
  have "list_all clean (lines s)" using assms(2) by (simp add: lines_clean no_cr_def)
  then have clean: "list_all clean ?pre" "list_all clean ?post"
    by (auto simp: list_all_iff dest: in_set_takeD in_set_dropD)
  have "lines (push_lines ?pre @ (t @ [CHR 0x0A]) @ push_lines ?post) = ?pre @ lines (t @ [CHR 0x0A]) @ ?post"
    using lines_push_lines [OF clean(1)] lines_append [of t "push_lines ?post"] lines_push_lines [OF clean(2), of "[]"]
    by (simp add: lines_def)
  moreover have "no_cr (push_lines ?pre @ (t @ [CHR 0x0A]) @ push_lines ?post)"
    using no_cr_push_lines [OF clean(1)] no_cr_push_lines [OF clean(2)] assms(3) t(2) by (auto simp: no_cr_def)
  ultimately show ?thesis
    using rest x t by (simp add: include_pass_def include_text_file_def)
qed

lemma include_passes_expands:
  assumes "expands texts (lines s) k out" and "no_cr s" and "\<forall>path t. texts path = Some t \<longrightarrow> no_cr t"
  shows "\<exists>s'. include_passes n texts s = Inr s' \<and> expands texts (lines s') (k - n) out"
  using assms(1,2)
proof (induction n arbitrary: s k)
  case (Suc n)
  from include_pass_expands [OF Suc.prems assms(3)] obtain s1
    where s1: "include_pass texts s = Inr s1" "no_cr s1" "expands texts (lines s1) (k - 1) out" by blast
  from Suc.IH [OF s1(3,2)] show ?case by (simp add: s1(1))
qed auto

text \<open>
  C12. Includes are resolved. A source text whose includes, nested ones counted, are at most 128
  becomes the lines they stand for, in their order; with more the text that goes to the grammar
  still has an include line.
\<close>

theorem includes_resolved:
  assumes "expands texts (lines s) k out" and "no_cr s" and "\<forall>path t. texts path = Some t \<longrightarrow> no_cr t"
  shows "\<exists>s'. resolve_includes texts s = Inr s' \<and>
    (if k \<le> 128 then lines s' = out else \<exists>line\<in>set (lines s'). is_include line)"
proof -
  from include_passes_expands [OF assms, of 128] obtain s'
    where s': "include_passes 128 texts s = Inr s'" "expands texts (lines s') (k - 128) out" by blast
  have "if k \<le> 128 then lines s' = out else \<exists>line\<in>set (lines s'). is_include line"
  proof (cases "first_include 0 (lines s')")
    case None
    then show ?thesis using expands_done [OF s'(2) None] by auto
  next
    case (Some x)
    then show ?thesis using expands_some [OF s'(2) Some] by auto
  qed
  then show ?thesis using s'(1) unfolding resolve_includes_def by blast
qed

definition quoted :: "string \<Rightarrow> string" where
  "quoted path = ''#include '' @ [CHR 0x22] @ path @ [CHR 0x22]"

theorem includes_resolved_witness:
  "\<exists>s'. resolve_includes [''a'' \<mapsto> quoted ''b'', ''b'' \<mapsto> ''nop''] (quoted ''a'' @ [CHR 0x0A] @ ''halt'') = Inr s' \<and>
     lines s' = [''nop'', ''halt'']"
proof -
  let ?texts = "[''a'' \<mapsto> quoted ''b'', ''b'' \<mapsto> ''nop'']"
  have plain: "\<not> is_include ''nop''" "\<not> is_include ''halt''"
    by (simp_all add: is_include_def include_mark_def trim_def is_blank_def)
  have inc: "is_include (quoted p)" "include_path (trim (quoted p)) = Inr p" if "p \<in> {''a'', ''b''}" for p
    using that by (auto simp: is_include_def include_mark_def trim_def is_blank_def quoted_def include_path_def path_start_def)
  have lines: "lines (''nop'' @ [CHR 0x0A]) = [''nop'']" "lines (quoted ''b'' @ [CHR 0x0A]) = [quoted ''b'']"
    "lines (quoted ''a'' @ [CHR 0x0A] @ ''halt'') = [quoted ''a'', ''halt'']"
    by (simp_all add: lines_def quoted_def strip_cr_def)
  have nop: "expands ?texts [''nop''] 0 [''nop'']" and halt: "expands ?texts [''halt''] 0 [''halt'']"
    using plain by (auto intro: expands.intros)
  have b: "expands ?texts [quoted ''b''] (Suc (0 + 0)) ([''nop''] @ [])"
    by (rule expands.expands_include [where path = "''b''" and t = "''nop''"])
       (simp_all only: inc insert_iff simp_thms lines nop expands.expands_Nil, simp_all)
  have "expands ?texts [quoted ''a'', ''halt''] (Suc (Suc (0 + 0) + 0)) (([''nop''] @ []) @ [''halt''])"
    by (rule expands.expands_include [where path = "''a''" and t = "quoted ''b''"])
       (simp_all only: inc insert_iff simp_thms lines b halt, simp_all)
  then have "expands ?texts (lines (quoted ''a'' @ [CHR 0x0A] @ ''halt'')) 2 [''nop'', ''halt'']"
    unfolding lines by (simp add: numeral_2_eq_2)
  from includes_resolved [OF this] show ?thesis by (auto simp: no_cr_def quoted_def)
qed

end
