(* ===== verification/Spec2Isabelle.thy ===== *)
theory Spec2Isabelle
  imports Keyboard CpuSpec BusSpec DisplaySpec MachineSpec AssemblerSpec Programs JumpSpec ParserSpec IncludesSpec
begin

text \<open>
  fox32 is a fantasy computer: an emulator (\<open>fox32/\<close>) and an assembler (\<open>fox32asm/\<close>), both
  in Rust. This library models both and proves what they do.

  The emulator. \<open>Memory\<close> is \<open>memory.rs\<close>; \<open>Devices\<close> holds the state behind the bus
  (\<open>keyboard.rs\<close>, \<open>mouse.rs\<close>, \<open>audio.rs\<close>, \<open>disk.rs\<close> and the overlays of \<open>main.rs\<close>); \<open>Bus\<close> is
  \<open>bus.rs\<close>. \<open>Isa\<close> has the instruction set and its decoder, \<open>Cpu\<close> the processor state, operands,
  stack and interrupts, \<open>Alu\<close> and \<open>Control\<close> the arms of \<open>execute_instruction\<close>, all from
  \<open>cpu.rs\<close>. The processor owns the bus and the bus the memory, as in the source: a step maps a
  \<open>cpu\<close> record to a \<open>cpu\<close> record or to a panic.

  The assembler. \<open>Ast\<close> has the syntax tree and the opcode bytes, \<open>Assembler\<close> the code generation,
  the label tables, backpatching and the output, all from \<open>fox32asm/src/main.rs\<close>. The
  \<open>Rc<RefCell>\<close> cells of assembled instructions are indices into an explicit store.

  \<open>Parser\<close> goes from the pairs of the grammar to the syntax tree (\<open>parse\<close> to
  \<open>parse_instruction_two\<close>), with the statics \<open>CURRENT_SIZE\<close> and \<open>CURRENT_CONDITION\<close> as its state.
  \<open>Includes\<close> has the textual includes and \<open>compile\<close>, which is \<open>main\<close> from the source text to the
  binary.

  The emulator around the processor. \<open>Display\<close> is the impl of \<open>Display\<close> and \<open>blit_overlay\<close> of
  \<open>fox32/src/main.rs\<close>, \<open>Machine\<close> its boot, its threads and its event loop, with the implementation
  of \<open>Runtime\<close> for \<open>Cpu\<close> in \<open>runtime.rs\<close>. The threads share one state, and \<open>machine_step\<close> lets any
  of them take the next step: one iteration of the CPU thread (a poll of the channel, an
  instruction, or a blocking receive), one iteration of the audio thread, or one handled event.
  \<open>machine_run\<close> is a run of such steps with the interrupts sent and taken.

  Conventions (\<open>Prelude\<close>): a fallible operation returns \<open>panic + 'a\<close>, with \<open>Inl\<close> for each panic
  of the source, \<open>unwrap\<close> and index errors included. Machine integers are words; where Rust
  checks for overflow in a debug build and wraps in a release build, the operation takes the
  flag \<open>overflow_checks\<close>, so that every theorem about an arbitrary environment holds for both;
  \<open>AluLaws\<close> and \<open>StepLaws\<close> relate the two builds.

  Laws. \<open>BusLaws\<close>, \<open>AluLaws\<close>, \<open>StackLaws\<close>, \<open>StepLaws\<close>, \<open>AssemblerLaws\<close>, \<open>DisplayLaws\<close>,
  \<open>MachineLaws\<close> and \<open>ParserLaws\<close> hold the lemmas of the components: what each touches, which panics
  it can end in, and the locales that state the contracts once for all memory widths, all port
  registers and all arithmetic instructions. \<open>Samples\<close> has the concrete machines of the witnesses.

  Properties. \<open>CpuSpec\<close>: well-formedness, calls, interrupts, what a false condition skips and
  what it does not, control flow. \<open>AluSpec\<close>: results and flags of arithmetic. \<open>BusSpec\<close> and
  \<open>Keyboard\<close>: memory, ports, sectors, the scancode queue. \<open>Encoding\<close>: the opcode bytes of the
  assembler are the decoder's. \<open>AssemblerSpec\<close>: labels behind any origin, backpatching, the file
  layout. \<open>ParserSpec\<close>: programs written out as pairs read back, sizes of operands, numbers in
  directives. \<open>IncludesSpec\<close>: the include passes compute what the includes stand for. \<open>Programs\<close>:
  the processor runs what the assembler emits, and a loop ends. \<open>JumpSpec\<close>: a jump in an
  assembled and loaded program reaches its label. \<open>DisplaySpec\<close>: every pixel of a frame, when a
  frame panics, and how the image breaks at the right edge. \<open>Delivery\<close>: what it takes to enter a
  handler, the state it starts in, and that an interrupt taken from the channel is delivered.
  \<open>MachineSpec\<close>: the invariant of all reachable states, the order and the delivery of interrupts,
  boot, waking and stopping, sector writes, the audio buffers.

  Bounds and fuel. No definition runs on fuel of its own: every loop of the sources that ends by
  itself is a total function, and the loops that do not (the threads) are step relations. The 128
  passes over the includes are the source's own bound. Indices of the display are 64-bit.

  Parameters. The ring buffer of the keyboard queue and the answer of the file dialog come from
  crates and are fields of \<open>env\<close>. The iteration order of a hash map is an argument. The tree of
  pairs that pest makes of a source text, the files the assembler reads, and what the window
  library delivers (scancodes, the mouse, whether rendering succeeded) are arguments as well.

  Not modelled: opening the window and playing samples (winit, pixels, rodio); the matching of
  source text against \<open>fox32.pest\<close>, which pest generates at build time; the core in C, its bindings
  and its implementation of \<open>Runtime\<close>; the reference-counting wrappers, which forward calls;
  debug printing and the dump of RAM; mutex poisoning, as no thread survives a panic with a lock
  held long enough to see it; text outside ASCII in the assembler.
\<close>

end
